(* ===== verification/Prelude.thy ===== *)
theory Prelude
  imports Main "HOL-Library.Word" "HOL-Library.AList" "HOL-Library.Char_ord" "HOL-Library.List_Lexorder"
begin

text \<open>
  Shared vocabulary of the development: machine integers, the error-passing combinator that
  stands for Go's \<open>if err := f(); err != nil { return err }\<close>, the big-endian codec of
  \<open>encoding/binary\<close>, the decimal codec of \<open>strconv.FormatUint\<close>/\<open>ParseUint\<close>, and
  generic facts on lists, association lists and sorted insertion. Nothing here is specific to
  one component of the repository.
\<close>

unbundle bit_operations_syntax

named_theorems codec_simps \<open>lengths and round trips of the byte codecs\<close>
named_theorems step_simps \<open>unfolding rules for the error-passing combinator\<close>

section \<open>Machine integers\<close>

type_synonym byte = "8 word"
type_synonym u64 = "64 word"

text \<open>
  Go's \<open>int64\<close> (and \<open>int\<close> on the supported 64-bit targets) is modelled by \<open>int\<close> with the
  two's-complement wrap-around written out at every arithmetic operation.
\<close>

definition i64 :: "int \<Rightarrow> int" where
  "i64 x = signed_take_bit 63 x"

definition in_i64 :: "int \<Rightarrow> bool" where
  "in_i64 x \<longleftrightarrow> - (2 ^ 63) \<le> x \<and> x < 2 ^ 63"

lemma i64_id [simp]: "in_i64 x \<Longrightarrow> i64 x = x"
  by (simp add: i64_def in_i64_def signed_take_bit_int_eq_self)

lemma i64_range: "in_i64 (i64 x)"
  using signed_take_bit_int_less_exp [of 63 x] signed_take_bit_int_greater_eq_minus_exp [of 63 x]
  by (simp add: i64_def in_i64_def)

lemma i64_nonneg [simp]: "0 \<le> x \<Longrightarrow> x < 2 ^ 63 \<Longrightarrow> i64 x = x"
  by (simp add: in_i64_def)

text \<open>The conversion \<open>int64(v)\<close> of an unsigned value and \<open>uint64(x)\<close> of a signed one.\<close>

definition to_i64 :: "u64 \<Rightarrow> int" where
  "to_i64 v = sint v"

definition to_u64 :: "int \<Rightarrow> u64" where
  "to_u64 x = word_of_int x"

lemma to_i64_to_u64 [simp]: "in_i64 x \<Longrightarrow> to_i64 (to_u64 x) = x"
  by (simp add: to_i64_def to_u64_def in_i64_def sint_sbintrunc' signed_take_bit_int_eq_self)

lemma unat_to_u64 [simp]: "0 \<le> x \<Longrightarrow> x < 2 ^ 63 \<Longrightarrow> unat (to_u64 x) = nat x"
  by (simp add: to_u64_def unat_eq_nat_uint uint_word_of_int)

lemma u64_inc_le: "(x :: u64) + 1 \<le> x \<Longrightarrow> x + 1 = 0"
  by unat_arith

lemma u64_inc_nonzero: "(x :: u64) + 1 \<noteq> 0 \<longleftrightarrow> unat x < 2 ^ 64 - 1"
proof -
  have x: "unat x < 2 ^ 64" using unsigned_less [of x] by simp
  have "unat (x + 1) = (unat x + 1) mod 2 ^ 64" by (simp add: unat_word_ariths)
  with x have "unat (x + 1) = 0 \<longleftrightarrow> unat x = 2 ^ 64 - 1" by (auto simp: mod_Suc split: if_splits)
  then show ?thesis using x by (auto simp: unat_eq_zero)
qed

section \<open>Error passing\<close>

text \<open>
  A fallible operation on a state returns the outcome and the state it leaves behind; the state
  is returned on failure too, because Go does not roll back. \<open>check\<close> runs the continuation only
  on success, as an early \<open>return err\<close> does.
\<close>

definition check :: "('e + 'a) \<times> 's \<Rightarrow> ('a \<Rightarrow> 's \<Rightarrow> ('e + 'b) \<times> 's) \<Rightarrow> ('e + 'b) \<times> 's" where
  "check r k = (case r of (Inl e, s) \<Rightarrow> (Inl e, s) | (Inr a, s) \<Rightarrow> k a s)"

lemma check_simps [simp, step_simps]:
  "check (Inl e, s) k = (Inl e, s)"
  "check (Inr a, s) k = k a s"
  by (simp_all add: check_def)

lemma check_unit [simp]: "check r (\<lambda>u st. (Inr (), st)) = (r :: ('e + unit) \<times> 's)"
  by (auto simp: check_def split: prod.splits sum.splits)

lemma check_Inr_iff:
  "check r k = (Inr b, t) \<longleftrightarrow> (\<exists>a s. r = (Inr a, s) \<and> k a s = (Inr b, t))"
  by (cases r; cases "fst r") auto

lemma check_Inl_iff:
  "check r k = (Inl e, t) \<longleftrightarrow> r = (Inl e, t) \<or> (\<exists>a s. r = (Inr a, s) \<and> k a s = (Inl e, t))"
  by (cases r; cases "fst r") auto

section \<open>Big-endian byte codec\<close>

text \<open>\<open>binary.BigEndian.PutUint64\<close> and \<open>binary.BigEndian.Uint64\<close> of the Go standard library.\<close>

definition PutUint64 :: "u64 \<Rightarrow> byte list" where
  "PutUint64 v = [ucast (drop_bit 56 v), ucast (drop_bit 48 v), ucast (drop_bit 40 v),
     ucast (drop_bit 32 v), ucast (drop_bit 24 v), ucast (drop_bit 16 v),
     ucast (drop_bit 8 v), ucast v]"

definition Uint64 :: "byte list \<Rightarrow> u64" where
  "Uint64 b = ucast (b ! 7) OR push_bit 8 (ucast (b ! 6)) OR push_bit 16 (ucast (b ! 5))
     OR push_bit 24 (ucast (b ! 4)) OR push_bit 32 (ucast (b ! 3)) OR push_bit 40 (ucast (b ! 2))
     OR push_bit 48 (ucast (b ! 1)) OR push_bit 56 (ucast (b ! 0))"

lemma length_PutUint64 [simp, codec_simps]: "length (PutUint64 v) = 8"
  by (simp add: PutUint64_def)

lemma PutUint64_not_Nil [simp]: "PutUint64 v \<noteq> []"
  by (simp add: PutUint64_def)

lemma all_less_upt: "(\<forall>n<k. P n) \<longleftrightarrow> list_all P [0..<k]"
  by (auto simp: list_all_iff)

lemma Uint64_PutUint64 [simp, codec_simps]: "Uint64 (PutUint64 v) = v"
proof -
  have "\<forall>n<64. bit (Uint64 (PutUint64 v)) n = bit v n"
    unfolding all_less_upt
    by (simp add: upt_rec PutUint64_def Uint64_def bit_simps) (simp add: numeral_eq_Suc)
  then show ?thesis by (intro bit_word_eqI) simp
qed

lemma byte_bit_ge: "8 \<le> n \<Longrightarrow> \<not> bit (a :: byte) n"
  by (auto dest: bit_imp_le_length)

lemma byte_eqI: "(\<forall>n<8. bit a n = bit b n) \<Longrightarrow> a = (b :: byte)"
  by (intro bit_word_eqI) simp

lemma length_8_conv:
  assumes "length b = 8"
  obtains a0 a1 a2 a3 a4 a5 a6 a7 where "b = [a0, a1, a2, a3, a4, a5, a6, a7]"
  using assms by (auto simp: length_Suc_conv eval_nat_numeral)

lemma PutUint64_Uint64:
  assumes "length b = 8"
  shows "PutUint64 (Uint64 b) = b"
  using assms
  by (elim length_8_conv, simp add: PutUint64_def Uint64_def,
      intro conjI byte_eqI; unfold all_less_upt; simp add: upt_rec bit_simps byte_bit_ge)

lemma PutUint64_inject: "PutUint64 v = PutUint64 w \<longleftrightarrow> v = w"
  by (metis Uint64_PutUint64)

section \<open>Lists and association lists\<close>

lemma take_append_exact [simp]: "length xs = n \<Longrightarrow> take n (xs @ ys) = xs"
  by simp

lemma drop_append_exact [simp]: "length xs = n \<Longrightarrow> drop n (xs @ ys) = ys"
  by simp

lemma last_append_singleton: "last (xs @ [x]) = x"
  by simp

lemma filter_shorter: "length (filter P xs) = length xs \<longleftrightarrow> (\<forall>x \<in> set xs. P x)"
  by (metis filter_True length_filter_less less_irrefl)

lemma map_of_update_same [simp]: "map_of (AList.update k v al) k = Some v"
  by (simp add: update_conv')

lemma map_of_update_other [simp]: "k \<noteq> l \<Longrightarrow> map_of (AList.update k v al) l = map_of al l"
  by (simp add: update_conv')

lemma map_of_delete_same [simp]: "map_of (AList.delete k al) k = None"
  by (simp add: delete_conv')

lemma map_of_delete_other [simp]: "k \<noteq> l \<Longrightarrow> map_of (AList.delete k al) l = map_of al l"
  by (simp add: delete_conv')

section \<open>Decimal codec\<close>

text \<open>
  \<open>strconv.FormatUint(v, 10)\<close> and \<open>strconv.ParseUint(s, 10, 64)\<close>. The parser rejects the empty
  string, any character that is not a decimal digit and any value of 2^64 or more; it accepts
  leading zeros.
\<close>

definition digit_char :: "nat \<Rightarrow> char" where
  "digit_char d = char_of (48 + d)"

definition is_digit :: "char \<Rightarrow> bool" where
  "is_digit c \<longleftrightarrow> 48 \<le> (of_char c :: nat) \<and> (of_char c :: nat) \<le> 57"

definition digit_val :: "char \<Rightarrow> nat" where
  "digit_val c = of_char c - 48"

fun decimal :: "nat \<Rightarrow> string" where
  "decimal n = (if n < 10 then [digit_char n] else decimal (n div 10) @ [digit_char (n mod 10)])"

declare decimal.simps [simp del]

definition FormatUint :: "u64 \<Rightarrow> string" where
  "FormatUint v = decimal (unat v)"

definition digits_val :: "string \<Rightarrow> nat" where
  "digits_val s = foldl (\<lambda>acc c. acc * 10 + digit_val c) 0 s"

definition ParseUint :: "string \<Rightarrow> u64 option" where
  "ParseUint s =
     (if s = [] \<or> \<not> list_all is_digit s then None
      else if 2 ^ 64 \<le> int (digits_val s) then None
      else Some (word_of_nat (digits_val s)))"

lemma digit_char_props:
  assumes "d < 10"
  shows "is_digit (digit_char d)" and "digit_val (digit_char d) = d"
  using assms by (simp_all add: is_digit_def digit_val_def digit_char_def)

lemma decimal_props:
  "decimal n \<noteq> [] \<and> list_all is_digit (decimal n) \<and> digits_val (decimal n) = n"
proof (induction n rule: decimal.induct)
  case (1 n)
  show ?case
  proof (cases "n < 10")
    case True
    then show ?thesis
      by (simp add: decimal.simps [of n] digits_val_def digit_char_props)
  next
    case False
    with "1.IH" have "decimal (n div 10) \<noteq> []" "list_all is_digit (decimal (n div 10))"
      "digits_val (decimal (n div 10)) = n div 10" by simp_all
    with False show ?thesis
      by (simp add: decimal.simps [of n] digits_val_def digit_char_props)
  qed
qed

lemma decimal_inject: "decimal m = decimal n \<longleftrightarrow> m = n"
  using decimal_props by metis

lemma unat_u64_less: "unat (v :: u64) < 2 ^ 64"
  by (rule order_less_le_trans [OF unsigned_less]) simp

lemma ParseUint_FormatUint [simp, codec_simps]: "ParseUint (FormatUint v) = Some v"
proof -
  have "uint v < 2 ^ 64" by (rule order_less_le_trans [OF unsigned_less]) simp
  then show ?thesis using decimal_props [of "unat v"] by (simp add: ParseUint_def FormatUint_def)
qed

lemma FormatUint_inject [simp]: "FormatUint v = FormatUint w \<longleftrightarrow> v = w"
  by (metis ParseUint_FormatUint option.inject)

end
