(* ===== verification/Os_File.thy ===== *)
theory Os_File
  imports Prelude
begin

text \<open>
  The part of Go's \<open>os\<close> and \<open>io/ioutil\<close> packages that the hinted-handoff queue uses, for the
  files of one directory: \<open>OpenFile\<close> with \<open>O_CREATE|O_RDWR\<close>, \<open>Stat\<close>, \<open>Remove\<close>, \<open>ReadDir\<close>, and
  \<open>Seek\<close>, \<open>Read\<close>, \<open>Write\<close>, \<open>Sync\<close>, \<open>Close\<close> on an open file. File names are relative to
  the directory. Every system call may fail: \<open>d_faults\<close> is the script of failures the operating
  system will inject, one entry per call, and no call fails once the script is used up. A failed
  call has no effect. Handles are values: an open file is its name and its offset.
\<close>

named_theorems file_simps \<open>system calls that the operating system does not fail\<close>

datatype hh_error =
    EOF | IOError | NotExist | InvalidArgument
  | ErrNotOpen | ErrQueueFull | ErrSegmentFull
  | ErrBadSeek | ErrShortWrite | ErrBadRead | ErrRecordOutOfRange
  | ErrQueueIsOpen | ErrNodeProcessorClosed | ErrNodeProcessorOpen | ErrTooShort
  | ErrHintedHandoffDisabled | ErrConfig | ErrParsePoints | ErrMeta | ErrWriteShard
  | Panic

record inode =
  i_data :: "byte list"
  i_mtime :: int

record directory =
  d_files :: "(string \<times> inode) list"
  d_subdirs :: "string list"
  d_clock :: int
  d_faults :: "bool list"

record handle =
  h_name :: string
  h_off :: int

definition syscall :: "directory \<Rightarrow> (hh_error + unit) \<times> directory" where
  "syscall d =
     (case d_faults d of
        [] \<Rightarrow> (Inr (), d)
      | f # fs \<Rightarrow> (if f then Inl IOError else Inr (), d\<lparr>d_faults := fs\<rparr>))"

definition inode_at :: "directory \<Rightarrow> string \<Rightarrow> inode option" where
  "inode_at d n = map_of (d_files d) n"

definition set_inode :: "string \<Rightarrow> inode \<Rightarrow> directory \<Rightarrow> directory" where
  "set_inode n i d = d\<lparr>d_files := AList.update n i (d_files d)\<rparr>"

text \<open>
  \<open>ioutil.ReadDir\<close> returns the entries sorted by file name, compared as strings; the flag is
  \<open>IsDir()\<close>.
\<close>

definition dir_entries :: "directory \<Rightarrow> (string \<times> bool) list" where
  "dir_entries d = sort_key fst
     (map (\<lambda>n. (n, False)) (map fst (d_files d)) @ map (\<lambda>n. (n, True)) (d_subdirs d))"

definition ReadDir :: "directory \<Rightarrow> (hh_error + (string \<times> bool) list) \<times> directory" where
  "ReadDir d = check (syscall d) (\<lambda>_ d. (Inr (dir_entries d), d))"

definition OpenFile :: "string \<Rightarrow> directory \<Rightarrow> (hh_error + handle) \<times> directory" where
  "OpenFile n d = check (syscall d) (\<lambda>_ d.
     if n \<in> set (d_subdirs d) then (Inl IOError, d)
     else
       (Inr \<lparr>h_name = n, h_off = 0\<rparr>,
        case inode_at d n of
          None \<Rightarrow> set_inode n \<lparr>i_data = [], i_mtime = d_clock d\<rparr> d
        | Some _ \<Rightarrow> d))"

definition Stat :: "string \<Rightarrow> directory \<Rightarrow> (hh_error + inode) \<times> directory" where
  "Stat n d = check (syscall d) (\<lambda>_ d.
     (case inode_at d n of None \<Rightarrow> Inl NotExist | Some i \<Rightarrow> Inr i, d))"

definition Remove_file :: "string \<Rightarrow> directory \<Rightarrow> (hh_error + unit) \<times> directory" where
  "Remove_file n d = check (syscall d) (\<lambda>_ d.
     (case inode_at d n of
        None \<Rightarrow> (Inl NotExist, d)
      | Some _ \<Rightarrow> (Inr (), d\<lparr>d_files := AList.delete n (d_files d)\<rparr>)))"

definition RemoveAll :: "directory \<Rightarrow> (hh_error + unit) \<times> directory" where
  "RemoveAll d = check (syscall d) (\<lambda>_ d. (Inr (), d\<lparr>d_files := [], d_subdirs := []\<rparr>))"

text \<open>
  The methods of an open file act on the handle and the directory. A nil file is \<open>None\<close>: the
  methods return \<open>os.ErrInvalid\<close> on it.
\<close>

type_synonym fstate = "handle option \<times> directory"

definition Seek_set :: "int \<Rightarrow> fstate \<Rightarrow> (hh_error + int) \<times> fstate" where
  "Seek_set p st = (case st of
     (None, d) \<Rightarrow> (Inl InvalidArgument, None, d)
   | (Some h, d) \<Rightarrow>
       (case syscall d of
          (Inl e, d) \<Rightarrow> (Inl e, Some h, d)
        | (Inr _, d) \<Rightarrow>
            if p < 0 then (Inl InvalidArgument, Some h, d)
            else (Inr p, Some (h\<lparr>h_off := p\<rparr>), d)))"

definition Seek_end :: "int \<Rightarrow> fstate \<Rightarrow> (hh_error + int) \<times> fstate" where
  "Seek_end p st = (case st of
     (None, d) \<Rightarrow> (Inl InvalidArgument, None, d)
   | (Some h, d) \<Rightarrow>
       (case syscall d of
          (Inl e, d) \<Rightarrow> (Inl e, Some h, d)
        | (Inr _, d) \<Rightarrow>
            (case inode_at d (h_name h) of
               None \<Rightarrow> (Inl NotExist, Some h, d)
             | Some i \<Rightarrow>
                 let n = int (length (i_data i)) + p in
                 if n < 0 then (Inl InvalidArgument, Some h, d)
                 else (Inr n, Some (h\<lparr>h_off := n\<rparr>), d))))"

text \<open>A write past the end of the file fills the gap with zero bytes.\<close>

definition write_at :: "nat \<Rightarrow> byte list \<Rightarrow> byte list \<Rightarrow> byte list" where
  "write_at off b data =
     take off (data @ replicate (off - length data) 0) @ b @ drop (off + length b) data"

definition Write :: "byte list \<Rightarrow> fstate \<Rightarrow> (hh_error + nat) \<times> fstate" where
  "Write b st = (case st of
     (None, d) \<Rightarrow> (Inl InvalidArgument, None, d)
   | (Some h, d) \<Rightarrow>
       (case syscall d of
          (Inl e, d) \<Rightarrow> (Inl e, Some h, d)
        | (Inr _, d) \<Rightarrow>
            (case inode_at d (h_name h) of
               None \<Rightarrow> (Inl NotExist, Some h, d)
             | Some i \<Rightarrow>
                 (Inr (length b), Some (h\<lparr>h_off := h_off h + int (length b)\<rparr>),
                  set_inode (h_name h)
                    \<lparr>i_data = write_at (nat (h_off h)) b (i_data i), i_mtime = d_clock d\<rparr> d))))"

text \<open>A read returns what is left of the file, up to \<open>n\<close> bytes, and EOF when nothing is left.\<close>

definition Read :: "nat \<Rightarrow> fstate \<Rightarrow> (hh_error + byte list) \<times> fstate" where
  "Read n st = (case st of
     (None, d) \<Rightarrow> (Inl InvalidArgument, None, d)
   | (Some h, d) \<Rightarrow>
       (case syscall d of
          (Inl e, d) \<Rightarrow> (Inl e, Some h, d)
        | (Inr _, d) \<Rightarrow>
            (case inode_at d (h_name h) of
               None \<Rightarrow> (Inl NotExist, Some h, d)
             | Some i \<Rightarrow>
                 let b = take n (drop (nat (h_off h)) (i_data i)) in
                 if n \<noteq> 0 \<and> b = [] then (Inl EOF, Some h, d)
                 else (Inr b, Some (h\<lparr>h_off := h_off h + int (length b)\<rparr>), d))))"

definition Sync :: "fstate \<Rightarrow> (hh_error + unit) \<times> fstate" where
  "Sync st = (case st of
     (None, d) \<Rightarrow> (Inl InvalidArgument, None, d)
   | (Some h, d) \<Rightarrow> (case syscall d of (r, d) \<Rightarrow> (r, Some h, d)))"

definition Close_file :: "fstate \<Rightarrow> (hh_error + unit) \<times> fstate" where
  "Close_file st = (case st of
     (None, d) \<Rightarrow> (Inl InvalidArgument, None, d)
   | (Some h, d) \<Rightarrow> (case syscall d of (r, d) \<Rightarrow> (r, Some h, d)))"

section \<open>Facts\<close>

lemma syscall_ok [simp, file_simps]: "d_faults d = [] \<Longrightarrow> syscall d = (Inr (), d)"
  by (simp add: syscall_def)

lemma syscall_files: "syscall d = (r, d') \<Longrightarrow> d_files d' = d_files d \<and> d_clock d' = d_clock d"
  by (auto simp: syscall_def split: list.splits)

lemma inode_at_set_inode [simp, file_simps]:
  "inode_at (set_inode n i d) m = (if m = n then Some i else inode_at d m)"
  by (auto simp: inode_at_def set_inode_def)

lemma inode_at_clock [simp, file_simps]:
  "inode_at (d\<lparr>d_clock := t\<rparr>) n = inode_at d n"
  "inode_at (d\<lparr>d_faults := fs\<rparr>) n = inode_at d n"
  by (simp_all add: inode_at_def)

lemma inode_at_delete [simp, file_simps]:
  "inode_at (d\<lparr>d_files := AList.delete n (d_files d)\<rparr>) m = (if m = n then None else inode_at d m)"
  by (auto simp: inode_at_def)

lemma set_inode_frame [simp, file_simps]:
  "d_faults (set_inode n i d) = d_faults d"
  "d_clock (set_inode n i d) = d_clock d"
  "d_subdirs (set_inode n i d) = d_subdirs d"
  by (simp_all add: set_inode_def)

lemma set_inode_names:
  "fst ` set (d_files (set_inode n i d)) = insert n (fst ` set (d_files d))"
  by (simp add: set_inode_def dom_update image_set [symmetric] flip: dom_map_of_conv_image_fst)
     (simp add: update_conv' dom_map_of_conv_image_fst)

lemma write_at_end: "length data = off \<Longrightarrow> write_at off b data = data @ b"
  by (simp add: write_at_def)

lemma write_at_within:
  "length xs = off \<Longrightarrow> length old = length b \<Longrightarrow> write_at off b (xs @ old @ ys) = xs @ b @ ys"
  by (simp add: write_at_def)

lemma write_at_over_end:
  "length xs = off \<Longrightarrow> length old \<le> length b \<Longrightarrow> write_at off b (xs @ old) = xs @ b"
  by (simp add: write_at_def)

end
