(* ===== verification/Segment.thy ===== *)
theory Segment
  imports Os_File
begin

text \<open>
  The segment of the hinted-handoff queue (\<open>src/hh/queue.go\<close>, type \<open>segment\<close>): one file holding
  length-prefixed blocks followed by an 8-byte footer with the offset of the first block that has
  not been consumed. The operations are translated call by call onto the file model; the second
  half states what they do to the sequence of blocks the file represents.
\<close>

section \<open>Model\<close>

record segment =
  s_size :: int
  s_file :: "handle option"
  s_path :: string
  s_pos :: int
  s_currentSize :: int
  s_maxSize :: int

type_synonym sstate = "segment \<times> directory"

definition footerSize :: int where
  "footerSize = 8"

definition on_file :: "(fstate \<Rightarrow> (hh_error + 'a) \<times> fstate) \<Rightarrow> sstate \<Rightarrow> (hh_error + 'a) \<times> sstate" where
  "on_file f st = (case st of (s, d) \<Rightarrow>
     (case f (s_file s, d) of (r, h, d') \<Rightarrow> (r, s\<lparr>s_file := h\<rparr>, d')))"

definition seek :: "int \<Rightarrow> sstate \<Rightarrow> (hh_error + unit) \<times> sstate" where
  "seek pos st = check (on_file (Seek_set pos) st)
     (\<lambda>n st. if n \<noteq> pos then (Inl ErrBadSeek, st) else (Inr (), st))"

definition seekToCurrent :: "sstate \<Rightarrow> (hh_error + unit) \<times> sstate" where
  "seekToCurrent st = seek (s_pos (fst st)) st"

definition seekEnd :: "int \<Rightarrow> sstate \<Rightarrow> (hh_error + unit) \<times> sstate" where
  "seekEnd pos st = check (on_file (Seek_end pos) st) (\<lambda>_ st. (Inr (), st))"

definition filePos :: "sstate \<Rightarrow> int \<times> sstate" where
  "filePos st = (case st of (s, d) \<Rightarrow>
     (case s_file s of
        None \<Rightarrow> (0, s, d)
      | Some h \<Rightarrow> (case syscall d of (Inl _, d') \<Rightarrow> (0, s, d') | (Inr _, d') \<Rightarrow> (h_off h, s, d'))))"

definition readBytes :: "nat \<Rightarrow> sstate \<Rightarrow> (hh_error + byte list) \<times> sstate" where
  "readBytes n st = check (on_file (Read n) st)
     (\<lambda>b st. if length b \<noteq> n then (Inl ErrBadRead, st) else (Inr b, st))"

definition readUint64 :: "sstate \<Rightarrow> (hh_error + u64) \<times> sstate" where
  "readUint64 st = check (readBytes 8 st) (\<lambda>b st. (Inr (Uint64 b), st))"

definition writeBytes :: "byte list \<Rightarrow> sstate \<Rightarrow> (hh_error + unit) \<times> sstate" where
  "writeBytes b st = check (on_file (Write b) st)
     (\<lambda>n st. if n \<noteq> length b then (Inl ErrShortWrite, st) else (Inr (), st))"

definition writeUint64 :: "u64 \<Rightarrow> sstate \<Rightarrow> (hh_error + unit) \<times> sstate" where
  "writeUint64 sz st = writeBytes (PutUint64 sz) st"

definition segment_open :: "sstate \<Rightarrow> (hh_error + unit) \<times> sstate" where
  "segment_open st = (case st of (s, d) \<Rightarrow>
     if s_size s = 0 then
       (let s1 = s\<lparr>s_pos := 0, s_currentSize := 0\<rparr> in
        check (writeUint64 (to_u64 (s_pos s1)) (s1, d)) (\<lambda>_ st.
        check (on_file Sync st) (\<lambda>_ (s, d).
        (Inr (), s\<lparr>s_size := footerSize\<rparr>, d))))
     else
       check (seekEnd (- footerSize) (s, d)) (\<lambda>_ st.
       check (readUint64 st) (\<lambda>pos (s, d).
       check (seekToCurrent (s\<lparr>s_pos := to_i64 pos\<rparr>, d)) (\<lambda>_ (s, d).
       if s_pos s < i64 (s_size s - footerSize) then
         check (readUint64 (s, d)) (\<lambda>sz (s, d). (Inr (), s\<lparr>s_currentSize := to_i64 sz\<rparr>, d))
       else (Inr (), s, d)))))"

definition newSegment :: "string \<Rightarrow> int \<Rightarrow> directory \<Rightarrow> (hh_error + segment) \<times> directory" where
  "newSegment path maxSize d =
     check (OpenFile path d) (\<lambda>f d.
     check (Stat path d) (\<lambda>stats d.
     case segment_open
         (\<lparr>s_size = int (length (i_data stats)), s_file = Some f, s_path = path,
           s_pos = 0, s_currentSize = 0, s_maxSize = maxSize\<rparr>, d) of
       (Inl e, s, d) \<Rightarrow> (Inl e, d)
     | (Inr _, s, d) \<Rightarrow> (Inr s, d)))"

definition segment_append :: "byte list \<Rightarrow> sstate \<Rightarrow> (hh_error + unit) \<times> sstate" where
  "segment_append b st = (case st of (s, d) \<Rightarrow>
     if s_file s = None then (Inl ErrNotOpen, s, d)
     else if i64 (s_size s + int (length b)) > s_maxSize s then (Inl ErrSegmentFull, s, d)
     else
       check (seekEnd (- footerSize) (s, d)) (\<lambda>_ st.
       check (writeUint64 (to_u64 (int (length b))) st) (\<lambda>_ st.
       check (writeBytes b st) (\<lambda>_ st.
       check (writeUint64 (to_u64 (s_pos (fst st))) st) (\<lambda>_ st.
       check (on_file Sync st) (\<lambda>_ (s, d).
       (Inr (),
        s\<lparr>s_currentSize := (if s_currentSize s = 0 then int (length b) else s_currentSize s),
          s_size := i64 (s_size s + i64 (int (length b) + 8))\<rparr>,
        d)))))))"

text \<open>\<open>make([]byte, sz)\<close> panics when \<open>sz\<close> does not fit a non-negative \<open>int\<close>.\<close>

definition segment_current :: "sstate \<Rightarrow> (hh_error + byte list) \<times> sstate" where
  "segment_current st = (case st of (s, d) \<Rightarrow>
     if s_pos s = i64 (s_size s - 8) then (Inl EOF, s, d)
     else
       check (seekToCurrent (s, d)) (\<lambda>_ st.
       check (readUint64 st) (\<lambda>sz (s, d).
       let s1 = s\<lparr>s_currentSize := to_i64 sz\<rparr> in
       if to_i64 sz > s_maxSize s1 then (Inl ErrRecordOutOfRange, s1, d)
       else if to_i64 sz < 0 then (Inl Panic, s1, d)
       else readBytes (unat sz) (s1, d))))"

definition segment_advance :: "sstate \<Rightarrow> (hh_error + unit) \<times> sstate" where
  "segment_advance st = (case st of (s, d) \<Rightarrow>
     if s_file s = None then (Inl ErrNotOpen, s, d)
     else if s_pos s = i64 (s_size s - footerSize) then (Inl EOF, s\<lparr>s_currentSize := 0\<rparr>, d)
     else
       check (seekEnd (- footerSize) (s, d)) (\<lambda>_ st.
       let pos = i64 (i64 (s_pos (fst st) + s_currentSize (fst st)) + 8) in
       check (writeUint64 (to_u64 pos) st) (\<lambda>_ st.
       check (on_file Sync st) (\<lambda>_ (s, d).
       check (seekToCurrent (s\<lparr>s_pos := pos\<rparr>, d)) (\<lambda>_ st.
       check (readUint64 st) (\<lambda>sz (s, d).
       if s_pos s = i64 (s_size s - footerSize) then (Inl EOF, s\<lparr>s_currentSize := 0\<rparr>, d)
       else (Inr (), s\<lparr>s_currentSize := to_i64 sz\<rparr>, d)))))))"

definition segment_close :: "sstate \<Rightarrow> (hh_error + unit) \<times> sstate" where
  "segment_close st =
     check (on_file Close_file st) (\<lambda>_ (s, d). (Inr (), s\<lparr>s_file := None\<rparr>, d))"

text \<open>\<open>l.file.Name()\<close> dereferences a nil pointer once the segment is closed.\<close>

definition segment_lastModified :: "sstate \<Rightarrow> (hh_error + int) \<times> sstate" where
  "segment_lastModified st = (case st of (s, d) \<Rightarrow>
     (case s_file s of
        None \<Rightarrow> (Inl Panic, s, d)
      | Some h \<Rightarrow> (case Stat (h_name h) d of
            (Inl e, d) \<Rightarrow> (Inl e, s, d)
          | (Inr i, d) \<Rightarrow> (Inr (i_mtime i), s, d))))"

definition segment_diskUsage :: "segment \<Rightarrow> int" where
  "segment_diskUsage s = s_size s"

definition segment_SetMaxSegmentSize :: "int \<Rightarrow> segment \<Rightarrow> segment" where
  "segment_SetMaxSegmentSize sz s = s\<lparr>s_maxSize := sz\<rparr>"

section \<open>What a segment file represents\<close>

definition enc_block :: "byte list \<Rightarrow> byte list" where
  "enc_block b = PutUint64 (to_u64 (int (length b))) @ b"

definition enc_blocks :: "byte list list \<Rightarrow> byte list" where
  "enc_blocks bs = concat (map enc_block bs)"

text \<open>
  \<open>seg_rep s d done todo\<close>: the open segment \<open>s\<close> over the directory \<open>d\<close> holds the consumed blocks
  \<open>done\<close> and the blocks \<open>todo\<close> still to be delivered. The cached \<open>currentSize\<close> is the length of
  the first block to be delivered, except when that block is empty.
\<close>

definition current_ok :: "segment \<Rightarrow> byte list list \<Rightarrow> bool" where
  "current_ok s todo = (case todo of
     [] \<Rightarrow> s_currentSize s = 0
   | b # _ \<Rightarrow> b = [] \<or> s_currentSize s = int (length b))"

definition seg_rep :: "segment \<Rightarrow> directory \<Rightarrow> byte list list \<Rightarrow> byte list list \<Rightarrow> bool" where
  "seg_rep s d done todo \<longleftrightarrow> (\<exists>h i.
     s_file s = Some h \<and> h_name h = s_path s \<and> inode_at d (s_path s) = Some i \<and>
     i_data i = enc_blocks (done @ todo) @ PutUint64 (to_u64 (s_pos s)) \<and>
     s_pos s = int (length (enc_blocks done)) \<and>
     s_size s = int (length (i_data i)) \<and> s_size s < 2 ^ 63 \<and>
     current_ok s todo)"

text \<open>The same for a file that no segment has open.\<close>

definition file_rep :: "directory \<Rightarrow> string \<Rightarrow> byte list list \<Rightarrow> byte list list \<Rightarrow> bool" where
  "file_rep d n done todo \<longleftrightarrow> (\<exists>i.
     inode_at d n = Some i \<and>
     i_data i = enc_blocks (done @ todo) @ PutUint64 (to_u64 (int (length (enc_blocks done)))) \<and>
     int (length (i_data i)) < 2 ^ 63)"

text \<open>A step that changes at most the file \<open>n\<close>, without using up the script of failures.\<close>

definition touches :: "string \<Rightarrow> directory \<Rightarrow> directory \<Rightarrow> bool" where
  "touches n d d' \<longleftrightarrow>
     (\<forall>m. m \<noteq> n \<longrightarrow> inode_at d' m = inode_at d m) \<and>
     (inode_at d' n = None \<longleftrightarrow> inode_at d n = None) \<and>
     d_faults d' = d_faults d \<and> d_clock d' = d_clock d \<and> d_subdirs d' = d_subdirs d \<and>
     (distinct (map fst (d_files d)) \<longrightarrow> distinct (map fst (d_files d')))"

lemma enc_blocks_simps [simp]:
  "enc_blocks [] = []"
  "enc_blocks (b # bs) = enc_block b @ enc_blocks bs"
  "enc_blocks (bs @ cs) = enc_blocks bs @ enc_blocks cs"
  by (simp_all add: enc_blocks_def)

lemma length_enc_block [simp]: "length (enc_block b) = 8 + length b"
  by (simp add: enc_block_def)

lemma touches_refl [simp]: "touches n d d"
  by (simp add: touches_def)

lemma touches_trans: "touches n d d' \<Longrightarrow> touches n d' d'' \<Longrightarrow> touches n d d''"
  by (auto simp: touches_def)

lemma distinct_set_inode:
  "distinct (map fst (d_files d)) \<Longrightarrow> distinct (map fst (d_files (set_inode n i d)))"
  by (simp add: set_inode_def distinct_update)

lemma touches_set_inode [simp]:
  "inode_at d n \<noteq> None \<Longrightarrow> touches n d (set_inode n i d)"
  by (auto simp: touches_def distinct_set_inode)

lemma touches_set_inode_step [simp]:
  "touches n d d' \<Longrightarrow> inode_at d n \<noteq> None \<Longrightarrow> touches n d (set_inode n i d')"
  by (auto simp: touches_def distinct_set_inode)

lemma touches_faults: "touches n d d' \<Longrightarrow> d_faults d' = d_faults d"
  by (simp add: touches_def)

lemma seg_rep_frame:
  "seg_rep s d done todo \<Longrightarrow> touches n d d' \<Longrightarrow> n \<noteq> s_path s \<Longrightarrow> seg_rep s d' done todo"
  by (simp add: seg_rep_def touches_def)

lemma seg_rep_file_rep: "seg_rep s d done todo \<Longrightarrow> file_rep d (s_path s) done todo"
  by (auto simp: seg_rep_def file_rep_def)

section \<open>The system calls, when they do not fail\<close>

lemmas io_defs = on_file_def seek_def seekToCurrent_def seekEnd_def readBytes_def readUint64_def
  writeBytes_def writeUint64_def Seek_set_def Seek_end_def Read_def Write_def Sync_def
  Close_file_def

lemma seekEnd_ok:
  assumes "s_file s = Some h" "inode_at d (h_name h) = Some i" "d_faults d = []"
    "0 \<le> int (length (i_data i)) + p"
  shows "seekEnd p (s, d) = (Inr (), s\<lparr>s_file := Some (h\<lparr>h_off := int (length (i_data i)) + p\<rparr>)\<rparr>, d)"
  using assms by (simp add: io_defs Let_def)

lemma seek_ok:
  assumes "s_file s = Some h" "d_faults d = []" "0 \<le> p"
  shows "seek p (s, d) = (Inr (), s\<lparr>s_file := Some (h\<lparr>h_off := p\<rparr>)\<rparr>, d)"
  using assms by (simp add: io_defs)

lemma writeBytes_ok:
  assumes "s_file s = Some h" "inode_at d (h_name h) = Some i" "d_faults d = []"
  shows "writeBytes b (s, d) =
    (Inr (), s\<lparr>s_file := Some (h\<lparr>h_off := h_off h + int (length b)\<rparr>)\<rparr>,
     set_inode (h_name h) \<lparr>i_data = write_at (nat (h_off h)) b (i_data i), i_mtime = d_clock d\<rparr> d)"
  using assms by (simp add: io_defs)

lemma readBytes_ok:
  assumes "s_file s = Some h" "inode_at d (h_name h) = Some i" "d_faults d = []"
    "i_data i = xs @ b @ ys" "h_off h = int (length xs)" "length b = n"
  shows "readBytes n (s, d) =
    (Inr b, s\<lparr>s_file := Some (h\<lparr>h_off := h_off h + int n\<rparr>)\<rparr>, d)"
  using assms by (auto simp: io_defs Let_def)

lemma readUint64_ok:
  assumes "s_file s = Some h" "inode_at d (h_name h) = Some i" "d_faults d = []"
    "i_data i = xs @ PutUint64 v @ ys" "h_off h = int (length xs)"
  shows "readUint64 (s, d) = (Inr v, s\<lparr>s_file := Some (h\<lparr>h_off := h_off h + 8\<rparr>)\<rparr>, d)"
  using readBytes_ok [OF assms(1-5), of 8] by (simp add: readUint64_def)

lemma Sync_ok:
  assumes "s_file s = Some h" "d_faults d = []"
  shows "on_file Sync (s, d) = (Inr (), s, d)"
  using assms by (simp add: io_defs)

lemma on_file_close_ok:
  assumes "s_file s = Some h" "d_faults d = []"
  shows "segment_close (s, d) = (Inr (), s\<lparr>s_file := None\<rparr>, d)"
  using assms by (simp add: segment_close_def io_defs)

lemmas io_ok = seekEnd_ok seek_ok writeBytes_ok readBytes_ok readUint64_ok Sync_ok

section \<open>The operations on the blocks\<close>

lemma segment_append_io:
  assumes "s_file s = Some h" "h_name h = n" "inode_at d n = Some i" "d_faults d = []"
    and "i_data i = A @ F" "length F = 8"
    and "\<not> s_maxSize s < i64 (s_size s + int (length b))"
  shows "\<exists>d'. segment_append b (s, d) = (Inr (),
      s\<lparr>s_file := Some (h\<lparr>h_off := int (length A) + 8 + int (length b) + 8\<rparr>),
        s_currentSize := (if s_currentSize s = 0 then int (length b) else s_currentSize s),
        s_size := i64 (s_size s + i64 (int (length b) + 8))\<rparr>, d') \<and> touches n d d' \<and>
    inode_at d' n = Some \<lparr>i_data = A @ PutUint64 (to_u64 (int (length b))) @ b @
      PutUint64 (to_u64 (s_pos s)), i_mtime = d_clock d\<rparr>"
proof -
  let ?P = "PutUint64 (to_u64 (int (length b)))" and ?Q = "PutUint64 (to_u64 (s_pos s))"
  have w1: "write_at (length A) ?P (A @ F) = A @ ?P"
    using assms by (simp add: write_at_over_end)
  have w2: "write_at (length A + 8) b (A @ ?P) = A @ ?P @ b"
    by (simp add: write_at_end)
  have w3: "write_at (length A + 8 + length b) ?Q (A @ ?P @ b) = A @ ?P @ b @ ?Q"
    by (simp add: write_at_end)
  have n: "nat (int (length A) + 8) = length A + 8"
    "nat (int (length A) + 8 + int (length b)) = length A + 8 + length b" by simp_all
  show ?thesis
    using assms
    by (simp add: segment_append_def seekEnd_ok footerSize_def writeUint64_def writeBytes_ok
        Sync_ok w1 w2 w3 n)
qed

lemma segment_append_ok:
  assumes rep: "seg_rep s d done todo" and nf: "d_faults d = []"
    and room: "s_size s + int (length b) \<le> s_maxSize s"
    and small: "s_size s + int (length b) + 8 < 2 ^ 63"
  obtains s' d' where "segment_append b (s, d) = (Inr (), s', d')"
    "seg_rep s' d' done (todo @ [b])" "touches (s_path s) d d'" "s_path s' = s_path s"
    "s_maxSize s' = s_maxSize s" "s_size s' = s_size s + int (length b) + 8"
proof -
  from rep obtain h i where h: "s_file s = Some h" "h_name h = s_path s"
    and i: "inode_at d (s_path s) = Some i"
    and data: "i_data i = enc_blocks (done @ todo) @ PutUint64 (to_u64 (s_pos s))"
    and pos: "s_pos s = int (length (enc_blocks done))"
    and sz: "s_size s = int (length (i_data i))" "s_size s < 2 ^ 63"
    and cur: "current_ok s todo"
    by (auto simp: seg_rep_def)
  have full: "\<not> s_maxSize s < i64 (s_size s + int (length b))"
    using room small sz by simp
  have size': "i64 (s_size s + i64 (int (length b) + 8)) = s_size s + int (length b) + 8"
    using small sz by simp
  have cur': "current_ok (s\<lparr>s_currentSize :=
      (if s_currentSize s = 0 then int (length b) else s_currentSize s)\<rparr>) (todo @ [b])"
    using cur by (cases todo) (auto simp: current_ok_def)
  from segment_append_io [OF h i nf data length_PutUint64 full] obtain d' where
    app: "segment_append b (s, d) = (Inr (),
      s\<lparr>s_file := Some (h\<lparr>h_off := int (length (enc_blocks (done @ todo))) + 8 + int (length b) + 8\<rparr>),
        s_currentSize := (if s_currentSize s = 0 then int (length b) else s_currentSize s),
        s_size := s_size s + int (length b) + 8\<rparr>, d')"
    and t: "touches (s_path s) d d'"
    and i': "inode_at d' (s_path s) = Some \<lparr>i_data = enc_blocks (done @ todo) @
      PutUint64 (to_u64 (int (length b))) @ b @ PutUint64 (to_u64 (s_pos s)), i_mtime = d_clock d\<rparr>"
    unfolding size' by blast
  show ?thesis
    by (rule that [OF app])
       (use h i' t pos sz small cur' in
         \<open>auto simp: seg_rep_def data enc_block_def current_ok_def cong: list.case_cong\<close>)
qed

lemma segment_append_full:
  assumes "seg_rep s d done todo" "s_maxSize s < s_size s + int (length b)"
    "s_size s + int (length b) < 2 ^ 63"
  shows "segment_append b (s, d) = (Inl ErrSegmentFull, s, d)"
  using assms by (auto simp: seg_rep_def segment_append_def)

text \<open>The shape of a segment whose next block to deliver is \<open>b\<close>.\<close>

lemma seg_rep_Cons:
  assumes "seg_rep s d done (b # todo)"
  obtains h i where "s_file s = Some h" "h_name h = s_path s" "inode_at d (s_path s) = Some i"
    "i_data i = enc_blocks done @ PutUint64 (to_u64 (int (length b))) @
       (b @ enc_blocks todo @ PutUint64 (to_u64 (s_pos s)))"
    "s_pos s = int (length (enc_blocks done))" "s_pos s \<noteq> i64 (s_size s - 8)"
    "s_size s = int (length (enc_blocks done)) + 8 + int (length b) + int (length (enc_blocks todo)) + 8"
    "s_size s < 2 ^ 63"
  using assms by (auto simp: seg_rep_def enc_block_def)

lemma segment_current_Nil:
  assumes "seg_rep s d done []"
  shows "segment_current (s, d) = (Inl EOF, s, d)"
  using assms by (auto simp: seg_rep_def segment_current_def)

lemma segment_current_Cons:
  assumes rep: "seg_rep s d done (b # todo)" and nf: "d_faults d = []"
  shows "\<exists>off. segment_current (s, d) =
    (if s_maxSize s < int (length b) then Inl ErrRecordOutOfRange else Inr b,
     s\<lparr>s_file := Some \<lparr>h_name = s_path s, h_off = off\<rparr>, s_currentSize := int (length b)\<rparr>, d)"
proof -
  from rep obtain h i where h: "s_file s = Some h" "h_name h = s_path s"
    and i: "inode_at d (s_path s) = Some i"
    and data: "i_data i = enc_blocks done @ PutUint64 (to_u64 (int (length b))) @
       (b @ enc_blocks todo @ PutUint64 (to_u64 (s_pos s)))"
    and pos: "s_pos s = int (length (enc_blocks done))" "s_pos s \<noteq> i64 (s_size s - 8)"
    and sz: "s_size s = int (length (enc_blocks done)) + 8 + int (length b) +
      int (length (enc_blocks todo)) + 8" "s_size s < 2 ^ 63"
    by (rule seg_rep_Cons)
  let ?h1 = "h\<lparr>h_off := s_pos s\<rparr>" and ?h2 = "h\<lparr>h_off := s_pos s + 8\<rparr>"
  let ?h3 = "h\<lparr>h_off := s_pos s + 8 + int (length b)\<rparr>"
  let ?s2 = "s\<lparr>s_file := Some ?h2, s_currentSize := int (length b)\<rparr>"
  have len: "to_i64 (to_u64 (int (length b))) = int (length b)"
    "unat (to_u64 (int (length b))) = length b"
    using sz by (simp_all add: in_i64_def)
  have 1: "seekToCurrent (s, d) = (Inr (), s\<lparr>s_file := Some ?h1\<rparr>, d)"
    using h nf pos by (simp add: seekToCurrent_def seek_ok)
  have 2: "readUint64 (s\<lparr>s_file := Some ?h1\<rparr>, d) =
      (Inr (to_u64 (int (length b))), s\<lparr>s_file := Some ?h2\<rparr>, d)"
    using readUint64_ok [of "s\<lparr>s_file := Some ?h1\<rparr>" ?h1 d i, OF _ _ nf data] h i pos by simp
  have 3: "readBytes (length b) (?s2, d) = (Inr b, ?s2\<lparr>s_file := Some ?h3\<rparr>, d)"
    using readBytes_ok [of ?s2 ?h2 d i "enc_blocks done @ PutUint64 (to_u64 (int (length b)))" b
        "enc_blocks todo @ PutUint64 (to_u64 (s_pos s))" "length b"] h i nf data pos by simp
  have hn: "\<And>x. h\<lparr>h_off := x\<rparr> = \<lparr>h_name = s_path s, h_off = x\<rparr>"
    using h(2) by (cases h) simp
  show ?thesis
    using pos(2)
    by (simp add: segment_current_def 1 2 3 len Let_def, simp add: hn) (cases s; auto)
qed

lemma segment_current_rep:
  assumes "seg_rep s d done todo" "d_faults d = []"
  obtains r s' where "segment_current (s, d) = (r, s', d)" "seg_rep s' d done todo"
    "s_path s' = s_path s" "s_maxSize s' = s_maxSize s" "s_size s' = s_size s"
    "todo = [] \<longrightarrow> r = Inl EOF" 
    "\<forall>b rest. todo = b # rest \<longrightarrow> s_currentSize s' = int (length b) \<and>
       r = (if s_maxSize s < int (length b) then Inl ErrRecordOutOfRange else Inr b)"
proof (cases todo)
  case Nil
  with assms show ?thesis by (intro that [of "Inl EOF" s]) (simp_all add: segment_current_Nil)
next
  case (Cons b rest)
  with segment_current_Cons [of s d "done" b rest] assms obtain off where
    c: "segment_current (s, d) = (if s_maxSize s < int (length b) then Inl ErrRecordOutOfRange else Inr b,
       s\<lparr>s_file := Some \<lparr>h_name = s_path s, h_off = off\<rparr>, s_currentSize := int (length b)\<rparr>, d)"
    by blast
  show ?thesis
    by (rule that [OF c]) (use assms Cons in \<open>auto simp: seg_rep_def current_ok_def\<close>)
qed

lemma segment_advance_Nil:
  assumes "seg_rep s d done []"
  shows "segment_advance (s, d) = (Inl EOF, s\<lparr>s_currentSize := 0\<rparr>, d)"
  using assms by (auto simp: seg_rep_def segment_advance_def footerSize_def)

lemma segment_advance_io:
  assumes "s_file s = Some h" "h_name h = n" "inode_at d n = Some i" "d_faults d = []"
    and "i_data i = A @ F" "length F = 8" "s_pos s \<noteq> i64 (s_size s - 8)"
    and p: "p = s_pos s + s_currentSize s + 8" "0 \<le> p" "p < 2 ^ 63" "0 \<le> s_pos s" "0 \<le> s_currentSize s"
    and "A @ PutUint64 (to_u64 p) = X @ PutUint64 v @ Y" "p = int (length X)"
  shows "\<exists>d'. segment_advance (s, d) =
      (if p = i64 (s_size s - 8) then Inl EOF else Inr (),
       s\<lparr>s_file := Some (h\<lparr>h_off := p + 8\<rparr>), s_pos := p,
         s_currentSize := (if p = i64 (s_size s - 8) then 0 else to_i64 v)\<rparr>, d') \<and>
    touches n d d' \<and> inode_at d' n = Some \<lparr>i_data = A @ PutUint64 (to_u64 p), i_mtime = d_clock d\<rparr>"
proof -
  have w: "write_at (length A) (PutUint64 (to_u64 p)) (A @ F) = A @ PutUint64 (to_u64 p)"
    using assms by (simp add: write_at_over_end)
  have pos: "i64 (i64 (s_pos s + s_currentSize s) + 8) = p"
    using p by simp
  have r: "\<And>s h d i. s_file s = Some h \<Longrightarrow> inode_at d (h_name h) = Some i \<Longrightarrow> d_faults d = [] \<Longrightarrow>
      i_data i = A @ PutUint64 (to_u64 p) \<Longrightarrow> h_off h = p \<Longrightarrow>
      readUint64 (s, d) = (Inr v, s\<lparr>s_file := Some (h\<lparr>h_off := h_off h + 8\<rparr>)\<rparr>, d)"
    using readUint64_ok assms by metis
  show ?thesis
    using assms(1-7) p(2)
    by (simp add: segment_advance_def seekEnd_ok footerSize_def writeUint64_def writeBytes_ok Sync_ok
        w pos Let_def seekToCurrent_def seek_ok r)
qed

lemma segment_advance_Cons:
  assumes rep: "seg_rep s d done (b # todo)" and nf: "d_faults d = []"
    and cur: "s_currentSize s = int (length b)"
  obtains s' d' where
    "segment_advance (s, d) = (if todo = [] then Inl EOF else Inr (), s', d')"
    "seg_rep s' d' (done @ [b]) todo" "touches (s_path s) d d'" "s_path s' = s_path s"
    "s_maxSize s' = s_maxSize s" "s_size s' = s_size s"
proof -
  from rep obtain h i where h: "s_file s = Some h" "h_name h = s_path s"
    and i: "inode_at d (s_path s) = Some i"
    and data: "i_data i = enc_blocks done @ PutUint64 (to_u64 (int (length b))) @
       (b @ enc_blocks todo @ PutUint64 (to_u64 (s_pos s)))"
    and pos: "s_pos s = int (length (enc_blocks done))" "s_pos s \<noteq> i64 (s_size s - 8)"
    and sz: "s_size s = int (length (enc_blocks done)) + 8 + int (length b) +
      int (length (enc_blocks todo)) + 8" "s_size s < 2 ^ 63"
    by (rule seg_rep_Cons)
  let ?A = "enc_blocks (done @ b # todo)" and ?X = "enc_blocks (done @ [b])"
  let ?p = "int (length ?X)"
  define v where "v = (case todo of [] \<Rightarrow> to_u64 ?p | c # _ \<Rightarrow> to_u64 (int (length c)))"
  obtain Y where Y: "?A @ PutUint64 (to_u64 ?p) = ?X @ PutUint64 v @ Y"
    by (cases todo) (auto simp: v_def enc_block_def)
  have p: "?p = s_pos s + s_currentSize s + 8" using pos cur by simp
  have small: "?p < 2 ^ 63" using sz by simp
  have A: "i_data i = ?A @ PutUint64 (to_u64 (s_pos s))" using data by (simp add: enc_block_def)
  have last: "?p = i64 (s_size s - 8) \<longleftrightarrow> todo = []"
    using sz by (cases todo) auto
  from segment_advance_io [OF h i nf A length_PutUint64 pos(2) p _ small _ _ Y refl] pos cur
  obtain d' where adv: "segment_advance (s, d) =
      (if todo = [] then Inl EOF else Inr (),
       s\<lparr>s_file := Some (h\<lparr>h_off := ?p + 8\<rparr>), s_pos := ?p,
         s_currentSize := (if todo = [] then 0 else to_i64 v)\<rparr>, d')"
    and t: "touches (s_path s) d d'"
    and i': "inode_at d' (s_path s) = Some \<lparr>i_data = ?A @ PutUint64 (to_u64 ?p), i_mtime = d_clock d\<rparr>"
    unfolding last by auto
  have v: "todo = c # cs \<Longrightarrow> to_i64 v = int (length c)" for c cs
    using sz by (simp add: v_def in_i64_def)
  show ?thesis
    by (rule that [OF adv])
       (use h i' t sz v in \<open>auto simp: seg_rep_def current_ok_def split: list.splits\<close>)
qed

text \<open>Creating a segment on a new file, and reopening one on the file another run left behind.\<close>

lemma newSegment_fresh:
  assumes nf: "d_faults d = []" and new: "inode_at d n = None" and nd: "n \<notin> set (d_subdirs d)"
  obtains s d' where "newSegment n m d = (Inr s, d')" "seg_rep s d' [] []"
    "s_path s = n" "s_maxSize s = m" "s_size s = 8" "d_faults d' = []" "d_clock d' = d_clock d"
    "d_subdirs d' = d_subdirs d" "inode_at d' = (inode_at d)(n := Some \<lparr>i_data = PutUint64 0, i_mtime = d_clock d\<rparr>)"
    "distinct (map fst (d_files d)) \<longrightarrow> distinct (map fst (d_files d'))"
proof -
  let ?i = "\<lparr>i_data = PutUint64 0, i_mtime = d_clock d\<rparr>"
  let ?s = "\<lparr>s_size = 8, s_file = Some \<lparr>h_name = n, h_off = 8\<rparr>, s_path = n, s_pos = 0,
    s_currentSize = 0, s_maxSize = m\<rparr>"
  let ?d = "set_inode n ?i (set_inode n \<lparr>i_data = [], i_mtime = d_clock d\<rparr> d)"
  have new: "newSegment n m d = (Inr ?s, ?d)"
    using assms by (simp add: newSegment_def OpenFile_def Stat_def segment_open_def writeUint64_def
        writeBytes_ok Sync_ok footerSize_def write_at_def to_u64_def Let_def)
  show ?thesis
    by (rule that [OF new]) (use nf in \<open>auto simp: seg_rep_def current_ok_def to_u64_def
        distinct_set_inode fun_eq_iff\<close>)
qed

lemma newSegment_existing_io:
  assumes nf: "d_faults d = []" and i: "inode_at d n = Some i" and nd: "n \<notin> set (d_subdirs d)"
    and data: "i_data i = A @ PutUint64 (to_u64 p)" and sz: "int (length A) + 8 < 2 ^ 63"
    and p: "0 \<le> p" "p \<le> int (length A)"
    and nxt: "p < int (length A) \<Longrightarrow> A @ PutUint64 (to_u64 p) = X @ PutUint64 v @ Y \<and> p = int (length X)"
  shows "\<exists>off. newSegment n m d =
    (Inr \<lparr>s_size = int (length A) + 8, s_file = Some \<lparr>h_name = n, h_off = off\<rparr>, s_path = n, s_pos = p,
       s_currentSize = (if p < int (length A) then to_i64 v else 0), s_maxSize = m\<rparr>, d)"
proof -
  let ?s = "\<lambda>off q c. \<lparr>s_size = int (length A) + 8, s_file = Some \<lparr>h_name = n, h_off = off\<rparr>,
    s_path = n, s_pos = q, s_currentSize = c, s_maxSize = m\<rparr>"
  have p': "to_i64 (to_u64 p) = p" using sz p by (simp add: in_i64_def)
  have r1: "readUint64 (?s (int (length A)) 0 0, d) = (Inr (to_u64 p), ?s (int (length A) + 8) 0 0, d)"
    by (subst readUint64_ok [where ys = "[]"]) (use i nf data in auto)
  have r2: "readUint64 (?s p p 0, d) = (Inr v, ?s (p + 8) p 0, d)" if "p < int (length A)"
    using that nxt [OF that] i nf data by (subst readUint64_ok [where xs = X and ys = Y]) auto
  show ?thesis
    using i nd nf data sz p r1 r2 p'
    by (simp add: newSegment_def OpenFile_def Stat_def segment_open_def seekEnd_ok footerSize_def
        seekToCurrent_def seek_ok)
qed

lemma newSegment_existing:
  assumes nf: "d_faults d = []" and rep: "file_rep d n done todo" and nd: "n \<notin> set (d_subdirs d)"
  obtains s where "newSegment n m d = (Inr s, d)" "seg_rep s d done todo"
    "s_path s = n" "s_maxSize s = m"
proof -
  let ?A = "enc_blocks (done @ todo)" and ?p = "int (length (enc_blocks done))"
  from rep obtain i where i: "inode_at d n = Some i"
    and data: "i_data i = ?A @ PutUint64 (to_u64 ?p)"
    and sz: "int (length (i_data i)) < 2 ^ 63" by (auto simp: file_rep_def)
  define v where "v = (case todo of [] \<Rightarrow> 0 | b # _ \<Rightarrow> to_u64 (int (length b)))"
  obtain Y where Y: "?p < int (length ?A) \<Longrightarrow>
      ?A @ PutUint64 (to_u64 ?p) = enc_blocks done @ PutUint64 v @ Y \<and> ?p = int (length (enc_blocks done))"
    by (cases todo) (auto simp: v_def enc_block_def)
  have sz': "int (length ?A) + 8 < 2 ^ 63" using sz data by simp
  from newSegment_existing_io [OF nf i nd data sz' _ _ Y, of m] obtain off where
    new: "newSegment n m d = (Inr \<lparr>s_size = int (length ?A) + 8,
       s_file = Some \<lparr>h_name = n, h_off = off\<rparr>, s_path = n, s_pos = ?p,
       s_currentSize = (if ?p < int (length ?A) then to_i64 v else 0), s_maxSize = m\<rparr>, d)"
    by auto
  have "to_i64 (to_u64 (int (length b))) = int (length b)" if "todo = b # rest" for b rest
    using sz data that by (simp add: in_i64_def)
  then show ?thesis
    by (intro that [OF new]; use i data sz' in \<open>cases todo\<close>)
       (auto simp: v_def seg_rep_def current_ok_def)
qed

end
