(* ===== verification/Queue.thy ===== *)
theory Queue
  imports Segment
begin

text \<open>
  The disk-backed queue of the hinted-handoff service (\<open>src/hh/queue.go\<close>, type \<open>queue\<close>): a list
  of segments, read at the head and written at the tail. \<open>head\<close>, \<open>tail\<close> and the elements of
  \<open>segments\<close> are pointers in the source, and what the code does after a purge depends on their
  aliasing; they are indices into \<open>q_heap\<close>, the segments allocated so far, and a nil pointer or
  nil slice is \<open>None\<close>. The state of an operation is the queue and its directory.
\<close>

section \<open>Model\<close>

record queue =
  q_dir :: string
  q_heap :: "segment list"
  q_head :: "nat option"
  q_tail :: "nat option"
  q_maxSegmentSize :: int
  q_maxSize :: int
  q_segments :: "nat list option"

record queuePos =
  qp_head :: string
  qp_tail :: string

type_synonym qstate = "queue \<times> directory"

definition defaultSegmentSize :: int where
  "defaultSegmentSize = 10 * 1024 * 1024"

text \<open>Ranging over a nil slice visits nothing, and appending to one allocates.\<close>

definition segs :: "queue \<Rightarrow> nat list" where
  "segs q = (case q_segments q of None \<Rightarrow> [] | Some ps \<Rightarrow> ps)"

definition on_seg :: "nat \<Rightarrow> (sstate \<Rightarrow> (hh_error + 'a) \<times> sstate) \<Rightarrow> qstate \<Rightarrow> (hh_error + 'a) \<times> qstate" where
  "on_seg p f st = (case st of (q, d) \<Rightarrow>
     (case f (q_heap q ! p, d) of (r, s', d') \<Rightarrow> (r, q\<lparr>q_heap := (q_heap q)[p := s']\<rparr>, d')))"

definition newQueue :: "string \<Rightarrow> int \<Rightarrow> queue" where
  "newQueue dir maxSize =
     \<lparr>q_dir = dir, q_heap = [], q_head = None, q_tail = None,
      q_maxSegmentSize = defaultSegmentSize, q_maxSize = maxSize, q_segments = Some []\<rparr>"

definition diskUsage :: "queue \<Rightarrow> int" where
  "diskUsage q = foldl (\<lambda>sz p. i64 (sz + segment_diskUsage (q_heap q ! p))) 0 (segs q)"

fun maxSegmentID :: "u64 \<Rightarrow> (string \<times> bool) list \<Rightarrow> u64" where
  "maxSegmentID maxID [] = maxID"
| "maxSegmentID maxID ((n, isDir) # fs) =
     (if isDir then maxSegmentID maxID fs
      else case ParseUint n of
        None \<Rightarrow> maxSegmentID maxID fs
      | Some segmentID \<Rightarrow> maxSegmentID (if segmentID > maxID then segmentID else maxID) fs)"

definition nextSegmentID :: "qstate \<Rightarrow> (hh_error + u64) \<times> qstate" where
  "nextSegmentID st = (case st of (q, d) \<Rightarrow>
     (case ReadDir d of
        (Inl e, d) \<Rightarrow> (Inl e, q, d)
      | (Inr files, d) \<Rightarrow> (Inr (maxSegmentID 0 files + 1), q, d)))"

definition addSegment :: "qstate \<Rightarrow> (hh_error + nat) \<times> qstate" where
  "addSegment st =
     check (nextSegmentID st) (\<lambda>nextID (q, d).
     case newSegment (FormatUint nextID) (q_maxSegmentSize q) d of
       (Inl e, d) \<Rightarrow> (Inl e, q, d)
     | (Inr s, d) \<Rightarrow>
         (Inr (length (q_heap q)),
          q\<lparr>q_heap := q_heap q @ [s], q_segments := Some (segs q @ [length (q_heap q)])\<rparr>, d))"

fun loadFiles :: "(string \<times> bool) list \<Rightarrow> nat list \<Rightarrow> qstate \<Rightarrow> (hh_error + nat list) \<times> qstate" where
  "loadFiles [] acc st = (Inr acc, st)"
| "loadFiles ((n, isDir) # fs) acc (q, d) =
     (if isDir then loadFiles fs acc (q, d)
      else case ParseUint n of
        None \<Rightarrow> loadFiles fs acc (q, d)
      | Some _ \<Rightarrow>
          (case newSegment n (q_maxSegmentSize q) d of
             (Inl e, d) \<Rightarrow> (Inl e, q, d)
           | (Inr s, d) \<Rightarrow>
               loadFiles fs (acc @ [length (q_heap q)]) (q\<lparr>q_heap := q_heap q @ [s]\<rparr>, d)))"

definition loadSegments :: "qstate \<Rightarrow> (hh_error + nat list) \<times> qstate" where
  "loadSegments st = (case st of (q, d) \<Rightarrow>
     (case ReadDir d of
        (Inl e, d) \<Rightarrow> (Inl e, q, d)
      | (Inr files, d) \<Rightarrow> loadFiles files [] (q, d)))"

text \<open>\<open>trimHead\<close> drops the first segment and deletes its file, unless it is the only one.\<close>

definition trimHead :: "qstate \<Rightarrow> (hh_error + unit) \<times> qstate" where
  "trimHead st = (case st of (q, d) \<Rightarrow>
     if length (segs q) > 1 then
       (case q_head q of
          None \<Rightarrow> (Inl Panic, q, d)
        | Some h \<Rightarrow>
            check (on_seg h segment_close (q\<lparr>q_segments := Some (tl (segs q))\<rparr>, d)) (\<lambda>_ (q, d).
            case Remove_file (s_path (q_heap q ! h)) d of
              (Inl e, d) \<Rightarrow> (Inl e, q, d)
            | (Inr _, d) \<Rightarrow> (Inr (), q\<lparr>q_head := Some (hd (segs q))\<rparr>, d)))
     else (Inr (), q, d))"

definition Open :: "qstate \<Rightarrow> (hh_error + unit) \<times> qstate" where
  "Open st =
     check (loadSegments st) (\<lambda>ps (q, d).
     let q = q\<lparr>q_segments := Some ps\<rparr> in
     check (if ps = [] then check (addSegment (q, d)) (\<lambda>_ st. (Inr (), st)) else (Inr (), q, d))
       (\<lambda>_ (q, d).
     let q = q\<lparr>q_head := Some (hd (segs q)), q_tail := Some (last (segs q))\<rparr> in
     case on_seg (hd (segs q)) segment_current (q, d) of
       (Inl EOF, st) \<Rightarrow> trimHead st
     | (Inl Panic, st) \<Rightarrow> (Inl Panic, st)
     | (_, st) \<Rightarrow> (Inr (), st)))"

fun closeSegments :: "nat list \<Rightarrow> qstate \<Rightarrow> (hh_error + unit) \<times> qstate" where
  "closeSegments [] st = (Inr (), st)"
| "closeSegments (p # ps) st = check (on_seg p segment_close st) (\<lambda>_ st. closeSegments ps st)"

definition Close :: "qstate \<Rightarrow> (hh_error + unit) \<times> qstate" where
  "Close st = check (closeSegments (segs (fst st)) st) (\<lambda>_ (q, d).
     (Inr (), q\<lparr>q_head := None, q_tail := None, q_segments := None\<rparr>, d))"

definition Remove :: "qstate \<Rightarrow> (hh_error + unit) \<times> qstate" where
  "Remove st = (case st of (q, d) \<Rightarrow>
     if q_head q \<noteq> None \<or> q_tail q \<noteq> None \<or> q_segments q \<noteq> None then (Inl ErrQueueIsOpen, q, d)
     else (case RemoveAll d of (r, d) \<Rightarrow> (r, q, d)))"

definition SetMaxSegmentSize :: "int \<Rightarrow> qstate \<Rightarrow> (hh_error + unit) \<times> qstate" where
  "SetMaxSegmentSize sz st = (case st of (q, d) \<Rightarrow>
     let q = q\<lparr>q_maxSegmentSize := sz,
       q_heap := foldl (\<lambda>hp p. hp[p := segment_SetMaxSegmentSize sz (hp ! p)]) (q_heap q) (segs q)\<rparr> in
     case q_tail q of
       None \<Rightarrow> (Inl Panic, q, d)
     | Some t \<Rightarrow>
         if segment_diskUsage (q_heap q ! t) \<ge> q_maxSegmentSize q then
           check (addSegment (q, d)) (\<lambda>p (q, d). (Inr (), q\<lparr>q_tail := Some p\<rparr>, d))
         else (Inr (), q, d))"

text \<open>
  Times are nanoseconds since Go's zero time. The purge loop ends when the head segment is young
  enough; it is a partial function, whose value \<open>None\<close> is a loop that never ends.
\<close>

definition Truncate :: "int \<Rightarrow> int \<Rightarrow> int" where
  "Truncate t u = t - t mod u"

partial_function (option) purgeLoop :: "int \<Rightarrow> qstate \<Rightarrow> ((hh_error + unit) \<times> qstate) option" where
  "purgeLoop cutoff st =
     (case q_head (fst st) of
        None \<Rightarrow> Some (Inl Panic, st)
      | Some h \<Rightarrow>
          (case on_seg h segment_lastModified st of
             (Inl e, st) \<Rightarrow> Some (Inl e, st)
           | (Inr m, st) \<Rightarrow>
               if m \<ge> cutoff then Some (Inr (), st)
               else
                 (case (if length (segs (fst st)) = 1
                        then check (addSegment st) (\<lambda>_ st. (Inr (), st)) else (Inr (), st)) of
                    (Inl e, st) \<Rightarrow> Some (Inl e, st)
                  | (Inr _, st) \<Rightarrow>
                      (case trimHead st of
                         (Inl e, st) \<Rightarrow> Some (Inl e, st)
                       | (Inr _, st) \<Rightarrow> purgeLoop cutoff st))))"

definition PurgeOlderThan :: "int \<Rightarrow> qstate \<Rightarrow> ((hh_error + unit) \<times> qstate) option" where
  "PurgeOlderThan when st =
     (if length (segs (fst st)) = 0 then Some (Inr (), st)
      else purgeLoop (Truncate when 1000000000) st)"

definition LastModified :: "qstate \<Rightarrow> (hh_error + int) \<times> qstate" where
  "LastModified st = (case q_tail (fst st) of
     Some t \<Rightarrow> on_seg t segment_lastModified st
   | None \<Rightarrow> (Inr 0, st))"

definition format_int :: "int \<Rightarrow> string" where
  "format_int x = (if x < 0 then CHR ''-'' # decimal (nat (- x)) else decimal (nat x))"

definition format_pos :: "string \<Rightarrow> string \<Rightarrow> int \<Rightarrow> string" where
  "format_pos dir path pos = dir @ ''/'' @ path @ '':'' @ format_int pos"

definition Position :: "qstate \<Rightarrow> queuePos \<times> qstate" where
  "Position st = (case st of (q, d) \<Rightarrow>
     let head = (case q_head q of None \<Rightarrow> []
         | Some h \<Rightarrow> format_pos (q_dir q) (s_path (q_heap q ! h)) (s_pos (q_heap q ! h))) in
     case q_tail q of
       None \<Rightarrow> (\<lparr>qp_head = head, qp_tail = []\<rparr>, q, d)
     | Some t \<Rightarrow> (case filePos (q_heap q ! t, d) of (n, s, d) \<Rightarrow>
         (\<lparr>qp_head = head, qp_tail = format_pos (q_dir q) (s_path s) n\<rparr>, q, d)))"

definition Append :: "byte list \<Rightarrow> qstate \<Rightarrow> (hh_error + unit) \<times> qstate" where
  "Append b st = (case st of (q, d) \<Rightarrow>
     (case q_tail q of
        None \<Rightarrow> (Inl ErrNotOpen, q, d)
      | Some t \<Rightarrow>
          if i64 (diskUsage q + int (length b)) > q_maxSize q then (Inl ErrQueueFull, q, d)
          else
            (case on_seg t (segment_append b) (q, d) of
               (Inl ErrSegmentFull, st) \<Rightarrow>
                 check (addSegment st) (\<lambda>p (q, d).
                 on_seg p (segment_append b) (q\<lparr>q_tail := Some p\<rparr>, d))
             | (_, st) \<Rightarrow> (Inr (), st))))"

definition Current :: "qstate \<Rightarrow> (hh_error + byte list) \<times> qstate" where
  "Current st = (case q_head (fst st) of
     None \<Rightarrow> (Inl ErrNotOpen, st)
   | Some h \<Rightarrow> on_seg h segment_current st)"

definition Advance :: "qstate \<Rightarrow> (hh_error + unit) \<times> qstate" where
  "Advance st = (case q_head (fst st) of
     None \<Rightarrow> (Inl ErrNotOpen, st)
   | Some h \<Rightarrow>
       (case on_seg h segment_advance st of
          (Inl EOF, st) \<Rightarrow> check (trimHead st) (\<lambda>_ st. (Inr (), st))
        | (_, st) \<Rightarrow> (Inr (), st)))"

section \<open>What a queue represents\<close>

definition wf_dir :: "directory \<Rightarrow> bool" where
  "wf_dir d \<longleftrightarrow> distinct (map fst (d_files d)) \<and> (\<forall>n\<in>set (d_subdirs d). ParseUint n = None)"

text \<open>
  \<open>segs_rep q d rs\<close>: the segments of \<open>q\<close> represent, in order, the pairs \<open>rs\<close> of consumed and
  pending blocks; \<open>queue_rep\<close> adds that the queue is open, with \<open>head\<close> and \<open>tail\<close> pointing at the
  first and the last segment.
\<close>

definition segs_rep :: "queue \<Rightarrow> directory \<Rightarrow> (byte list list \<times> byte list list) list \<Rightarrow> bool" where
  "segs_rep q d rs \<longleftrightarrow>
     q_segments q \<noteq> None \<and> distinct (segs q) \<and> (\<forall>p\<in>set (segs q). p < length (q_heap q)) \<and>
     list_all2 (\<lambda>p r. seg_rep (q_heap q ! p) d (fst r) (snd r)) (segs q) rs \<and>
     distinct (map (\<lambda>p. s_path (q_heap q ! p)) (segs q)) \<and>
     (\<forall>p\<in>set (segs q). ParseUint (s_path (q_heap q ! p)) \<noteq> None \<and>
        s_maxSize (q_heap q ! p) = q_maxSegmentSize q) \<and>
     wf_dir d"

definition queue_rep :: "queue \<Rightarrow> directory \<Rightarrow> (byte list list \<times> byte list list) list \<Rightarrow> bool" where
  "queue_rep q d rs \<longleftrightarrow> segs_rep q d rs \<and> segs q \<noteq> [] \<and>
     q_head q = Some (hd (segs q)) \<and> q_tail q = Some (last (segs q))"

text \<open>The blocks that remain to be delivered, oldest first.\<close>

definition pending :: "(byte list list \<times> byte list list) list \<Rightarrow> byte list list" where
  "pending rs = concat (map snd rs)"

definition id_left :: "directory \<Rightarrow> bool" where
  "id_left d \<longleftrightarrow> maxSegmentID 0 (dir_entries d) + 1 \<noteq> 0"

lemma pending_append [simp]: "pending (rs @ rs') = pending rs @ pending rs'"
  by (simp add: pending_def)

lemma pending_simps [simp]: "pending [] = []" "pending (r # rs) = snd r @ pending rs"
  by (simp_all add: pending_def)

lemma segs_heap [simp]:
  "segs (q\<lparr>q_heap := hp\<rparr>) = segs q" "segs (q\<lparr>q_tail := t\<rparr>) = segs q"
  "segs (q\<lparr>q_head := t\<rparr>) = segs q" "segs (q\<lparr>q_segments := Some ps\<rparr>) = ps"
  by (simp_all add: segs_def)

lemma maxSegmentID_ge: "m \<le> maxSegmentID m fs"
  by (induction m fs rule: maxSegmentID.induct) (auto split: option.splits intro: order_trans less_imp_le)

lemma maxSegmentID_mem:
  "(n, False) \<in> set fs \<Longrightarrow> ParseUint n = Some v \<Longrightarrow> v \<le> maxSegmentID m fs"
proof (induction m fs rule: maxSegmentID.induct)
  case (2 m n' isDir fs)
  show ?case
  proof (cases "(n, False) \<in> set fs")
    case True
    with 2 show ?thesis by (auto split: option.splits)
  next
    case False
    with 2 have "n' = n" "\<not> isDir" by auto
    then show ?thesis
      using 2 maxSegmentID_ge [of "if m < v then v else m" fs] by (auto split: if_splits)
  qed
qed simp

lemma set_dir_entries:
  "set (dir_entries d) = (\<lambda>n. (n, False)) ` fst ` set (d_files d) \<union> (\<lambda>n. (n, True)) ` set (d_subdirs d)"
  by (auto simp: dir_entries_def)

lemma next_name_fresh:
  assumes "id_left d"
  shows "inode_at d (FormatUint (maxSegmentID 0 (dir_entries d) + 1)) = None"
proof (rule ccontr)
  let ?m = "maxSegmentID 0 (dir_entries d)"
  assume "\<not> ?thesis"
  then have "(FormatUint (?m + 1), False) \<in> set (dir_entries d)"
    by (auto simp: inode_at_def set_dir_entries dest!: map_of_SomeD intro: rev_image_eqI)
  from maxSegmentID_mem [OF this ParseUint_FormatUint] have "?m + 1 \<le> ?m" .
  with assms show False
    using u64_inc_le by (auto simp: id_left_def)
qed

section \<open>Helper steps\<close>

lemma touches_wf_dir: "touches n d d' \<Longrightarrow> wf_dir d \<Longrightarrow> wf_dir d'"
  by (auto simp: touches_def wf_dir_def)

lemma segs_rep_length: "segs_rep q d rs \<Longrightarrow> length rs = length (segs q)"
  by (auto simp: segs_rep_def dest: list_all2_lengthD)

lemma segs_rep_nth:
  assumes "segs_rep q d rs" "i < length (segs q)"
  shows "seg_rep (q_heap q ! (segs q ! i)) d (fst (rs ! i)) (snd (rs ! i))"
  using assms by (auto simp: segs_rep_def list_all2_conv_all_nth)

text \<open>Changing one segment and its file keeps the representation of all others.\<close>

lemma segs_rep_update:
  assumes rep: "segs_rep q d rs" and i: "i < length (segs q)" and p: "p = segs q ! i"
    and s: "seg_rep s' d' dn td" "s_path s' = s_path (q_heap q ! p)"
      "s_maxSize s' = s_maxSize (q_heap q ! p)"
    and t: "touches (s_path (q_heap q ! p)) d d'"
  shows "segs_rep (q\<lparr>q_heap := (q_heap q)[p := s']\<rparr>) d' (rs[i := (dn, td)])"
proof -
  have wf: "distinct (segs q)" "\<forall>p\<in>set (segs q). p < length (q_heap q)"
    "distinct (map (\<lambda>p. s_path (q_heap q ! p)) (segs q))" "wf_dir d"
    and len: "length rs = length (segs q)"
    using rep segs_rep_length [OF rep] by (auto simp: segs_rep_def)
  have path: "s_path ((q_heap q)[p := s'] ! r) = s_path (q_heap q ! r)"
    and max: "s_maxSize ((q_heap q)[p := s'] ! r) = s_maxSize (q_heap q ! r)" if "r < length (q_heap q)" for r
    using s that by (cases "r = p"; simp)+
  have "seg_rep ((q_heap q)[p := s'] ! (segs q ! j)) d' (fst (rs[i := (dn, td)] ! j)) (snd (rs[i := (dn, td)] ! j))"
    if j: "j < length (segs q)" for j
  proof (cases "j = i")
    case True
    with wf s p i len show ?thesis by (simp add: nth_list_update)
  next
    case False
    with wf(1) i j p have ne: "segs q ! j \<noteq> p" by (simp add: nth_eq_iff_index_eq)
    with wf(3) i j p False have "s_path (q_heap q ! p) \<noteq> s_path (q_heap q ! (segs q ! j))"
      by (auto simp: distinct_conv_nth)
    from seg_rep_frame [OF segs_rep_nth [OF rep j] t this] show ?thesis
      using ne False by simp
  qed
  then show ?thesis
    using rep wf len path max touches_wf_dir [OF t]
    by (auto simp: segs_rep_def list_all2_conv_all_nth cong: map_cong)
qed

lemma on_seg_simp: "f (q_heap q ! p, d) = (r, s', d') \<Longrightarrow>
  on_seg p f (q, d) = (r, q\<lparr>q_heap := (q_heap q)[p := s']\<rparr>, d')"
  by (simp add: on_seg_def)

lemma addSegment_ok:
  assumes rep: "segs_rep q d rs" and nf: "d_faults d = []" and id: "id_left d"
  obtains s d' where
    "addSegment (q, d) = (Inr (length (q_heap q)), q\<lparr>q_heap := q_heap q @ [s],
       q_segments := Some (segs q @ [length (q_heap q)])\<rparr>, d')"
    "segs_rep (q\<lparr>q_heap := q_heap q @ [s], q_segments := Some (segs q @ [length (q_heap q)])\<rparr>) d'
       (rs @ [([], [])])"
    "s_size s = 8" "s_path s = FormatUint (maxSegmentID 0 (dir_entries d) + 1)"
    "d_faults d' = []" "d_clock d' = d_clock d"
    "inode_at d' = (inode_at d)(s_path s := Some \<lparr>i_data = PutUint64 0, i_mtime = d_clock d\<rparr>)"
    "touches (s_path s) d' d'"
proof -
  let ?n = "FormatUint (maxSegmentID 0 (dir_entries d) + 1)"
  have new: "inode_at d ?n = None" by (rule next_name_fresh [OF id])
  have nd: "?n \<notin> set (d_subdirs d)"
    using rep by (auto simp: segs_rep_def wf_dir_def)
  from newSegment_fresh [OF nf new nd, of "q_maxSegmentSize q"] obtain s d' where
    s: "newSegment ?n (q_maxSegmentSize q) d = (Inr s, d')" "seg_rep s d' [] []" "s_path s = ?n"
      "s_maxSize s = q_maxSegmentSize q" "s_size s = 8"
    and d': "d_faults d' = []" "d_clock d' = d_clock d" "d_subdirs d' = d_subdirs d"
      "inode_at d' = (inode_at d)(?n := Some \<lparr>i_data = PutUint64 0, i_mtime = d_clock d\<rparr>)"
      "distinct (map fst (d_files d)) \<longrightarrow> distinct (map fst (d_files d'))"
    by blast
  let ?q = "q\<lparr>q_heap := q_heap q @ [s], q_segments := Some (segs q @ [length (q_heap q)])\<rparr>"
  have add: "addSegment (q, d) = (Inr (length (q_heap q)), ?q, d')"
    using nf s(1) by (simp add: addSegment_def nextSegmentID_def ReadDir_def)
  have ps: "p < length (q_heap q)" "s_path (q_heap q ! p) \<noteq> ?n" if "p \<in> set (segs q)" for p
    using rep that new
    by (auto simp: segs_rep_def list_all2_conv_all_nth seg_rep_def in_set_conv_nth)
  have old: "seg_rep (q_heap q ! p) d' dn td"
    if "seg_rep (q_heap q ! p) d dn td" "p \<in> set (segs q)" for p dn td
    using that ps [OF that(2)] d'(4) by (auto simp: seg_rep_def)
  have l2: "list_all2 (\<lambda>p r. seg_rep ((q_heap q @ [s]) ! p) d' (fst r) (snd r)) (segs q) rs"
    using rep ps(1) old unfolding segs_rep_def list_all2_conv_all_nth by (simp add: nth_append)
  have "segs_rep ?q d' (rs @ [([], [])])"
    unfolding segs_rep_def
  proof (intro conjI)
    show "distinct (map (\<lambda>p. s_path (q_heap ?q ! p)) (segs ?q))"
      using rep ps(1) ps(2) [folded s(3)] by (force simp: segs_rep_def nth_append cong: map_cong)
  qed (use rep l2 s d' ps(1) in \<open>auto simp: segs_rep_def nth_append wf_dir_def intro: list_all2_appendI less_SucI\<close>)
  with add s d' show ?thesis by (intro that [of s d']) auto
qed

section \<open>Disk usage\<close>

definition usage :: "queue \<Rightarrow> int" where
  "usage q = sum_list (map (\<lambda>p. s_size (q_heap q ! p)) (segs q))"

lemma seg_rep_size: "seg_rep s d dn td \<Longrightarrow> 8 \<le> s_size s \<and> s_size s < 2 ^ 63"
  by (auto simp: seg_rep_def)

lemma seg_size_le_usage:
  assumes rep: "segs_rep q d rs" and p: "p \<in> set (segs q)"
  shows "8 \<le> s_size (q_heap q ! p)" "s_size (q_heap q ! p) \<le> usage q"
proof -
  have pos: "8 \<le> s_size (q_heap q ! r)" if "r \<in> set (segs q)" for r
    using that segs_rep_nth [OF rep] seg_rep_size by (metis in_set_conv_nth)
  show "8 \<le> s_size (q_heap q ! p)" by (rule pos [OF p])
  have "\<forall>x\<in>set (map (\<lambda>p. s_size (q_heap q ! p)) (segs q)). 0 \<le> x" using pos by force
  then show "s_size (q_heap q ! p) \<le> usage q"
    unfolding usage_def using p by (intro member_le_sum_list) auto
qed

lemma foldl_i64_sum:
  assumes "\<forall>x\<in>set xs. 0 \<le> f x" "0 \<le> a" "a + sum_list (map f xs) < 2 ^ 63"
  shows "foldl (\<lambda>sz p. i64 (sz + f p)) a xs = a + sum_list (map f xs)"
  using assms
proof (induction xs arbitrary: a)
  case (Cons x xs)
  have "0 \<le> sum_list (map f xs)" using Cons.prems(1) by (intro sum_list_nonneg) auto
  then have "i64 (a + f x) = a + f x" using Cons.prems by simp
  then show ?case using Cons by (simp add: add.assoc)
qed simp

lemma diskUsage_usage:
  assumes "segs_rep q d rs" "usage q < 2 ^ 63"
  shows "diskUsage q = usage q"
  using assms seg_size_le_usage(1) [OF assms(1)]
  unfolding diskUsage_def usage_def segment_diskUsage_def
  by (subst foldl_i64_sum) fastforce+

lemma usage_update:
  assumes "segs_rep q d rs" "p \<in> set (segs q)"
  shows "usage (q\<lparr>q_heap := (q_heap q)[p := s]\<rparr>) = usage q - s_size (q_heap q ! p) + s_size s"
proof -
  have d: "distinct (segs q)" and h: "\<forall>p\<in>set (segs q). p < length (q_heap q)"
    using assms by (auto simp: segs_rep_def)
  have "usage (q\<lparr>q_heap := (q_heap q)[p := s]\<rparr>) = (\<Sum>r\<in>set (segs q). s_size ((q_heap q)[p := s] ! r))"
    using d by (simp add: usage_def sum_list_distinct_conv_sum_set)
  also have "\<dots> = (\<Sum>r\<in>set (segs q) - {p}. s_size (q_heap q ! r)) + s_size s"
    using assms(2) h by (subst sum.remove [of _ p]) (auto intro: sum.cong)
  also have "(\<Sum>r\<in>set (segs q) - {p}. s_size (q_heap q ! r)) = usage q - s_size (q_heap q ! p)"
    using d assms(2) by (simp add: usage_def sum_list_distinct_conv_sum_set sum.remove [of _ p])
  finally show ?thesis .
qed

section \<open>Segment identifiers\<close>

lemma maxSegmentID_le_iff:
  "maxSegmentID m fs \<le> x \<longleftrightarrow>
     m \<le> x \<and> (\<forall>n v. (n, False) \<in> set fs \<longrightarrow> ParseUint n = Some v \<longrightarrow> v \<le> x)"
  by (induction m fs rule: maxSegmentID.induct) (auto split: option.splits if_splits)

text \<open>The number of identifiers that \<open>nextSegmentID\<close> can still hand out before it wraps to 0.\<close>

definition ids_left :: "directory \<Rightarrow> nat" where
  "ids_left d = 2 ^ 64 - 1 - unat (maxSegmentID 0 (dir_entries d))"

lemma entry_inode: "(n, False) \<in> set (dir_entries d) \<longleftrightarrow> inode_at d n \<noteq> None"
  by (auto simp: set_dir_entries inode_at_def map_of_eq_None_iff)

lemma maxSegmentID_dir_le:
  "maxSegmentID 0 (dir_entries d) \<le> x \<longleftrightarrow>
     (\<forall>n v. inode_at d n \<noteq> None \<longrightarrow> ParseUint n = Some v \<longrightarrow> v \<le> x)"
  by (simp add: maxSegmentID_le_iff entry_inode)

lemma maxSegmentID_dir_bound:
  "inode_at d n \<noteq> None \<Longrightarrow> ParseUint n = Some v \<Longrightarrow> v \<le> maxSegmentID 0 (dir_entries d)"
  using maxSegmentID_dir_le [of d "maxSegmentID 0 (dir_entries d)"] by simp

lemma ids_left_mono:
  assumes "\<forall>n. inode_at d' n \<noteq> None \<longrightarrow> inode_at d n \<noteq> None"
  shows "ids_left d \<le> ids_left d'"
proof -
  have "maxSegmentID 0 (dir_entries d') \<le> maxSegmentID 0 (dir_entries d)"
    using assms maxSegmentID_dir_bound [of d] unfolding maxSegmentID_dir_le by blast
  then show ?thesis by (auto simp: ids_left_def word_le_nat_alt intro: diff_le_mono2)
qed

lemma touches_ids_left: "touches n d d' \<Longrightarrow> ids_left d \<le> ids_left d'"
  by (intro ids_left_mono allI) (metis touches_def)

lemma ids_left_add:
  assumes "inode_at d' = (inode_at d)(FormatUint (maxSegmentID 0 (dir_entries d) + 1) := Some i)" "id_left d"
  shows "ids_left d - 1 \<le> ids_left d'"
proof -
  let ?m = "maxSegmentID 0 (dir_entries d)"
  have succ: "unat (?m + 1) = unat ?m + 1" using assms(2) by (simp add: id_left_def unatSuc add.commute)
  have "v \<le> ?m + 1" if "inode_at d' n \<noteq> None" "ParseUint n = Some v" for n v
  proof (cases "n = FormatUint (?m + 1)")
    case True
    with that show ?thesis by (simp add: ParseUint_FormatUint)
  next
    case False
    with that assms(1) have "v \<le> ?m" by (intro maxSegmentID_dir_bound) simp
    with succ show ?thesis by (simp add: word_le_nat_alt)
  qed
  then have "maxSegmentID 0 (dir_entries d') \<le> ?m + 1" by (simp add: maxSegmentID_dir_le)
  with succ show ?thesis by (simp add: ids_left_def word_le_nat_alt)
qed

lemma id_left_iff: "id_left d \<longleftrightarrow> 0 < ids_left d"
  by (simp add: id_left_def ids_left_def u64_inc_nonzero)

end
