(* ===== verification/Queue_Ops.thy ===== *)
theory Queue_Ops
  imports Queue
begin

text \<open>
  What the operations of the queue do to the blocks it represents, when no system call fails:
  \<open>Append\<close> on its three outcomes, \<open>Current\<close>, \<open>trimHead\<close> and \<open>Advance\<close>.
\<close>

section \<open>Append\<close>

text \<open>The open queue of the theorems: no pending failure, and sizes far from the range of \<open>int64\<close>.\<close>

definition queue_ok :: "qstate \<Rightarrow> (byte list list \<times> byte list list) list \<Rightarrow> bool" where
  "queue_ok st rs \<longleftrightarrow> (case st of (q, d) \<Rightarrow>
     queue_rep q d rs \<and> d_faults d = [] \<and> usage q \<le> 2 ^ 62 \<and> q_maxSize q + 16 \<le> 2 ^ 62)"

lemma queue_rep_tail:
  assumes "queue_rep q d rs"
  shows "q_tail q = Some (last (segs q))" "last (segs q) \<in> set (segs q)"
    "seg_rep (q_heap q ! last (segs q)) d (fst (last rs)) (snd (last rs))"
    "last (segs q) = segs q ! (length rs - 1)" "length rs - 1 < length (segs q)" "rs \<noteq> []"
proof -
  from assms have rep: "segs_rep q d rs" and ne: "segs q \<noteq> []" and t: "q_tail q = Some (last (segs q))"
    by (auto simp: queue_rep_def)
  have len: "length rs = length (segs q)" by (rule segs_rep_length [OF rep])
  show "q_tail q = Some (last (segs q))" "last (segs q) \<in> set (segs q)" using ne t by simp_all
  show l: "last (segs q) = segs q ! (length rs - 1)" "length rs - 1 < length (segs q)" "rs \<noteq> []"
    using ne len by (auto simp: last_conv_nth)
  show "seg_rep (q_heap q ! last (segs q)) d (fst (last rs)) (snd (last rs))"
    using segs_rep_nth [OF rep l(2)] l len by (simp add: last_conv_nth)
qed

lemma pending_snoc:
  assumes "rs \<noteq> []"
  shows "pending (rs[length rs - 1 := (dn, snd (last rs) @ bs)]) = pending rs @ bs"
  using assms by (cases rs rule: rev_cases) (simp_all add: list_update_append)

lemma Append_room:
  assumes ok: "queue_ok (q, d) rs" and room: "usage q + int (length b) \<le> q_maxSize q"
    and t: "s_size (q_heap q ! last (segs q)) + int (length b) \<le> q_maxSegmentSize q"
  obtains q' d' where "Append b (q, d) = (Inr (), q', d')"
    "queue_ok (q', d') (rs[length rs - 1 := (fst (last rs), snd (last rs) @ [b])])"
    "ids_left d \<le> ids_left d'" "q_maxSize q' = q_maxSize q" "q_maxSegmentSize q' = q_maxSegmentSize q"
    "usage q' = usage q + int (length b) + 8"
proof -
  let ?t = "last (segs q)"
  from ok have rep: "queue_rep q d rs" and nf: "d_faults d = []" and us: "usage q \<le> 2 ^ 62"
    and mx: "q_maxSize q + 16 \<le> 2 ^ 62" by (auto simp: queue_ok_def)
  then have srep: "segs_rep q d rs" by (simp add: queue_rep_def)
  note tl = queue_rep_tail [OF rep]
  have max: "s_maxSize (q_heap q ! ?t) = q_maxSegmentSize q" using srep tl(2) by (auto simp: segs_rep_def)
  have sz: "s_size (q_heap q ! ?t) \<le> usage q" by (rule seg_size_le_usage(2) [OF srep tl(2)])
  have lt: "?t < length (q_heap q)" using srep tl(2) by (auto simp: segs_rep_def)
  from segment_append_ok [OF tl(3) nf, of b] t max sz room mx obtain s' d' where
    app: "segment_append b (q_heap q ! ?t, d) = (Inr (), s', d')"
    and s': "seg_rep s' d' (fst (last rs)) (snd (last rs) @ [b])" "touches (s_path (q_heap q ! ?t)) d d'"
      "s_path s' = s_path (q_heap q ! ?t)" "s_maxSize s' = s_maxSize (q_heap q ! ?t)"
      "s_size s' = s_size (q_heap q ! ?t) + int (length b) + 8" by auto
  let ?q = "q\<lparr>q_heap := (q_heap q)[?t := s']\<rparr>"
  have A: "Append b (q, d) = (Inr (), ?q, d')"
    using tl(1) app diskUsage_usage [OF srep] us room mx seg_size_le_usage [OF srep tl(2)]
    by (simp add: Append_def on_seg_def)
  have U: "usage ?q = usage q + int (length b) + 8"
    using usage_update [OF srep tl(2)] s'(5) by simp
  have "segs_rep ?q d' (rs[length rs - 1 := (fst (last rs), snd (last rs) @ [b])])"
    using segs_rep_update [OF srep tl(5) tl(4) s'(1,3,4,2)] .
  then have "queue_ok (?q, d') (rs[length rs - 1 := (fst (last rs), snd (last rs) @ [b])])"
    using rep nf U mx room touches_faults [OF s'(2)] by (auto simp: queue_ok_def queue_rep_def)
  moreover have "ids_left d \<le> ids_left d'" by (rule touches_ids_left [OF s'(2)])
  ultimately show ?thesis using A U by (intro that) auto
qed

text \<open>
  When the tail has no room, a new tail segment is added first. It is left behind, empty, when the
  block does not fit into a segment at all.
\<close>

lemma addSegment_tail:
  assumes ok: "queue_ok (q, d) rs" and us: "usage q + 8 \<le> 2 ^ 62" and id: "id_left d"
  obtains s d' where
    "addSegment (q, d) = (Inr (length (q_heap q)), q\<lparr>q_heap := q_heap q @ [s],
       q_segments := Some (segs q @ [length (q_heap q)])\<rparr>, d')"
    "queue_ok (q\<lparr>q_heap := q_heap q @ [s], q_segments := Some (segs q @ [length (q_heap q)]),
       q_tail := Some (length (q_heap q))\<rparr>, d') (rs @ [([], [])])"
    "seg_rep s d' [] []" "s_size s = 8" "s_maxSize s = q_maxSegmentSize q"
    "usage (q\<lparr>q_heap := q_heap q @ [s], q_segments := Some (segs q @ [length (q_heap q)])\<rparr>) = usage q + 8"
    "ids_left d - 1 \<le> ids_left d'" "d_clock d' = d_clock d"
    "inode_at d' (s_path s) = Some \<lparr>i_data = PutUint64 0, i_mtime = d_clock d\<rparr>"
proof -
  from ok have rep: "queue_rep q d rs" and nf: "d_faults d = []"
    and mx: "q_maxSize q + 16 \<le> 2 ^ 62" by (auto simp: queue_ok_def)
  then have srep: "segs_rep q d rs" by (simp add: queue_rep_def)
  from addSegment_ok [OF srep nf id] obtain s d' where
    add: "addSegment (q, d) = (Inr (length (q_heap q)), q\<lparr>q_heap := q_heap q @ [s],
       q_segments := Some (segs q @ [length (q_heap q)])\<rparr>, d')"
    and nrep: "segs_rep (q\<lparr>q_heap := q_heap q @ [s], q_segments := Some (segs q @ [length (q_heap q)])\<rparr>) d'
       (rs @ [([], [])])" (is "segs_rep ?q d' _")
    and s: "s_size s = 8" "s_path s = FormatUint (maxSegmentID 0 (dir_entries d) + 1)"
    and d': "d_faults d' = []" "d_clock d' = d_clock d"
      "inode_at d' = (inode_at d)(s_path s := Some \<lparr>i_data = PutUint64 0, i_mtime = d_clock d\<rparr>)"
    by blast
  have "segs q \<noteq> []" using rep by (simp add: queue_rep_def)
  have heap: "map (\<lambda>p. s_size ((q_heap q @ [s]) ! p)) (segs q) = map (\<lambda>p. s_size (q_heap q ! p)) (segs q)"
    using srep by (auto simp: segs_rep_def nth_append)
  have U: "usage ?q = usage q + 8" using arg_cong [OF heap, of sum_list] s by (simp add: usage_def)
  have "seg_rep s d' [] []" using segs_rep_nth [OF nrep, of "length (segs q)"] segs_rep_length [OF srep]
    by (simp add: nth_append)
  moreover have "s_maxSize s = q_maxSegmentSize q" "ParseUint (s_path s) \<noteq> None"
    using nrep by (auto simp: segs_rep_def)
  moreover have "queue_ok (?q\<lparr>q_tail := Some (length (q_heap q))\<rparr>, d') (rs @ [([], [])])"
    using rep nrep d'(1) U us mx
    by (auto simp: queue_ok_def queue_rep_def segs_rep_def usage_def segs_def)
  moreover have "ids_left d - 1 \<le> ids_left d'" using ids_left_add [OF _ id, of d'] d'(3) s(2) by simp
  ultimately show ?thesis using add U s d' \<open>segs q \<noteq> []\<close> by (intro that [of s d']) auto
qed

lemma Append_new_segment:
  assumes ok: "queue_ok (q, d) rs" and room: "usage q + int (length b) \<le> q_maxSize q"
    and t: "q_maxSegmentSize q < s_size (q_heap q ! last (segs q)) + int (length b)" and id: "id_left d"
  obtains q' d' where
    "Append b (q, d) = (if 8 + int (length b) \<le> q_maxSegmentSize q then Inr () else Inl ErrSegmentFull, q', d')"
    "queue_ok (q', d') (rs @ [([], if 8 + int (length b) \<le> q_maxSegmentSize q then [b] else [])])"
    "ids_left d - 1 \<le> ids_left d'" "q_maxSize q' = q_maxSize q" "q_maxSegmentSize q' = q_maxSegmentSize q"
    "usage q' = usage q + (if 8 + int (length b) \<le> q_maxSegmentSize q then int (length b) + 16 else 8)"
proof -
  let ?t = "last (segs q)" and ?n = "length (q_heap q)"
  from ok have rep: "queue_rep q d rs" and us: "usage q \<le> 2 ^ 62"
    and mx: "q_maxSize q + 16 \<le> 2 ^ 62" by (auto simp: queue_ok_def)
  then have srep: "segs_rep q d rs" by (simp add: queue_rep_def)
  note tl = queue_rep_tail [OF rep]
  have max: "s_maxSize (q_heap q ! ?t) = q_maxSegmentSize q" using srep tl(2) by (auto simp: segs_rep_def)
  note sz = seg_size_le_usage [OF srep tl(2)]
  have full: "segment_append b (q_heap q ! ?t, d) = (Inl ErrSegmentFull, q_heap q ! ?t, d)"
    using tl(3) t max sz room mx by (intro segment_append_full) auto
  have us8: "usage q + 8 \<le> 2 ^ 62" using room mx by simp
  from addSegment_tail [OF ok us8 id] obtain s d1 where
    add: "addSegment (q, d) = (Inr ?n, q\<lparr>q_heap := q_heap q @ [s], q_segments := Some (segs q @ [?n])\<rparr>, d1)"
    and ok1: "queue_ok (q\<lparr>q_heap := q_heap q @ [s], q_segments := Some (segs q @ [?n]), q_tail := Some ?n\<rparr>, d1)
       (rs @ [([], [])])" (is "queue_ok (?q1, d1) ?rs1")
    and s: "seg_rep s d1 [] []" "s_size s = 8" "s_maxSize s = q_maxSegmentSize q"
    and U: "usage (q\<lparr>q_heap := q_heap q @ [s], q_segments := Some (segs q @ [?n])\<rparr>) = usage q + 8"
    and ids: "ids_left d - 1 \<le> ids_left d1"
    by blast
  have U1: "usage ?q1 = usage q + 8" using U by (simp add: usage_def)
  have A: "Append b (q, d) = on_seg ?n (segment_append b) (?q1, d1)"
    using tl(1) full add diskUsage_usage [OF srep] us room mx sz
    by (simp add: Append_def on_seg_def)
  show ?thesis
  proof (cases "8 + int (length b) \<le> q_maxSegmentSize q")
    case False
    then have "segment_append b (s, d1) = (Inl ErrSegmentFull, s, d1)"
      using s room mx sz by (intro segment_append_full) auto
    then have "Append b (q, d) = (Inl ErrSegmentFull, ?q1, d1)"
      using A by (simp add: on_seg_def list_update_append)
    then show ?thesis using False ok1 U1 ids by (intro that [of ?q1 d1]) auto
  next
    case True
    from segment_append_ok [OF s(1) _, of b] ok1 True s room mx sz obtain s' d' where
      app: "segment_append b (s, d1) = (Inr (), s', d')"
      and s': "seg_rep s' d' [] [b]" "touches (s_path s) d1 d'" "s_path s' = s_path s"
        "s_maxSize s' = s_maxSize s" "s_size s' = 8 + int (length b) + 8" by (auto simp: queue_ok_def)
    let ?q2 = "?q1\<lparr>q_heap := (q_heap ?q1)[?n := s']\<rparr>"
    have A2: "Append b (q, d) = (Inr (), ?q2, d')" using A app by (simp add: on_seg_def)
    have srep1: "segs_rep ?q1 d1 ?rs1" using ok1 by (simp add: queue_ok_def queue_rep_def)
    have "segs_rep ?q2 d' (?rs1[length (segs q) := ([], [b])])"
      using s' by (intro segs_rep_update [OF srep1]) auto
    then have r: "segs_rep ?q2 d' (rs @ [([], [b])])"
      using segs_rep_length [OF srep] by (simp add: list_update_append)
    have U2: "usage ?q2 = usage q + int (length b) + 16"
      using usage_update [OF srep1, of ?n s'] U1 s s'(5) by simp
    have "queue_ok (?q2, d') (rs @ [([], [b])])"
      using r ok1 U2 room mx touches_faults [OF s'(2)] by (auto simp: queue_ok_def queue_rep_def)
    then show ?thesis using True A2 U2 order_trans [OF ids touches_ids_left [OF s'(2)]]
      by (intro that [of ?q2 d']) auto
  qed
qed

section \<open>Current and Advance\<close>

lemma queue_rep_head:
  assumes "queue_rep q d rs"
  shows "q_head q = Some (hd (segs q))" "hd (segs q) \<in> set (segs q)" "0 < length (segs q)"
    "hd (segs q) = segs q ! 0" "seg_rep (q_heap q ! hd (segs q)) d (fst (hd rs)) (snd (hd rs))"
    "rs = hd rs # tl rs" "s_maxSize (q_heap q ! hd (segs q)) = q_maxSegmentSize q"
proof -
  from assms have rep: "segs_rep q d rs" and ne: "segs q \<noteq> []" and h: "q_head q = Some (hd (segs q))"
    by (auto simp: queue_rep_def)
  show "q_head q = Some (hd (segs q))" "hd (segs q) \<in> set (segs q)" using ne h by simp_all
  show l: "0 < length (segs q)" "hd (segs q) = segs q ! 0" using ne by (auto simp: hd_conv_nth)
  have "rs \<noteq> []" using segs_rep_length [OF rep] ne by auto
  then show "rs = hd rs # tl rs" by simp
  from \<open>rs \<noteq> []\<close> show "seg_rep (q_heap q ! hd (segs q)) d (fst (hd rs)) (snd (hd rs))"
    using segs_rep_nth [OF rep l(1)] l(2) by (simp add: hd_conv_nth)
  show "s_maxSize (q_heap q ! hd (segs q)) = q_maxSegmentSize q"
    using rep ne by (auto simp: segs_rep_def)
qed

lemma queue_ok_head_update:
  assumes ok: "queue_ok (q, d) rs" and h: "h = hd (segs q)"
    and s: "seg_rep s' d' dn td" "s_path s' = s_path (q_heap q ! h)"
      "s_maxSize s' = s_maxSize (q_heap q ! h)" "s_size s' = s_size (q_heap q ! h)"
    and t: "touches (s_path (q_heap q ! h)) d d'"
  shows "queue_ok (q\<lparr>q_heap := (q_heap q)[h := s']\<rparr>, d') ((dn, td) # tl rs)"
    "usage (q\<lparr>q_heap := (q_heap q)[h := s']\<rparr>) = usage q"
proof -
  from ok have rep: "queue_rep q d rs" and srep: "segs_rep q d rs"
    by (auto simp: queue_ok_def queue_rep_def)
  note hd = queue_rep_head [OF rep]
  show U: "usage (q\<lparr>q_heap := (q_heap q)[h := s']\<rparr>) = usage q"
    using usage_update [OF srep hd(2)] s(4) h by simp
  have "segs_rep (q\<lparr>q_heap := (q_heap q)[h := s']\<rparr>) d' (rs[0 := (dn, td)])"
    using segs_rep_update [OF srep hd(3) _ s(1-3) t] hd(4) h by simp
  also have "rs[0 := (dn, td)] = (dn, td) # tl rs" by (subst hd(6)) simp
  finally show "queue_ok (q\<lparr>q_heap := (q_heap q)[h := s']\<rparr>, d') ((dn, td) # tl rs)"
    using ok U touches_faults [OF t] by (auto simp: queue_ok_def queue_rep_def)
qed

definition head_result :: "int \<Rightarrow> byte list list \<Rightarrow> hh_error + byte list" where
  "head_result m td = (case td of [] \<Rightarrow> Inl EOF
     | b # _ \<Rightarrow> if m < int (length b) then Inl ErrRecordOutOfRange else Inr b)"

lemma Current_spec:
  assumes ok: "queue_ok (q, d) rs"
  obtains q' where "Current (q, d) = (head_result (q_maxSegmentSize q) (snd (hd rs)), q', d)"
    "queue_ok (q', d) rs" "usage q' = usage q" "q_maxSegmentSize q' = q_maxSegmentSize q"
    "q_maxSize q' = q_maxSize q"
    "snd (hd rs) \<noteq> [] \<Longrightarrow> s_currentSize (q_heap q' ! hd (segs q')) = int (length (hd (snd (hd rs))))"
proof -
  from ok have rep: "queue_rep q d rs" and srep: "segs_rep q d rs" and nf: "d_faults d = []"
    by (auto simp: queue_ok_def queue_rep_def)
  note hd = queue_rep_head [OF rep]
  let ?h = "hd (segs q)"
  from segment_current_rep [OF hd(5) nf] obtain r s' where
    c: "segment_current (q_heap q ! ?h, d) = (r, s', d)"
    and s': "seg_rep s' d (fst (hd rs)) (snd (hd rs))" "s_path s' = s_path (q_heap q ! ?h)"
      "s_maxSize s' = s_maxSize (q_heap q ! ?h)" "s_size s' = s_size (q_heap q ! ?h)"
    and r: "snd (hd rs) = [] \<longrightarrow> r = Inl EOF"
      "\<forall>b rest. snd (hd rs) = b # rest \<longrightarrow> s_currentSize s' = int (length b) \<and>
       r = (if s_maxSize (q_heap q ! ?h) < int (length b) then Inl ErrRecordOutOfRange else Inr b)"
    by blast
  let ?q = "q\<lparr>q_heap := (q_heap q)[?h := s']\<rparr>"
  have lt: "?h < length (q_heap q)" using srep hd(2) by (auto simp: segs_rep_def)
  have "r = head_result (q_maxSegmentSize q) (snd (hd rs))"
    using r hd(7) by (auto simp: head_result_def split: list.splits)
  then have "Current (q, d) = (head_result (q_maxSegmentSize q) (snd (hd rs)), ?q, d)"
    using hd(1) c by (simp add: Current_def on_seg_def)
  moreover have "queue_ok (?q, d) rs" "usage ?q = usage q"
    using queue_ok_head_update [OF ok refl s' touches_refl] hd(6) by simp_all
  moreover have "s_currentSize (q_heap ?q ! hd (segs ?q)) = int (length (hd (snd (hd rs))))"
    if "snd (hd rs) \<noteq> []" using that r(2) lt by (cases "snd (hd rs)") auto
  ultimately show ?thesis by (intro that [of ?q]) auto
qed

lemma trimHead_single: "length (segs q) \<le> 1 \<Longrightarrow> trimHead (q, d) = (Inr (), q, d)"
  by (simp add: trimHead_def)

lemma trimHead_ok:
  assumes ok: "queue_ok (q, d) rs" and len: "1 < length rs"
  obtains q' d' where "trimHead (q, d) = (Inr (), q', d')" "queue_ok (q', d') (tl rs)"
    "usage q' \<le> usage q" "ids_left d \<le> ids_left d'" "q_maxSegmentSize q' = q_maxSegmentSize q"
    "q_maxSize q' = q_maxSize q" "segs q' = tl (segs q)" "d_clock d' = d_clock d"
    "\<forall>n. n \<noteq> s_path (q_heap q ! hd (segs q)) \<longrightarrow> inode_at d' n = inode_at d n"
    "\<forall>p. p \<noteq> hd (segs q) \<longrightarrow> q_heap q' ! p = q_heap q ! p" "s_file (q_heap q' ! hd (segs q)) = None"
    "q_tail q' = q_tail q"
proof -
  from ok have rep: "queue_rep q d rs" and srep: "segs_rep q d rs" and nf: "d_faults d = []"
    by (auto simp: queue_ok_def queue_rep_def)
  note hd = queue_rep_head [OF rep]
  obtain h p ps where seg: "segs q = h # p # ps"
    using len segs_rep_length [OF srep] by (cases "segs q" rule: list.exhaust; cases "tl (segs q)") auto
  obtain r0 r1 rs' where rs: "rs = r0 # r1 # rs'"
    using len by (cases rs; cases "tl rs") auto
  from hd(5) seg obtain f i where f: "s_file (q_heap q ! h) = Some f"
    and i: "inode_at d (s_path (q_heap q ! h)) = Some i" by (auto simp: seg_rep_def)
  define s where "s = (q_heap q ! h)\<lparr>s_file := None\<rparr>"
  let ?n = "s_path (q_heap q ! h)"
  let ?q = "q\<lparr>q_segments := Some (p # ps), q_heap := (q_heap q)[h := s], q_head := Some p\<rparr>"
  let ?d = "d\<lparr>d_files := AList.delete ?n (d_files d)\<rparr>"
  have lt: "h < length (q_heap q)" and ds: "distinct (h # p # ps)"
    and dp: "distinct (map (\<lambda>p. s_path (q_heap q ! p)) (h # p # ps))"
    using srep seg by (auto simp: segs_rep_def)
  have tr: "trimHead (q, d) = (Inr (), ?q, ?d)"
    using seg hd(1) lt nf i on_file_close_ok [OF f nf]
    by (simp add: trimHead_def on_seg_def Remove_file_def s_def)
  have ne: "s_path (q_heap q ! r) \<noteq> ?n" "(q_heap q)[h := s] ! r = q_heap q ! r" if "r \<in> set (p # ps)" for r
  proof -
    have "r \<noteq> h" using that ds by auto
    then show "(q_heap q)[h := s] ! r = q_heap q ! r" by simp
    show "s_path (q_heap q ! r) \<noteq> ?n" using that dp by (auto simp: image_iff)
  qed
  have fr: "seg_rep (q_heap q ! r) ?d dn td"
    if "seg_rep (q_heap q ! r) d dn td" "r \<in> set (p # ps)" for r dn td
    using that ne(1) by (simp add: seg_rep_def)
  have l2: "list_all2 (\<lambda>r x. seg_rep ((q_heap q)[h := s] ! r) ?d (fst x) (snd x)) (p # ps) (r1 # rs')"
  proof (rule list.rel_mono_strong)
    show "list_all2 (\<lambda>r x. seg_rep (q_heap q ! r) d (fst x) (snd x)) (p # ps) (r1 # rs')"
      using srep by (simp add: segs_rep_def seg rs)
  qed (simp only: ne(2) fr)
  have "segs_rep ?q ?d (tl rs)"
  proof -
    have path: "map (\<lambda>r. s_path ((q_heap q)[h := s] ! r)) (p # ps) = map (\<lambda>r. s_path (q_heap q ! r)) (p # ps)"
      by (rule map_cong [OF refl]) (simp only: ne(2))
    have each: "\<forall>r\<in>set (p # ps). ParseUint (s_path ((q_heap q)[h := s] ! r)) \<noteq> None \<and>
        s_maxSize ((q_heap q)[h := s] ! r) = q_maxSegmentSize q"
    proof
      fix r assume r: "r \<in> set (p # ps)"
      then have "r \<in> set (segs q)" using seg by simp
      then show "ParseUint (s_path ((q_heap q)[h := s] ! r)) \<noteq> None \<and>
          s_maxSize ((q_heap q)[h := s] ! r) = q_maxSegmentSize q"
        using srep by (simp only: ne(2) [OF r] segs_rep_def) blast
    qed
    have wf: "wf_dir ?d" using srep by (simp add: segs_rep_def wf_dir_def distinct_delete)
    have dpath: "distinct (map (\<lambda>r. s_path ((q_heap q)[h := s] ! r)) (p # ps))"
      using dp unfolding path by simp
    have seg': "segs ?q = p # ps" by (simp add: segs_def)
    have q: "q_heap ?q = (q_heap q)[h := s]" "q_maxSegmentSize ?q = q_maxSegmentSize q"
      "q_segments ?q \<noteq> None" "\<forall>r\<in>set (p # ps). r < length ((q_heap q)[h := s])"
      "distinct (p # ps)" using srep ds by (simp_all add: segs_rep_def seg)
    show ?thesis unfolding segs_rep_def seg' q(1,2) rs list.sel
      by (intro conjI q(3-5) l2 dpath each wf)
  qed
  moreover have "usage ?q \<le> usage q"
  proof -
    have "map (\<lambda>r. s_size ((q_heap q)[h := s] ! r)) (p # ps) = map (\<lambda>r. s_size (q_heap q ! r)) (p # ps)"
      by (rule map_cong [OF refl]) (simp only: ne(2))
    from arg_cong [OF this, of sum_list]
    have "usage q = s_size (q_heap q ! h) + usage ?q" unfolding usage_def seg by (simp add: segs_def)
    then show ?thesis using seg_size_le_usage(1) [OF srep hd(2)] seg by simp
  qed
  moreover have "ids_left d \<le> ids_left ?d" by (intro ids_left_mono) auto
  ultimately show ?thesis using tr ok seg lt by (intro that [of ?q ?d]) (auto simp: queue_ok_def queue_rep_def s_def)
qed

text \<open>
  Advancing past the head block. The cached size of the block has to be right, as it is after a
  call of \<open>Current\<close> (and always, unless the block is empty).
\<close>

definition advanced :: "(byte list list \<times> byte list list) list \<Rightarrow> (byte list list \<times> byte list list) list" where
  "advanced rs = (case rs of
     (dn, b # td) # rs' \<Rightarrow> if td = [] \<and> rs' \<noteq> [] then rs' else (dn @ [b], td) # rs'
   | (dn, []) # rs' \<Rightarrow> if rs' = [] then rs else rs'
   | [] \<Rightarrow> [])"

lemma pending_advanced: "pending (advanced rs) = (if rs \<noteq> [] \<and> snd (hd rs) \<noteq> [] then tl (pending rs) else pending rs)"
  by (auto simp: advanced_def split: list.splits)

lemma Advance_ok:
  assumes ok: "queue_ok (q, d) rs"
    and cur: "snd (hd rs) \<noteq> [] \<longrightarrow> s_currentSize (q_heap q ! hd (segs q)) = int (length (hd (snd (hd rs))))"
  obtains q' d' where "Advance (q, d) = (Inr (), q', d')" "queue_ok (q', d') (advanced rs)"
    "usage q' \<le> usage q" "ids_left d \<le> ids_left d'" "q_maxSegmentSize q' = q_maxSegmentSize q"
    "q_maxSize q' = q_maxSize q"
proof -
  from ok have rep: "queue_rep q d rs" and nf: "d_faults d = []"
    by (auto simp: queue_ok_def queue_rep_def)
  note hd = queue_rep_head [OF rep]
  let ?h = "hd (segs q)"
  obtain dn td0 rs' where rs: "rs = (dn, td0) # rs'" using hd(6) by (cases "hd rs") auto
  have "\<exists>s' d1 td. segment_advance (q_heap q ! ?h, d) = (if td = [] then Inl EOF else Inr (), s', d1) \<and>
      seg_rep s' d1 (if td0 = [] then dn else dn @ [hd td0]) td \<and> td = tl td0 \<and>
      touches (s_path (q_heap q ! ?h)) d d1 \<and> s_path s' = s_path (q_heap q ! ?h) \<and>
      s_maxSize s' = s_maxSize (q_heap q ! ?h) \<and> s_size s' = s_size (q_heap q ! ?h)"
  proof (cases td0)
    case Nil
    then have "seg_rep (q_heap q ! ?h) d dn []" using hd(5) rs by simp
    moreover from this have "seg_rep ((q_heap q ! ?h)\<lparr>s_currentSize := 0\<rparr>) d dn []"
      by (auto simp: seg_rep_def current_ok_def)
    ultimately show ?thesis using Nil segment_advance_Nil by auto
  next
    case (Cons b td)
    then have h: "seg_rep (q_heap q ! ?h) d dn (b # td)" "s_currentSize (q_heap q ! ?h) = int (length b)"
      using hd(5) rs cur by simp_all
    from segment_advance_Cons [OF h(1) nf h(2)] obtain s' d1 where
      "segment_advance (q_heap q ! ?h, d) = (if td = [] then Inl EOF else Inr (), s', d1)"
      "seg_rep s' d1 (dn @ [b]) td" "touches (s_path (q_heap q ! ?h)) d d1" "s_path s' = s_path (q_heap q ! ?h)"
      "s_maxSize s' = s_maxSize (q_heap q ! ?h)" "s_size s' = s_size (q_heap q ! ?h)" by blast
    then show ?thesis using Cons by (intro exI [of _ s'] exI [of _ d1] exI [of _ td]) simp
  qed
  then obtain s' d1 where
    a: "segment_advance (q_heap q ! ?h, d) = (if tl td0 = [] then Inl EOF else Inr (), s', d1)"
    and s': "seg_rep s' d1 (if td0 = [] then dn else dn @ [hd td0]) (tl td0)"
      "s_path s' = s_path (q_heap q ! ?h)" "s_maxSize s' = s_maxSize (q_heap q ! ?h)"
      "s_size s' = s_size (q_heap q ! ?h)"
    and t: "touches (s_path (q_heap q ! ?h)) d d1" by blast
  let ?q = "q\<lparr>q_heap := (q_heap q)[?h := s']\<rparr>" and ?r = "(if td0 = [] then dn else dn @ [hd td0], tl td0)"
  have ok1: "queue_ok (?q, d1) (?r # rs')" "usage ?q = usage q"
    using queue_ok_head_update [OF ok refl s' t] rs by simp_all
  have A: "Advance (q, d) = (if tl td0 = [] then trimHead (?q, d1) else (Inr (), ?q, d1))"
    using hd(1) a by (simp add: Advance_def on_seg_def)
  have ids: "ids_left d \<le> ids_left d1" by (rule touches_ids_left [OF t])
  show ?thesis
  proof (cases "tl td0 = [] \<and> rs' \<noteq> []")
    case True
    from True have len: "1 < length (?r # rs')" by simp
    obtain q2 d2 where
      tr: "trimHead (?q, d1) = (Inr (), q2, d2)" "queue_ok (q2, d2) (tl (?r # rs'))" "usage q2 \<le> usage ?q"
        "ids_left d1 \<le> ids_left d2" "q_maxSegmentSize q2 = q_maxSegmentSize ?q" "q_maxSize q2 = q_maxSize ?q"
      by (rule trimHead_ok [OF ok1(1) len]) (rule that)
    have "advanced rs = rs'" using True rs by (cases td0) (simp_all add: advanced_def)
    moreover have "Advance (q, d) = (Inr (), q2, d2)" using True A tr(1) by simp
    ultimately show ?thesis using tr ok1(2) order_trans [OF ids tr(4)] by (intro that [of q2 d2]) simp_all
  next
    case False
    have "segs_rep ?q d1 (?r # rs')" using ok1(1) by (simp add: queue_ok_def queue_rep_def)
    from segs_rep_length [OF this] have "trimHead (?q, d1) = (Inr (), ?q, d1)" if "tl td0 = []"
      using that False by (intro trimHead_single) simp
    then have "Advance (q, d) = (Inr (), ?q, d1)" using A by (cases "tl td0 = []") simp_all
    moreover have "advanced rs = ?r # rs'" using False rs by (cases td0) (auto simp: advanced_def)
    ultimately show ?thesis using ok1 ids by (intro that [of ?q d1]) simp_all
  qed
qed

end
