(* ===== verification/Queue_Fifo.thy ===== *)
theory Queue_Fifo
  imports Queue_Ops
begin

text \<open>
  The contract that the node processor relies on: a producer appends blocks while a consumer reads
  the current block and advances past it. \<open>fifo_run\<close> executes any interleaving of the two over
  given operations; the locale \<open>fifo\<close> states the laws of the operations, from which the order of
  delivery follows once; the disk queue is an instance.
\<close>

section \<open>A producer and a consumer\<close>

datatype 'b event = Put 'b | Get | Drop

record ('s, 'b) trace =
  t_state :: 's
  t_held :: "'b option"
  t_accepted :: "'b list"
  t_delivered :: "'b list"

text \<open>
  The consumer advances only past a block that it has read (\<open>t_held\<close>); reading again before it
  advances is a retry.
\<close>

fun fifo_step :: "('b \<Rightarrow> 's \<Rightarrow> ('e + unit) \<times> 's) \<Rightarrow> ('s \<Rightarrow> ('e + 'b) \<times> 's) \<Rightarrow> ('s \<Rightarrow> ('e + unit) \<times> 's) \<Rightarrow>
    'b event \<Rightarrow> ('s, 'b) trace \<Rightarrow> ('s, 'b) trace" where
  "fifo_step app cur adv (Put b) t =
     (case app b (t_state t) of
        (Inl e, st) \<Rightarrow> t\<lparr>t_state := st\<rparr>
      | (Inr _, st) \<Rightarrow> t\<lparr>t_state := st, t_accepted := t_accepted t @ [b]\<rparr>)"
| "fifo_step app cur adv Get t =
     (case cur (t_state t) of
        (Inl e, st) \<Rightarrow> t\<lparr>t_state := st, t_held := None\<rparr>
      | (Inr b, st) \<Rightarrow> t\<lparr>t_state := st, t_held := Some b\<rparr>)"
| "fifo_step app cur adv Drop t =
     (case t_held t of
        None \<Rightarrow> t
      | Some b \<Rightarrow> (case adv (t_state t) of (_, st) \<Rightarrow>
          t\<lparr>t_state := st, t_held := None, t_delivered := t_delivered t @ [b]\<rparr>))"

definition fifo_run :: "('b \<Rightarrow> 's \<Rightarrow> ('e + unit) \<times> 's) \<Rightarrow> ('s \<Rightarrow> ('e + 'b) \<times> 's) \<Rightarrow> ('s \<Rightarrow> ('e + unit) \<times> 's) \<Rightarrow>
    'b event list \<Rightarrow> 's \<Rightarrow> ('s, 'b) trace" where
  "fifo_run app cur adv evs st = fold (fifo_step app cur adv) evs
     \<lparr>t_state = st, t_held = None, t_accepted = [], t_delivered = []\<rparr>"

locale fifo =
  fixes rep :: "'s \<Rightarrow> 'b list \<Rightarrow> bool"
    and ready :: "'s \<Rightarrow> bool"
    and budget :: "'s \<Rightarrow> nat"
    and fits :: "'b \<Rightarrow> bool"
    and app :: "'b \<Rightarrow> 's \<Rightarrow> ('e + unit) \<times> 's"
    and cur :: "'s \<Rightarrow> ('e + 'b) \<times> 's"
    and adv :: "'s \<Rightarrow> ('e + unit) \<times> 's"
  assumes app_rejected: "rep st xs \<Longrightarrow> fits b \<Longrightarrow> 0 < budget st \<Longrightarrow> app b st = (Inl e, st') \<Longrightarrow>
      rep st' xs \<and> (ready st \<longrightarrow> ready st') \<and> budget st - 1 \<le> budget st'"
    and app_accepted: "rep st xs \<Longrightarrow> fits b \<Longrightarrow> 0 < budget st \<Longrightarrow> app b st = (Inr u, st') \<Longrightarrow>
      rep st' (xs @ [b]) \<and> (ready st \<longrightarrow> ready st') \<and> budget st - 1 \<le> budget st'"
    and cur_keeps: "rep st xs \<Longrightarrow> cur st = (r, st') \<Longrightarrow> rep st' xs \<and> budget st \<le> budget st'"
    and cur_head: "rep st xs \<Longrightarrow> cur st = (Inr b, st') \<Longrightarrow> ready st' \<and> xs \<noteq> [] \<and> hd xs = b"
    and adv_tail: "rep st xs \<Longrightarrow> ready st \<Longrightarrow> adv st = (ru, st') \<Longrightarrow> rep st' (tl xs) \<and> budget st \<le> budget st'"
begin

text \<open>Delivered and pending blocks are together what was there at the start and what was accepted.\<close>

definition conserved :: "'b list \<Rightarrow> nat \<Rightarrow> ('s, 'b) trace \<Rightarrow> bool" where
  "conserved xs0 n t \<longleftrightarrow> (\<exists>xs. rep (t_state t) xs \<and> t_delivered t @ xs = xs0 @ t_accepted t \<and>
     n \<le> budget (t_state t) \<and>
     (\<forall>b. t_held t = Some b \<longrightarrow> ready (t_state t) \<and> xs \<noteq> [] \<and> hd xs = b))"

lemma conserved_step:
  assumes inv: "conserved xs0 (Suc n) t" and ev: "\<forall>b. ev = Put b \<longrightarrow> fits b"
  shows "conserved xs0 n (fifo_step app cur adv ev t)"
proof -
  from inv obtain xs where xs: "rep (t_state t) xs" "t_delivered t @ xs = xs0 @ t_accepted t"
    "Suc n \<le> budget (t_state t)"
    "\<forall>b. t_held t = Some b \<longrightarrow> ready (t_state t) \<and> xs \<noteq> [] \<and> hd xs = b"
    by (auto simp: conserved_def)
  then have bud: "0 < budget (t_state t)" by simp
  show ?thesis
  proof (cases ev)
    case (Put b)
    obtain r st where a: "app b (t_state t) = (r, st)" by force
    show ?thesis
    proof (cases r)
      case (Inl e)
      with app_rejected [OF xs(1) _ bud, of b e st] a Put ev xs show ?thesis
        unfolding conserved_def by (intro exI [of _ xs]) auto
    next
      case (Inr u)
      with app_accepted [OF xs(1) _ bud, of b u st] a Put ev xs show ?thesis
        unfolding conserved_def by (intro exI [of _ "xs @ [b]"]) auto
    qed
  next
    case Get
    obtain r st where c: "cur (t_state t) = (r, st)" by force
    with cur_keeps [OF xs(1) c] cur_head [OF xs(1), of _ st] Get xs show ?thesis
      unfolding conserved_def by (cases r) (auto intro!: exI [of _ xs])
  next
    case Drop
    show ?thesis
    proof (cases "t_held t")
      case None
      with Drop xs show ?thesis unfolding conserved_def by auto
    next
      case (Some b)
      obtain r st where c: "adv (t_state t) = (r, st)" by force
      with adv_tail [OF xs(1) _ c] Some Drop xs show ?thesis
        unfolding conserved_def by (intro exI [of _ "tl xs"]) (cases xs; auto)
    qed
  qed
qed

lemma conserved_fold:
  "conserved xs0 (length evs) t \<Longrightarrow> \<forall>b. Put b \<in> set evs \<longrightarrow> fits b \<Longrightarrow>
     conserved xs0 0 (fold (fifo_step app cur adv) evs t)"
proof (induction evs arbitrary: t)
  case (Cons ev evs)
  have "conserved xs0 (length evs) (fifo_step app cur adv ev t)"
    using Cons.prems by (intro conserved_step) auto
  from Cons.IH [OF this] show ?case using Cons.prems(2) by simp
qed simp

lemma run_conserves:
  assumes "rep st xs0" "length evs \<le> budget st" "\<forall>b. Put b \<in> set evs \<longrightarrow> fits b"
  shows "\<exists>xs. rep (t_state (fifo_run app cur adv evs st)) xs \<and>
    t_delivered (fifo_run app cur adv evs st) @ xs = xs0 @ t_accepted (fifo_run app cur adv evs st)"
proof -
  have "conserved xs0 (length evs) \<lparr>t_state = st, t_held = None, t_accepted = [], t_delivered = []\<rparr>"
    using assms by (auto simp: conserved_def)
  from conserved_fold [OF this assms(3)] show ?thesis by (auto simp: fifo_run_def conserved_def)
qed

end

section \<open>The disk queue is an instance\<close>

definition dq_rep :: "qstate \<Rightarrow> byte list list \<Rightarrow> bool" where
  "dq_rep st xs \<longleftrightarrow> (\<exists>rs. queue_ok st rs \<and> pending rs = xs \<and> [] \<notin> set xs)"

definition dq_ready :: "qstate \<Rightarrow> bool" where
  "dq_ready st = (case st of (q, d) \<Rightarrow>
     (case q_head q of None \<Rightarrow> False
      | Some h \<Rightarrow> s_pos (q_heap q ! h) \<noteq> s_size (q_heap q ! h) - footerSize))"

definition dq_budget :: "qstate \<Rightarrow> nat" where
  "dq_budget st = ids_left (snd st)"

definition dq_fits :: "byte list \<Rightarrow> bool" where
  "dq_fits b \<longleftrightarrow> b \<noteq> [] \<and> int (length b) < 2 ^ 62"

lemma dq_ready_iff:
  assumes "queue_ok (q, d) rs"
  shows "dq_ready (q, d) \<longleftrightarrow> snd (hd rs) \<noteq> []"
proof -
  have rep: "queue_rep q d rs" using assms by (simp add: queue_ok_def)
  show ?thesis using queue_rep_head(1,5) [OF rep]
    by (cases "snd (hd rs)") (auto simp: dq_ready_def seg_rep_def footerSize_def)
qed

text \<open>Appending keeps the first block of a head that has one.\<close>

lemma Append_dq:
  assumes ok: "queue_ok (q, d) rs" and fits: "dq_fits b" and id: "0 < ids_left d"
  shows "\<exists>r q' d' rs'. Append b (q, d) = (r, q', d') \<and> queue_ok (q', d') rs' \<and>
    pending rs' = pending rs @ (if r = Inr () then [b] else []) \<and>
    (snd (hd rs) \<noteq> [] \<longrightarrow> snd (hd rs') \<noteq> []) \<and> ids_left d - 1 \<le> ids_left d'"
proof -
  from ok have rep: "queue_rep q d rs" and us: "usage q \<le> 2 ^ 62"
    by (auto simp: queue_ok_def)
  then have srep: "segs_rep q d rs" by (simp add: queue_rep_def)
  note tl = queue_rep_tail [OF rep]
  let ?full = "q_maxSegmentSize q < s_size (q_heap q ! last (segs q)) + int (length b)"
  consider "q_maxSize q < usage q + int (length b)"
    | "usage q + int (length b) \<le> q_maxSize q" "\<not> ?full"
    | "usage q + int (length b) \<le> q_maxSize q" ?full by linarith
  then show ?thesis
  proof cases
    case 1
    then have "Append b (q, d) = (Inl ErrQueueFull, q, d)"
      using tl(1) diskUsage_usage [OF srep] us fits seg_size_le_usage [OF srep tl(2)]
      by (simp add: Append_def dq_fits_def)
    then show ?thesis using ok by auto
  next
    case 2
    from 2(2) have t: "s_size (q_heap q ! last (segs q)) + int (length b) \<le> q_maxSegmentSize q" by simp
    have head: "snd (hd (rs[length rs - 1 := (fst (last rs), snd (last rs) @ [b])])) \<noteq> []"
      if "snd (hd rs) \<noteq> []" using that tl(6) by (cases rs) (auto split: nat.split)
    obtain q' d' where "Append b (q, d) = (Inr (), q', d')"
      "queue_ok (q', d') (rs[length rs - 1 := (fst (last rs), snd (last rs) @ [b])])"
      "ids_left d \<le> ids_left d'" by (rule Append_room [OF ok 2(1) t]) (rule that)
    then show ?thesis using pending_snoc [OF tl(6)] head
      by (intro exI [of _ "Inr ()"] exI [of _ q'] exI [of _ d']
          exI [of _ "rs[length rs - 1 := (fst (last rs), snd (last rs) @ [b])]"]) simp
  next
    case 3
    have idl: "id_left d" using id by (simp add: id_left_iff)
    obtain q' d' where "Append b (q, d) =
        (if 8 + int (length b) \<le> q_maxSegmentSize q then Inr () else Inl ErrSegmentFull, q', d')"
      "queue_ok (q', d') (rs @ [([], if 8 + int (length b) \<le> q_maxSegmentSize q then [b] else [])])"
      "ids_left d - 1 \<le> ids_left d'" by (rule Append_new_segment [OF ok 3 idl]) (rule that)
    then show ?thesis using tl(6) by (auto simp: hd_append)
  qed
qed

lemma Current_dq:
  assumes ok: "queue_ok (q, d) rs"
  shows "\<exists>q'. Current (q, d) = (head_result (q_maxSegmentSize q) (snd (hd rs)), q', d) \<and> queue_ok (q', d) rs"
  using Current_spec [OF ok] by blast

lemma Advance_dq:
  assumes ok: "queue_ok (q, d) rs" and ne: "[] \<notin> set (pending rs)" and rdy: "snd (hd rs) \<noteq> []"
  shows "\<exists>q' d'. Advance (q, d) = (Inr (), q', d') \<and> queue_ok (q', d') (advanced rs) \<and>
    pending (advanced rs) = tl (pending rs) \<and> ids_left d \<le> ids_left d'"
proof -
  have rep: "queue_rep q d rs" using ok by (simp add: queue_ok_def)
  note hd = queue_rep_head [OF rep]
  have "hd (snd (hd rs)) \<in> set (pending rs)" using rdy hd(6) by (cases rs) auto
  then have "hd (snd (hd rs)) \<noteq> []" using ne by auto
  then have cur: "snd (hd rs) \<noteq> [] \<longrightarrow>
      s_currentSize (q_heap q ! hd (segs q)) = int (length (hd (snd (hd rs))))"
    using hd(5) by (cases "snd (hd rs)") (auto simp: seg_rep_def current_ok_def)
  have "rs \<noteq> []" using hd(6) by auto
  then have "pending (advanced rs) = tl (pending rs)" using rdy by (simp add: pending_advanced)
  with Advance_ok [OF ok cur] show ?thesis by blast
qed

lemma Append_fifo:
  assumes rep: "dq_rep st xs" and f: "dq_fits b" and bud: "0 < dq_budget st"
    and app: "Append b st = (r, st')"
  shows "dq_rep st' (xs @ (if r = Inr () then [b] else [])) \<and> (dq_ready st \<longrightarrow> dq_ready st') \<and>
    dq_budget st - 1 \<le> dq_budget st'"
proof -
  obtain q d where st: "st = (q, d)" by (cases st)
  from rep st obtain rs where rs: "queue_ok (q, d) rs" "pending rs = xs" "[] \<notin> set xs"
    by (auto simp: dq_rep_def)
  from Append_dq [OF rs(1) f] bud st app obtain q' d' rs' where
    a: "st' = (q', d')" "queue_ok (q', d') rs'"
      "pending rs' = pending rs @ (if r = Inr () then [b] else [])"
      "snd (hd rs) \<noteq> [] \<longrightarrow> snd (hd rs') \<noteq> []" "ids_left d - 1 \<le> ids_left d'"
    by (auto simp: dq_budget_def)
  have "dq_ready st \<longrightarrow> dq_ready st'"
    using a(1,4) dq_ready_iff [OF rs(1)] dq_ready_iff [OF a(2)] st by simp
  moreover have "dq_rep st' (xs @ (if r = Inr () then [b] else []))"
    using a rs f by (auto simp: dq_rep_def dq_fits_def)
  ultimately show ?thesis using a st by (simp add: dq_budget_def)
qed

interpretation dq: fifo dq_rep dq_ready dq_budget dq_fits Append Current Advance
proof
  fix st :: qstate and xs b e st' and u :: unit
  assume a: "dq_rep st xs" "dq_fits b" "0 < dq_budget st"
  show "dq_rep st' xs \<and> (dq_ready st \<longrightarrow> dq_ready st') \<and> dq_budget st - 1 \<le> dq_budget st'"
    if "Append b st = (Inl e, st')" using Append_fifo [OF a that] by simp
  show "dq_rep st' (xs @ [b]) \<and> (dq_ready st \<longrightarrow> dq_ready st') \<and> dq_budget st - 1 \<le> dq_budget st'"
    if "Append b st = (Inr u, st')" using Append_fifo [OF a that] by simp
next
  fix st :: qstate and xs b r st'
  assume rep: "dq_rep st xs"
  obtain q d where st: "st = (q, d)" by (cases st)
  from rep st obtain rs where rs: "queue_ok (q, d) rs" "pending rs = xs" "[] \<notin> set xs"
    by (auto simp: dq_rep_def)
  show "dq_rep st' xs \<and> dq_budget st \<le> dq_budget st'" if "Current st = (r, st')"
    using that rs Current_dq [OF rs(1)] st by (auto simp: dq_rep_def dq_budget_def)
  show "dq_ready st' \<and> xs \<noteq> [] \<and> hd xs = b" if "Current st = (Inr b, st')"
  proof -
    from Current_dq [OF rs(1)] that st obtain q' where q': "st' = (q', d)" "queue_ok (q', d) rs"
      "head_result (q_maxSegmentSize q) (snd (hd rs)) = Inr b" by auto
    then have "snd (hd rs) \<noteq> []" "hd (snd (hd rs)) = b"
      by (auto simp: head_result_def split: list.splits if_splits)
    moreover have "rs = hd rs # tl rs" using queue_rep_head(6) rs(1) by (auto simp: queue_ok_def)
    ultimately show ?thesis using q' rs(2) dq_ready_iff [OF q'(2)] by (cases rs) auto
  qed
next
  fix st :: qstate and xs ru st'
  assume rep: "dq_rep st xs" and rdy: "dq_ready st" and adv: "Advance st = (ru, st')"
  obtain q d where st: "st = (q, d)" by (cases st)
  from rep st obtain rs where rs: "queue_ok (q, d) rs" "pending rs = xs" "[] \<notin> set xs"
    by (auto simp: dq_rep_def)
  with rdy st have "snd (hd rs) \<noteq> []" by (simp add: dq_ready_iff)
  moreover have "[] \<notin> set (tl xs)" using rs(3) by (cases xs) auto
  ultimately show "dq_rep st' (tl xs) \<and> dq_budget st \<le> dq_budget st'"
    using Advance_dq [OF rs(1)] rs(2,3) adv st by (auto simp: dq_rep_def dq_budget_def)
qed

end
