(* ===== verification/Queue_Recovery.thy ===== *)
theory Queue_Recovery
  imports Queue_Fifo
begin

text \<open>
  Opening a queue from the files of its directory. Every \<open>Append\<close> and \<open>Advance\<close> leaves the blocks
  and the position of the first unconsumed one in the files, so that \<open>Open\<close> finds the pending
  blocks again after a shutdown or a crash, in the order in which \<open>ReadDir\<close> lists the files.
\<close>

definition segment_files :: "(string \<times> bool) list \<Rightarrow> string list" where
  "segment_files fs = map fst (filter (\<lambda>(n, isDir). \<not> isDir \<and> ParseUint n \<noteq> None) fs)"

definition files_rep :: "directory \<Rightarrow> string list \<Rightarrow> (byte list list \<times> byte list list) list \<Rightarrow> bool" where
  "files_rep d ns rs \<longleftrightarrow> list_all2 (\<lambda>n r. file_rep d n (fst r) (snd r)) ns rs"

lemma segment_files_simps [simp]:
  "segment_files [] = []"
  "segment_files ((n, isDir) # fs) =
     (if isDir \<or> ParseUint n = None then segment_files fs else n # segment_files fs)"
  by (auto simp: segment_files_def)

lemma loadFiles_ok:
  assumes "files_rep d (segment_files fs) rs" "d_faults d = []" "\<forall>n\<in>set (d_subdirs d). ParseUint n = None"
  shows "\<exists>ss. loadFiles fs acc (q, d) =
      (Inr (acc @ [length (q_heap q)..<length (q_heap q) + length ss]), q\<lparr>q_heap := q_heap q @ ss\<rparr>, d) \<and>
    list_all2 (\<lambda>s r. seg_rep s d (fst r) (snd r)) ss rs \<and> map s_path ss = segment_files fs \<and>
    (\<forall>s\<in>set ss. s_maxSize s = q_maxSegmentSize q)"
  using assms(1)
proof (induction fs arbitrary: acc q rs)
  case Nil
  then show ?case by (auto simp: files_rep_def)
next
  case (Cons f fs)
  obtain n isDir where f: "f = (n, isDir)" by force
  show ?case
  proof (cases "isDir \<or> ParseUint n = None")
    case True
    then show ?thesis using Cons f by (auto simp: files_rep_def)
  next
    case False
    with Cons.prems f obtain r rs' where rs: "rs = r # rs'" "file_rep d n (fst r) (snd r)"
      "files_rep d (segment_files fs) rs'" by (auto simp: files_rep_def list_all2_Cons1)
    have "n \<notin> set (d_subdirs d)" using False assms(3) by auto
    from newSegment_existing [OF assms(2) rs(2) this, of "q_maxSegmentSize q"] obtain s where
      s: "newSegment n (q_maxSegmentSize q) d = (Inr s, d)" "seg_rep s d (fst r) (snd r)" "s_path s = n"
        "s_maxSize s = q_maxSegmentSize q" by blast
    from Cons.IH [OF rs(3), of "acc @ [length (q_heap q)]" "q\<lparr>q_heap := q_heap q @ [s]\<rparr>"] obtain ss where
      ss: "loadFiles fs (acc @ [length (q_heap q)]) (q\<lparr>q_heap := q_heap q @ [s]\<rparr>, d) =
        (Inr (acc @ [length (q_heap q)] @ [Suc (length (q_heap q))..<Suc (length (q_heap q)) + length ss]),
         q\<lparr>q_heap := q_heap q @ s # ss\<rparr>, d)"
      "list_all2 (\<lambda>s r. seg_rep s d (fst r) (snd r)) ss rs'" "map s_path ss = segment_files fs"
      "\<forall>s\<in>set ss. s_maxSize s = q_maxSegmentSize q" by auto
    have "[length (q_heap q)] @ [Suc (length (q_heap q))..<Suc (length (q_heap q)) + length ss] =
        [length (q_heap q)..<length (q_heap q) + length (s # ss)]"
      using upt_conv_Cons [of "length (q_heap q)" "length (q_heap q) + length (s # ss)"] by simp
    then show ?thesis using False f s ss rs by (intro exI [of _ "s # ss"]) auto
  qed
qed

lemma loaded_segs_rep:
  assumes l2: "list_all2 (\<lambda>s r. seg_rep s d (fst r) (snd r)) ss rs" and dist: "distinct (map s_path ss)"
    and num: "\<forall>s\<in>set ss. s_maxSize s = q_maxSegmentSize q \<and> ParseUint (s_path s) \<noteq> None"
    and wf: "wf_dir d" and q': "q' = q\<lparr>q_heap := hp @ ss, q_segments := Some [length hp..<length hp + length ss]\<rparr>"
  shows "segs_rep q' d rs" "usage q' = sum_list (map s_size ss)"
proof -
  have seg: "segs q' = [length hp..<length hp + length ss]" using q' by (simp add: segs_def)
  have mp: "map (\<lambda>p. g ((hp @ ss) ! p)) [length hp..<length hp + length ss] = map g ss" for g :: "segment \<Rightarrow> 'x"
    by (rule nth_equalityI) (auto simp: nth_append)
  show "usage q' = sum_list (map s_size ss)" using q' mp [of s_size] by (simp add: usage_def segs_def)
  have "list_all2 (\<lambda>p r. seg_rep ((hp @ ss) ! p) d (fst r) (snd r)) [length hp..<length hp + length ss] rs"
    using l2 by (auto simp: list_all2_conv_all_nth nth_append)
  then show "segs_rep q' d rs"
    using dist num wf mp [of s_path] unfolding segs_rep_def seg
    by (auto simp: q' nth_append)
qed

lemma distinct_segment_files:
  assumes "wf_dir d"
  shows "distinct (segment_files (dir_entries d))"
proof -
  let ?P = "\<lambda>(n, isDir). \<not> isDir \<and> ParseUint n \<noteq> None"
  let ?fs = "filter ?P (map (\<lambda>n. (n, False)) (map fst (d_files d)))"
  have "filter ?P (map (\<lambda>n. (n, True)) (d_subdirs d)) = []" by (auto simp: filter_empty_conv)
  then have eq: "segment_files (dir_entries d) = map fst (sort_key fst ?fs)"
    by (simp add: segment_files_def dir_entries_def filter_sort)
  have "distinct ?fs" using assms by (auto simp: wf_dir_def distinct_map inj_on_def intro!: distinct_filter)
  moreover have "inj_on fst (set ?fs)" by (auto simp: inj_on_def)
  ultimately show ?thesis unfolding eq by (simp add: distinct_map)
qed

lemma segment_files_numeric: "n \<in> set (segment_files fs) \<Longrightarrow> ParseUint n \<noteq> None"
  by (auto simp: segment_files_def)

definition opened :: "(byte list list \<times> byte list list) list \<Rightarrow> (byte list list \<times> byte list list) list" where
  "opened rs = (if snd (hd rs) = [] \<and> 1 < length rs then tl rs else rs)"

lemma pending_opened: "pending (opened rs) = pending rs"
  by (cases rs) (auto simp: opened_def)

text \<open>The last step of \<open>Open\<close>, on the segments it has loaded.\<close>

lemma Open_finish:
  assumes ok: "queue_ok (q, d) rs"
  shows "\<exists>st. (case on_seg (hd (segs q)) segment_current (q, d) of
       (Inl EOF, st) \<Rightarrow> trimHead st
     | (Inl Panic, st) \<Rightarrow> (Inl Panic, st)
     | (_, st) \<Rightarrow> (Inr (), st)) = (Inr (), st) \<and> queue_ok st (opened rs) \<and>
     q_maxSegmentSize (fst st) = q_maxSegmentSize q \<and> q_maxSize (fst st) = q_maxSize q"
proof -
  have rep: "queue_rep q d rs" using ok by (simp add: queue_ok_def)
  note hd = queue_rep_head [OF rep]
  from Current_spec [OF ok] obtain q1 where
    c: "Current (q, d) = (head_result (q_maxSegmentSize q) (snd (hd rs)), q1, d)"
    and ok1: "queue_ok (q1, d) rs" and m: "q_maxSegmentSize q1 = q_maxSegmentSize q" "q_maxSize q1 = q_maxSize q"
    by blast
  have on: "on_seg (hd (segs q)) segment_current (q, d) = (head_result (q_maxSegmentSize q) (snd (hd rs)), q1, d)"
    using c hd(1) by (simp add: Current_def)
  show ?thesis
  proof (cases "snd (hd rs) = []")
    case False
    then show ?thesis using on ok1 m
      by (cases "snd (hd rs)") (auto simp: head_result_def opened_def)
  next
    case True
    have len: "length (segs q1) = length rs"
      using ok1 by (auto simp: queue_ok_def queue_rep_def segs_rep_length)
    show ?thesis
    proof (cases "1 < length rs")
      case l: True
      obtain q2 d2 where "trimHead (q1, d) = (Inr (), q2, d2)" "queue_ok (q2, d2) (tl rs)"
        "q_maxSegmentSize q2 = q_maxSegmentSize q1" "q_maxSize q2 = q_maxSize q1"
        by (rule trimHead_ok [OF ok1 l]) (rule that)
      then show ?thesis using on True l m by (simp add: head_result_def opened_def)
    next
      case False
      then show ?thesis using on True ok1 m len trimHead_single [of q1 d]
        by (simp add: head_result_def opened_def)
    qed
  qed
qed

lemma seg_rep_inode_size:
  "seg_rep s d dn td \<Longrightarrow> s_size s = int (length (i_data (the (inode_at d (s_path s)))))"
  by (auto simp: seg_rep_def)

lemma Open_recovers:
  assumes fr: "files_rep d (segment_files (dir_entries d)) rs" and nf: "d_faults d = []" and wf: "wf_dir d"
    and ne: "rs \<noteq> []"
    and sz: "(\<Sum>n\<leftarrow>segment_files (dir_entries d). int (length (i_data (the (inode_at d n))))) \<le> 2 ^ 62"
    and mx: "q_maxSize q + 16 \<le> 2 ^ 62"
  shows "\<exists>st. Open (q, d) = (Inr (), st) \<and> queue_ok st (opened rs) \<and>
    q_maxSegmentSize (fst st) = q_maxSegmentSize q \<and> q_maxSize (fst st) = q_maxSize q"
proof -
  let ?ns = "segment_files (dir_entries d)" and ?hp = "q_heap q"
  from loadFiles_ok [OF fr nf, of "[]" q] wf obtain ss where
    ld: "loadFiles (dir_entries d) [] (q, d) = (Inr [length ?hp..<length ?hp + length ss], q\<lparr>q_heap := ?hp @ ss\<rparr>, d)"
    and ss: "list_all2 (\<lambda>s r. seg_rep s d (fst r) (snd r)) ss rs" "map s_path ss = ?ns"
      "\<forall>s\<in>set ss. s_maxSize s = q_maxSegmentSize q"
    by (auto simp: wf_dir_def)
  let ?ps = "[length ?hp..<length ?hp + length ss]"
  let ?q1 = "q\<lparr>q_heap := ?hp @ ss, q_segments := Some ?ps\<rparr>"
  let ?q2 = "?q1\<lparr>q_head := Some (hd (segs ?q1)), q_tail := Some (last (segs ?q1))\<rparr>"
  have len: "length ss = length rs" using ss(1) by (rule list_all2_lengthD)
  have pne: "?ps \<noteq> []" using len ne by (cases rs) auto
  have load: "loadSegments (q, d) = (Inr ?ps, q\<lparr>q_heap := ?hp @ ss\<rparr>, d)"
    using nf ld by (simp add: loadSegments_def ReadDir_def)
  have "distinct (map s_path ss)" using distinct_segment_files [OF wf] ss(2) by simp
  moreover have "\<forall>s\<in>set ss. s_maxSize s = q_maxSegmentSize q \<and> ParseUint (s_path s) \<noteq> None"
    using ss(2,3) segment_files_numeric by (metis image_eqI image_set)
  ultimately have srep: "segs_rep ?q1 d rs" "usage ?q1 = sum_list (map s_size ss)"
    using loaded_segs_rep [OF ss(1) _ _ wf refl] by simp_all
  have "map s_size ss = map (\<lambda>n. int (length (i_data (the (inode_at d n))))) (map s_path ss)"
    using ss(1) by (induction rule: list_all2_induct) (simp_all add: seg_rep_inode_size)
  with srep(2) sz ss(2) have "usage ?q1 \<le> 2 ^ 62" by (simp only:)
  then have ok: "queue_ok (?q2, d) rs"
    using srep(1) nf mx pne by (simp add: queue_ok_def queue_rep_def segs_rep_def usage_def segs_def)
  have "Open (q, d) = (case on_seg (hd (segs ?q2)) segment_current (?q2, d) of
       (Inl EOF, st) \<Rightarrow> trimHead st | (Inl Panic, st) \<Rightarrow> (Inl Panic, st) | (_, st) \<Rightarrow> (Inr (), st))"
    using pne by (simp add: Open_def load segs_def)
  with Open_finish [OF ok] show ?thesis by simp
qed

lemma Open_fresh:
  assumes nf: "d_faults d = []" and wf: "wf_dir d" and none: "segment_files (dir_entries d) = []"
    and mx: "q_maxSize q + 16 \<le> 2 ^ 62"
  shows "\<exists>st. Open (q, d) = (Inr (), st) \<and> queue_ok st [([], [])] \<and>
    q_maxSegmentSize (fst st) = q_maxSegmentSize q \<and> q_maxSize (fst st) = q_maxSize q"
proof -
  let ?q0 = "q\<lparr>q_segments := Some []\<rparr>"
  from loadFiles_ok [of d "dir_entries d" "[]" "[]" q] nf wf none
  have ld: "loadSegments (q, d) = (Inr [], q, d)"
    by (auto simp: wf_dir_def files_rep_def loadSegments_def ReadDir_def)
  have rep0: "segs_rep ?q0 d []" using wf by (simp add: segs_rep_def segs_def)
  have "maxSegmentID m fs = m" if "segment_files fs = []" for m fs
    using that by (induction m fs rule: maxSegmentID.induct) (auto split: if_splits)
  then have id: "id_left d" using none by (simp add: id_left_def)
  obtain s d' where add: "addSegment (?q0, d) = (Inr (length (q_heap ?q0)), ?q0\<lparr>q_heap := q_heap ?q0 @ [s],
       q_segments := Some (segs ?q0 @ [length (q_heap ?q0)])\<rparr>, d')"
    and r: "segs_rep (?q0\<lparr>q_heap := q_heap ?q0 @ [s], q_segments := Some (segs ?q0 @ [length (q_heap ?q0)])\<rparr>) d'
       ([] @ [([], [])])" and s: "s_size s = 8" and d': "d_faults d' = []"
    by (rule addSegment_ok [OF rep0 nf id]) (rule that)
  let ?q1 = "?q0\<lparr>q_heap := q_heap q @ [s], q_segments := Some [length (q_heap q)]\<rparr>"
  let ?q2 = "?q1\<lparr>q_head := Some (hd (segs ?q1)), q_tail := Some (last (segs ?q1))\<rparr>"
  have ok: "queue_ok (?q2, d') [([], [])]"
    using r s d' mx by (simp add: queue_ok_def queue_rep_def segs_rep_def usage_def segs_def)
  have "Open (q, d) = (case on_seg (hd (segs ?q2)) segment_current (?q2, d') of
       (Inl EOF, st) \<Rightarrow> trimHead st | (Inl Panic, st) \<Rightarrow> (Inl Panic, st) | (_, st) \<Rightarrow> (Inr (), st))"
    using ld add by (simp add: Open_def segs_def)
  with Open_finish [OF ok] show ?thesis by (simp add: opened_def)
qed

section \<open>Close\<close>

lemma closeSegments_ok:
  assumes "d_faults d = []" "distinct ps" "\<forall>p\<in>set ps. p < length (q_heap q) \<and> s_file (q_heap q ! p) \<noteq> None"
  shows "\<exists>hp. closeSegments ps (q, d) = (Inr (), q\<lparr>q_heap := hp\<rparr>, d)"
  using assms(2,3)
proof (induction ps arbitrary: q)
  case (Cons p ps)
  from Cons.prems obtain f where f: "s_file (q_heap q ! p) = Some f" by auto
  let ?q = "q\<lparr>q_heap := (q_heap q)[p := (q_heap q ! p)\<lparr>s_file := None\<rparr>]\<rparr>"
  have "\<forall>r\<in>set ps. r < length (q_heap ?q) \<and> s_file (q_heap ?q ! r) \<noteq> None"
    using Cons.prems by (auto simp: nth_list_update)
  with Cons.IH [of ?q] Cons.prems obtain hp where "closeSegments ps (?q, d) = (Inr (), ?q\<lparr>q_heap := hp\<rparr>, d)"
    by auto
  then show ?case using on_file_close_ok [OF f assms(1)] by (auto simp: on_seg_def)
next
  case Nil
  then show ?case by (intro exI [of _ "q_heap q"]) simp
qed

lemma Close_ok:
  assumes ok: "queue_ok (q, d) rs"
  shows "\<exists>hp. Close (q, d) = (Inr (), q\<lparr>q_heap := hp, q_head := None, q_tail := None, q_segments := None\<rparr>, d)"
    and "files_rep d (map (\<lambda>p. s_path (q_heap q ! p)) (segs q)) rs"
proof -
  from ok have srep: "segs_rep q d rs" and nf: "d_faults d = []" by (auto simp: queue_ok_def queue_rep_def)
  have "s_file (q_heap q ! p) \<noteq> None" if "p \<in> set (segs q)" for p
    using that segs_rep_nth [OF srep] by (auto simp: in_set_conv_nth seg_rep_def)
  then have "\<exists>hp. closeSegments (segs q) (q, d) = (Inr (), q\<lparr>q_heap := hp\<rparr>, d)"
    using srep by (intro closeSegments_ok [OF nf]) (auto simp: segs_rep_def)
  then show "\<exists>hp. Close (q, d) = (Inr (), q\<lparr>q_heap := hp, q_head := None, q_tail := None, q_segments := None\<rparr>, d)"
    by (auto simp: Close_def)
  show "files_rep d (map (\<lambda>p. s_path (q_heap q ! p)) (segs q)) rs"
    using srep by (auto simp: files_rep_def segs_rep_def list_all2_conv_all_nth intro: seg_rep_file_rep)
qed

end
