(* ===== verification/Queue_Purge.thy ===== *)
theory Queue_Purge
  imports Queue_Recovery
begin

text \<open>
  \<open>PurgeOlderThan\<close>: when some segment is young enough the loop ends with the old segments in front
  of it removed. When the only segment is too old, the code adds a segment, drops the old one, and
  leaves \<open>tail\<close> pointing at the closed one.
\<close>

definition mtime :: "directory \<Rightarrow> string \<Rightarrow> int" where
  "mtime d n = i_mtime (the (inode_at d n))"

definition ages :: "qstate \<Rightarrow> int list" where
  "ages st = (case st of (q, d) \<Rightarrow> map (\<lambda>p. mtime d (s_path (q_heap q ! p))) (segs q))"

lemma lastModified_ok:
  assumes "seg_rep s d dn td" "d_faults d = []"
  shows "segment_lastModified (s, d) = (Inr (mtime d (s_path s)), s, d)"
  using assms by (auto simp: seg_rep_def segment_lastModified_def Stat_def mtime_def)

lemma head_lastModified:
  assumes "queue_ok (q, d) rs"
  shows "q_head q = Some (hd (segs q))" "on_seg (hd (segs q)) segment_lastModified (q, d) = (Inr (hd (ages (q, d))), q, d)"
    "ages (q, d) = hd (ages (q, d)) # tl (ages (q, d))"
    "segment_lastModified (q_heap q ! hd (segs q), d) = (Inr (hd (ages (q, d))), q_heap q ! hd (segs q), d)"
proof -
  from assms have rep: "queue_rep q d rs" and nf: "d_faults d = []" by (auto simp: queue_ok_def)
  note hd = queue_rep_head [OF rep]
  show "q_head q = Some (hd (segs q))" by (rule hd(1))
  have "segs q \<noteq> []" using hd(3) by simp
  then show "ages (q, d) = hd (ages (q, d)) # tl (ages (q, d))" by (simp add: ages_def)
  show lm: "segment_lastModified (q_heap q ! hd (segs q), d) = (Inr (hd (ages (q, d))), q_heap q ! hd (segs q), d)"
    using lastModified_ok [OF hd(5) nf] \<open>segs q \<noteq> []\<close> by (simp add: ages_def hd_map)
  show "on_seg (hd (segs q)) segment_lastModified (q, d) = (Inr (hd (ages (q, d))), q, d)"
    by (simp add: on_seg_def lm)
qed

lemma purgeLoop_young:
  assumes "queue_ok (q, d) rs" "cutoff \<le> hd (ages (q, d))"
  shows "purgeLoop cutoff (q, d) = Some (Inr (), q, d)"
  using assms(2) head_lastModified [OF assms(1)] by (subst purgeLoop.simps) simp

lemma purgeLoop_old:
  assumes ok: "queue_ok (q, d) rs" and old: "hd (ages (q, d)) < cutoff" and len: "1 < length rs"
  obtains q' d' where "purgeLoop cutoff (q, d) = purgeLoop cutoff (q', d')" "queue_ok (q', d') (tl rs)"
    "ages (q', d') = tl (ages (q, d))"
proof -
  obtain q' d' where tr: "trimHead (q, d) = (Inr (), q', d')" "queue_ok (q', d') (tl rs)"
    "segs q' = tl (segs q)"
    "\<forall>n. n \<noteq> s_path (q_heap q ! hd (segs q)) \<longrightarrow> inode_at d' n = inode_at d n"
    "\<forall>p. p \<noteq> hd (segs q) \<longrightarrow> q_heap q' ! p = q_heap q ! p"
    by (rule trimHead_ok [OF ok len]) (rule that)
  have srep: "segs_rep q d rs" using ok by (simp add: queue_ok_def queue_rep_def)
  have "length (segs q) \<noteq> 1" "segs q \<noteq> []" using len segs_rep_length [OF srep] by auto
  then have p: "purgeLoop cutoff (q, d) = purgeLoop cutoff (q', d')"
    using old head_lastModified [OF ok] tr(1) by (subst purgeLoop.simps) simp
  obtain h ps where seg: "segs q = h # ps" using \<open>segs q \<noteq> []\<close> by (cases "segs q") auto
  have "mtime d' (s_path (q_heap q' ! r)) = mtime d (s_path (q_heap q ! r))" if "r \<in> set ps" for r
  proof -
    have "r \<noteq> h" "s_path (q_heap q ! r) \<noteq> s_path (q_heap q ! h)"
      using srep seg that by (auto simp: segs_rep_def image_iff)
    then show ?thesis using tr(4,5) seg by (simp add: mtime_def)
  qed
  then have "ages (q', d') = tl (ages (q, d))" using seg tr(3) by (simp add: ages_def)
  with p tr(2) show ?thesis by (rule that)
qed

lemma purgeLoop_drop:
  assumes "queue_ok (q, d) rs" "\<exists>m\<in>set (ages (q, d)). cutoff \<le> m"
  shows "\<exists>st. purgeLoop cutoff (q, d) = Some (Inr (), st) \<and>
    queue_ok st (drop (length (takeWhile (\<lambda>m. m < cutoff) (ages (q, d)))) rs)"
  using assms
proof (induction rs arbitrary: q d)
  case Nil
  then show ?case using queue_rep_head(6) by (fastforce simp: queue_ok_def)
next
  case (Cons r rs)
  note hd = head_lastModified [OF Cons.prems(1)]
  show ?case
  proof (cases "cutoff \<le> hd (ages (q, d))")
    case True
    then have "takeWhile (\<lambda>m. m < cutoff) (ages (q, d)) = []" by (subst hd(3)) simp
    then show ?thesis using purgeLoop_young [OF Cons.prems(1) True] Cons.prems(1) by auto
  next
    case False
    have "length (ages (q, d)) = Suc (length rs)"
      using Cons.prems(1) segs_rep_length by (fastforce simp: ages_def queue_ok_def queue_rep_def)
    moreover have "\<exists>m\<in>set (tl (ages (q, d))). cutoff \<le> m"
      using Cons.prems(2) False hd(3) by (metis set_ConsD)
    ultimately have len: "1 < length (r # rs)" by (cases "ages (q, d)"; cases rs) auto
    from False have "hd (ages (q, d)) < cutoff" by simp
    from purgeLoop_old [OF Cons.prems(1) this len] obtain q' d' where
      n: "purgeLoop cutoff (q, d) = purgeLoop cutoff (q', d')" "queue_ok (q', d') rs"
        "ages (q', d') = tl (ages (q, d))" by auto
    have "takeWhile (\<lambda>m. m < cutoff) (ages (q, d)) = hd (ages (q, d)) # takeWhile (\<lambda>m. m < cutoff) (ages (q', d'))"
      using False n(3) by (subst hd(3)) simp
    then show ?thesis using Cons.IH [OF n(2)] n \<open>\<exists>m\<in>set (tl (ages (q, d))). cutoff \<le> m\<close> by simp
  qed
qed

section \<open>The last segment\<close>

lemma trimHead_tail:
  "trimHead (q\<lparr>q_tail := t\<rparr>, d) = (case trimHead (q, d) of (r, q', d') \<Rightarrow> (r, q'\<lparr>q_tail := t\<rparr>, d'))"
  by (auto simp: trimHead_def on_seg_def check_def split: option.splits prod.splits sum.splits)

lemma purgeLoop_tail:
  assumes "queue_ok (q, d) rs" "cutoff \<le> hd (ages (q, d))"
  shows "purgeLoop cutoff (q\<lparr>q_tail := t\<rparr>, d) = Some (Inr (), q\<lparr>q_tail := t\<rparr>, d)"
  using assms(2) head_lastModified(1,4) [OF assms(1)] by (subst purgeLoop.simps) (simp add: on_seg_def)

lemma purge_last:
  assumes ok: "queue_ok (q, d) [r]" and us: "usage q + 8 \<le> 2 ^ 62" and id: "id_left d"
    and old: "hd (ages (q, d)) < cutoff" and now: "cutoff \<le> d_clock d"
  obtains q' d' where "purgeLoop cutoff (q, d) = Some (Inr (), q', d')" "segs_rep q' d' [([], [])]"
    "usage q' = 8" "q_tail q' = q_tail q" "q_tail q = Some (hd (segs q))"
    "s_file (q_heap q' ! hd (segs q)) = None" "q_maxSize q' = q_maxSize q" "d_faults d' = []"
proof -
  let ?n = "length (q_heap q)"
  have rep: "queue_rep q d [r]" and srep: "segs_rep q d [r]" using ok by (auto simp: queue_ok_def queue_rep_def)
  then obtain h where seg: "segs q = [h]" and h: "q_head q = Some h" "q_tail q = Some h" "h < ?n"
    using segs_rep_length [OF srep] by (cases "segs q") (auto simp: queue_rep_def segs_rep_def)
  obtain s d1 where
    add: "addSegment (q, d) = (Inr ?n, q\<lparr>q_heap := q_heap q @ [s], q_segments := Some (segs q @ [?n])\<rparr>, d1)"
    and ok1: "queue_ok (q\<lparr>q_heap := q_heap q @ [s], q_segments := Some (segs q @ [?n]), q_tail := Some ?n\<rparr>, d1)
       ([r] @ [([], [])])" (is "queue_ok (?q1, d1) _")
    and s: "seg_rep s d1 [] []" "s_size s = 8"
    and i: "inode_at d1 (s_path s) = Some \<lparr>i_data = PutUint64 0, i_mtime = d_clock d\<rparr>"
    by (rule addSegment_tail [OF ok us id]) (rule that)
  have "1 < length ([r] @ [([], [])])" by simp
  then obtain q2 d2 where tr: "trimHead (?q1, d1) = (Inr (), q2, d2)" "queue_ok (q2, d2) (tl ([r] @ [([], [])]))"
    "q_maxSize q2 = q_maxSize ?q1" "segs q2 = tl (segs ?q1)" "d_clock d2 = d_clock d1"
    "\<forall>n. n \<noteq> s_path (q_heap ?q1 ! hd (segs ?q1)) \<longrightarrow> inode_at d2 n = inode_at d1 n"
    "\<forall>p. p \<noteq> hd (segs ?q1) \<longrightarrow> q_heap q2 ! p = q_heap ?q1 ! p"
    "s_file (q_heap q2 ! hd (segs ?q1)) = None" "q_tail q2 = q_tail ?q1"
    by (rule trimHead_ok [OF ok1]) (rule that)
  have srep2: "segs_rep q2 d2 [([], [])]" using tr(2) by (simp add: queue_ok_def queue_rep_def)
  have "distinct (map (\<lambda>p. s_path (q_heap ?q1 ! p)) (segs ?q1))"
    using ok1 by (simp only: queue_ok_def queue_rep_def segs_rep_def prod.case)
  moreover have seg1: "segs ?q1 = [h, ?n]" by (simp add: seg)
  ultimately have path: "s_path s \<noteq> s_path (q_heap q ! h)" using h(3) by (simp add: nth_append)
  have q2: "segs q2 = [?n]" "q_heap q2 ! ?n = s" using tr(4,7) h(3) unfolding seg1 by simp_all
  then have age: "cutoff \<le> hd (ages (q2, d2))"
    using tr(6) i path h(3) now unfolding seg1 by (simp add: ages_def mtime_def nth_append)
  have tail: "q\<lparr>q_heap := q_heap q @ [s], q_segments := Some (segs q @ [?n])\<rparr> = ?q1\<lparr>q_tail := Some h\<rparr>"
    using h(2) by simp
  have T: "trimHead (q\<lparr>q_heap := q_heap q @ [s], q_segments := Some (segs q @ [?n])\<rparr>, d1) =
      (Inr (), q2\<lparr>q_tail := Some h\<rparr>, d2)" 
    by (subst tail, subst trimHead_tail) (simp only: tr(1) prod.case)
  have "purgeLoop cutoff (q, d) = purgeLoop cutoff (q2\<lparr>q_tail := Some h\<rparr>, d2)"
    using old head_lastModified(1,2) [OF ok] seg add T by (subst purgeLoop.simps) simp
  also have "\<dots> = Some (Inr (), q2\<lparr>q_tail := Some h\<rparr>, d2)" by (rule purgeLoop_tail [OF tr(2) age])
  finally show ?thesis using srep2 q2 s(2) tr(2,3,8) seg h(2)
    by (intro that [of "q2\<lparr>q_tail := Some h\<rparr>" d2])
      (simp_all add: segs_rep_def usage_def queue_ok_def)
qed

end
