(* ===== verification/Queue_Props.thy ===== *)
theory Queue_Props
  imports Queue_Purge
begin

text \<open>The properties of the hinted-handoff queue.\<close>

definition empty_dir :: directory where
  "empty_dir = \<lparr>d_files = [], d_subdirs = [], d_clock = 5000000000, d_faults = []\<rparr>"

text \<open>A fresh queue of at most 1000 bytes over an empty directory.\<close>

definition fresh :: qstate where
  "fresh = snd (Open (newQueue ''hh'' 1000, empty_dir))"

lemma fresh_ok: "queue_ok fresh [([], [])]" "q_maxSize (fst fresh) = 1000"
  "q_maxSegmentSize (fst fresh) = 10485760"
proof -
  have "segment_files (dir_entries empty_dir) = []" by (simp add: empty_dir_def dir_entries_def)
  moreover have "d_faults empty_dir = []" "wf_dir empty_dir" by (simp_all add: empty_dir_def wf_dir_def)
  ultimately obtain st where "Open (newQueue ''hh'' 1000, empty_dir) = (Inr (), st)" "queue_ok st [([], [])]"
    "q_maxSegmentSize (fst st) = q_maxSegmentSize (newQueue ''hh'' 1000)"
    "q_maxSize (fst st) = q_maxSize (newQueue ''hh'' 1000)"
    using Open_fresh [of empty_dir "newQueue ''hh'' 1000"] by (auto simp: newQueue_def)
  then show "queue_ok fresh [([], [])]" "q_maxSize (fst fresh) = 1000" "q_maxSegmentSize (fst fresh) = 10485760"
    by (simp_all add: fresh_def newQueue_def defaultSegmentSize_def)
qed

lemma fresh_dir: "maxSegmentID 0 (dir_entries (snd fresh)) = 1" "usage (fst fresh) = 8"
  "s_size (q_heap (fst fresh) ! last (segs (fst fresh))) = 8"
  by code_simp+

lemma fresh_ids: "ids_left (snd fresh) = 2 ^ 64 - 2"
  by (simp add: ids_left_def fresh_dir)

text \<open>
  C1: any interleaving of a producer that appends non-empty blocks and a consumer that reads the
  current block and advances past it delivers the accepted blocks in order, each once: what was
  delivered followed by what is still pending is what was pending at the start followed by what
  \<open>Append\<close> accepted.
\<close>

theorem queue_delivers_in_order:
  assumes "queue_ok st rs" "[] \<notin> set (pending rs)" "length evs \<le> ids_left (snd st)"
    and "\<forall>b. Put b \<in> set evs \<longrightarrow> b \<noteq> [] \<and> int (length b) < 2 ^ 62"
  shows "\<exists>rs'. queue_ok (t_state (fifo_run Append Current Advance evs st)) rs' \<and>
    t_delivered (fifo_run Append Current Advance evs st) @ pending rs' =
      pending rs @ t_accepted (fifo_run Append Current Advance evs st)"
proof -
  have "dq_rep st (pending rs)" using assms by (auto simp: dq_rep_def)
  moreover have "length evs \<le> dq_budget st" "\<forall>b. Put b \<in> set evs \<longrightarrow> dq_fits b"
    using assms by (simp_all add: dq_budget_def dq_fits_def)
  ultimately obtain xs where "dq_rep (t_state (fifo_run Append Current Advance evs st)) xs"
    "t_delivered (fifo_run Append Current Advance evs st) @ xs =
      pending rs @ t_accepted (fifo_run Append Current Advance evs st)"
    using dq.run_conserves [of st "pending rs" evs] by blast
  then show ?thesis unfolding dq_rep_def by blast
qed

theorem queue_delivers_in_order_witness:
  "\<exists>rs'. queue_ok (t_state (fifo_run Append Current Advance [Put [1, 2], Put [3], Get, Drop, Get] fresh)) rs' \<and>
    t_delivered (fifo_run Append Current Advance [Put [1, 2], Put [3], Get, Drop, Get] fresh) @ pending rs' =
      t_accepted (fifo_run Append Current Advance [Put [1, 2], Put [3], Get, Drop, Get] fresh)"
  using queue_delivers_in_order [OF fresh_ok(1), of "[Put [1, 2], Put [3], Get, Drop, Get]"] fresh_ids
  by simp

text \<open>
  the outcome of \<open>Append\<close> on an open queue. A block that would take the disk usage over the
  maximum is refused with \<open>ErrQueueFull\<close> and nothing changes; a block that does not fit into an
  empty segment is refused with \<open>ErrSegmentFull\<close>; every other block is accepted and becomes the
  last pending one.
\<close>

theorem queue_append_outcome:
  assumes ok: "queue_ok (q, d) rs" and b: "int (length b) < 2 ^ 62" and id: "0 < ids_left d"
  shows "\<exists>q' d' rs'. queue_ok (q', d') rs' \<and>
    (if q_maxSize q < usage q + int (length b) then
       Append b (q, d) = (Inl ErrQueueFull, q, d) \<and> (q', d') = (q, d) \<and> pending rs' = pending rs
     else if q_maxSegmentSize q < 8 + int (length b) then
       Append b (q, d) = (Inl ErrSegmentFull, q', d') \<and> pending rs' = pending rs
     else Append b (q, d) = (Inr (), q', d') \<and> pending rs' = pending rs @ [b])"
proof -
  from ok have rep: "queue_rep q d rs" and us: "usage q \<le> 2 ^ 62"
    by (auto simp: queue_ok_def)
  then have srep: "segs_rep q d rs" by (simp add: queue_rep_def)
  note tl = queue_rep_tail [OF rep] and le = seg_size_le_usage [OF srep queue_rep_tail(2) [OF rep]]
  let ?t = "s_size (q_heap q ! last (segs q))"
  consider "q_maxSize q < usage q + int (length b)"
    | "usage q + int (length b) \<le> q_maxSize q" "?t + int (length b) \<le> q_maxSegmentSize q"
    | "usage q + int (length b) \<le> q_maxSize q" "q_maxSegmentSize q < ?t + int (length b)" by linarith
  then show ?thesis
  proof cases
    case 1
    then have "Append b (q, d) = (Inl ErrQueueFull, q, d)"
      using tl(1) diskUsage_usage [OF srep] us b le by (simp add: Append_def)
    then show ?thesis using 1 ok by auto
  next
    case 2
    obtain q' d' where a: "Append b (q, d) = (Inr (), q', d')"
      "queue_ok (q', d') (rs[length rs - 1 := (fst (last rs), snd (last rs) @ [b])])"
      by (rule Append_room [OF ok 2]) (rule that)
    have "\<not> q_maxSize q < usage q + int (length b)" "\<not> q_maxSegmentSize q < 8 + int (length b)"
      using 2 le by linarith+
    then show ?thesis using a pending_snoc [OF tl(6), of "fst (last rs)" "[b]"]
      by (intro exI [of _ q'] exI [of _ d'] exI [of _ "rs[length rs - 1 := (fst (last rs), snd (last rs) @ [b])]"])
        simp
  next
    case 3
    have idl: "id_left d" using id by (simp add: id_left_iff)
    obtain q' d' where a: "Append b (q, d) =
        (if 8 + int (length b) \<le> q_maxSegmentSize q then Inr () else Inl ErrSegmentFull, q', d')"
      "queue_ok (q', d') (rs @ [([], if 8 + int (length b) \<le> q_maxSegmentSize q then [b] else [])])"
      by (rule Append_new_segment [OF ok 3 idl]) (rule that)
    have "\<not> q_maxSize q < usage q + int (length b)" using 3 by linarith
    with a show ?thesis
      by (intro exI [of _ q'] exI [of _ d']
          exI [of _ "rs @ [([], if 8 + int (length b) \<le> q_maxSegmentSize q then [b] else [])]"])
        (cases "8 + int (length b) \<le> q_maxSegmentSize q"; simp)
  qed
qed

theorem queue_append_outcome_witness:
  "\<exists>q' d' rs'. queue_ok (q', d') rs' \<and> Append [7] fresh = (Inr (), q', d') \<and> pending rs' = [[7]]"
  using queue_append_outcome [of "fst fresh" "snd fresh" "[([], [])]" "[7]"] fresh_ok fresh_ids fresh_dir
  by simp

text \<open>
  C33: an accepted block takes the files of the queue at most 16 bytes, one record header and one
  footer, over the configured maximum.
\<close>

theorem queue_usage_bounded:
  assumes ok: "queue_ok (q, d) rs" and b: "int (length b) < 2 ^ 62" and id: "0 < ids_left d"
    and app: "Append b (q, d) = (Inr (), q', d')"
  shows "usage q' \<le> q_maxSize q + 16 \<and> diskUsage q' = usage q'"
proof -
  from ok have rep: "queue_rep q d rs" and us: "usage q \<le> 2 ^ 62" and mx: "q_maxSize q + 16 \<le> 2 ^ 62"
    by (auto simp: queue_ok_def)
  then have srep: "segs_rep q d rs" by (simp add: queue_rep_def)
  note tl = queue_rep_tail [OF rep]
  have idl: "id_left d" using id by (simp add: id_left_iff)
  have room: "usage q + int (length b) \<le> q_maxSize q"
    using app tl(1) diskUsage_usage [OF srep] us b seg_size_le_usage [OF srep tl(2)]
    by (auto simp: Append_def split: if_splits)
  have "usage q' \<le> q_maxSize q + 16 \<and> (\<exists>rs'. segs_rep q' d' rs')"
  proof (cases "s_size (q_heap q ! last (segs q)) + int (length b) \<le> q_maxSegmentSize q")
    case True
    obtain q1 d1 where "Append b (q, d) = (Inr (), q1, d1)"
      "queue_ok (q1, d1) (rs[length rs - 1 := (fst (last rs), snd (last rs) @ [b])])"
      "usage q1 = usage q + int (length b) + 8" by (rule Append_room [OF ok room True]) (rule that)
    then show ?thesis using room app by (auto simp: queue_ok_def queue_rep_def)
  next
    case False
    then have "q_maxSegmentSize q < s_size (q_heap q ! last (segs q)) + int (length b)" by simp
    then obtain q1 d1 rs1 where "snd (Append b (q, d)) = (q1, d1)" "queue_ok (q1, d1) rs1"
      "usage q1 = usage q + (if 8 + int (length b) \<le> q_maxSegmentSize q then int (length b) + 16 else 8)"
      by (rule Append_new_segment [OF ok room _ idl]) auto
    then show ?thesis using room app by (auto simp: queue_ok_def queue_rep_def split: if_splits)
  qed
  then show ?thesis using mx diskUsage_usage by fastforce
qed

theorem queue_usage_bounded_witness:
  "usage (fst (snd (Append [7] fresh))) \<le> 1016 \<and>
   diskUsage (fst (snd (Append [7] fresh))) = usage (fst (snd (Append [7] fresh)))"
proof -
  have "fst (Append [7] fresh) = Inr ()" by code_simp
  then have "Append [7] (fst fresh, snd fresh) =
      (Inr (), fst (snd (Append [7] fresh)), snd (snd (Append [7] fresh)))"
    by (metis prod.collapse)
  with queue_usage_bounded [of "fst fresh" "snd fresh" "[([], [])]" "[7]"] fresh_ok fresh_ids
  show ?thesis by fastforce
qed

text \<open>
  C2: the files carry the queue. When the directory lists the segment files in the order of the
  segments, closing the queue and opening it again, or opening it in a new process, gives a queue
  with the same pending blocks.
\<close>

theorem queue_reopen:
  assumes ok: "queue_ok (q, d) rs" and mx: "m + 16 \<le> 2 ^ 62"
    and names: "segment_files (dir_entries d) = map (\<lambda>p. s_path (q_heap q ! p)) (segs q)"
  shows "(\<exists>q1 st rs'. Close (q, d) = (Inr (), q1, d) \<and> Open (q1, d) = (Inr (), st) \<and>
      queue_ok st rs' \<and> pending rs' = pending rs) \<and>
    (\<exists>st rs'. Open (newQueue dir m, d) = (Inr (), st) \<and> queue_ok st rs' \<and> pending rs' = pending rs)"
proof -
  from ok have rep: "queue_rep q d rs" and srep: "segs_rep q d rs" and nf: "d_faults d = []"
    and us: "usage q \<le> 2 ^ 62" and mq: "q_maxSize q + 16 \<le> 2 ^ 62"
    by (auto simp: queue_ok_def queue_rep_def)
  have fr: "files_rep d (segment_files (dir_entries d)) rs" using Close_ok(2) [OF ok] names by simp
  have wf: "wf_dir d" using srep by (simp add: segs_rep_def)
  have ne: "rs \<noteq> []" by (rule queue_rep_tail(6) [OF rep])
  have "s_size (q_heap q ! p) = int (length (i_data (the (inode_at d (s_path (q_heap q ! p))))))"
    if "p \<in> set (segs q)" for p
    using that segs_rep_nth [OF srep] seg_rep_inode_size by (metis in_set_conv_nth)
  then have "(\<Sum>n\<leftarrow>segment_files (dir_entries d). int (length (i_data (the (inode_at d n))))) = usage q"
    unfolding names usage_def by (simp add: comp_def cong: map_cong)
  with us have sz: "(\<Sum>n\<leftarrow>segment_files (dir_entries d). int (length (i_data (the (inode_at d n))))) \<le> 2 ^ 62"
    by simp
  from Close_ok(1) [OF ok] obtain hp where
    c: "Close (q, d) = (Inr (), q\<lparr>q_heap := hp, q_head := None, q_tail := None, q_segments := None\<rparr>, d)" by blast
  note open1 = Open_recovers [OF fr nf wf ne sz]
  from open1 [of "q\<lparr>q_heap := hp, q_head := None, q_tail := None, q_segments := None\<rparr>"] mq c
    open1 [of "newQueue dir m"] mx
  show ?thesis using pending_opened [of rs] by (auto simp: newQueue_def)
qed

theorem queue_reopen_witness:
  "(\<exists>q1 st rs'. Close (snd (Append [7] fresh)) = (Inr (), q1, snd (snd (Append [7] fresh))) \<and>
      Open (q1, snd (snd (Append [7] fresh))) = (Inr (), st) \<and> queue_ok st rs' \<and> pending rs' = [[7]])"
proof -
  obtain q d where st: "snd (Append [7] fresh) = (q, d)" by (cases "snd (Append [7] fresh)")
  have ok0: "queue_ok (fst fresh, snd fresh) [([], [])]" using fresh_ok(1) by simp
  have room: "usage (fst fresh) + int (length [7 :: byte]) \<le> q_maxSize (fst fresh)"
    "s_size (q_heap (fst fresh) ! last (segs (fst fresh))) + int (length [7 :: byte]) \<le> q_maxSegmentSize (fst fresh)"
    by (simp_all add: fresh_dir fresh_ok)
  obtain q1 d1 where "Append [7] (fst fresh, snd fresh) = (Inr (), q1, d1)" "queue_ok (q1, d1) [([], [[7]])]"
    by (rule Append_room [OF ok0 room]) (simp add: that)
  with st have ok: "queue_ok (q, d) [([], [[7]])]" by simp
  have "segment_files (dir_entries (snd (snd (Append [7] fresh)))) =
      map (\<lambda>p. s_path (q_heap (fst (snd (Append [7] fresh))) ! p)) (segs (fst (snd (Append [7] fresh))))"
    by code_simp
  with st have "segment_files (dir_entries d) = map (\<lambda>p. s_path (q_heap q ! p)) (segs q)" by simp
  from queue_reopen [OF ok _ this, of 1000] st show ?thesis by simp
qed

text \<open>Segment \<open>9\<close> holds one block; the next one goes to a new segment, \<open>10\<close>.\<close>

definition dir9 :: directory where
  "dir9 = \<lparr>d_files = [(''9'', \<lparr>i_data = enc_blocks [[1]] @ PutUint64 0, i_mtime = 0\<rparr>)],
     d_subdirs = [], d_clock = 0, d_faults = []\<rparr>"

definition queue9 :: qstate where
  "queue9 = snd (Append [2] (snd (SetMaxSegmentSize 17 (snd (Open (newQueue ''hh'' 1000, dir9))))))"

text \<open>
  the order of the segments after a restart is the order of their file names as strings. A
  queue whose segments are \<open>9\<close> and \<open>10\<close> delivers the block of \<open>9\<close> first; the same queue, closed
  and opened again, delivers the block of \<open>10\<close> first.
\<close>

theorem queue_reopen_order:
  "map (\<lambda>p. s_path (q_heap (fst queue9) ! p)) (segs (fst queue9)) = [''9'', ''10''] \<and>
   fst (Current queue9) = Inr [1] \<and>
   fst (Current (snd (Open (snd (Close queue9))))) = Inr [2]"
  by code_simp

text \<open>
  a queue can hold pending blocks that \<open>Current\<close> does not return. When the only segment has
  been consumed to its end and the next block has to go to a new segment, \<open>Append\<close> accepts the
  block, and \<open>Current\<close> keeps answering EOF: only \<open>Advance\<close> or \<open>Open\<close> move the head.
\<close>

theorem queue_consumed_head_hides_block:
  assumes ok: "queue_ok (q, d) [(dn, [])]" and id: "0 < ids_left d"
    and room: "usage q + int (length b) \<le> q_maxSize q" and fits: "8 + int (length b) \<le> q_maxSegmentSize q"
    and full: "q_maxSegmentSize q < s_size (q_heap q ! last (segs q)) + int (length b)"
  shows "\<exists>q' d' rs'. Append b (q, d) = (Inr (), q', d') \<and> queue_ok (q', d') rs' \<and> pending rs' = [b] \<and>
    fst (Current (q', d')) = Inl EOF"
proof -
  have idl: "id_left d" using id by (simp add: id_left_iff)
  obtain q' d' where a: "Append b (q, d) =
      (if 8 + int (length b) \<le> q_maxSegmentSize q then Inr () else Inl ErrSegmentFull, q', d')"
    "queue_ok (q', d') ([(dn, [])] @ [([], if 8 + int (length b) \<le> q_maxSegmentSize q then [b] else [])])"
    by (rule Append_new_segment [OF ok room full idl]) (rule that)
  with fits have ok': "queue_ok (q', d') [(dn, []), ([], [b])]" by simp
  obtain q2 where "Current (q', d') = (head_result (q_maxSegmentSize q') (snd (hd [(dn, []), ([], [b])])), q2, d')"
    by (rule Current_spec [OF ok'])
  then have "fst (Current (q', d')) = Inl EOF" by (simp add: head_result_def)
  with a ok' fits show ?thesis
    by (intro exI [of _ q'] exI [of _ d'] exI [of _ "[(dn, []), ([], [b])]"]) simp
qed

text \<open>The only segment of this directory has been consumed.\<close>

definition dir_used :: directory where
  "dir_used = \<lparr>d_files = [(''1'', \<lparr>i_data = enc_blocks [[9]] @ PutUint64 9, i_mtime = 0\<rparr>)],
     d_subdirs = [], d_clock = 7000000000, d_faults = []\<rparr>"

definition queue_used :: qstate where
  "queue_used = snd (Open (newQueue ''hh'' (2 ^ 40), dir_used))"

lemma queue_used_ok: "queue_ok queue_used [([[9]], [])]" "q_maxSegmentSize (fst queue_used) = 10485760"
  "q_maxSize (fst queue_used) = 2 ^ 40"
proof -
  have n: "segment_files (dir_entries dir_used) = [''1'']" by code_simp
  have i: "inode_at dir_used ''1'' = Some \<lparr>i_data = enc_blocks [[9]] @ PutUint64 9, i_mtime = 0\<rparr>"
    by (simp add: inode_at_def dir_used_def)
  have "file_rep dir_used ''1'' [[9]] []" using i by (simp add: file_rep_def to_u64_def)
  then have "files_rep dir_used (segment_files (dir_entries dir_used)) [([[9]], [])]"
    using n by (simp add: files_rep_def)
  moreover have "d_faults dir_used = []" "wf_dir dir_used" by (simp_all add: dir_used_def wf_dir_def)
  moreover have "(\<Sum>n\<leftarrow>segment_files (dir_entries dir_used). int (length (i_data (the (inode_at dir_used n))))) \<le> 2 ^ 62"
    using n i by simp
  ultimately obtain st where "Open (newQueue ''hh'' (2 ^ 40), dir_used) = (Inr (), st)"
    "queue_ok st (opened [([[9]], [])])" "q_maxSegmentSize (fst st) = 10485760" "q_maxSize (fst st) = 2 ^ 40"
    using Open_recovers [of dir_used "[([[9]], [])]" "newQueue ''hh'' (2 ^ 40)"]
    by (auto simp: newQueue_def defaultSegmentSize_def)
  then show "queue_ok queue_used [([[9]], [])]" "q_maxSegmentSize (fst queue_used) = 10485760"
    "q_maxSize (fst queue_used) = 2 ^ 40"
    by (simp_all add: queue_used_def opened_def)
qed

lemma queue_used_dir: "maxSegmentID 0 (dir_entries (snd queue_used)) = 1" "usage (fst queue_used) = 17"
  "s_size (q_heap (fst queue_used) ! last (segs (fst queue_used))) = 17"
  "ages queue_used = [0]" "d_clock (snd queue_used) = 7000000000"
  by code_simp+

lemma queue_used_ids: "ids_left (snd queue_used) = 2 ^ 64 - 2"
  by (simp add: ids_left_def queue_used_dir)

theorem queue_consumed_head_hides_block_witness:
  "\<exists>q' d' rs'. Append (replicate 10485750 0) queue_used = (Inr (), q', d') \<and> queue_ok (q', d') rs' \<and>
    pending rs' = [replicate 10485750 0] \<and> fst (Current (q', d')) = Inl EOF"
  using queue_consumed_head_hides_block [of "fst queue_used" "snd queue_used" "[[9]]" "replicate 10485750 0"]
    queue_used_ok queue_used_dir queue_used_ids by simp

text \<open>
  \<open>Append\<close> hides a failed write. When the first system call of the write to the tail segment
  fails, \<open>Append\<close> returns nil and no file has changed: the block is lost although the caller is
  told that it is queued.
\<close>

theorem append_hides_io_error:
  assumes rep: "queue_rep q d rs" and us: "usage q + int (length b) \<le> q_maxSize q" and mx: "q_maxSize q < 2 ^ 62"
    and room: "s_size (q_heap q ! last (segs q)) + int (length b) \<le> q_maxSegmentSize q"
    and fault: "d_faults d = True # fs"
  shows "Append b (q, d) = (Inr (), q, d\<lparr>d_faults := fs\<rparr>)"
proof -
  have srep: "segs_rep q d rs" using rep by (simp add: queue_rep_def)
  note tl = queue_rep_tail [OF rep] and le = seg_size_le_usage [OF srep queue_rep_tail(2) [OF rep]]
  have max: "s_maxSize (q_heap q ! last (segs q)) = q_maxSegmentSize q"
    using srep tl(2) by (auto simp: segs_rep_def)
  obtain h where h: "s_file (q_heap q ! last (segs q)) = Some h" using tl(3) by (auto simp: seg_rep_def)
  have "segment_append b (q_heap q ! last (segs q), d) =
      (Inl IOError, (q_heap q ! last (segs q))\<lparr>s_file := Some h\<rparr>, d\<lparr>d_faults := fs\<rparr>)"
    using h max room le us mx fault
    by (simp add: segment_append_def seekEnd_def on_file_def Seek_end_def syscall_def)
  moreover have "(q_heap q ! last (segs q))\<lparr>s_file := Some h\<rparr> = q_heap q ! last (segs q)" using h by simp
  ultimately show ?thesis using tl(1) diskUsage_usage [OF srep] us mx le
    by (simp add: Append_def on_seg_def)
qed

lemma queue_rep_faults: "queue_rep q d rs \<Longrightarrow> queue_rep q (d\<lparr>d_faults := fs\<rparr>) rs"
  by (simp add: queue_rep_def segs_rep_def seg_rep_def wf_dir_def)

theorem append_hides_io_error_witness:
  "Append [7] (fst fresh, (snd fresh)\<lparr>d_faults := [True]\<rparr>) = (Inr (), fst fresh, (snd fresh)\<lparr>d_faults := []\<rparr>)"
proof -
  have "queue_rep (fst fresh) ((snd fresh)\<lparr>d_faults := [True]\<rparr>) [([], [])]"
    using fresh_ok(1) by (intro queue_rep_faults) (simp add: queue_ok_def case_prod_beta)
  from append_hides_io_error [OF this, of "[7]" "[]"] show ?thesis using fresh_dir fresh_ok by simp
qed

text \<open>
  C34: \<open>PurgeOlderThan\<close> ends and removes exactly the segments in front of the first one that was
  modified at or after the cutoff (the given time truncated to seconds), when there is one.
\<close>

theorem purge_removes_old_segments:
  assumes ok: "queue_ok (q, d) rs" and young: "\<exists>m\<in>set (ages (q, d)). Truncate when 1000000000 \<le> m"
  shows "\<exists>st. PurgeOlderThan when (q, d) = Some (Inr (), st) \<and>
    queue_ok st (drop (length (takeWhile (\<lambda>m. m < Truncate when 1000000000) (ages (q, d)))) rs)"
proof -
  have "segs q \<noteq> []" using ok by (simp add: queue_ok_def queue_rep_def)
  then show ?thesis using purgeLoop_drop [OF ok young] by (simp add: PurgeOlderThan_def)
qed

theorem purge_removes_old_segments_witness:
  "\<exists>st. PurgeOlderThan 999999999 queue_used = Some (Inr (), st) \<and> queue_ok st [([[9]], [])]"
  using purge_removes_old_segments [of "fst queue_used" "snd queue_used" "[([[9]], [])]" 999999999]
    queue_used_ok queue_used_dir by (simp add: Truncate_def)

text \<open>
  purging a queue whose only segment is too old breaks it: \<open>tail\<close> keeps pointing at the segment
  that was closed and removed, so that every later \<open>Append\<close> that is not refused returns nil and
  stores nothing, and \<open>LastModified\<close> dereferences a nil file.
\<close>

theorem purge_of_last_segment_loses_appends:
  assumes ok: "queue_ok (q, d) [r]" and us: "usage q + 8 \<le> 2 ^ 62" and id: "0 < ids_left d"
    and old: "hd (ages (q, d)) < Truncate when 1000000000" and now: "Truncate when 1000000000 \<le> d_clock d"
  shows "\<exists>st. PurgeOlderThan when (q, d) = Some (Inr (), st) \<and>
    (\<forall>b. 8 + int (length b) \<le> q_maxSize q \<longrightarrow> Append b st = (Inr (), st)) \<and>
    fst (LastModified st) = Inl Panic"
proof -
  have idl: "id_left d" using id by (simp add: id_left_iff)
  have "segs q \<noteq> []" and mx: "q_maxSize q + 16 \<le> 2 ^ 62" using ok by (auto simp: queue_ok_def queue_rep_def)
  obtain q' d' where p: "purgeLoop (Truncate when 1000000000) (q, d) = Some (Inr (), q', d')"
    "segs_rep q' d' [([], [])]" "usage q' = 8" "q_tail q' = q_tail q" "q_tail q = Some (hd (segs q))"
    "s_file (q_heap q' ! hd (segs q)) = None" "q_maxSize q' = q_maxSize q"
    by (rule purge_last [OF ok us idl old now]) (rule that)
  have "Append b (q', d') = (Inr (), q', d')" if "8 + int (length b) \<le> q_maxSize q" for b
    using that p diskUsage_usage [OF p(2)] mx by (simp add: Append_def on_seg_def segment_append_def)
  moreover have "fst (LastModified (q', d')) = Inl Panic"
    using p by (simp add: LastModified_def on_seg_def segment_lastModified_def)
  ultimately show ?thesis using p(1) \<open>segs q \<noteq> []\<close> by (auto simp: PurgeOlderThan_def)
qed

theorem purge_of_last_segment_loses_appends_witness:
  "\<exists>st. PurgeOlderThan 6000000000 queue_used = Some (Inr (), st) \<and> Append [1, 2, 3] st = (Inr (), st) \<and>
    fst (LastModified st) = Inl Panic"
proof -
  obtain st where "PurgeOlderThan 6000000000 queue_used = Some (Inr (), st)" "fst (LastModified st) = Inl Panic"
    "\<forall>b. 8 + int (length b) \<le> q_maxSize (fst queue_used) \<longrightarrow> Append b st = (Inr (), st)"
    using purge_of_last_segment_loses_appends [of "fst queue_used" "snd queue_used" "([[9]], [])" 6000000000]
      queue_used_ok queue_used_dir queue_used_ids by (auto simp: Truncate_def)
  then show ?thesis using queue_used_ok(3) by (intro exI [of _ st]) simp
qed

end
