(* ===== verification/HH_Config.thy ===== *)
theory HH_Config
  imports Os_File
begin

text \<open>
  The configuration of the hinted-handoff service (\<open>src/hh/config.go\<close>). Durations are nanoseconds.
\<close>

definition Second :: int where "Second = 1000000000"
definition Minute :: int where "Minute = 60 * Second"
definition Hour :: int where "Hour = 60 * Minute"

definition DefaultMaxSize :: int where "DefaultMaxSize = 1024 * 1024 * 1024"
definition DefaultMaxAge :: int where "DefaultMaxAge = 7 * 24 * Hour"
definition DefaultRetryRateLimit :: int where "DefaultRetryRateLimit = 0"
definition DefaultRetryInterval :: int where "DefaultRetryInterval = Second"
definition DefaultRetryMaxInterval :: int where "DefaultRetryMaxInterval = Minute"
definition DefaultPurgeInterval :: int where "DefaultPurgeInterval = Hour"

record Config =
  c_Enabled :: bool
  c_Dir :: string
  c_MaxSize :: int
  c_MaxAge :: int
  c_RetryRateLimit :: int
  c_RetryInterval :: int
  c_RetryMaxInterval :: int
  c_PurgeInterval :: int

definition NewConfig :: Config where
  "NewConfig = \<lparr>c_Enabled = False, c_Dir = [], c_MaxSize = DefaultMaxSize, c_MaxAge = DefaultMaxAge,
     c_RetryRateLimit = DefaultRetryRateLimit, c_RetryInterval = DefaultRetryInterval,
     c_RetryMaxInterval = DefaultRetryMaxInterval, c_PurgeInterval = DefaultPurgeInterval\<rparr>"

definition Config_Validate :: "Config \<Rightarrow> hh_error + unit" where
  "Config_Validate c = (if c_Enabled c \<and> c_Dir c = [] then Inl ErrConfig else Inr ())"

lemmas duration_defs = Second_def Minute_def Hour_def DefaultMaxSize_def DefaultMaxAge_def
  DefaultRetryInterval_def DefaultRetryMaxInterval_def DefaultPurgeInterval_def DefaultRetryRateLimit_def

end
