(* ===== verification/Node_Processor.thy ===== *)
theory Node_Processor
  imports Queue_Recovery HH_Config
begin

text \<open>
  The processor that owns the hinted-handoff queue of one node (\<open>src/hh/node_processor.go\<close>).
  Its state is the record and the directory of its queue. The points, their text form and parser
  (package \<open>models\<close>), the meta client and the shard writer are parameters: \<open>DataNode\<close> and
  \<open>WriteShardTo\<close> act on a world of type \<open>'w\<close>, which stands for the rest of the cluster.
\<close>

section \<open>Model\<close>

record hh_stats =
  st_writeShardReq :: int
  st_writeShardReqPoints :: int
  st_writeNodeReq :: int
  st_writeNodeReqFail :: int
  st_writeNodeReqPoints :: int

record NodeProcessor =
  np_PurgeInterval :: int
  np_RetryInterval :: int
  np_RetryMaxInterval :: int
  np_MaxSize :: int
  np_MaxAge :: int
  np_RetryRateLimit :: int
  np_nodeID :: u64
  np_dir :: string
  np_open :: bool
  np_queue :: "queue option"
  np_stats :: hh_stats

type_synonym npstate = "NodeProcessor \<times> directory"

definition no_stats :: hh_stats where
  "no_stats = \<lparr>st_writeShardReq = 0, st_writeShardReqPoints = 0, st_writeNodeReq = 0,
     st_writeNodeReqFail = 0, st_writeNodeReqPoints = 0\<rparr>"

definition NewNodeProcessor :: "u64 \<Rightarrow> string \<Rightarrow> NodeProcessor" where
  "NewNodeProcessor nodeID dir =
     \<lparr>np_PurgeInterval = DefaultPurgeInterval, np_RetryInterval = DefaultRetryInterval,
      np_RetryMaxInterval = DefaultRetryMaxInterval, np_MaxSize = DefaultMaxSize,
      np_MaxAge = DefaultMaxAge, np_RetryRateLimit = 0, np_nodeID = nodeID, np_dir = dir,
      np_open = False, np_queue = None, np_stats = no_stats\<rparr>"

text \<open>A method of the queue, called through a pointer that may be nil.\<close>

definition on_queue :: "(qstate \<Rightarrow> (hh_error + 'a) \<times> qstate) \<Rightarrow> npstate \<Rightarrow> (hh_error + 'a) \<times> npstate" where
  "on_queue f st = (case st of (n, d) \<Rightarrow>
     (case np_queue n of
        None \<Rightarrow> (Inl Panic, n, d)
      | Some q \<Rightarrow> (case f (q, d) of (r, q', d') \<Rightarrow> (r, n\<lparr>np_queue := Some q'\<rparr>, d'))))"

definition np_Open :: "npstate \<Rightarrow> (hh_error + unit) \<times> npstate" where
  "np_Open st = (case st of (n, d) \<Rightarrow>
     if np_open n then (Inr (), n, d)
     else
       let n = n\<lparr>np_open := True\<rparr> in
       (case syscall d of
          (Inl e, d) \<Rightarrow> (Inl e, n, d)
        | (Inr _, d) \<Rightarrow>
            (case Open (newQueue (np_dir n) (np_MaxSize n), d) of
               (Inl e, _, d) \<Rightarrow> (Inl e, n, d)
             | (Inr _, q, d) \<Rightarrow> (Inr (), n\<lparr>np_queue := Some q\<rparr>, d))))"

definition np_Close :: "npstate \<Rightarrow> (hh_error + unit) \<times> npstate" where
  "np_Close st = (case st of (n, d) \<Rightarrow>
     if \<not> np_open n then (Inr (), n, d)
     else on_queue Close (n\<lparr>np_open := False\<rparr>, d))"

definition np_Purge :: "npstate \<Rightarrow> (hh_error + unit) \<times> npstate" where
  "np_Purge st = (case st of (n, d) \<Rightarrow>
     if np_open n then (Inl ErrNodeProcessorOpen, n, d)
     else (case RemoveAll d of (r, d) \<Rightarrow> (r, n, d)))"

definition marshalWrite :: "('p \<Rightarrow> byte list) \<Rightarrow> u64 \<Rightarrow> 'p list \<Rightarrow> byte list" where
  "marshalWrite String shardID points =
     foldl (\<lambda>b p. (b @ String p) @ [10]) (PutUint64 shardID) points"

definition unmarshalWrite :: "(byte list \<Rightarrow> hh_error + 'p list) \<Rightarrow> byte list \<Rightarrow> hh_error + u64 \<times> 'p list" where
  "unmarshalWrite ParsePoints b =
     (if length b < 8 then Inl ErrTooShort
      else case ParsePoints (drop 8 b) of
        Inl e \<Rightarrow> Inl e
      | Inr points \<Rightarrow> Inr (Uint64 (take 8 b), points))"

definition add_stats :: "(hh_stats \<Rightarrow> hh_stats) \<Rightarrow> NodeProcessor \<Rightarrow> NodeProcessor" where
  "add_stats f n = n\<lparr>np_stats := f (np_stats n)\<rparr>"

definition np_WriteShard :: "('p \<Rightarrow> byte list) \<Rightarrow> u64 \<Rightarrow> 'p list \<Rightarrow> npstate \<Rightarrow> (hh_error + unit) \<times> npstate" where
  "np_WriteShard String shardID points st = (case st of (n, d) \<Rightarrow>
     if \<not> np_open n then (Inl ErrNodeProcessorClosed, n, d)
     else
       on_queue (Append (marshalWrite String shardID points))
         (add_stats (\<lambda>s. s\<lparr>st_writeShardReq := i64 (st_writeShardReq s + 1),
            st_writeShardReqPoints := i64 (st_writeShardReqPoints s + int (length points))\<rparr>) n, d))"

definition np_LastModified :: "npstate \<Rightarrow> (hh_error + int) \<times> npstate" where
  "np_LastModified st = on_queue LastModified st"

definition Active :: "(u64 \<Rightarrow> 'w \<Rightarrow> (hh_error + 'n option) \<times> 'w) \<Rightarrow> NodeProcessor \<Rightarrow> 'w \<Rightarrow> (hh_error + bool) \<times> 'w" where
  "Active DataNode n w = (case DataNode (np_nodeID n) w of
     (Inl e, w) \<Rightarrow> (Inl e, w)
   | (Inr nio, w) \<Rightarrow> (Inr (nio \<noteq> None), w))"

definition SendWrite :: "(byte list \<Rightarrow> hh_error + 'p list) \<Rightarrow> (u64 \<Rightarrow> 'w \<Rightarrow> (hh_error + 'n option) \<times> 'w) \<Rightarrow>
    (u64 \<Rightarrow> u64 \<Rightarrow> 'p list \<Rightarrow> 'w \<Rightarrow> (hh_error + unit) \<times> 'w) \<Rightarrow>
    npstate \<times> 'w \<Rightarrow> (hh_error + nat) \<times> npstate \<times> 'w" where
  "SendWrite ParsePoints DataNode WriteShardTo st = (case st of (np, w) \<Rightarrow>
     (case Active DataNode (fst np) w of
        (Inl e, w) \<Rightarrow> (Inl e, np, w)
      | (Inr False, w) \<Rightarrow> (Inl EOF, np, w)
      | (Inr True, w) \<Rightarrow>
          (case on_queue Current np of
             (Inl e, np) \<Rightarrow> (Inl e, np, w)
           | (Inr buf, np) \<Rightarrow>
               (case unmarshalWrite ParsePoints buf of
                  Inl e \<Rightarrow> (Inl e, snd (on_queue Advance np), w)
                | Inr (shardID, points) \<Rightarrow>
                    (case WriteShardTo shardID (np_nodeID (fst np)) points w of
                       (Inl e, w) \<Rightarrow>
                         (Inl e, apfst (add_stats (\<lambda>s. s\<lparr>st_writeNodeReqFail := i64 (st_writeNodeReqFail s + 1)\<rparr>)) np, w)
                     | (Inr _, w) \<Rightarrow>
                         (Inr (length buf),
                          snd (on_queue Advance
                            (apfst (add_stats (\<lambda>s. s\<lparr>st_writeNodeReq := i64 (st_writeNodeReq s + 1),
                               st_writeNodeReqPoints := i64 (st_writeNodeReqPoints s + int (length points))\<rparr>)) np)),
                          w))))))"

definition Head :: "npstate \<Rightarrow> (hh_error + string) \<times> npstate" where
  "Head st = on_queue (\<lambda>qst. case Position qst of (qp, qst) \<Rightarrow> (Inr (qp_head qp), qst)) st"

definition Tail :: "npstate \<Rightarrow> (hh_error + string) \<times> npstate" where
  "Tail st = on_queue (\<lambda>qst. case Position qst of (qp, qst) \<Rightarrow> (Inr (qp_tail qp), qst)) st"

text \<open>
  The bodies of the three cases of the \<open>select\<close> in \<open>run\<close>. The retry case sends blocks until one
  fails; its result is the next retry interval and the number of bytes sent, which the rate limiter
  counts. The loop is a partial function: it may run for as long as blocks arrive.
\<close>

definition run_init :: "NodeProcessor \<Rightarrow> int" where
  "run_init n = (if np_RetryInterval n > np_RetryMaxInterval n then np_RetryMaxInterval n else np_RetryInterval n)"

definition backoff :: "NodeProcessor \<Rightarrow> int \<Rightarrow> int" where
  "backoff n currInterval =
     (let c = i64 (currInterval * 2) in if c > np_RetryMaxInterval n then np_RetryMaxInterval n else c)"

partial_function (option) run_retry :: "(npstate \<times> 'w \<Rightarrow> (hh_error + nat) \<times> npstate \<times> 'w) \<Rightarrow> int \<Rightarrow> int \<Rightarrow>
    npstate \<times> 'w \<Rightarrow> (int \<times> int \<times> npstate \<times> 'w) option" where
  "run_retry send currInterval sent st =
     (case send st of
        (Inl e, st) \<Rightarrow>
          Some (if e = EOF then np_RetryInterval (fst (fst st)) else backoff (fst (fst st)) currInterval, sent, st)
      | (Inr c, st) \<Rightarrow> run_retry send (np_RetryInterval (fst (fst st))) (i64 (sent + int c)) st)"

definition run_purge :: "int \<Rightarrow> npstate \<Rightarrow> ((hh_error + unit) \<times> npstate) option" where
  "run_purge now st = (case st of (n, d) \<Rightarrow>
     (case np_queue n of
        None \<Rightarrow> Some (Inl Panic, n, d)
      | Some q \<Rightarrow> map_option (\<lambda>(r, q', d'). (r, n\<lparr>np_queue := Some q'\<rparr>, d'))
          (PurgeOlderThan (now - np_MaxAge n) (q, d))))"

section \<open>Facts\<close>

text \<open>The queue of a processor represents the pending blocks \<open>xs\<close>.\<close>

definition np_rep :: "npstate \<Rightarrow> byte list list \<Rightarrow> bool" where
  "np_rep np xs \<longleftrightarrow> (\<exists>q. np_queue (fst np) = Some q \<and> dq_rep (q, snd np) xs)"

lemma np_rep_stats [simp]: "np_rep (apfst (add_stats f) np) xs = np_rep np xs"
  by (cases np) (simp add: np_rep_def add_stats_def)

lemma np_Current:
  assumes "np_rep np xs" "on_queue Current np = (r, np')"
  shows "np_rep np' xs" "np_nodeID (fst np') = np_nodeID (fst np)"
    "np_RetryInterval (fst np') = np_RetryInterval (fst np)"
    "np_RetryMaxInterval (fst np') = np_RetryMaxInterval (fst np)"
    "r = Inr b \<Longrightarrow> xs \<noteq> [] \<and> hd xs = b \<and> (\<exists>q. np_queue (fst np') = Some q \<and> dq_ready (q, snd np'))"
  using assms dq.cur_keeps dq.cur_head
  by (cases np; fastforce simp: np_rep_def on_queue_def split: prod.splits)+

lemma np_Advance:
  assumes "np_rep np xs" "np_queue (fst np) = Some q" "dq_ready (q, snd np)"
  shows "np_rep (snd (on_queue Advance np)) (tl xs)"
    "np_RetryInterval (fst (snd (on_queue Advance np))) = np_RetryInterval (fst np)"
    "np_RetryMaxInterval (fst (snd (on_queue Advance np))) = np_RetryMaxInterval (fst np)"
  using assms dq.adv_tail
  by (cases np; fastforce simp: np_rep_def on_queue_def split: prod.splits)+

text \<open>The outcome of one call of \<open>SendWrite\<close>, as a relation between pending blocks before and after.\<close>

definition sent_step :: "(byte list \<Rightarrow> hh_error + 'p list) \<Rightarrow> (u64 \<Rightarrow> u64 \<Rightarrow> 'p list \<Rightarrow> 'w \<Rightarrow> (hh_error + unit) \<times> 'w) \<Rightarrow>
    u64 \<Rightarrow> byte list list \<Rightarrow> hh_error + nat \<Rightarrow> byte list list \<Rightarrow> 'w \<Rightarrow> bool" where
  "sent_step P W node xs r xs' w' \<longleftrightarrow> (case r of
     Inl e \<Rightarrow> xs' = xs \<or> (\<exists>b. xs = b # xs' \<and> unmarshalWrite P b = Inl e)
   | Inr c \<Rightarrow> (\<exists>b s ps w1. xs = b # xs' \<and> c = length b \<and> unmarshalWrite P b = Inr (s, ps) \<and>
       W s node ps w1 = (Inr (), w')))"

lemma SendWrite_step:
  assumes rep: "np_rep np xs" and send: "SendWrite P D W (np, w) = (r, np', w')"
  shows "\<exists>xs'. np_rep np' xs' \<and> sent_step P W (np_nodeID (fst np)) xs r xs' w' \<and>
    np_RetryInterval (fst np') = np_RetryInterval (fst np) \<and>
    np_RetryMaxInterval (fst np') = np_RetryMaxInterval (fst np)"
proof -
  obtain ra w0 where act: "Active D (fst np) w = (ra, w0)" by force
  obtain rc np1 where cur: "on_queue Current np = (rc, np1)" by (cases "on_queue Current np")
  note c = np_Current [OF rep cur]
  consider e where "ra = Inl e" | "ra = Inr False" | e where "ra = Inr True" "rc = Inl e"
    | b where "ra = Inr True" "rc = Inr b" by (cases ra; cases rc; auto)
  then show ?thesis
  proof cases
    case (4 b)
    from c(5) [OF 4(2)] obtain ys q where b: "xs = b # ys" "np_queue (fst np1) = Some q" "dq_ready (q, snd np1)"
      by (cases xs) auto
    let ?upd = "\<lambda>f. apfst (add_stats f) np1"
    have q: "np_queue (fst (?upd f)) = Some q" "dq_ready (q, snd (?upd f))" for f
      using b by (cases np1; simp add: add_stats_def)+
    have adv: "np_rep (snd (on_queue Advance (?upd f))) ys"
      "np_RetryInterval (fst (snd (on_queue Advance (?upd f)))) = np_RetryInterval (fst np)"
      "np_RetryMaxInterval (fst (snd (on_queue Advance (?upd f)))) = np_RetryMaxInterval (fst np)" for f
      using np_Advance [OF _ q(1) [of f] q(2) [of f], of xs] c b(1) by (auto simp: add_stats_def)
    show ?thesis
    proof (cases "unmarshalWrite P b")
      case (Inl e)
      then show ?thesis
        using send act cur 4 np_Advance [OF c(1) b(2,3)] c b(1)
        by (auto simp: SendWrite_def sent_step_def intro!: exI [of _ ys])
    next
      case (Inr sp)
      obtain s ps where sp: "sp = (s, ps)" by force
      obtain rw w1 where wr: "W s (np_nodeID (fst np1)) ps w0 = (rw, w1)" by force
      show ?thesis
      proof (cases rw)
        case Inl': (Inl e)
        then show ?thesis using send act cur 4 Inr sp wr c
          by (auto simp: SendWrite_def sent_step_def add_stats_def intro!: exI [of _ xs])
      next
        case Inr': (Inr u)
        then show ?thesis using send act cur 4 Inr sp wr c adv b(1)
          by (auto simp: SendWrite_def sent_step_def intro!: exI [of _ ys])
      qed
    qed
  qed (use send act cur c rep in \<open>auto simp: SendWrite_def sent_step_def intro!: exI [of _ xs]\<close>)
qed

lemma marshalWrite_concat:
  "marshalWrite String s ps = PutUint64 s @ concat (map (\<lambda>p. String p @ [10]) ps)"
proof -
  have "foldl (\<lambda>b p. (b @ String p) @ [10]) b ps = b @ concat (map (\<lambda>p. String p @ [10]) ps)" for b
    by (induction ps arbitrary: b) simp_all
  then show ?thesis by (simp add: marshalWrite_def)
qed

lemma unmarshalWrite_marshalWrite:
  assumes "ParsePoints (concat (map (\<lambda>p. String p @ [10]) ps)) = Inr ps"
  shows "unmarshalWrite ParsePoints (marshalWrite String s ps) = Inr (s, ps)"
  using assms by (simp add: unmarshalWrite_def marshalWrite_concat)

lemma marshalWrite_nonempty: "marshalWrite String s ps \<noteq> []"
  by (simp add: marshalWrite_concat PutUint64_def)

lemma backoff_bounds:
  assumes "0 \<le> c" "c \<le> np_RetryMaxInterval n" "np_RetryMaxInterval n < 2 ^ 62"
  shows "0 \<le> backoff n c \<and> backoff n c \<le> np_RetryMaxInterval n"
  using assms by (auto simp: backoff_def Let_def)

lemma run_retry_returns:
  assumes "np_rep np xs" "np_RetryMaxInterval (fst np) < 2 ^ 62"
    "0 \<le> np_RetryInterval (fst np)" "np_RetryInterval (fst np) \<le> np_RetryMaxInterval (fst np)"
    "0 \<le> c" "c \<le> np_RetryMaxInterval (fst np)"
  shows "\<exists>c' n' st'. run_retry (SendWrite P D W) c sent (np, w) = Some (c', n', st') \<and>
    0 \<le> c' \<and> c' \<le> np_RetryMaxInterval (fst np)"
  using assms
proof (induction xs arbitrary: np w c sent rule: length_induct)
  case (1 xs)
  obtain r np' w' where send: "SendWrite P D W (np, w) = (r, np', w')" by (cases "SendWrite P D W (np, w)") auto
  from SendWrite_step [OF "1.prems"(1) send] obtain xs' where
    st: "np_rep np' xs'" "sent_step P W (np_nodeID (fst np)) xs r xs' w'"
    "np_RetryInterval (fst np') = np_RetryInterval (fst np)"
    "np_RetryMaxInterval (fst np') = np_RetryMaxInterval (fst np)" by blast
  show ?case
  proof (cases r)
    case (Inl e)
    then show ?thesis using send st "1.prems" backoff_bounds [of c "fst np'"]
      by (subst run_retry.simps) auto
  next
    case (Inr k)
    then have len: "length xs' < length xs" using st(2) by (auto simp: sent_step_def)
    have "\<exists>c' n' st'. run_retry (SendWrite P D W) (np_RetryInterval (fst np'))
        (i64 (sent + int k)) (np', w') = Some (c', n', st') \<and> 0 \<le> c' \<and> c' \<le> np_RetryMaxInterval (fst np')"
      by (rule "1.IH" [rule_format, OF len st(1)]) (use st "1.prems" in simp_all)
    then show ?thesis using Inr send st(4) by (subst run_retry.simps) simp
  qed
qed

section \<open>Delivery\<close>

definition same_np :: "NodeProcessor \<Rightarrow> NodeProcessor \<Rightarrow> bool" where
  "same_np n n' \<longleftrightarrow> np_nodeID n' = np_nodeID n \<and> np_RetryInterval n' = np_RetryInterval n \<and>
     np_RetryMaxInterval n' = np_RetryMaxInterval n \<and> np_open n' = np_open n"

lemma SendWrite_success:
  assumes q: "np_queue n = Some q" "queue_ok (q, d) rs" "[] \<notin> set (pending rs)"
    and b: "snd (hd rs) = b # td" "int (length b) \<le> q_maxSegmentSize q" "unmarshalWrite P b = Inr (s, ps)"
    and env: "D (np_nodeID n) w = (Inr (Some ni), w0)" "W s (np_nodeID n) ps w0 = (Inr u, w')"
  shows "\<exists>n' d' q'. SendWrite P D W ((n, d), w) = (Inr (length b), (n', d'), w') \<and> np_queue n' = Some q' \<and>
    queue_ok (q', d') (advanced rs) \<and> same_np n n' \<and> q_maxSegmentSize q' = q_maxSegmentSize q"
proof -
  obtain q1 where c: "Current (q, d) = (head_result (q_maxSegmentSize q) (snd (hd rs)), q1, d)"
    "queue_ok (q1, d) rs" "q_maxSegmentSize q1 = q_maxSegmentSize q"
    "snd (hd rs) \<noteq> [] \<Longrightarrow> s_currentSize (q_heap q1 ! hd (segs q1)) = int (length (hd (snd (hd rs))))"
    by (rule Current_spec [OF q(2)]) (rule that)
  then have cur: "snd (hd rs) \<noteq> [] \<longrightarrow> s_currentSize (q_heap q1 ! hd (segs q1)) = int (length (hd (snd (hd rs))))"
    by blast
  have h: "head_result (q_maxSegmentSize q) (snd (hd rs)) = Inr b" using b by (simp add: head_result_def)
  obtain q2 d2 where a: "Advance (q1, d) = (Inr (), q2, d2)" "queue_ok (q2, d2) (advanced rs)"
    "q_maxSegmentSize q2 = q_maxSegmentSize q1"
    by (rule Advance_ok [OF c(2) cur]) (rule that)
  show ?thesis using q(1) c(1,3) h a b(3) env
    by (simp add: SendWrite_def Active_def on_queue_def add_stats_def same_np_def)
qed

lemma SendWrite_EOF:
  assumes q: "np_queue n = Some q" "queue_ok (q, d) rs" "snd (hd rs) = []"
    and env: "D (np_nodeID n) w = (Inr (Some ni), w0)"
  shows "\<exists>n' q'. SendWrite P D W ((n, d), w) = (Inl EOF, (n', d), w0) \<and> np_queue n' = Some q' \<and>
    queue_ok (q', d) rs \<and> same_np n n'"
proof -
  obtain q1 where c: "Current (q, d) = (head_result (q_maxSegmentSize q) (snd (hd rs)), q1, d)" "queue_ok (q1, d) rs"
    by (rule Current_spec [OF q(2)]) (rule that)
  then show ?thesis using q(1,3) env
    by (simp add: SendWrite_def Active_def on_queue_def head_result_def same_np_def)
qed

text \<open>No segment but possibly the last of all is used up.\<close>

definition no_gap :: "(byte list list \<times> byte list list) list \<Rightarrow> bool" where
  "no_gap rs \<longleftrightarrow> (\<forall>r\<in>set rs. snd r \<noteq> []) \<or> (\<exists>dn. rs = [(dn, [])])"

lemma no_gap_advanced: "no_gap rs \<Longrightarrow> no_gap (advanced rs)"
  by (cases rs; cases "hd rs"; cases "snd (hd rs)") (auto simp: no_gap_def advanced_def)

definition delivery :: "(byte list \<Rightarrow> hh_error + 'p list) \<Rightarrow> u64 \<Rightarrow> byte list \<Rightarrow> u64 \<times> u64 \<times> 'p list" where
  "delivery P node b = (case unmarshalWrite P b of Inr (s, ps) \<Rightarrow> (s, node, ps))"

definition log_writer :: "u64 \<Rightarrow> u64 \<Rightarrow> 'p list \<Rightarrow> (u64 \<times> u64 \<times> 'p list) list \<Rightarrow>
    (hh_error + unit) \<times> (u64 \<times> u64 \<times> 'p list) list" where
  "log_writer s n ps w = (Inr (), w @ [(s, n, ps)])"

definition always_active :: "u64 \<Rightarrow> 'w \<Rightarrow> (hh_error + unit option) \<times> 'w" where
  "always_active n w = (Inr (Some ()), w)"

lemma drain:
  assumes "np_queue n = Some q" "queue_ok (q, d) rs" "no_gap rs" "[] \<notin> set (pending rs)"
    "\<forall>b\<in>set (pending rs). int (length b) \<le> q_maxSegmentSize q \<and> (\<exists>s ps. unmarshalWrite P b = Inr (s, ps))"
  shows "\<exists>sent' n' d' q' rs'. run_retry (SendWrite P always_active log_writer) c sent ((n, d), w) =
      Some (np_RetryInterval n, sent', (n', d'), w @ map (delivery P (np_nodeID n)) (pending rs)) \<and>
    np_queue n' = Some q' \<and> queue_ok (q', d') rs' \<and> pending rs' = []"
  using assms
proof (induction "pending rs" arbitrary: n q d rs c sent w)
  case Nil
  have "rs \<noteq> []" using Nil.prems(2) queue_rep_tail(6) by (auto simp: queue_ok_def)
  then have e: "snd (hd rs) = []" using Nil.hyps by (cases rs) auto
  have a: "always_active (np_nodeID n) w = (Inr (Some ()), w)" by (simp add: always_active_def)
  obtain n' q' where "SendWrite P always_active log_writer ((n, d), w) = (Inl EOF, (n', d), w)"
    "np_queue n' = Some q'" "queue_ok (q', d) rs" "same_np n n'"
    using SendWrite_EOF [where P = P and W = log_writer and D = always_active, OF Nil.prems(1,2) e a] by auto
  then show ?case using Nil.hyps by (subst run_retry.simps) (auto simp: same_np_def)
next
  case (Cons b bs)
  have "rs \<noteq> []" using Cons.hyps(2) by auto
  then obtain td where h: "snd (hd rs) = b # td"
    using Cons.hyps(2) Cons.prems(3) by (cases rs; cases "snd (hd rs)") (auto simp: no_gap_def)
  have bmem: "b \<in> set (pending rs)" using Cons.hyps(2) by (metis list.set_intros(1))
  then obtain s ps where u: "unmarshalWrite P b = Inr (s, ps)" "int (length b) \<le> q_maxSegmentSize q"
    using Cons.prems(5) by blast
  have "always_active (np_nodeID n) w = (Inr (Some ()), w)" "log_writer s (np_nodeID n) ps w = (Inr (), w @ [(s, np_nodeID n, ps)])"
    by (simp_all add: always_active_def log_writer_def)
  from SendWrite_success [where D = always_active and W = log_writer, OF Cons.prems(1,2,4) h u(2,1) this] obtain n' d' q' where
    sw: "SendWrite P always_active log_writer ((n, d), w) = (Inr (length b), (n', d'), w @ [(s, np_nodeID n, ps)])"
      "np_queue n' = Some q'" "queue_ok (q', d') (advanced rs)" "same_np n n'"
      "q_maxSegmentSize q' = q_maxSegmentSize q" by blast
  have adv: "pending (advanced rs) = bs" using h \<open>rs \<noteq> []\<close> by (simp add: pending_advanced Cons.hyps(2) [symmetric])
  have sub: "set bs \<subseteq> set (pending rs)" using Cons.hyps(2) by (metis set_subset_Cons)
  have del: "delivery P (np_nodeID n) b = (s, np_nodeID n, ps)" using u by (simp add: delivery_def)
  have "\<exists>sent' n'' d'' q'' rs'. run_retry (SendWrite P always_active log_writer) (np_RetryInterval n')
      (i64 (sent + int (length b))) ((n', d'), w @ [(s, np_nodeID n, ps)]) =
      Some (np_RetryInterval n', sent', (n'', d''), (w @ [(s, np_nodeID n, ps)]) @ map (delivery P (np_nodeID n')) (pending (advanced rs))) \<and>
    np_queue n'' = Some q'' \<and> queue_ok (q'', d'') rs' \<and> pending rs' = []"
  proof (rule Cons.hyps(1))
    show "bs = pending (advanced rs)" using adv by simp
    show "np_queue n' = Some q'" "queue_ok (q', d') (advanced rs)" by (rule sw)+
    show "no_gap (advanced rs)" by (rule no_gap_advanced [OF Cons.prems(3)])
    show "[] \<notin> set (pending (advanced rs))" using adv sub Cons.prems(4) by blast
    show "\<forall>b\<in>set (pending (advanced rs)). int (length b) \<le> q_maxSegmentSize q' \<and>
        (\<exists>s ps. unmarshalWrite P b = Inr (s, ps))"
      unfolding adv sw(5) using sub Cons.prems(5) by blast
  qed
  then show ?case using sw adv del Cons.hyps(2) [symmetric]
    by (subst run_retry.simps) (auto simp: same_np_def)
qed

section \<open>Properties\<close>

text \<open>
  C3: a block leaves the queue only when the shard writer has accepted its points, or when it cannot
  be decoded. One call of \<open>SendWrite\<close> either returns an error and keeps all pending blocks (or
  drops an undecodable first one), or returns the length of the first block after the writer was
  called with the shard and the points in it and reported success; the other blocks stay.
\<close>

theorem SendWrite_at_least_once:
  assumes "np_queue n = Some q" "dq_rep (q, d) xs" "SendWrite P D W ((n, d), w) = (r, (n', d'), w')"
  shows "\<exists>q' xs'. np_queue n' = Some q' \<and> dq_rep (q', d') xs' \<and>
    (case r of
       Inl e \<Rightarrow> xs' = xs \<or> (\<exists>b. xs = b # xs' \<and> unmarshalWrite P b = Inl e)
     | Inr c \<Rightarrow> (\<exists>b s ps w1. xs = b # xs' \<and> c = length b \<and> unmarshalWrite P b = Inr (s, ps) \<and>
         W s (np_nodeID n) ps w1 = (Inr (), w')))"
proof -
  have "np_rep (n, d) xs" using assms by (simp add: np_rep_def)
  from SendWrite_step [OF this assms(3)] show ?thesis by (auto simp: np_rep_def sent_step_def)
qed

text \<open>A processor for node 3 over an empty directory, holding one write of two points for shard 5.\<close>

definition np_dir0 :: directory where
  "np_dir0 = \<lparr>d_files = [], d_subdirs = [], d_clock = 0, d_faults = []\<rparr>"

definition np_fresh :: npstate where
  "np_fresh = snd (np_Open (NewNodeProcessor 3 ''3'', np_dir0))"

text \<open>Points that are single bytes, printed as themselves.\<close>

definition byte_String :: "byte \<Rightarrow> byte list" where
  "byte_String p = [p]"

fun byte_Parse :: "byte list \<Rightarrow> hh_error + byte list" where
  "byte_Parse [] = Inr []"
| "byte_Parse [b] = Inl ErrParsePoints"
| "byte_Parse (p # c # b) = (if c \<noteq> 10 then Inl ErrParsePoints
     else case byte_Parse b of Inl e \<Rightarrow> Inl e | Inr ps \<Rightarrow> Inr (p # ps))"

lemma byte_Parse_String: "byte_Parse (concat (map (\<lambda>p. byte_String p @ [10]) ps)) = Inr ps"
  by (induction ps) (simp_all add: byte_String_def)

lemma np_fresh_rep:
  obtains q where "np_queue (fst np_fresh) = Some q" "queue_ok (q, snd np_fresh) [([], [])]"
    "q_maxSegmentSize q = 10485760" "q_maxSize q = 1073741824"
proof -
  have d0: "d_faults np_dir0 = []" "wf_dir np_dir0" "segment_files (dir_entries np_dir0) = []"
    by (simp_all add: np_dir0_def wf_dir_def dir_entries_def)
  from Open_fresh [OF d0, of "newQueue ''3'' 1073741824"] obtain q d where
    "Open (newQueue ''3'' 1073741824, np_dir0) = (Inr (), q, d)" "queue_ok (q, d) [([], [])]"
    "q_maxSegmentSize q = 10485760" "q_maxSize q = 1073741824"
    by (auto simp: newQueue_def defaultSegmentSize_def)
  then show ?thesis using d0(1)
    by (intro that [of q]) (simp_all add: np_fresh_def np_Open_def NewNodeProcessor_def DefaultMaxSize_def)
qed

lemma WriteShard_room:
  assumes q: "np_queue n = Some q" "queue_ok (q, d) rs" and o: "np_open n"
    and room: "usage q + int (length (marshalWrite String s ps)) \<le> q_maxSize q"
      "s_size (q_heap q ! last (segs q)) + int (length (marshalWrite String s ps)) \<le> q_maxSegmentSize q"
  obtains n' d' q' where "np_WriteShard String s ps (n, d) = (Inr (), n', d')" "np_queue n' = Some q'"
    "queue_ok (q', d') (rs[length rs - 1 := (fst (last rs), snd (last rs) @ [marshalWrite String s ps])])"
    "np_nodeID n' = np_nodeID n" "q_maxSegmentSize q' = q_maxSegmentSize q"
    "np_RetryInterval n' = np_RetryInterval n" "np_RetryMaxInterval n' = np_RetryMaxInterval n"
proof -
  obtain q' d' where "Append (marshalWrite String s ps) (q, d) = (Inr (), q', d')"
    "queue_ok (q', d') (rs[length rs - 1 := (fst (last rs), snd (last rs) @ [marshalWrite String s ps])])"
    "q_maxSegmentSize q' = q_maxSegmentSize q"
    by (rule Append_room [OF q(2) room]) (rule that)
  moreover from this have "\<exists>n'. np_WriteShard String s ps (n, d) = (Inr (), n', d') \<and> np_queue n' = Some q' \<and>
      np_nodeID n' = np_nodeID n \<and> np_RetryInterval n' = np_RetryInterval n \<and>
      np_RetryMaxInterval n' = np_RetryMaxInterval n"
    using q(1) o by (simp add: np_WriteShard_def on_queue_def add_stats_def)
  ultimately show ?thesis using that by blast
qed

definition np_loaded :: npstate where
  "np_loaded = snd (np_WriteShard byte_String 5 [1, 2] np_fresh)"

lemma np_fresh_eqs: "np_open (fst np_fresh)" "np_nodeID (fst np_fresh) = 3"
  "np_RetryInterval (fst np_fresh) = Second" "np_RetryMaxInterval (fst np_fresh) = Minute"
  "map_option usage (np_queue (fst np_fresh)) = Some 8"
  "map_option (\<lambda>q. s_size (q_heap q ! last (segs q))) (np_queue (fst np_fresh)) = Some 8"
  by code_simp+

lemma np_loaded_rep:
  obtains q where "np_queue (fst np_loaded) = Some q"
    "queue_ok (q, snd np_loaded) [([], [marshalWrite byte_String 5 [1, 2]])]"
    "q_maxSegmentSize q = 10485760" "np_nodeID (fst np_loaded) = 3"
    "np_RetryInterval (fst np_loaded) = Second" "np_RetryMaxInterval (fst np_loaded) = Minute"
proof -
  obtain q where q: "np_queue (fst np_fresh) = Some q" "queue_ok (q, snd np_fresh) [([], [])]"
    "q_maxSegmentSize q = 10485760" "q_maxSize q = 1073741824" by (rule np_fresh_rep)
  have len: "length (marshalWrite byte_String 5 [1, 2]) = 12" by (simp add: marshalWrite_concat byte_String_def)
  have room: "usage q + int (length (marshalWrite byte_String 5 [1, 2])) \<le> q_maxSize q"
    "s_size (q_heap q ! last (segs q)) + int (length (marshalWrite byte_String 5 [1, 2])) \<le> q_maxSegmentSize q"
    using np_fresh_eqs(5,6) q len by simp_all
  obtain n' d' q' where "np_WriteShard byte_String 5 [1, 2] np_fresh = (Inr (), n', d')"
    "np_queue n' = Some q'"
    "queue_ok (q', d') [([], [marshalWrite byte_String 5 [1, 2]])]"
    "np_nodeID n' = np_nodeID (fst np_fresh)" "q_maxSegmentSize q' = q_maxSegmentSize q"
    "np_RetryInterval n' = np_RetryInterval (fst np_fresh)"
    "np_RetryMaxInterval n' = np_RetryMaxInterval (fst np_fresh)"
    by (rule WriteShard_room [OF q(1,2) np_fresh_eqs(1) room, simplified]) (rule that)
  then show ?thesis using np_fresh_eqs q(3) by (intro that [of q']) (simp_all add: np_loaded_def)
qed

lemma np_loaded_dq:
  obtains q where "np_queue (fst np_loaded) = Some q" "dq_rep (q, snd np_loaded) [marshalWrite byte_String 5 [1, 2]]"
proof -
  obtain q where "np_queue (fst np_loaded) = Some q"
    "queue_ok (q, snd np_loaded) [([], [marshalWrite byte_String 5 [1, 2]])]" by (rule np_loaded_rep) (rule that)
  then show ?thesis using marshalWrite_nonempty [of byte_String 5 "[1, 2]", symmetric]
    by (intro that [of q]) (auto simp: dq_rep_def intro!: exI [of _ "[([], [marshalWrite byte_String 5 [1, 2]])]"])
qed

theorem SendWrite_at_least_once_witness:
  "\<exists>r n' d' w' q' xs'. SendWrite byte_Parse always_active log_writer (np_loaded, []) = (r, (n', d'), w') \<and>
    np_queue n' = Some q' \<and> dq_rep (q', d') xs' \<and>
    (case r of
       Inl e \<Rightarrow> xs' = [marshalWrite byte_String 5 [1, 2]] \<or>
         (\<exists>b. [marshalWrite byte_String 5 [1, 2]] = b # xs' \<and> unmarshalWrite byte_Parse b = Inl e)
     | Inr c \<Rightarrow> (\<exists>b s ps w1. [marshalWrite byte_String 5 [1, 2]] = b # xs' \<and> c = length b \<and>
         unmarshalWrite byte_Parse b = Inr (s, ps) \<and> log_writer s (np_nodeID (fst np_loaded)) ps w1 = (Inr (), w')))"
proof -
  obtain q where q: "np_queue (fst np_loaded) = Some q"
    "dq_rep (q, snd np_loaded) [marshalWrite byte_String 5 [1, 2]]" by (rule np_loaded_dq)
  obtain r n' d' w' where "SendWrite byte_Parse always_active log_writer ((fst np_loaded, snd np_loaded), []) = (r, (n', d'), w')"
    by (metis prod.collapse)
  from SendWrite_at_least_once [OF q this] this show ?thesis by (simp only: prod.collapse) blast
qed

text \<open>
  C35: the retry loop of \<open>run\<close> ends, on every behaviour of the meta client and of the shard writer:
  each successful \<open>SendWrite\<close> takes a block off the queue. The interval it leaves is between 0 and
  the maximum retry interval.
\<close>

theorem run_retry_ends_within_bounds:
  assumes "np_queue n = Some q" "dq_rep (q, d) xs" "np_RetryMaxInterval n < 2 ^ 62"
    "0 \<le> np_RetryInterval n" "np_RetryInterval n \<le> np_RetryMaxInterval n"
    "0 \<le> c" "c \<le> np_RetryMaxInterval n"
  shows "\<exists>c' sent' st'. run_retry (SendWrite P D W) c sent ((n, d), w) = Some (c', sent', st') \<and>
    0 \<le> c' \<and> c' \<le> np_RetryMaxInterval n"
proof -
  have "np_rep (n, d) xs" using assms by (simp add: np_rep_def)
  from run_retry_returns [OF this] assms show ?thesis by simp
qed

theorem run_retry_ends_within_bounds_witness:
  "\<exists>c' sent' st'. run_retry (SendWrite byte_Parse always_active log_writer) Second 0 (np_loaded, []) =
      Some (c', sent', st') \<and> 0 \<le> c' \<and> c' \<le> Minute"
proof -
  obtain q where q: "np_queue (fst np_loaded) = Some q"
    "dq_rep (q, snd np_loaded) [marshalWrite byte_String 5 [1, 2]]" by (rule np_loaded_dq)
  have "np_RetryInterval (fst np_loaded) = Second" "np_RetryMaxInterval (fst np_loaded) = Minute"
    by (rule np_loaded_rep, assumption)+
  then show ?thesis using run_retry_ends_within_bounds [OF q, of Second byte_Parse always_active log_writer 0 "[]"]
    by (simp add: duration_defs)
qed

text \<open>
  a write survives the trip through the queue: when the parser of points undoes their printed
  form, one per line, \<open>unmarshalWrite\<close> returns the shard and the points given to \<open>marshalWrite\<close>.
\<close>

theorem marshalWrite_roundtrip:
  assumes "ParsePoints (concat (map (\<lambda>p. String p @ [10]) ps)) = Inr ps"
  shows "unmarshalWrite ParsePoints (marshalWrite String s ps) = Inr (s, ps)"
  using assms by (simp add: unmarshalWrite_def marshalWrite_concat)

theorem marshalWrite_roundtrip_witness:
  "unmarshalWrite byte_Parse (marshalWrite byte_String 5 [1, 2]) = Inr (5, [1, 2])"
  by (rule marshalWrite_roundtrip) (rule byte_Parse_String)



text \<open>
  a processor whose \<open>Open\<close> failed takes itself for open. When the first system call fails, \<open>Open\<close>
  returns the error; a second \<open>Open\<close> then returns nil without opening anything, and \<open>WriteShard\<close>
  calls a method of the queue that was never created.
\<close>

theorem failed_open_is_taken_for_open:
  assumes "\<not> np_open n" "np_queue n = None" "d_faults d = True # fs"
  shows "\<exists>n' d'. np_Open (n, d) = (Inl IOError, n', d') \<and> np_Open (n', d') = (Inr (), n', d') \<and>
    fst (np_WriteShard String s ps (n', d')) = Inl Panic"
  using assms by (simp add: np_Open_def Let_def syscall_def np_WriteShard_def on_queue_def add_stats_def)

theorem failed_open_is_taken_for_open_witness:
  "\<exists>n' d'. np_Open (NewNodeProcessor 3 ''3'', np_dir0\<lparr>d_faults := [True]\<rparr>) = (Inl IOError, n', d') \<and>
    np_Open (n', d') = (Inr (), n', d') \<and> fst (np_WriteShard byte_String 5 [1] (n', d')) = Inl Panic"
  by (rule failed_open_is_taken_for_open) (simp_all add: NewNodeProcessor_def)

end
