(* ===== verification/HH_Service.thy ===== *)
theory HH_Service
  imports Node_Processor
begin

text \<open>
  The hinted-handoff service (\<open>src/hh/service.go\<close>): one node processor per node that has queued
  writes, each in its own directory under the configured one. The map of processors is an
  association list; ranging over it visits the entries in list order, and the theorems hold for
  every order. The directories of the nodes are part of the state of the file system \<open>hh_fs\<close>.
\<close>

section \<open>Model\<close>

record hh_fs =
  fs_dirs :: "(string \<times> directory) list"
  fs_files :: "string list"
  fs_clock :: int
  fs_faults :: "bool list"

record Service =
  sv_cfg :: Config
  sv_closing :: bool
  sv_processors :: "(u64 \<times> NodeProcessor) list"
  sv_stats :: hh_stats
  sv_monitor :: "bool option"

type_synonym svstate = "Service \<times> hh_fs"

definition NewService :: "Config \<Rightarrow> Service" where
  "NewService c = \<lparr>sv_cfg = c, sv_closing = True, sv_processors = [], sv_stats = no_stats, sv_monitor = None\<rparr>"

definition pathforNode :: "u64 \<Rightarrow> string" where
  "pathforNode nodeID = FormatUint nodeID"

text \<open>The directory of a node; \<open>MkdirAll\<close> creates an empty one.\<close>

definition node_dir :: "string \<Rightarrow> hh_fs \<Rightarrow> directory" where
  "node_dir p fs = (case map_of (fs_dirs fs) p of
     Some d \<Rightarrow> d
   | None \<Rightarrow> \<lparr>d_files = [], d_subdirs = [], d_clock = fs_clock fs, d_faults = []\<rparr>)"

definition set_node_dir :: "string \<Rightarrow> directory \<Rightarrow> hh_fs \<Rightarrow> hh_fs" where
  "set_node_dir p d fs = fs\<lparr>fs_dirs := AList.update p d (fs_dirs fs)\<rparr>"

definition fs_syscall :: "hh_fs \<Rightarrow> (hh_error + unit) \<times> hh_fs" where
  "fs_syscall fs = (case fs_faults fs of
     [] \<Rightarrow> (Inr (), fs)
   | f # rest \<Rightarrow> (if f then Inl IOError else Inr (), fs\<lparr>fs_faults := rest\<rparr>))"

text \<open>A method of a processor runs on the processor and on the directory of its node.\<close>

definition on_np :: "(npstate \<Rightarrow> (hh_error + 'a) \<times> npstate) \<Rightarrow> NodeProcessor \<Rightarrow> hh_fs \<Rightarrow>
    (hh_error + 'a) \<times> NodeProcessor \<times> hh_fs" where
  "on_np f n fs = (case f (n, node_dir (np_dir n) fs) of (r, n', d') \<Rightarrow> (r, n', set_node_dir (np_dir n) d' fs))"

definition open_np :: "NodeProcessor \<Rightarrow> hh_fs \<Rightarrow> (hh_error + unit) \<times> NodeProcessor \<times> hh_fs" where
  "open_np n fs = (if np_dir n \<in> set (fs_files fs) then (Inl IOError, n\<lparr>np_open := True\<rparr>, fs) else on_np np_Open n fs)"

definition set_np :: "u64 \<Rightarrow> NodeProcessor \<Rightarrow> Service \<Rightarrow> Service" where
  "set_np k n s = s\<lparr>sv_processors := AList.update k n (sv_processors s)\<rparr>"

fun sv_openFiles :: "string list \<Rightarrow> svstate \<Rightarrow> (hh_error + unit) \<times> svstate" where
  "sv_openFiles [] st = (Inr (), st)"
| "sv_openFiles (f # files) (s, fs) =
     (case ParseUint f of
        None \<Rightarrow> sv_openFiles files (s, fs)
      | Some nodeID \<Rightarrow>
          (case open_np (NewNodeProcessor nodeID (pathforNode nodeID)) fs of
             (Inl e, _, fs) \<Rightarrow> (Inl e, s, fs)
           | (Inr _, n, fs) \<Rightarrow> sv_openFiles files (set_np nodeID n s, fs)))"

definition sv_Open :: "svstate \<Rightarrow> (hh_error + unit) \<times> svstate" where
  "sv_Open st = (case st of (s, fs) \<Rightarrow>
     if \<not> c_Enabled (sv_cfg s) then (Inr (), s, fs)
     else
       let s = s\<lparr>sv_closing := True, sv_monitor := map_option (\<lambda>_. True) (sv_monitor s)\<rparr> in
       (case fs_syscall fs of
          (Inl e, fs) \<Rightarrow> (Inl e, s, fs)
        | (Inr _, fs) \<Rightarrow>
            (case fs_syscall fs of
               (Inl e, fs) \<Rightarrow> (Inl e, s, fs)
             | (Inr _, fs) \<Rightarrow> sv_openFiles (sort (map fst (fs_dirs fs) @ fs_files fs)) (s, fs))))"

fun sv_closeAll :: "(u64 \<times> NodeProcessor) list \<Rightarrow> svstate \<Rightarrow> (hh_error + unit) \<times> svstate" where
  "sv_closeAll [] st = (Inr (), st)"
| "sv_closeAll ((k, n) # ps) (s, fs) =
     (case on_np np_Close n fs of
        (Inl e, n, fs) \<Rightarrow> (Inl e, set_np k n s, fs)
      | (Inr _, n, fs) \<Rightarrow> sv_closeAll ps (set_np k n s, fs))"

definition sv_Close :: "svstate \<Rightarrow> (hh_error + unit) \<times> svstate" where
  "sv_Close st = check (sv_closeAll (sv_processors (fst st)) st) (\<lambda>_ (s, fs).
     (Inr (), s\<lparr>sv_monitor := map_option (\<lambda>_. False) (sv_monitor s), sv_closing := False\<rparr>, fs))"

definition sv_WriteShard :: "('p \<Rightarrow> byte list) \<Rightarrow> u64 \<Rightarrow> u64 \<Rightarrow> 'p list \<Rightarrow> svstate \<Rightarrow> (hh_error + unit) \<times> svstate" where
  "sv_WriteShard String shardID ownerID points st = (case st of (s, fs) \<Rightarrow>
     if \<not> c_Enabled (sv_cfg s) then (Inl ErrHintedHandoffDisabled, s, fs)
     else
       let s = s\<lparr>sv_stats := (sv_stats s)\<lparr>st_writeShardReq := i64 (st_writeShardReq (sv_stats s) + 1),
         st_writeShardReqPoints := i64 (st_writeShardReqPoints (sv_stats s) + int (length points))\<rparr>\<rparr> in
       check (case map_of (sv_processors s) ownerID of
                Some n \<Rightarrow> (Inr n, s, fs)
              | None \<Rightarrow>
                  (case open_np (NewNodeProcessor ownerID (pathforNode ownerID)) fs of
                     (Inl e, _, fs) \<Rightarrow> (Inl e, s, fs)
                   | (Inr _, n, fs) \<Rightarrow> (Inr n, set_np ownerID n s, fs)))
         (\<lambda>n (s, fs).
       case on_np (np_WriteShard String shardID points) n fs of (r, n, fs) \<Rightarrow> (r, set_np ownerID n s, fs)))"

text \<open>
  One tick of \<open>purgeInactiveProcessors\<close>. Errors of the calls are logged and skip the processor; a
  panic ends the process. \<open>now\<close> is the time of the tick, and the world \<open>w\<close> is the meta client's.
\<close>

definition purge_np :: "(u64 \<Rightarrow> 'w \<Rightarrow> (hh_error + 'n option) \<times> 'w) \<Rightarrow> int \<Rightarrow> u64 \<Rightarrow> NodeProcessor \<Rightarrow>
    svstate \<times> 'w \<Rightarrow> (hh_error + unit) \<times> svstate \<times> 'w" where
  "purge_np DataNode now k v st = (case st of ((s, fs), w) \<Rightarrow>
     (case on_np np_LastModified v fs of
        (Inl Panic, v, fs) \<Rightarrow> (Inl Panic, (set_np k v s, fs), w)
      | (Inl _, v, fs) \<Rightarrow> (Inr (), (set_np k v s, fs), w)
      | (Inr lm, v, fs) \<Rightarrow>
          (case Active DataNode v w of
             (Inl _, w) \<Rightarrow> (Inr (), (set_np k v s, fs), w)
           | (Inr True, w) \<Rightarrow> (Inr (), (set_np k v s, fs), w)
           | (Inr False, w) \<Rightarrow>
               if \<not> lm < now - c_MaxAge (sv_cfg s) then (Inr (), (set_np k v s, fs), w)
               else
                 (case on_np np_Close v fs of
                    (Inl Panic, v, fs) \<Rightarrow> (Inl Panic, (set_np k v s, fs), w)
                  | (Inl _, v, fs) \<Rightarrow> (Inr (), (set_np k v s, fs), w)
                  | (Inr _, v, fs) \<Rightarrow>
                      (case on_np np_Purge v fs of
                         (Inl _, v, fs) \<Rightarrow> (Inr (), (set_np k v s, fs), w)
                       | (Inr _, v, fs) \<Rightarrow>
                           (Inr (), (s\<lparr>sv_processors := AList.delete k (sv_processors s)\<rparr>, fs), w))))))"

fun purge_tick :: "(u64 \<Rightarrow> 'w \<Rightarrow> (hh_error + 'n option) \<times> 'w) \<Rightarrow> int \<Rightarrow> (u64 \<times> NodeProcessor) list \<Rightarrow>
    svstate \<times> 'w \<Rightarrow> (hh_error + unit) \<times> svstate \<times> 'w" where
  "purge_tick DataNode now [] st = (Inr (), st)"
| "purge_tick DataNode now ((k, v) # ps) st =
     check (purge_np DataNode now k v st) (\<lambda>_ st. purge_tick DataNode now ps st)"

definition purgeInactiveProcessors :: "(u64 \<Rightarrow> 'w \<Rightarrow> (hh_error + 'n option) \<times> 'w) \<Rightarrow> int \<Rightarrow>
    svstate \<times> 'w \<Rightarrow> (hh_error + unit) \<times> svstate \<times> 'w" where
  "purgeInactiveProcessors DataNode now st = purge_tick DataNode now (sv_processors (fst (fst st))) st"

type_synonym diag_row = "u64 \<times> bool \<times> int \<times> string \<times> string"

fun diag_rows :: "(u64 \<Rightarrow> 'w \<Rightarrow> (hh_error + 'n option) \<times> 'w) \<Rightarrow> (u64 \<times> NodeProcessor) list \<Rightarrow> diag_row list \<Rightarrow>
    svstate \<times> 'w \<Rightarrow> (hh_error + diag_row list) \<times> svstate \<times> 'w" where
  "diag_rows DataNode [] rows st = (Inr rows, st)"
| "diag_rows DataNode ((k, v) # ps) rows ((s, fs), w) =
     (case on_np np_LastModified v fs of
        (Inl e, v, fs) \<Rightarrow> (Inl e, (set_np k v s, fs), w)
      | (Inr lm, v, fs) \<Rightarrow>
          (case Active DataNode v w of
             (Inl e, w) \<Rightarrow> (Inl e, (set_np k v s, fs), w)
           | (Inr active, w) \<Rightarrow>
               (case on_np Head v fs of
                  (Inl e, v, fs) \<Rightarrow> (Inl e, (set_np k v s, fs), w)
                | (Inr head, v, fs) \<Rightarrow>
                    (case on_np Tail v fs of
                       (Inl e, v, fs) \<Rightarrow> (Inl e, (set_np k v s, fs), w)
                     | (Inr tail, v, fs) \<Rightarrow>
                         diag_rows DataNode ps (rows @ [(k, active, lm, head, tail)]) ((set_np k v s, fs), w)))))"

definition Diagnostics :: "(u64 \<Rightarrow> 'w \<Rightarrow> (hh_error + 'n option) \<times> 'w) \<Rightarrow>
    svstate \<times> 'w \<Rightarrow> (hh_error + diag_row list) \<times> svstate \<times> 'w" where
  "Diagnostics DataNode st = diag_rows DataNode (sv_processors (fst (fst st))) [] st"

section \<open>Well-formed services\<close>

definition sv_wf :: "Service \<Rightarrow> bool" where
  "sv_wf s \<longleftrightarrow> distinct (map fst (sv_processors s)) \<and>
     (\<forall>k n. map_of (sv_processors s) k = Some n \<longrightarrow> np_nodeID n = k \<and> np_dir n = pathforNode k)"

text \<open>The methods of a processor keep its node and its directory.\<close>

definition keeps_np :: "(npstate \<Rightarrow> (hh_error + 'a) \<times> npstate) \<Rightarrow> bool" where
  "keeps_np f \<longleftrightarrow> (\<forall>n d r n' d'. f (n, d) = (r, n', d') \<longrightarrow> np_nodeID n' = np_nodeID n \<and> np_dir n' = np_dir n)"

lemma keeps_on_queue: "keeps_np (on_queue f)"
  by (auto simp: keeps_np_def on_queue_def split: option.splits prod.splits)

lemma keeps_np_methods [simp]:
  "keeps_np np_Open" "keeps_np np_Close" "keeps_np np_Purge" "keeps_np np_LastModified"
  "keeps_np (np_WriteShard String s ps)"
proof -
  show "keeps_np np_Open"
    by (auto simp: keeps_np_def np_Open_def Let_def split: prod.splits sum.splits if_splits)
  show "keeps_np np_Close"
    using keeps_on_queue [of Close] by (fastforce simp: keeps_np_def np_Close_def split: if_splits)
  show "keeps_np np_Purge"
    by (auto simp: keeps_np_def np_Purge_def split: prod.splits if_splits)
  show "keeps_np (np_WriteShard String s ps)"
    using keeps_on_queue [of "Append (marshalWrite String s ps)"]
    by (fastforce simp: keeps_np_def np_WriteShard_def add_stats_def split: if_splits)
  show "keeps_np np_LastModified" using keeps_on_queue by (simp add: np_LastModified_def [abs_def])
qed

lemma on_np_keeps:
  assumes "on_np f n fs = (r, n', fs')" "keeps_np f"
  shows "np_nodeID n' = np_nodeID n" "np_dir n' = np_dir n"
proof -
  from assms(1) obtain d' where "f (n, node_dir (np_dir n) fs) = (r, n', d')"
    by (auto simp: on_np_def split: prod.splits)
  with assms(2) show "np_nodeID n' = np_nodeID n" "np_dir n' = np_dir n" unfolding keeps_np_def by blast+
qed

lemma map_of_set_np [simp]: "map_of (sv_processors (set_np k n s)) = (map_of (sv_processors s))(k \<mapsto> n)"
  by (simp add: set_np_def update_conv')

lemma sv_wf_set_np:
  "sv_wf s \<Longrightarrow> np_nodeID n = k \<Longrightarrow> np_dir n = pathforNode k \<Longrightarrow> sv_wf (set_np k n s)"
  by (auto simp: sv_wf_def) (simp add: set_np_def distinct_update)

lemma sv_wf_delete: "sv_wf s \<Longrightarrow> sv_wf (s\<lparr>sv_processors := AList.delete k (sv_processors s)\<rparr>)"
  by (auto simp: sv_wf_def distinct_delete delete_conv' split: if_splits)

lemma sv_wf_cong: "sv_processors s' = sv_processors s \<Longrightarrow> sv_wf s' = sv_wf s"
  by (simp add: sv_wf_def)

lemma node_dir_set [simp]: "node_dir p (set_node_dir p' d fs) = (if p = p' then d else node_dir p fs)"
  by (simp add: node_dir_def set_node_dir_def update_conv' split: option.split)

lemma open_np_keeps:
  assumes "open_np n fs = (r, n', fs')"
  shows "np_nodeID n' = np_nodeID n" "np_dir n' = np_dir n"
  using assms on_np_keeps [where f = np_Open] by (auto simp: open_np_def split: if_splits)

lemma NewNodeProcessor_id [simp]: "np_nodeID (NewNodeProcessor k p) = k" "np_dir (NewNodeProcessor k p) = p"
  by (simp_all add: NewNodeProcessor_def)

text \<open>The processor that \<open>WriteShard\<close> finds or creates.\<close>

lemma pathforNode_inject [simp]: "pathforNode j = pathforNode k \<longleftrightarrow> j = k"
  by (simp add: pathforNode_def)

lemma on_np_frame:
  assumes "on_np f n fs = (r, n', fs')" "p \<noteq> np_dir n"
  shows "node_dir p fs' = node_dir p fs"
  using assms by (auto simp: on_np_def split: prod.splits)

lemma open_np_frame:
  assumes "open_np n fs = (r, n', fs')" "p \<noteq> np_dir n"
  shows "node_dir p fs' = node_dir p fs"
  using assms on_np_frame [where f = np_Open] by (auto simp: open_np_def split: if_splits)

definition find_np :: "u64 \<Rightarrow> svstate \<Rightarrow> (hh_error + NodeProcessor) \<times> svstate" where
  "find_np k st = (case st of (s, fs) \<Rightarrow>
     (case map_of (sv_processors s) k of
        Some n \<Rightarrow> (Inr n, s, fs)
      | None \<Rightarrow>
          (case open_np (NewNodeProcessor k (pathforNode k)) fs of
             (Inl e, _, fs) \<Rightarrow> (Inl e, s, fs)
           | (Inr _, n, fs) \<Rightarrow> (Inr n, set_np k n s, fs))))"

lemma find_np_frame:
  assumes wf: "sv_wf s" and find: "find_np k (s, fs) = (r, s', fs')"
  shows "sv_wf s'" "k' \<noteq> k \<Longrightarrow> map_of (sv_processors s') k' = map_of (sv_processors s) k'"
    "k' \<noteq> k \<Longrightarrow> node_dir (pathforNode k') fs' = node_dir (pathforNode k') fs"
    "r = Inr n \<Longrightarrow> np_nodeID n = k \<and> np_dir n = pathforNode k"
proof -
  let ?n = "NewNodeProcessor k (pathforNode k)"
  obtain ro no fo where o: "open_np ?n fs = (ro, no, fo)" by (cases "open_np ?n fs") auto
  note on = open_np_keeps [OF o, simplified]
  have fr: "k' \<noteq> k \<Longrightarrow> node_dir (pathforNode k') fo = node_dir (pathforNode k') fs"
    by (rule open_np_frame [OF o]) simp
  have "sv_wf s' \<and> (k' \<noteq> k \<longrightarrow> map_of (sv_processors s') k' = map_of (sv_processors s) k') \<and>
    (k' \<noteq> k \<longrightarrow> node_dir (pathforNode k') fs' = node_dir (pathforNode k') fs) \<and>
    (r = Inr n \<longrightarrow> np_nodeID n = k \<and> np_dir n = pathforNode k)"
  proof (cases "map_of (sv_processors s) k")
    case (Some m)
    then show ?thesis using find wf by (auto simp: find_np_def sv_wf_def)
  next
    case None
    then show ?thesis using find o wf fr on sv_wf_set_np [OF wf]
      by (cases ro) (auto simp: find_np_def)
  qed
  then show "sv_wf s'" "k' \<noteq> k \<Longrightarrow> map_of (sv_processors s') k' = map_of (sv_processors s) k'"
    "k' \<noteq> k \<Longrightarrow> node_dir (pathforNode k') fs' = node_dir (pathforNode k') fs"
    "r = Inr n \<Longrightarrow> np_nodeID n = k \<and> np_dir n = pathforNode k" by blast+
qed

lemma sv_WriteShard_find:
  "sv_WriteShard String shard k ps (s, fs) =
     (if \<not> c_Enabled (sv_cfg s) then (Inl ErrHintedHandoffDisabled, s, fs)
      else check (find_np k (s\<lparr>sv_stats := (sv_stats s)\<lparr>st_writeShardReq := i64 (st_writeShardReq (sv_stats s) + 1),
          st_writeShardReqPoints := i64 (st_writeShardReqPoints (sv_stats s) + int (length ps))\<rparr>\<rparr>, fs)) (\<lambda>n (s, fs).
        case on_np (np_WriteShard String shard ps) n fs of (r, n, fs) \<Rightarrow> (r, set_np k n s, fs)))"
  by (simp add: sv_WriteShard_def find_np_def Let_def)

lemma sv_WriteShard_frame:
  assumes wf: "sv_wf s" and wr: "sv_WriteShard String shard k ps (s, fs) = (r, s', fs')"
  shows "sv_wf s' \<and> (k' \<noteq> k \<longrightarrow> map_of (sv_processors s') k' = map_of (sv_processors s) k' \<and>
    node_dir (pathforNode k') fs' = node_dir (pathforNode k') fs)"
proof (cases "c_Enabled (sv_cfg s)")
  case False
  then show ?thesis using wf wr by (simp add: sv_WriteShard_def)
next
  case True
  let ?s = "s\<lparr>sv_stats := (sv_stats s)\<lparr>st_writeShardReq := i64 (st_writeShardReq (sv_stats s) + 1),
          st_writeShardReqPoints := i64 (st_writeShardReqPoints (sv_stats s) + int (length ps))\<rparr>\<rparr>"
  have wf1: "sv_wf ?s" using wf by (simp add: sv_wf_def)
  obtain rf s1 fs1 where f: "find_np k (?s, fs) = (rf, s1, fs1)" by (cases "find_np k (?s, fs)") auto
  note fr = find_np_frame [OF wf1 f]
  show ?thesis
  proof (cases rf)
    case (Inl e)
    then show ?thesis using True wr f fr by (auto simp: sv_WriteShard_find)
  next
    case (Inr n)
    obtain rw n' fs2 where w: "on_np (np_WriteShard String shard ps) n fs1 = (rw, n', fs2)"
      by (cases "on_np (np_WriteShard String shard ps) n fs1") auto
    have id: "np_nodeID n' = k" "np_dir n' = pathforNode k" "np_dir n = pathforNode k"
      using on_np_keeps [OF w] fr(4) [OF Inr] by auto
    have "k' \<noteq> k \<Longrightarrow> node_dir (pathforNode k') fs2 = node_dir (pathforNode k') fs1"
      by (rule on_np_frame [OF w]) (simp add: id)
    then show ?thesis using True wr f fr Inr w sv_wf_set_np [OF fr(1) id(1,2)]
      by (auto simp: sv_WriteShard_find)
  qed
qed

section \<open>Purging\<close>

lemma purge_np_frame:
  assumes wf: "sv_wf s" and v: "np_nodeID v = k" "np_dir v = pathforNode k"
    and p: "purge_np D now k v ((s, fs), w) = (r, (s', fs'), w')"
  shows "sv_wf s' \<and> sv_cfg s' = sv_cfg s \<and>
    (\<forall>k'. k' \<noteq> k \<longrightarrow> map_of (sv_processors s') k' = map_of (sv_processors s) k' \<and>
       node_dir (pathforNode k') fs' = node_dir (pathforNode k') fs) \<and>
    (map_of (sv_processors s') k = None \<longrightarrow> (\<exists>w1. D k w = (Inr None, w1)) \<and>
      (\<exists>lm. fst (on_np np_LastModified v fs) = Inr lm \<and> lm < now - c_MaxAge (sv_cfg s)))"
proof -
  obtain rl v1 f1 where l: "on_np np_LastModified v fs = (rl, v1, f1)" by (cases "on_np np_LastModified v fs") auto
  obtain rc v2 f2 where c: "on_np np_Close v1 f1 = (rc, v2, f2)" by (cases "on_np np_Close v1 f1") auto
  obtain rp v3 f3 where q: "on_np np_Purge v2 f2 = (rp, v3, f3)" by (cases "on_np np_Purge v2 f2") auto
  obtain ra wa where a: "Active D v1 w = (ra, wa)" by (cases "Active D v1 w") auto
  have ids: "np_nodeID v1 = k" "np_nodeID v2 = k" "np_nodeID v3 = k" "np_dir v1 = pathforNode k"
    "np_dir v2 = pathforNode k" "np_dir v3 = pathforNode k"
    using on_np_keeps [OF l] on_np_keeps [OF c] on_np_keeps [OF q] v by simp_all
  have d1: "node_dir (pathforNode k') f1 = node_dir (pathforNode k') fs" if "k' \<noteq> k" for k'
    using that v by (intro on_np_frame [OF l]) simp
  have d2: "node_dir (pathforNode k') f2 = node_dir (pathforNode k') f1" if "k' \<noteq> k" for k'
    using that ids by (intro on_np_frame [OF c]) simp
  have d3: "node_dir (pathforNode k') f3 = node_dir (pathforNode k') f2" if "k' \<noteq> k" for k'
    using that ids by (intro on_np_frame [OF q]) simp
  have wfs: "sv_wf (set_np k v1 s)" "sv_wf (set_np k v2 s)" "sv_wf (set_np k v3 s)"
    "sv_wf (s\<lparr>sv_processors := AList.delete k (sv_processors s)\<rparr>)"
    using ids by (simp_all add: sv_wf_set_np [OF wf] sv_wf_delete [OF wf])
  have act: "ra = Inr False \<Longrightarrow> D k w = (Inr None, wa)"
    using a ids by (auto simp: Active_def split: prod.splits sum.splits)
  have cfg: "sv_cfg (set_np k n s) = sv_cfg s" for n by (simp add: set_np_def)
  have keep: ?thesis if "\<exists>v' f'. s' = set_np k v' s \<and> fs' = f' \<and> (v' = v1 \<and> f' = f1 \<or> v' = v2 \<and> f' = f2 \<or> v' = v3 \<and> f' = f3)"
    using that wfs cfg d1 d2 d3 by auto
  show ?thesis
  proof (cases "ra = Inr False \<and> (\<exists>lm. rl = Inr lm \<and> lm < now - c_MaxAge (sv_cfg s)) \<and> (\<exists>u. rc = Inr u) \<and> (\<exists>u. rp = Inr u)")
    case True
    then show ?thesis using p l c q a wfs act d1 d2 d3 by (auto simp: purge_np_def delete_conv')
  next
    case False
    then show ?thesis using p l c q a
      by (intro keep) (auto simp: purge_np_def split: sum.splits hh_error.splits bool.splits if_splits)
  qed
qed

lemma purge_tick_keeps:
  assumes "sv_wf s" "\<forall>(j, v)\<in>set ps. np_nodeID v = j \<and> np_dir v = pathforNode j"
    "\<forall>w. \<exists>ni w'. D k w = (Inr (Some ni), w')" "map_of (sv_processors s) k \<noteq> None"
    "purge_tick D now ps ((s, fs), w) = (r, (s', fs'), w')"
  shows "sv_wf s' \<and> map_of (sv_processors s') k \<noteq> None"
  using assms(1,2,4,5)
proof (induction ps arbitrary: s fs w)
  case (Cons p ps)
  obtain j v where p: "p = (j, v)" by force
  obtain r1 s1 f1 w1 where st: "purge_np D now j v ((s, fs), w) = (r1, (s1, f1), w1)"
    by (cases "purge_np D now j v ((s, fs), w)") auto
  have v: "np_nodeID v = j" "np_dir v = pathforNode j" using Cons.prems(2) p by auto
  note fr = purge_np_frame [OF Cons.prems(1) v st]
  have k: "map_of (sv_processors s1) k \<noteq> None"
  proof (cases "k = j")
    case True
    have "\<not> (\<exists>w1. D k w = (Inr None, w1))" using assms(3) by (metis Pair_inject option.distinct(1) sum.inject(2))
    then show ?thesis using fr True by blast
  next
    case False
    then show ?thesis using fr Cons.prems(3) by auto
  qed
  show ?case
  proof (cases r1)
    case (Inl e)
    then show ?thesis using Cons.prems(4) p st fr k by simp
  next
    case (Inr u)
    then have "purge_tick D now ps ((s1, f1), w1) = (r, (s', fs'), w')" using Cons.prems(4) p st by simp
    from Cons.IH [OF _ _ k this] fr Cons.prems(2) show ?thesis by simp
  qed
qed simp

section \<open>Properties\<close>

text \<open>An enabled service with no processor, and a file system with nothing in it.\<close>

definition sv0 :: Service where
  "sv0 = NewService (NewConfig\<lparr>c_Enabled := True, c_Dir := ''hh'', c_MaxSize := 4096\<rparr>)"

definition fs0 :: hh_fs where
  "fs0 = \<lparr>fs_dirs = [], fs_files = [], fs_clock = 0, fs_faults = []\<rparr>"

lemma sv0_wf: "sv_wf sv0"
  by (simp add: sv0_def NewService_def sv_wf_def)

text \<open>
  C21: a write for one node touches only that node. Whatever the outcome of \<open>WriteShard\<close>, every
  processor in the map still belongs to its key and to its own directory, and the processor and the
  directory of every other node are unchanged.
\<close>

theorem WriteShard_isolates_nodes:
  assumes "sv_wf s" "k' \<noteq> k"
  shows "\<exists>r s' fs'. sv_WriteShard String shard k ps (s, fs) = (r, s', fs') \<and> sv_wf s' \<and>
    map_of (sv_processors s') k' = map_of (sv_processors s) k' \<and>
    node_dir (pathforNode k') fs' = node_dir (pathforNode k') fs"
proof -
  obtain r s' fs' where wr: "sv_WriteShard String shard k ps (s, fs) = (r, s', fs')"
    by (cases "sv_WriteShard String shard k ps (s, fs)") auto
  from sv_WriteShard_frame [OF assms(1) wr, of k'] assms(2) wr show ?thesis by blast
qed

theorem WriteShard_isolates_nodes_witness:
  "\<exists>r s' fs'. sv_WriteShard byte_String 5 3 [1, 2] (sv0, fs0) = (r, s', fs') \<and> sv_wf s' \<and>
    map_of (sv_processors s') 4 = map_of (sv_processors sv0) 4 \<and>
    node_dir (pathforNode 4) fs' = node_dir (pathforNode 4) fs0"
  by (rule WriteShard_isolates_nodes [OF sv0_wf]) simp

text \<open>
  the first write for a node that has no processor and no directory creates the processor and
  queues the write: afterwards the queue of the node holds exactly that write. The write has to fit
  into a segment.
\<close>

theorem first_write_is_queued:
  assumes en: "c_Enabled (sv_cfg s)" and new: "map_of (sv_processors s) k = None"
    and nd: "map_of (fs_dirs fs) (pathforNode k) = None" "pathforNode k \<notin> set (fs_files fs)"
    and len: "8 + length (marshalWrite String shard ps) \<le> 10485760"
  shows "\<exists>s' fs' n q. sv_WriteShard String shard k ps (s, fs) = (Inr (), s', fs') \<and>
    map_of (sv_processors s') k = Some n \<and> np_open n \<and> np_queue n = Some q \<and>
    queue_ok (q, node_dir (pathforNode k) fs') [([], [marshalWrite String shard ps])]"
proof -
  let ?new = "NewNodeProcessor k (pathforNode k)" and ?dir = "node_dir (pathforNode k) fs"
  have d0: "d_faults ?dir = []" "wf_dir ?dir" "segment_files (dir_entries ?dir) = []"
    using nd(1) by (simp_all add: node_dir_def wf_dir_def dir_entries_def)
  obtain q d where o: "Open (newQueue (pathforNode k) 1073741824, ?dir) = (Inr (), q, d)" "queue_ok (q, d) [([], [])]"
    "q_maxSegmentSize q = 10485760" "q_maxSize q = 1073741824"
    using Open_fresh [OF d0, of "newQueue (pathforNode k) 1073741824"]
    by (auto simp: newQueue_def defaultSegmentSize_def)
  let ?n = "?new\<lparr>np_open := True, np_queue := Some q\<rparr>" and ?fs = "set_node_dir (pathforNode k) d fs"
  have "np_Open (?new, ?dir) = (Inr (), ?n, d)"
    using d0(1) o(1) by (simp add: np_Open_def NewNodeProcessor_def DefaultMaxSize_def Let_def)
  then have open1: "open_np ?new fs = (Inr (), ?n, ?fs)"
    using nd(2) by (simp add: open_np_def on_np_def)
  have rep: "queue_rep q d [([], [])]" using o(2) by (simp add: queue_ok_def)
  have seg: "segs q = [last (segs q)]"
    using segs_rep_length [of q d "[([], [])]"] rep by (cases "segs q") (auto simp: queue_rep_def)
  have sz: "s_size (q_heap q ! last (segs q)) = 8"
    using queue_rep_tail(3) [OF rep] by (auto simp: seg_rep_def)
  have us: "usage q = 8" unfolding usage_def by (subst seg) (simp add: sz)
  have room: "usage q + int (length (marshalWrite String shard ps)) \<le> q_maxSize q"
    "s_size (q_heap q ! last (segs q)) + int (length (marshalWrite String shard ps)) \<le> q_maxSegmentSize q"
    using len sz us o(3,4) by simp_all
  have nq: "np_queue ?n = Some q" "np_open ?n" by simp_all
  obtain n' d' q' where w: "np_WriteShard String shard ps (?n, d) = (Inr (), n', d')" "np_queue n' = Some q'"
    "queue_ok (q', d') [([], [marshalWrite String shard ps])]"
    by (rule WriteShard_room [OF nq(1) o(2) nq(2) room]) (simp add: that)
  have "np_open n'" using w(1) by (auto simp: np_WriteShard_def on_queue_def add_stats_def split: prod.splits)
  then show ?thesis using en new open1 w
    by (simp add: sv_WriteShard_find find_np_def on_np_def)
qed

theorem first_write_is_queued_witness:
  "\<exists>s' fs' n q. sv_WriteShard byte_String 5 3 [1, 2] (sv0, fs0) = (Inr (), s', fs') \<and>
    map_of (sv_processors s') 3 = Some n \<and> np_open n \<and> np_queue n = Some q \<and>
    queue_ok (q, node_dir (pathforNode 3) fs') [([], [marshalWrite byte_String 5 [1, 2]])]"
  by (rule first_write_is_queued)
    (simp_all add: sv0_def fs0_def NewService_def marshalWrite_concat byte_String_def)

text \<open>
  the tick that removes the processors of inactive nodes never removes one whose node the meta
  client knows, whatever else fails during the tick.
\<close>

theorem purge_keeps_active_nodes:
  assumes "sv_wf s" "map_of (sv_processors s) k \<noteq> None" "\<forall>w. \<exists>ni w'. D k w = (Inr (Some ni), w')"
  shows "map_of (sv_processors (fst (fst (snd (purgeInactiveProcessors D now ((s, fs), w)))))) k \<noteq> None"
proof -
  obtain r s' fs' w' where p: "purge_tick D now (sv_processors s) ((s, fs), w) = (r, (s', fs'), w')"
    by (cases "purge_tick D now (sv_processors s) ((s, fs), w)") auto
  have "\<forall>(j, v)\<in>set (sv_processors s). np_nodeID v = j \<and> np_dir v = pathforNode j"
    using assms(1) by (auto simp: sv_wf_def)
  from purge_tick_keeps [OF assms(1) this assms(3,2) p] p show ?thesis
    by (simp add: purgeInactiveProcessors_def)
qed

theorem purge_keeps_active_nodes_witness:
  "map_of (sv_processors (fst (fst (snd (purgeInactiveProcessors always_active 99
     ((set_np 3 (NewNodeProcessor 3 (pathforNode 3)) sv0, fs0), ())))))) 3 \<noteq> None"
  by (rule purge_keeps_active_nodes) (simp_all add: sv_wf_set_np [OF sv0_wf] always_active_def)

text \<open>
  the limits of the configuration do not reach the queues. A processor that \<open>WriteShard\<close> creates
  has the default maximum size, age, retry intervals and no rate limit, whatever the service is
  configured with.
\<close>

theorem created_processor_ignores_config:
  assumes "map_of (sv_processors s) k = None" "sv_WriteShard String shard k ps (s, fs) = (Inr (), s', fs')"
  shows "\<exists>n. map_of (sv_processors s') k = Some n \<and> np_MaxSize n = DefaultMaxSize \<and>
    np_MaxAge n = DefaultMaxAge \<and> np_RetryRateLimit n = 0 \<and> np_RetryInterval n = DefaultRetryInterval \<and>
    np_RetryMaxInterval n = DefaultRetryMaxInterval \<and> np_PurgeInterval n = DefaultPurgeInterval"
  using assms
  by (auto simp: sv_WriteShard_find find_np_def open_np_def on_np_def np_Open_def NewNodeProcessor_def Let_def
      np_WriteShard_def on_queue_def add_stats_def check_def
      split: prod.splits sum.splits if_splits option.splits)

theorem created_processor_ignores_config_witness:
  "\<exists>n. map_of (sv_processors (fst (snd (sv_WriteShard byte_String 5 3 [1, 2] (sv0, fs0))))) 3 = Some n \<and>
    np_MaxSize n = DefaultMaxSize \<and> np_MaxAge n = DefaultMaxAge \<and> np_RetryRateLimit n = 0 \<and>
    np_RetryInterval n = DefaultRetryInterval \<and> np_RetryMaxInterval n = DefaultRetryMaxInterval \<and>
    np_PurgeInterval n = DefaultPurgeInterval"
proof (rule created_processor_ignores_config)
  show "map_of (sv_processors sv0) 3 = None" by (simp add: sv0_def NewService_def)
  have "fst (sv_WriteShard byte_String 5 3 [1, 2] (sv0, fs0)) = Inr ()" by code_simp
  then show "sv_WriteShard byte_String 5 3 [1, 2] (sv0, fs0) =
      (Inr (), fst (snd (sv_WriteShard byte_String 5 3 [1, 2] (sv0, fs0))),
       snd (snd (sv_WriteShard byte_String 5 3 [1, 2] (sv0, fs0))))"
    by (cases "sv_WriteShard byte_String 5 3 [1, 2] (sv0, fs0)") simp
qed

end
