(* ===== verification/NP_Concurrency.thy ===== *)
theory NP_Concurrency
  imports Main
begin

text \<open>
  \<open>Close\<close> of the node processor against its goroutine \<open>run\<close> (\<open>src/hh/node_processor.go\<close>), as a
  step relation over the lock \<open>n.mu\<close>, the channel \<open>n.done\<close> and the two program counters. \<open>Close\<close>
  takes the write lock, closes \<open>done\<close> and waits for \<open>run\<close> to return while it holds the lock;
  \<open>SendWrite\<close>, which \<open>run\<close> calls when the retry timer fires, takes the read lock. A \<open>select\<close> with
  several ready cases takes any of them.
\<close>

section \<open>Model\<close>

datatype runner = Selecting | WantRLock | Sending | Exited

datatype closer = NotCalled | WantLock | Waiting | Returned

record np_sys =
  y_locked :: bool
  y_readers :: nat
  y_done :: bool
  y_runner :: runner
  y_closer :: closer

definition np_init :: np_sys where
  "np_init = \<lparr>y_locked = False, y_readers = 0, y_done = False, y_runner = Selecting, y_closer = NotCalled\<rparr>"

inductive np_step :: "np_sys \<Rightarrow> np_sys \<Rightarrow> bool" where
  run_done: "y_runner s = Selecting \<Longrightarrow> y_done s \<Longrightarrow> np_step s (s\<lparr>y_runner := Exited\<rparr>)"
| run_purge: "y_runner s = Selecting \<Longrightarrow> np_step s s"
| run_timer: "y_runner s = Selecting \<Longrightarrow> np_step s (s\<lparr>y_runner := WantRLock\<rparr>)"
| send_lock: "y_runner s = WantRLock \<Longrightarrow> \<not> y_locked s \<Longrightarrow>
    np_step s (s\<lparr>y_runner := Sending, y_readers := y_readers s + 1\<rparr>)"
| send_ok: "y_runner s = Sending \<Longrightarrow>
    np_step s (s\<lparr>y_runner := WantRLock, y_readers := y_readers s - 1\<rparr>)"
| send_err: "y_runner s = Sending \<Longrightarrow>
    np_step s (s\<lparr>y_runner := Selecting, y_readers := y_readers s - 1\<rparr>)"
| close_call: "y_closer s = NotCalled \<Longrightarrow> np_step s (s\<lparr>y_closer := WantLock\<rparr>)"
| close_lock: "y_closer s = WantLock \<Longrightarrow> \<not> y_locked s \<Longrightarrow> y_readers s = 0 \<Longrightarrow>
    np_step s (s\<lparr>y_locked := True, y_done := True, y_closer := Waiting\<rparr>)"
| close_wait: "y_closer s = Waiting \<Longrightarrow> y_runner s = Exited \<Longrightarrow>
    np_step s (s\<lparr>y_locked := False, y_closer := Returned\<rparr>)"

inductive_cases np_stepE: "np_step s s'"

definition np_reachable :: "np_sys \<Rightarrow> bool" where
  "np_reachable s \<longleftrightarrow> np_step\<^sup>*\<^sup>* np_init s"

section \<open>Invariant\<close>

definition np_inv :: "np_sys \<Rightarrow> bool" where
  "np_inv s \<longleftrightarrow> (y_locked s \<longleftrightarrow> y_closer s = Waiting) \<and>
     y_readers s = (if y_runner s = Sending then 1 else 0) \<and>
     (y_locked s \<longrightarrow> y_readers s = 0) \<and>
     (y_done s \<longleftrightarrow> y_closer s = Waiting \<or> y_closer s = Returned) \<and>
     (y_runner s = Exited \<longrightarrow> y_done s) \<and>
     (y_closer s = Returned \<longrightarrow> y_runner s = Exited)"

lemma np_inv_init: "np_inv np_init"
  by (simp add: np_inv_def np_init_def)

lemma np_inv_step: "np_step s s' \<Longrightarrow> np_inv s \<Longrightarrow> np_inv s'"
  by (erule np_stepE) (auto simp: np_inv_def split: if_splits)

lemma np_inv_reachable: "np_reachable s \<Longrightarrow> np_inv s"
  unfolding np_reachable_def
  by (induction rule: rtranclp_induct) (auto intro: np_inv_init np_inv_step)

section \<open>Properties\<close>

text \<open>
  C36: in every reachable state, while \<open>Close\<close> holds the lock no \<open>SendWrite\<close> is using the queue, and
  when \<open>Close\<close> has returned the goroutine has ended, so nothing uses the queue that it closed.
\<close>

theorem close_excludes_send:
  assumes "np_reachable s"
  shows "(y_closer s = Waiting \<longrightarrow> y_runner s \<noteq> Sending) \<and> (y_closer s = Returned \<longrightarrow> y_runner s = Exited)"
  using np_inv_reachable [OF assms] by (auto simp: np_inv_def)

definition np_stuck :: np_sys where
  "np_stuck = \<lparr>y_locked = True, y_readers = 0, y_done = True, y_runner = WantRLock, y_closer = Waiting\<rparr>"

lemma np_stuck_reachable: "np_reachable np_stuck"
proof -
  let ?a = "np_init\<lparr>y_runner := WantRLock\<rparr>"
  let ?b = "?a\<lparr>y_closer := WantLock\<rparr>"
  have "np_step np_init ?a" by (rule run_timer) (simp add: np_init_def)
  moreover have "np_step ?a ?b" by (rule close_call) (simp add: np_init_def)
  moreover have "np_step ?b (?b\<lparr>y_locked := True, y_done := True, y_closer := Waiting\<rparr>)"
    by (rule close_lock) (simp_all add: np_init_def)
  moreover have "?b\<lparr>y_locked := True, y_done := True, y_closer := Waiting\<rparr> = np_stuck"
    by (simp add: np_init_def np_stuck_def)
  ultimately show ?thesis unfolding np_reachable_def
    by (metis rtranclp.rtrancl_refl rtranclp.rtrancl_into_rtrancl)
qed

theorem close_excludes_send_witness:
  "y_closer np_stuck = Waiting \<and> y_runner np_stuck \<noteq> Sending"
  using close_excludes_send [OF np_stuck_reachable] by (simp add: np_stuck_def)

text \<open>
  C38: \<open>Close\<close> can deadlock with \<open>run\<close>: a reachable state in which \<open>Close\<close> waits for the goroutine
  while it holds the lock, the goroutine waits for the read lock, and no step is possible.
\<close>

theorem close_can_deadlock:
  "np_reachable np_stuck \<and> y_closer np_stuck = Waiting \<and> (\<forall>s. \<not> np_step np_stuck s)"
  using np_stuck_reachable by (auto simp: np_stuck_def elim!: np_stepE)

end
