(* ===== verification/Tlv.thy ===== *)
theory Tlv
  imports Prelude
begin

text \<open>
  The type-length-value records of the cluster's RPC messages (\<open>src/tlv/tlv.go\<close>). A reader is the
  bytes that are left on the connection; a writer collects the bytes written and fails when its
  script of failures says so. The size of a value travels as a big-endian \<open>int64\<close>.
\<close>

section \<open>Model\<close>

datatype 'e tlv_error =
    ErrReadType | ErrReadSize | ErrMaxMessageSize int | ErrReadValue
  | ErrWriteType | ErrWriteSize | ErrWriteValue
  | ErrCodec 'e
  | MakeSlicePanic

definition MaxMessageSize :: int where
  "MaxMessageSize = 1024 * 1024 * 1024"

text \<open>\<open>io.ReadFull\<close>: a short stream is consumed and gives an error.\<close>

definition ReadFull :: "nat \<Rightarrow> byte list \<Rightarrow> byte list option \<times> byte list" where
  "ReadFull n r = (if length r < n then (None, []) else (Some (take n r), drop n r))"

definition ReadType :: "byte list \<Rightarrow> ('e tlv_error + byte) \<times> byte list" where
  "ReadType r = (case ReadFull 1 r of
     (None, r) \<Rightarrow> (Inl ErrReadType, r)
   | (Some typ, r) \<Rightarrow> (Inr (hd typ), r))"

definition ReadLV :: "byte list \<Rightarrow> ('e tlv_error + byte list) \<times> byte list" where
  "ReadLV r = (case ReadFull 8 r of
     (None, r) \<Rightarrow> (Inl ErrReadSize, r)
   | (Some b, r) \<Rightarrow>
       let sz = to_i64 (Uint64 b) in
       if sz \<ge> MaxMessageSize then (Inl (ErrMaxMessageSize sz), r)
       else if sz < 0 then (Inl MakeSlicePanic, r)
       else (case ReadFull (nat sz) r of
          (None, r) \<Rightarrow> (Inl ErrReadValue, r)
        | (Some buf, r) \<Rightarrow> (Inr buf, r)))"

definition ReadTLV :: "byte list \<Rightarrow> ('e tlv_error + byte \<times> byte list) \<times> byte list" where
  "ReadTLV r = check (ReadType r) (\<lambda>typ r.
     check (ReadLV r) (\<lambda>buf r. (Inr (typ, buf), r)))"

record writer =
  w_out :: "byte list"
  w_faults :: "bool list"

definition Write_bytes :: "'e tlv_error \<Rightarrow> byte list \<Rightarrow> writer \<Rightarrow> ('e tlv_error + unit) \<times> writer" where
  "Write_bytes e b w = (case w_faults w of
     [] \<Rightarrow> (Inr (), w\<lparr>w_out := w_out w @ b\<rparr>)
   | f # fs \<Rightarrow>
       if f then (Inl e, w\<lparr>w_faults := fs\<rparr>)
       else (Inr (), w\<lparr>w_out := w_out w @ b, w_faults := fs\<rparr>))"

definition WriteType :: "byte \<Rightarrow> writer \<Rightarrow> ('e tlv_error + unit) \<times> writer" where
  "WriteType typ w = Write_bytes ErrWriteType [typ] w"

definition WriteLV :: "byte list \<Rightarrow> writer \<Rightarrow> ('e tlv_error + unit) \<times> writer" where
  "WriteLV buf w =
     check (Write_bytes ErrWriteSize (PutUint64 (to_u64 (i64 (int (length buf))))) w) (\<lambda>_ w.
     check (Write_bytes ErrWriteValue buf w) (\<lambda>_ w. (Inr (), w)))"

definition WriteTLV :: "byte \<Rightarrow> byte list \<Rightarrow> writer \<Rightarrow> ('e tlv_error + unit) \<times> writer" where
  "WriteTLV typ buf w =
     check (WriteType typ w) (\<lambda>_ w. check (WriteLV buf w) (\<lambda>_ w. (Inr (), w)))"

text \<open>\<open>MarshalBinary\<close> and \<open>UnmarshalBinary\<close> of the value are parameters.\<close>

definition EncodeLV :: "('v \<Rightarrow> 'e + byte list) \<Rightarrow> 'v \<Rightarrow> writer \<Rightarrow> ('e tlv_error + unit) \<times> writer" where
  "EncodeLV MarshalBinary v w = (case MarshalBinary v of
     Inl e \<Rightarrow> (Inl (ErrCodec e), w)
   | Inr buf \<Rightarrow> check (WriteLV buf w) (\<lambda>_ w. (Inr (), w)))"

definition EncodeTLV :: "('v \<Rightarrow> 'e + byte list) \<Rightarrow> byte \<Rightarrow> 'v \<Rightarrow> writer \<Rightarrow> ('e tlv_error + unit) \<times> writer" where
  "EncodeTLV MarshalBinary typ v w =
     check (WriteType typ w) (\<lambda>_ w. check (EncodeLV MarshalBinary v w) (\<lambda>_ w. (Inr (), w)))"

definition DecodeLV :: "(byte list \<Rightarrow> 'e + 'v) \<Rightarrow> byte list \<Rightarrow> ('e tlv_error + 'v) \<times> byte list" where
  "DecodeLV UnmarshalBinary r = check (ReadLV r) (\<lambda>buf r.
     (case UnmarshalBinary buf of Inl e \<Rightarrow> (Inl (ErrCodec e), r) | Inr v \<Rightarrow> (Inr v, r)))"

definition DecodeTLV :: "(byte list \<Rightarrow> 'e + 'v) \<Rightarrow> byte list \<Rightarrow> ('e tlv_error + byte \<times> 'v) \<times> byte list" where
  "DecodeTLV UnmarshalBinary r = check (ReadType r) (\<lambda>typ r.
     check (DecodeLV UnmarshalBinary r) (\<lambda>v r. (Inr (typ, v), r)))"

section \<open>Records on a stream\<close>

text \<open>A decoder that undoes an encoder record by record undoes it on a stream of records.\<close>

fun decode_n :: "(byte list \<Rightarrow> ('e + 'a) \<times> byte list) \<Rightarrow> nat \<Rightarrow> byte list \<Rightarrow> ('e + 'a list) \<times> byte list" where
  "decode_n dec 0 r = (Inr [], r)"
| "decode_n dec (Suc n) r =
     check (dec r) (\<lambda>x r. check (decode_n dec n r) (\<lambda>xs r. (Inr (x # xs), r)))"

locale stream_codec =
  fixes valid :: "'a \<Rightarrow> bool" and enc :: "'a \<Rightarrow> byte list" and dec :: "byte list \<Rightarrow> ('e + 'a) \<times> byte list"
  assumes dec_enc: "valid x \<Longrightarrow> dec (enc x @ rest) = (Inr x, rest)"
begin

lemma decode_stream:
  "list_all valid xs \<Longrightarrow> decode_n dec (length xs) (concat (map enc xs) @ rest) = (Inr xs, rest)"
  by (induction xs) (simp_all add: dec_enc)

end

definition tlv_bytes :: "byte \<times> byte list \<Rightarrow> byte list" where
  "tlv_bytes m = fst m # PutUint64 (to_u64 (int (length (snd m)))) @ snd m"

definition tlv_ok :: "byte \<times> byte list \<Rightarrow> bool" where
  "tlv_ok m \<longleftrightarrow> int (length (snd m)) < MaxMessageSize"

lemma ReadFull_append [simp]: "length b = n \<Longrightarrow> ReadFull n (b @ r) = (Some b, r)"
  by (auto simp: ReadFull_def)

lemma ReadFull_Cons [simp]: "ReadFull (Suc 0) (x # r) = (Some [x], r)"
  by (simp add: ReadFull_def)

lemma ReadType_Cons [simp]: "ReadType (typ # r) = (Inr typ, r)"
  by (simp add: ReadType_def)

lemma ReadLV_bytes:
  assumes "int (length buf) < MaxMessageSize"
  shows "ReadLV (PutUint64 (to_u64 (int (length buf))) @ buf @ r) = (Inr buf, r)"
proof -
  have "to_i64 (to_u64 (int (length buf))) = int (length buf)"
    using assms by (intro to_i64_to_u64) (simp add: in_i64_def MaxMessageSize_def)
  then show ?thesis using assms by (simp add: ReadLV_def)
qed

interpretation tlv: stream_codec tlv_ok tlv_bytes "ReadTLV :: _ \<Rightarrow> ('e tlv_error + _) \<times> _"
  by unfold_locales (auto simp: tlv_ok_def tlv_bytes_def ReadTLV_def ReadLV_bytes)

lemma Write_bytes_ok [simp]: "w_faults w = [] \<Longrightarrow> Write_bytes e b w = (Inr (), w\<lparr>w_out := w_out w @ b\<rparr>)"
  by (simp add: Write_bytes_def)

lemma WriteLV_ok:
  assumes "w_faults w = []" "int (length buf) < 2 ^ 63"
  shows "WriteLV buf w = (Inr (), w\<lparr>w_out := w_out w @ PutUint64 (to_u64 (int (length buf))) @ buf\<rparr>)"
  using assms by (simp add: WriteLV_def)

fun WriteTLVs :: "(byte \<times> byte list) list \<Rightarrow> writer \<Rightarrow> ('e tlv_error + unit) \<times> writer" where
  "WriteTLVs [] w = (Inr (), w)"
| "WriteTLVs ((typ, buf) # ms) w = check (WriteTLV typ buf w) (\<lambda>_ w. WriteTLVs ms w)"

lemma WriteTLVs_ok:
  assumes "w_faults w = []" "list_all tlv_ok ms"
  shows "WriteTLVs ms w = (Inr (), w\<lparr>w_out := w_out w @ concat (map tlv_bytes ms)\<rparr>)"
  using assms
proof (induction ms arbitrary: w)
  case (Cons m ms)
  obtain t buf where m: "m = (t, buf)" by force
  have "int (length buf) < 2 ^ 63" using Cons.prems m by (simp add: tlv_ok_def MaxMessageSize_def)
  then show ?case using Cons m by (simp add: WriteTLV_def WriteType_def WriteLV_ok tlv_bytes_def)
qed simp

section \<open>Properties\<close>

text \<open>
  C22: every sequence of messages below the size limit that is written to a connection with
  \<open>WriteTLV\<close> is read back by \<open>ReadTLV\<close>, message by message, and the reader stops where the
  messages end.
\<close>

theorem tlv_stream_roundtrip:
  assumes "list_all tlv_ok ms"
  shows "\<exists>w. (WriteTLVs ms \<lparr>w_out = [], w_faults = []\<rparr> :: (string tlv_error + unit) \<times> writer) = (Inr (), w) \<and>
    decode_n (ReadTLV :: _ \<Rightarrow> (string tlv_error + _) \<times> _) (length ms) (w_out w @ rest) = (Inr ms, rest)"
  by (simp add: tlv.decode_stream [OF assms] WriteTLVs_ok [OF _ assms])

theorem tlv_stream_roundtrip_witness:
  "\<exists>w. (WriteTLVs [(1, [2, 3]), (4, [])] \<lparr>w_out = [], w_faults = []\<rparr> :: (string tlv_error + unit) \<times> writer) =
      (Inr (), w) \<and>
   decode_n (ReadTLV :: _ \<Rightarrow> (string tlv_error + _) \<times> _) 2 (w_out w @ [9]) = (Inr [(1, [2, 3]), (4, [])], [9])"
  using tlv_stream_roundtrip [of "[(1, [2, 3]), (4, [])]" "[9]"]
  by (simp add: tlv_ok_def MaxMessageSize_def numeral_2_eq_2)

text \<open>
  the size check of \<open>ReadLV\<close> only bounds the size from above. A size field with its sign bit
  set passes it, and the allocation of the buffer panics, whatever follows.
\<close>

theorem ReadLV_negative_size_panics:
  assumes "length b = 8" "bit (Uint64 b) 63"
  shows "fst (ReadLV (b @ r)) = Inl MakeSlicePanic"
proof -
  have "to_i64 (Uint64 b) < 0" using assms(2) bit_last_iff [of "Uint64 b"] by (simp add: to_i64_def)
  then show ?thesis using assms(1) by (simp add: ReadLV_def MaxMessageSize_def)
qed

theorem ReadLV_negative_size_panics_witness:
  "fst (ReadLV ([128, 0, 0, 0, 0, 0, 0, 0] @ [5])) = Inl (MakeSlicePanic :: string tlv_error)"
proof -
  have "bit (Uint64 [128, 0, 0, 0, 0, 0, 0, 0]) 63" by code_simp
  then show ?thesis by (intro ReadLV_negative_size_panics) simp_all
qed

text \<open>
  a message that \<open>WriteTLV\<close> writes without complaint but whose value is 1 GB or more is rejected
  by the reader, which leaves the value on the connection, where it is read as the next message.
\<close>

theorem oversized_message_desynchronises:
  assumes "MaxMessageSize \<le> int (length buf)" "int (length buf) < 2 ^ 63"
  shows "\<exists>w. (WriteTLV typ buf \<lparr>w_out = [], w_faults = []\<rparr> :: (string tlv_error + unit) \<times> writer) = (Inr (), w) \<and>
    (ReadTLV (w_out w @ rest) :: (string tlv_error + _) \<times> _) =
      (Inl (ErrMaxMessageSize (int (length buf))), buf @ rest)"
proof -
  have "to_i64 (to_u64 (int (length buf))) = int (length buf)"
    using assms by (intro to_i64_to_u64) (simp add: in_i64_def)
  then show ?thesis using assms
    by (simp add: WriteTLV_def WriteType_def WriteLV_ok ReadTLV_def ReadLV_def)
qed

theorem oversized_message_desynchronises_witness:
  "\<exists>w. (WriteTLV 1 (replicate 1073741824 0) \<lparr>w_out = [], w_faults = []\<rparr> :: (string tlv_error + unit) \<times> writer) =
      (Inr (), w) \<and>
    (ReadTLV (w_out w @ []) :: (string tlv_error + _) \<times> _) =
      (Inl (ErrMaxMessageSize 1073741824), replicate 1073741824 0 @ [])"
  using oversized_message_desynchronises [of "replicate 1073741824 0" 1 "[]"]
  by (simp add: MaxMessageSize_def)

text \<open>
  a value whose codec round-trips below the size limit arrives as it was sent, and a codec
  error of the sender leaves only the type byte on the connection.
\<close>

theorem EncodeTLV_DecodeTLV:
  assumes "\<forall>v b. m v = Inr b \<longrightarrow> u b = Inr v" "m v = Inr b" "int (length b) < MaxMessageSize"
  shows "\<exists>w. EncodeTLV m typ v \<lparr>w_out = [], w_faults = []\<rparr> = (Inr (), w) \<and>
    DecodeTLV u (w_out w @ rest) = (Inr (typ, v), rest)"
proof -
  have "int (length b) < 2 ^ 63" using assms(3) by (simp add: MaxMessageSize_def)
  then show ?thesis using assms
    by (simp add: EncodeTLV_def EncodeLV_def WriteType_def WriteLV_ok DecodeTLV_def DecodeLV_def ReadLV_bytes)
qed

theorem EncodeTLV_DecodeTLV_witness:
  "\<exists>w. EncodeTLV (\<lambda>v. if v < (256 :: nat) then Inr [word_of_nat v] else Inl ''range'') 3 7
      \<lparr>w_out = [], w_faults = []\<rparr> = (Inr (), w) \<and>
    DecodeTLV (\<lambda>b. if length b = 1 then Inr (unat (hd b)) else Inl ''length'') (w_out w @ [9]) = (Inr (3, 7), [9])"
  by (rule EncodeTLV_DecodeTLV [where b = "[word_of_nat 7]"])
    (auto simp: MaxMessageSize_def unat_of_nat split: if_splits)

end
