(* ===== verification/Pool.thy ===== *)
theory Pool
  imports Prelude
begin

text \<open>
  The bounded pool of connections to a node (\<open>src/cluster/pool.go\<close>) and the pools of all nodes
  (\<open>src/cluster/client_pool.go\<close>). The buffered channel is the list of idle connections, \<open>None\<close> once
  the pool is closed; \<open>total\<close> is an \<open>int32\<close>. Connections are values of any type; \<open>factory\<close> and the
  \<open>Close\<close> of a connection are parameters acting on a world \<open>'w\<close>. The first part treats every method
  as one step; the second part splits \<open>Get\<close> at its atomic operations.
\<close>

section \<open>Model\<close>

datatype pool_error =
    ErrCapacity | ErrFactory | ErrClosed | ErrTimeout | ErrNilConn | ErrConnClose | NilPanic

definition i32 :: "int \<Rightarrow> int" where
  "i32 x = (x + 2 ^ 31) mod 2 ^ 32 - 2 ^ 31"

record 'c boundedPool =
  p_conns :: "'c list option"
  p_cap :: int
  p_timeout :: int
  p_total :: int
  p_factory :: bool

record 'c pooledConn =
  pc_Conn :: "'c option"
  pc_unusable :: bool

type_synonym ('c, 'w) dialer = "'w \<Rightarrow> (pool_error + 'c) \<times> 'w"
type_synonym ('c, 'w) conn_close = "'c \<Rightarrow> 'w \<Rightarrow> (pool_error + unit) \<times> 'w"

definition wrapConn :: "'c \<Rightarrow> 'c pooledConn" where
  "wrapConn conn = \<lparr>pc_Conn = Some conn, pc_unusable = False\<rparr>"

fun close_all :: "('c, 'w) conn_close \<Rightarrow> 'c list \<Rightarrow> 'w \<Rightarrow> 'w" where
  "close_all cl [] w = w"
| "close_all cl (c # cs) w = close_all cl cs (snd (cl c w))"

definition pool_Close :: "('c, 'w) conn_close \<Rightarrow> 'c boundedPool \<times> 'w \<Rightarrow> 'c boundedPool \<times> 'w" where
  "pool_Close cl st = (case st of (p, w) \<Rightarrow>
     let conns = p_conns p; p = p\<lparr>p_conns := None, p_factory := False\<rparr> in
     (case conns of None \<Rightarrow> (p, w) | Some cs \<Rightarrow> (p, close_all cl cs w)))"

fun fill :: "('c, 'w) dialer \<Rightarrow> ('c, 'w) conn_close \<Rightarrow> nat \<Rightarrow> 'c boundedPool \<times> 'w \<Rightarrow>
    (pool_error + 'c boundedPool) \<times> 'w" where
  "fill factory cl 0 (p, w) = (Inr p, w)"
| "fill factory cl (Suc n) (p, w) =
     (case factory w of
        (Inl e, w) \<Rightarrow> (Inl ErrFactory, snd (pool_Close cl (p, w)))
      | (Inr conn, w) \<Rightarrow>
          fill factory cl n (p\<lparr>p_conns := map_option (\<lambda>cs. cs @ [conn]) (p_conns p), p_total := i32 (p_total p + 1)\<rparr>, w))"

definition NewBoundedPool :: "('c, 'w) dialer \<Rightarrow> ('c, 'w) conn_close \<Rightarrow> int \<Rightarrow> int \<Rightarrow> int \<Rightarrow> 'w \<Rightarrow>
    (pool_error + 'c boundedPool) \<times> 'w" where
  "NewBoundedPool factory cl initialCap maxCap timeout w =
     (if initialCap < 0 \<or> maxCap \<le> 0 \<or> initialCap > maxCap then (Inl ErrCapacity, w)
      else fill factory cl (nat initialCap)
        (\<lparr>p_conns = Some [], p_cap = maxCap, p_timeout = timeout, p_total = 0, p_factory = True\<rparr>, w))"

text \<open>No other method runs during \<open>Get\<close> here, so that the second \<open>select\<close> times out.\<close>

definition Get_conn :: "('c, 'w) dialer \<Rightarrow> 'c boundedPool \<times> 'w \<Rightarrow> (pool_error + 'c pooledConn) \<times> 'c boundedPool \<times> 'w" where
  "Get_conn factory st = (case st of (p, w) \<Rightarrow>
     (case p_conns p of
        None \<Rightarrow> (Inl ErrClosed, p, w)
      | Some (conn # cs) \<Rightarrow> (Inr (wrapConn conn), p\<lparr>p_conns := Some cs\<rparr>, w)
      | Some [] \<Rightarrow>
          if p_total p < i32 (p_cap p) then
            (if \<not> p_factory p then (Inl NilPanic, p, w)
             else case factory w of
               (Inl e, w) \<Rightarrow> (Inl e, p, w)
             | (Inr conn, w) \<Rightarrow> (Inr (wrapConn conn), p\<lparr>p_total := i32 (p_total p + 1)\<rparr>, w))
          else (Inl ErrTimeout, p, w)))"

definition pool_put :: "('c, 'w) conn_close \<Rightarrow> 'c option \<Rightarrow> 'c boundedPool \<times> 'w \<Rightarrow>
    (pool_error + unit) \<times> 'c boundedPool \<times> 'w" where
  "pool_put cl conn st = (case st of (p, w) \<Rightarrow>
     (case conn of
        None \<Rightarrow> (Inl ErrNilConn, p, w)
      | Some c \<Rightarrow>
          (case p_conns p of
             None \<Rightarrow> (case cl c w of (r, w) \<Rightarrow> (r, p, w))
           | Some cs \<Rightarrow>
               if int (length cs) < p_cap p then (Inr (), p\<lparr>p_conns := Some (cs @ [c])\<rparr>, w)
               else (case cl c w of (r, w) \<Rightarrow> (r, p\<lparr>p_total := i32 (p_total p - 1)\<rparr>, w)))))"

definition pool_Len :: "'c boundedPool \<Rightarrow> int" where
  "pool_Len p = (case p_conns p of None \<Rightarrow> 0 | Some cs \<Rightarrow> int (length cs))"

definition conn_Close :: "('c, 'w) conn_close \<Rightarrow> 'c pooledConn \<Rightarrow> 'c boundedPool \<times> 'w \<Rightarrow>
    (pool_error + unit) \<times> 'c boundedPool \<times> 'w" where
  "conn_Close cl pc st =
     (if pc_unusable pc then
        (case pc_Conn pc of
           Some c \<Rightarrow> (case st of (p, w) \<Rightarrow> (case cl c w of (r, w) \<Rightarrow> (r, p, w)))
         | None \<Rightarrow> (Inr (), st))
      else pool_put cl (pc_Conn pc) st)"

definition MarkUnusable :: "'c pooledConn \<Rightarrow> 'c boundedPool \<Rightarrow> 'c pooledConn \<times> 'c boundedPool" where
  "MarkUnusable pc p = (pc\<lparr>pc_unusable := True\<rparr>, p\<lparr>p_total := i32 (p_total p - 1)\<rparr>)"

text \<open>The pools of the nodes. Calling \<open>Get\<close> on the nil interface of a missing node panics.\<close>

type_synonym 'c clientPool = "(u64 \<times> 'c boundedPool) list"

definition newClientPool :: "'c clientPool" where
  "newClientPool = []"

definition setPool :: "u64 \<Rightarrow> 'c boundedPool \<Rightarrow> 'c clientPool \<Rightarrow> 'c clientPool" where
  "setPool nodeID p c = AList.update nodeID p c"

definition getPool :: "u64 \<Rightarrow> 'c clientPool \<Rightarrow> 'c boundedPool option" where
  "getPool nodeID c = map_of c nodeID"

definition cp_size :: "'c clientPool \<Rightarrow> int" where
  "cp_size c = foldl (\<lambda>sz kp. i64 (sz + pool_Len (snd kp))) 0 c"

definition cp_conn :: "('c, 'w) dialer \<Rightarrow> u64 \<Rightarrow> 'c clientPool \<times> 'w \<Rightarrow> (pool_error + 'c pooledConn) \<times> 'c clientPool \<times> 'w" where
  "cp_conn factory nodeID st = (case st of (c, w) \<Rightarrow>
     (case getPool nodeID c of
        None \<Rightarrow> (Inl NilPanic, c, w)
      | Some p \<Rightarrow> (case Get_conn factory (p, w) of (r, p, w) \<Rightarrow> (r, setPool nodeID p c, w))))"

fun cp_close :: "('c, 'w) conn_close \<Rightarrow> 'c clientPool \<Rightarrow> 'w \<Rightarrow> 'c clientPool \<times> 'w" where
  "cp_close cl [] w = ([], w)"
| "cp_close cl ((k, p) # c) w =
     (case pool_Close cl (p, w) of (p, w) \<Rightarrow> (case cp_close cl c w of (c, w) \<Rightarrow> ((k, p) # c, w)))"

section \<open>The pool and the connections handed out\<close>

text \<open>
  A system of one pool and its clients: the connections that are out, each either usable or marked.
  A client closes a connection once and marks it at most once.
\<close>

datatype pool_op = OpGet | OpClose nat | OpMark nat | OpPoolClose

record ('c, 'w) pool_sys =
  ps_pool :: "'c boundedPool"
  ps_out :: "'c pooledConn list"
  ps_world :: 'w

fun remove_nth :: "nat \<Rightarrow> 'a list \<Rightarrow> 'a list" where
  "remove_nth n xs = take n xs @ drop (Suc n) xs"

fun pool_step :: "('c, 'w) dialer \<Rightarrow> ('c, 'w) conn_close \<Rightarrow> pool_op \<Rightarrow> ('c, 'w) pool_sys \<Rightarrow> ('c, 'w) pool_sys" where
  "pool_step f cl OpGet s =
     (case Get_conn f (ps_pool s, ps_world s) of
        (Inl e, p, w) \<Rightarrow> s\<lparr>ps_pool := p, ps_world := w\<rparr>
      | (Inr pc, p, w) \<Rightarrow> s\<lparr>ps_pool := p, ps_world := w, ps_out := ps_out s @ [pc]\<rparr>)"
| "pool_step f cl (OpClose i) s =
     (if length (ps_out s) \<le> i then s
      else case conn_Close cl (ps_out s ! i) (ps_pool s, ps_world s) of (r, p, w) \<Rightarrow>
        s\<lparr>ps_pool := p, ps_world := w, ps_out := remove_nth i (ps_out s)\<rparr>)"
| "pool_step f cl (OpMark i) s =
     (if length (ps_out s) \<le> i \<or> pc_unusable (ps_out s ! i) then s
      else case MarkUnusable (ps_out s ! i) (ps_pool s) of (pc, p) \<Rightarrow>
        s\<lparr>ps_pool := p, ps_out := (ps_out s)[i := pc]\<rparr>)"
| "pool_step f cl OpPoolClose s =
     (case pool_Close cl (ps_pool s, ps_world s) of (p, w) \<Rightarrow> s\<lparr>ps_pool := p, ps_world := w\<rparr>)"

definition pool_run :: "('c, 'w) dialer \<Rightarrow> ('c, 'w) conn_close \<Rightarrow> pool_op list \<Rightarrow> ('c, 'w) pool_sys \<Rightarrow> ('c, 'w) pool_sys" where
  "pool_run f cl ops s = fold (pool_step f cl) ops s"

definition usable :: "'c pooledConn list \<Rightarrow> nat" where
  "usable out = length (filter (\<lambda>pc. \<not> pc_unusable pc) out)"

text \<open>
  While the pool is open, \<open>total\<close> counts the idle connections and the usable ones that are out, and
  it is at most the capacity.
\<close>

definition pool_inv :: "('c, 'w) pool_sys \<Rightarrow> bool" where
  "pool_inv s \<longleftrightarrow> p_cap (ps_pool s) < 2 ^ 31 \<and> (\<forall>pc\<in>set (ps_out s). pc_Conn pc \<noteq> None) \<and>
     (\<forall>cs. p_conns (ps_pool s) = Some cs \<longrightarrow>
        p_factory (ps_pool s) \<and> p_total (ps_pool s) = int (length cs) + int (usable (ps_out s)) \<and>
        p_total (ps_pool s) \<le> p_cap (ps_pool s))"

lemma i32_id [simp]: "- (2 ^ 31) \<le> x \<Longrightarrow> x < 2 ^ 31 \<Longrightarrow> i32 x = x"
  by (simp add: i32_def)

lemma usable_simps [simp]:
  "usable [] = 0" "usable (pc # out) = (if pc_unusable pc then 0 else 1) + usable out"
  "usable (out @ out') = usable out + usable out'"
  by (simp_all add: usable_def)

lemma usable_nth:
  assumes "i < length out"
  shows "usable out = usable (take i out) + (if pc_unusable (out ! i) then 0 else 1) + usable (drop (Suc i) out)"
  by (subst id_take_nth_drop [OF assms]) (simp del: take_append drop_append)

lemma usable_remove:
  "i < length out \<Longrightarrow> usable out = usable (remove_nth i out) + (if pc_unusable (out ! i) then 0 else 1)"
  by (simp add: usable_nth)

lemma usable_mark:
  assumes "i < length out" "\<not> pc_unusable (out ! i)"
  shows "usable out = usable (out[i := (out ! i)\<lparr>pc_unusable := True\<rparr>]) + 1"
  using assms by (simp add: upd_conv_take_nth_drop usable_nth [of i out])

lemma set_remove_nth: "set (remove_nth i xs) \<subseteq> set xs"
  by (auto dest: in_set_takeD in_set_dropD)

lemma pool_inv_Get:
  assumes inv: "pool_inv s"
  shows "pool_inv (pool_step f cl OpGet s)"
proof (cases "p_conns (ps_pool s)")
  case None
  then show ?thesis using inv by (simp add: Get_conn_def pool_inv_def)
next
  case (Some cs)
  then have i: "p_factory (ps_pool s)" "p_total (ps_pool s) = int (length cs) + int (usable (ps_out s))"
    "p_total (ps_pool s) \<le> p_cap (ps_pool s)" "p_cap (ps_pool s) < 2 ^ 31"
    using inv by (auto simp: pool_inv_def)
  show ?thesis
  proof (cases cs)
    case Nil
    then show ?thesis using Some i inv
      by (cases "f (ps_world s)"; cases "fst (f (ps_world s))")
        (auto simp: Get_conn_def pool_inv_def wrapConn_def)
  next
    case (Cons c cs')
    then show ?thesis using Some i inv by (auto simp: Get_conn_def pool_inv_def wrapConn_def)
  qed
qed

lemma pool_inv_Close:
  assumes inv: "pool_inv s" and i: "i < length (ps_out s)"
  shows "pool_inv (pool_step f cl (OpClose i) s)"
proof -
  have "pc_Conn (ps_out s ! i) \<noteq> None" using inv nth_mem [OF i] unfolding pool_inv_def by blast
  then obtain c where c: "pc_Conn (ps_out s ! i) = Some c" by blast
  obtain r w where w: "cl c (ps_world s) = (r, w)" by force
  have conns: "\<forall>pc\<in>set (remove_nth i (ps_out s)). pc_Conn pc \<noteq> None"
    using inv set_remove_nth [of i "ps_out s"] by (auto simp: pool_inv_def simp del: remove_nth.simps)
  note u = usable_remove [OF i]
  show ?thesis
  proof (cases "pc_unusable (ps_out s ! i)")
    case True
    then show ?thesis using inv i c w u conns
      by (auto simp: pool_inv_def conn_Close_def simp del: remove_nth.simps)
  next
    case False
    then show ?thesis using inv i c w u conns
      by (cases "p_conns (ps_pool s)") (auto simp: pool_inv_def conn_Close_def pool_put_def simp del: remove_nth.simps)
  qed
qed

lemma pool_inv_Mark:
  assumes inv: "pool_inv s" and i: "i < length (ps_out s)" "\<not> pc_unusable (ps_out s ! i)"
  shows "pool_inv (pool_step f cl (OpMark i) s)"
proof -
  have "\<forall>pc\<in>set ((ps_out s)[i := (ps_out s ! i)\<lparr>pc_unusable := True\<rparr>]). pc_Conn pc \<noteq> None"
    using inv i by (auto simp: pool_inv_def dest!: set_update_subset_insert [THEN subsetD])
  then show ?thesis using inv i usable_mark [OF i] by (auto simp: pool_inv_def MarkUnusable_def)
qed

lemma pool_inv_step: "pool_inv s \<Longrightarrow> pool_inv (pool_step f cl op s)"
proof (cases op)
  case OpGet
  assume "pool_inv s"
  then show ?thesis using OpGet pool_inv_Get by simp
next
  case (OpClose i)
  assume "pool_inv s"
  then show ?thesis using OpClose pool_inv_Close [of s i f cl] by (cases "i < length (ps_out s)") auto
next
  case (OpMark i)
  assume "pool_inv s"
  then show ?thesis using OpMark pool_inv_Mark [of s i f cl]
    by (cases "i < length (ps_out s) \<and> \<not> pc_unusable (ps_out s ! i)") auto
next
  case OpPoolClose
  assume "pool_inv s"
  then show ?thesis using OpPoolClose by (auto simp: pool_inv_def pool_Close_def Let_def split: option.splits)
qed

lemma pool_inv_run: "pool_inv s \<Longrightarrow> pool_inv (pool_run f cl ops s)"
  unfolding pool_run_def by (induction ops arbitrary: s) (simp_all add: pool_inv_step)

lemma fill_ok:
  assumes "fill f cl n (p, w) = (Inr p', w')" "p_conns p = Some cs" "p_total p = int (length cs)"
    "p_cap p < 2 ^ 31" "p_factory p" "int (length cs) + int n \<le> p_cap p"
  shows "\<exists>cs'. p_conns p' = Some cs' \<and> p_total p' = int (length cs') \<and> length cs' = length cs + n \<and>
    p_cap p' = p_cap p \<and> p_factory p'"
  using assms
proof (induction n arbitrary: p w cs)
  case (Suc n)
  obtain r w1 where f: "f w = (r, w1)" by force
  with Suc.prems(1) obtain c where r: "r = Inr c" by (cases r) auto
  let ?p = "p\<lparr>p_conns := map_option (\<lambda>cs. cs @ [c]) (p_conns p), p_total := i32 (p_total p + 1)\<rparr>"
  have "fill f cl n (?p, w1) = (Inr p', w')" using Suc.prems(1) f r by simp
  from Suc.IH [OF this, of "cs @ [c]"] Suc.prems show ?case by auto
qed auto

lemma NewBoundedPool_inv:
  assumes "NewBoundedPool f cl i m t w = (Inr p, w')" "m < 2 ^ 31"
  shows "pool_inv \<lparr>ps_pool = p, ps_out = [], ps_world = w'\<rparr>" "p_cap p = m"
proof -
  from assms have c: "0 \<le> i" "0 < m" "i \<le> m" and f: "fill f cl (nat i)
      (\<lparr>p_conns = Some [], p_cap = m, p_timeout = t, p_total = 0, p_factory = True\<rparr>, w) = (Inr p, w')"
    by (auto simp: NewBoundedPool_def split: if_splits)
  from fill_ok [OF f] c assms(2) show "pool_inv \<lparr>ps_pool = p, ps_out = [], ps_world = w'\<rparr>" "p_cap p = m"
    by (auto simp: pool_inv_def)
qed

section \<open>Concurrent calls of Get\<close>

text \<open>
  \<open>Get\<close> split at its atomic operations: the first \<open>select\<close>, the load of \<open>total\<close>, the call of the
  factory followed by the increment. \<open>g_conns\<close>, \<open>g_total\<close> and \<open>g_factory\<close> are the shared state,
  \<open>g_pc\<close> the program counters of the goroutines; \<open>g_open\<close> counts the connections created.
\<close>

datatype get_pc = GetStart | GetCheck | GetDial | GetWait | GetDone | GetError | GetPanic

record get_sys =
  g_conns :: "nat option"
  g_cap :: nat
  g_total :: nat
  g_factory :: bool
  g_open :: nat
  g_pc :: "nat \<Rightarrow> get_pc"

inductive get_step :: "get_sys \<Rightarrow> get_sys \<Rightarrow> bool" where
  get_closed: "g_pc s t = GetStart \<Longrightarrow> g_conns s = None \<Longrightarrow> get_step s (s\<lparr>g_pc := (g_pc s)(t := GetError)\<rparr>)"
| get_idle: "g_pc s t = GetStart \<Longrightarrow> g_conns s = Some (Suc n) \<Longrightarrow>
    get_step s (s\<lparr>g_conns := Some n, g_pc := (g_pc s)(t := GetDone)\<rparr>)"
| get_default: "g_pc s t = GetStart \<Longrightarrow> g_conns s = Some 0 \<Longrightarrow>
    get_step s (s\<lparr>g_pc := (g_pc s)(t := GetCheck)\<rparr>)"
| get_below: "g_pc s t = GetCheck \<Longrightarrow> g_total s < g_cap s \<Longrightarrow>
    get_step s (s\<lparr>g_pc := (g_pc s)(t := GetDial)\<rparr>)"
| get_full: "g_pc s t = GetCheck \<Longrightarrow> \<not> g_total s < g_cap s \<Longrightarrow>
    get_step s (s\<lparr>g_pc := (g_pc s)(t := GetWait)\<rparr>)"
| get_dial: "g_pc s t = GetDial \<Longrightarrow> g_factory s \<Longrightarrow>
    get_step s (s\<lparr>g_total := g_total s + 1, g_open := g_open s + 1, g_pc := (g_pc s)(t := GetDone)\<rparr>)"
| get_dial_error: "g_pc s t = GetDial \<Longrightarrow> g_factory s \<Longrightarrow> get_step s (s\<lparr>g_pc := (g_pc s)(t := GetError)\<rparr>)"
| get_dial_nil: "g_pc s t = GetDial \<Longrightarrow> \<not> g_factory s \<Longrightarrow> get_step s (s\<lparr>g_pc := (g_pc s)(t := GetPanic)\<rparr>)"
| get_wait: "g_pc s t = GetWait \<Longrightarrow> g_conns s = Some (Suc n) \<Longrightarrow>
    get_step s (s\<lparr>g_conns := Some n, g_pc := (g_pc s)(t := GetDone)\<rparr>)"
| get_wait_closed: "g_pc s t = GetWait \<Longrightarrow> g_conns s = None \<Longrightarrow> get_step s (s\<lparr>g_pc := (g_pc s)(t := GetError)\<rparr>)"
| get_timeout: "g_pc s t = GetWait \<Longrightarrow> get_step s (s\<lparr>g_pc := (g_pc s)(t := GetError)\<rparr>)"
| get_close: "g_conns s = Some n \<Longrightarrow>
    get_step s (s\<lparr>g_conns := None, g_factory := False, g_open := g_open s - n\<rparr>)"

definition get_init :: "nat \<Rightarrow> get_sys" where
  "get_init cap = \<lparr>g_conns = Some 0, g_cap = cap, g_total = 0, g_factory = True, g_open = 0, g_pc = (\<lambda>_. GetStart)\<rparr>"

definition get_reachable :: "nat \<Rightarrow> get_sys \<Rightarrow> bool" where
  "get_reachable cap s \<longleftrightarrow> get_step\<^sup>*\<^sup>* (get_init cap) s"

lemma get_reachable_step: "get_reachable cap s \<Longrightarrow> get_step s s' \<Longrightarrow> get_reachable cap s'"
  by (simp add: get_reachable_def)

lemma get_reachable_init: "get_reachable cap (get_init cap)"
  by (simp add: get_reachable_def)

text \<open>Two goroutines have both found the pool empty and below its capacity.\<close>

definition both_dial :: get_sys where
  "both_dial = (get_init 1)\<lparr>g_pc := (\<lambda>_. GetStart)(0 := GetDial, 1 := GetDial)\<rparr>"

lemma both_dial_reachable: "get_reachable 1 both_dial"
proof -
  let ?i = "get_init 1"
  let ?a = "?i\<lparr>g_pc := (g_pc ?i)(0 := GetCheck)\<rparr>"
  let ?b = "?a\<lparr>g_pc := (g_pc ?a)(1 := GetCheck)\<rparr>"
  let ?c = "?b\<lparr>g_pc := (g_pc ?b)(0 := GetDial)\<rparr>"
  let ?d = "?c\<lparr>g_pc := (g_pc ?c)(1 := GetDial)\<rparr>"
  have a: "get_step ?i ?a" and b: "get_step ?a ?b" by (rule get_default; simp add: get_init_def)+
  have c: "get_step ?b ?c" and d: "get_step ?c ?d" by (rule get_below; simp add: get_init_def)+
  have "get_reachable 1 ?d"
    by (rule get_reachable_step [OF get_reachable_step [OF get_reachable_step [OF get_reachable_step
        [OF get_reachable_init a] b] c] d])
  also have "?d = both_dial" by (auto simp: both_dial_def get_init_def fun_eq_iff)
  finally show ?thesis .
qed

section \<open>Properties\<close>


definition dial_nat :: "(nat, nat) dialer" where
  "dial_nat w = (Inr w, w + 1)"

definition close_nat :: "(nat, nat) conn_close" where
  "close_nat c w = (Inr (), w)"


text \<open>
  the bound does not hold for overlapping calls. Two goroutines that both read \<open>total\<close> before
  either increments it open two connections in a pool of capacity one.
\<close>

theorem overlapping_gets_exceed_capacity:
  "\<exists>s. get_reachable 1 s \<and> g_total s = 2 \<and> g_open s = 2 \<and> g_pc s 0 = GetDone \<and> g_pc s 1 = GetDone"
proof -
  let ?a = "both_dial\<lparr>g_total := g_total both_dial + 1, g_open := g_open both_dial + 1, g_pc := (g_pc both_dial)(0 := GetDone)\<rparr>"
  let ?b = "?a\<lparr>g_total := g_total ?a + 1, g_open := g_open ?a + 1, g_pc := (g_pc ?a)(1 := GetDone)\<rparr>"
  have a: "get_step both_dial ?a" and b: "get_step ?a ?b" by (rule get_dial; simp add: both_dial_def get_init_def)+
  have "get_reachable 1 ?b" by (rule get_reachable_step [OF get_reachable_step [OF both_dial_reachable a] b])
  then show ?thesis by (intro exI [of _ ?b]) (simp add: both_dial_def get_init_def)
qed

text \<open>
  a \<open>Get\<close> that overlaps with \<open>Close\<close> of the pool can call the factory after \<open>Close\<close> has set it to
  nil.
\<close>

theorem get_during_close_calls_nil_factory:
  "\<exists>s. get_reachable 1 s \<and> g_pc s 0 = GetPanic"
proof -
  let ?a = "both_dial\<lparr>g_conns := None, g_factory := False, g_open := g_open both_dial - 0\<rparr>"
  let ?b = "?a\<lparr>g_pc := (g_pc ?a)(0 := GetPanic)\<rparr>"
  have a: "get_step both_dial ?a" by (rule get_close) (simp add: both_dial_def get_init_def)
  have b: "get_step ?a ?b" by (rule get_dial_nil) (simp_all add: both_dial_def get_init_def)
  have "get_reachable 1 ?b" by (rule get_reachable_step [OF get_reachable_step [OF both_dial_reachable a] b])
  then show ?thesis by (intro exI [of _ ?b]) simp
qed

end
