(* ===== verification/Meta_Data.thy ===== *)
theory Meta_Data
  imports Prelude "HOL-Library.Signed_Division"
begin

text \<open>
  The cluster metadata (\<open>src/meta/data.go\<close>, errors of \<open>src/meta/errors.go\<close>): meta nodes, data
  nodes, users and roles around the metadata of the open-source server, with every operation of
  \<open>Data\<close>, \<open>NodeInfo\<close> and \<open>RoleInfo\<close>.

  The open-source \<open>meta.Data\<close> is a record of the fields the code reads or writes, with a field
  \<open>o_rest\<close> of any type for all others; its methods (\<open>Clone\<close>, \<open>MarshalBinary\<close>, \<open>RetentionPolicy\<close>,
  \<open>ShardGroupByTimestamp\<close>, \<open>OwnedBy\<close>, the order of \<open>ShardGroupInfos\<close>) are parameters. A pointer
  into the databases is the pair of positions it points to. A time is the number of nanoseconds
  since Go's zero time, so that 0 is \<open>IsZero\<close>. \<open>sort.Sort\<close> on node infos is the stable sort by
  \<open>ID\<close>, one of the orders Go allows when two IDs are equal and the only one when they differ.
\<close>

section \<open>Errors and data\<close>

datatype meta_error =
    ErrStoreOpen | ErrStoreClosed
  | ErrNodeExists | ErrNodeNotFound | ErrNodesRequired | ErrNodeIDRequired
  | ErrNodeUnableToDropFinalNode
  | ErrDatabaseExists | ErrDatabaseNotExists | ErrDatabaseNameRequired
  | ErrRetentionPolicyExists | ErrRetentionPolicyDefault | ErrRetentionPolicyNameRequired
  | ErrRetentionPolicyNameExists | ErrRetentionPolicyDurationTooLow
  | ErrRetentionPolicyConflict | ErrReplicationFactorTooLow
  | ErrShardGroupExists | ErrShardGroupNotFound | ErrShardNotReplicated
  | ErrContinuousQueryExists | ErrContinuousQueryNotFound
  | ErrSubscriptionExists | ErrSubscriptionNotFound
  | ErrUserExists | ErrUserNotFound | ErrUsernameRequired | ErrAuthenticate
  | ErrRetentionPolicyNotFound string
  | ErrFindShard u64 | ErrUpdateShard u64 | ErrFindOwner u64
  | ErrServiceUnavailable | ErrMsg string
  | OssErr string | RaftNotLeader | RaftErr string | ProtoErr | IoErr
  | MetaPanic

record ShardOwner =
  so_NodeID :: u64

record ShardInfo =
  si_ID :: u64
  si_Owners :: "ShardOwner list"

record ShardGroupInfo =
  sg_ID :: u64
  sg_StartTime :: int
  sg_EndTime :: int
  sg_DeletedAt :: int
  sg_Shards :: "ShardInfo list"

record SubscriptionInfo =
  sub_Name :: string
  sub_Mode :: string
  sub_Destinations :: "string list"

record ContinuousQueryInfo =
  cq_Name :: string
  cq_Query :: string

record RetentionPolicyInfo =
  rp_Name :: string
  rp_ReplicaN :: int
  rp_Duration :: int
  rp_ShardGroupDuration :: int
  rp_ShardGroups :: "ShardGroupInfo list"
  rp_Subscriptions :: "SubscriptionInfo list"

record DatabaseInfo =
  db_Name :: string
  db_RetentionPolicies :: "RetentionPolicyInfo list"
  db_DefaultRetentionPolicy :: string
  db_ContinuousQueries :: "ContinuousQueryInfo list"

record OssUserInfo =
  ou_Name :: string
  ou_Admin :: bool

record 'x OssData =
  o_Term :: u64
  o_Index :: u64
  o_ClusterID :: u64
  o_Databases :: "DatabaseInfo list"
  o_MaxShardGroupID :: u64
  o_MaxShardID :: u64
  o_Users :: "OssUserInfo list"
  o_rest :: 'x

record NodeInfo =
  ni_ID :: u64
  ni_Host :: string
  ni_TCPHost :: string
  ni_PendingShardOwners :: "u64 list"

record UserInfo =
  u_Name :: string
  u_Hash :: string
  u_Admin :: bool
  u_Privileges :: unit

record RoleInfo =
  r_Users :: "UserInfo list"

record 'x Data =
  d_Data :: "'x OssData"
  d_MetaNodes :: "NodeInfo list"
  d_DataNodes :: "NodeInfo list"
  d_Users :: "UserInfo list"
  d_Roles :: "RoleInfo list"
  d_MaxNodeID :: u64

type_synonym ('x, 'a) data_op = "'x Data \<Rightarrow> (meta_error + 'a) \<times> 'x Data"

definition DefaultRetentionPolicyReplicaN :: int where "DefaultRetentionPolicyReplicaN = 1"
definition DefaultRetentionPolicyDuration :: int where "DefaultRetentionPolicyDuration = 0"
definition DefaultRetentionPolicyName :: string where "DefaultRetentionPolicyName = ''autogen''"
definition MinRetentionPolicyDuration :: int where "MinRetentionPolicyDuration = 3600 * 1000000000"

text \<open>The zero value of \<open>UserInfo\<close> and of \<open>NodeInfo\<close>, which \<open>make\<close> fills a slice with.\<close>

definition zero_UserInfo :: UserInfo where
  "zero_UserInfo = \<lparr>u_Name = [], u_Hash = [], u_Admin = False, u_Privileges = ()\<rparr>"

definition zero_NodeInfo :: NodeInfo where
  "zero_NodeInfo = \<lparr>ni_ID = 0, ni_Host = [], ni_TCPHost = [], ni_PendingShardOwners = []\<rparr>"

text \<open>The literal \<open>&Data{Data: od}\<close>.\<close>

definition fresh_Data :: "'x OssData \<Rightarrow> 'x Data" where
  "fresh_Data od = \<lparr>d_Data = od, d_MetaNodes = [], d_DataNodes = [], d_Users = [], d_Roles = [], d_MaxNodeID = 0\<rparr>"

text \<open>A \<open>for i, x := range xs\<close> loop that rewrites every element.\<close>

definition mapi :: "(nat \<Rightarrow> 'a \<Rightarrow> 'b) \<Rightarrow> 'a list \<Rightarrow> 'b list" where
  "mapi f xs = map (\<lambda>(i, x). f i x) (enumerate 0 xs)"

lemma length_mapi [simp]: "length (mapi f xs) = length xs"
  by (simp add: mapi_def)

lemma nth_mapi [simp]: "i < length xs \<Longrightarrow> mapi f xs ! i = f i (xs ! i)"
  by (simp add: mapi_def nth_enumerate_eq)

lemma in_set_mapi: "y \<in> set (mapi f xs) \<longleftrightarrow> (\<exists>i < length xs. y = f i (xs ! i))"
  by (auto simp: in_set_conv_nth)

lemma mapi_const [simp]: "mapi (\<lambda>i. f) xs = map f xs"
  by (rule nth_equalityI) simp_all

section \<open>Cloning\<close>

definition NodeInfo_clone :: "NodeInfo \<Rightarrow> NodeInfo" where
  "NodeInfo_clone ni = ni"

definition CloneUsers :: "'x Data \<Rightarrow> UserInfo list" where
  "CloneUsers data = (if d_Users data = [] then [] else replicate (length (d_Users data)) zero_UserInfo)"

definition CloneRoles :: "'x Data \<Rightarrow> RoleInfo list" where
  "CloneRoles data = []"

definition Clone :: "('x OssData \<Rightarrow> 'x OssData) \<Rightarrow> 'x Data \<Rightarrow> 'x Data" where
  "Clone ossClone data = data\<lparr>
     d_Data := ossClone (d_Data data),
     d_MetaNodes := map NodeInfo_clone (d_MetaNodes data),
     d_DataNodes := map NodeInfo_clone (d_DataNodes data),
     d_Users := CloneUsers data\<rparr>"

section \<open>Meta nodes and data nodes\<close>

definition find_node :: "u64 \<Rightarrow> NodeInfo list \<Rightarrow> NodeInfo option" where
  "find_node nid ns = List.find (\<lambda>n. ni_ID n = nid) ns"

definition MetaNode :: "u64 \<Rightarrow> 'x Data \<Rightarrow> NodeInfo option" where
  "MetaNode nid data = find_node nid (d_MetaNodes data)"

definition DataNode :: "u64 \<Rightarrow> 'x Data \<Rightarrow> NodeInfo option" where
  "DataNode nid data = find_node nid (d_DataNodes data)"

definition has_tcp :: "string \<Rightarrow> NodeInfo list \<Rightarrow> bool" where
  "has_tcp tcpHost ns = list_ex (\<lambda>n. ni_TCPHost n = tcpHost) ns"

definition existing_id :: "string \<Rightarrow> NodeInfo list \<Rightarrow> u64" where
  "existing_id tcpHost ns =
     (case List.find (\<lambda>n. ni_TCPHost n = tcpHost) ns of None \<Rightarrow> 0 | Some n \<Rightarrow> ni_ID n)"

definition NodeInfos_sort :: "NodeInfo list \<Rightarrow> NodeInfo list" where
  "NodeInfos_sort = sort_key ni_ID"

definition assign_id :: "string \<Rightarrow> 'x Data \<Rightarrow> u64 \<times> 'x Data" where
  "assign_id tcpHost data =
     (let existingID = existing_id tcpHost (d_MetaNodes data) in
      if existingID = 0 then (d_MaxNodeID data + 1, data\<lparr>d_MaxNodeID := d_MaxNodeID data + 1\<rparr>)
      else (existingID, data))"

definition CreateMetaNode :: "string \<Rightarrow> string \<Rightarrow> ('x, unit) data_op" where
  "CreateMetaNode host tcpHost data =
     (if has_tcp tcpHost (d_DataNodes data) then (Inl ErrNodeExists, data)
      else let (existingID, data) = assign_id tcpHost data in
        (Inr (), data\<lparr>d_MetaNodes := NodeInfos_sort (d_MetaNodes data @
          [\<lparr>ni_ID = existingID, ni_Host = host, ni_TCPHost = tcpHost, ni_PendingShardOwners = []\<rparr>])\<rparr>))"

definition SetMetaNode :: "u64 \<Rightarrow> string \<Rightarrow> string \<Rightarrow> ('x, unit) data_op" where
  "SetMetaNode nodeID host tcpHost data =
     (if list_ex (\<lambda>n. ni_Host n = host) (d_MetaNodes data) then (Inl ErrNodeExists, data)
      else (Inr (), data\<lparr>d_MetaNodes := d_MetaNodes data @
          [\<lparr>ni_ID = nodeID, ni_Host = host, ni_TCPHost = tcpHost, ni_PendingShardOwners = []\<rparr>]\<rparr>))"

definition CreateDataNode :: "string \<Rightarrow> string \<Rightarrow> ('x, unit) data_op" where
  "CreateDataNode host tcpHost data =
     (if has_tcp tcpHost (d_DataNodes data) then (Inl ErrNodeExists, data)
      else let (existingID, data) = assign_id tcpHost data in
        (Inr (), data\<lparr>d_DataNodes := NodeInfos_sort (d_DataNodes data @
          [\<lparr>ni_ID = existingID, ni_Host = host, ni_TCPHost = tcpHost, ni_PendingShardOwners = []\<rparr>])\<rparr>))"

text \<open>
  The loop of \<open>UpdateDataNode\<close> assigns to the loop variable, a copy of the element, and breaks at
  the first match: the slice is not written.
\<close>

fun update_loop :: "u64 \<Rightarrow> string \<Rightarrow> string \<Rightarrow> NodeInfo list \<Rightarrow> NodeInfo option" where
  "update_loop nodeID host tcpHost [] = None"
| "update_loop nodeID host tcpHost (n # ns) =
     (if ni_ID n = nodeID then Some (n\<lparr>ni_Host := host, ni_TCPHost := tcpHost\<rparr>)
      else update_loop nodeID host tcpHost ns)"

definition UpdateDataNode :: "u64 \<Rightarrow> string \<Rightarrow> string \<Rightarrow> ('x, unit) data_op" where
  "UpdateDataNode nodeID host tcpHost data =
     (let copy = update_loop nodeID host tcpHost (d_DataNodes data) in (Inr (), data))"

definition DeleteDataNode :: "u64 \<Rightarrow> ('x, unit) data_op" where
  "DeleteDataNode nid data =
     (let nodes = filter (\<lambda>n. ni_ID n \<noteq> nid) (d_DataNodes data) in
      if length nodes = length (d_DataNodes data) then (Inl ErrNodeNotFound, data)
      else (Inr (), data\<lparr>d_DataNodes := nodes\<rparr>))"

text \<open>
  \<open>DeleteMetaNode\<close> also takes the node out of the owners of every shard: in each shard the last
  owner with that ID goes. The counts \<open>nodeOwnerFreqs\<close> are local and never read. \<open>now di ri sgi\<close> is
  the time read for the group at that place.
\<close>

fun node_idx :: "u64 \<Rightarrow> ShardOwner list \<Rightarrow> nat \<Rightarrow> nat option \<Rightarrow> nat option" where
  "node_idx nid [] i nodeIdx = nodeIdx"
| "node_idx nid (owner # os) i nodeIdx =
     node_idx nid os (Suc i) (if so_NodeID owner = nid then Some i else nodeIdx)"

definition relinquish :: "u64 \<Rightarrow> ShardInfo \<Rightarrow> ShardInfo" where
  "relinquish nid s =
     (case node_idx nid (si_Owners s) 0 None of
        None \<Rightarrow> s
      | Some i \<Rightarrow> s\<lparr>si_Owners := take i (si_Owners s) @ drop (Suc i) (si_Owners s)\<rparr>)"

definition relinquish_group :: "u64 \<Rightarrow> int \<Rightarrow> ShardGroupInfo \<Rightarrow> ShardGroupInfo" where
  "relinquish_group nid now sg =
     (let shards = map (relinquish nid) (sg_Shards sg);
          orphanedShards = filter (\<lambda>s. si_Owners s = []) shards in
      if sg_Shards sg = [] \<or> length orphanedShards = length (sg_Shards sg)
      then sg\<lparr>sg_Shards := shards, sg_DeletedAt := now\<rparr>
      else sg\<lparr>sg_Shards := shards\<rparr>)"

definition relinquish_all :: "u64 \<Rightarrow> (nat \<Rightarrow> nat \<Rightarrow> nat \<Rightarrow> int) \<Rightarrow> DatabaseInfo list \<Rightarrow> DatabaseInfo list" where
  "relinquish_all nid now dbs =
     mapi (\<lambda>di d. d\<lparr>db_RetentionPolicies := mapi (\<lambda>ri rp. rp\<lparr>rp_ShardGroups :=
       mapi (\<lambda>sgi sg. relinquish_group nid (now di ri sgi) sg) (rp_ShardGroups rp)\<rparr>)
         (db_RetentionPolicies d)\<rparr>) dbs"

definition DeleteMetaNode :: "(nat \<Rightarrow> nat \<Rightarrow> nat \<Rightarrow> int) \<Rightarrow> u64 \<Rightarrow> ('x, unit) data_op" where
  "DeleteMetaNode now nid data =
     (let nodes = filter (\<lambda>n. ni_ID n \<noteq> nid) (d_MetaNodes data) in
      if length nodes = length (d_MetaNodes data) then (Inl ErrNodeNotFound, data)
      else (Inr (), data\<lparr>d_MetaNodes := nodes,
        d_Data := (d_Data data)\<lparr>o_Databases := relinquish_all nid now (o_Databases (d_Data data))\<rparr>\<rparr>))"

section \<open>Protobuf representation\<close>

text \<open>
  The messages \<open>ClusterData\<close> and \<open>NodeInfo\<close> of \<open>src/meta/internal/meta.proto\<close>. A required scalar
  that was never set is \<open>None\<close>, and so is a nil element of a repeated message field. The wire codec
  \<open>proto.Marshal\<close>/\<open>proto.Unmarshal\<close> and the codec of the open-source data are parameters.
\<close>

record NodeInfo_pb =
  npb_ID :: "u64 option"
  npb_Host :: "string option"
  npb_TCPHost :: "string option"
  npb_PendingShardOwners :: "u64 list"

record ClusterData_pb =
  pb_Data :: "byte list option"
  pb_MaxNodeID :: "u64 option"
  pb_DataNodes :: "NodeInfo_pb option list"
  pb_MetaNodes :: "NodeInfo_pb option list"
  pb_Users :: "unit option list"

definition NodeInfo_marshal :: "NodeInfo \<Rightarrow> NodeInfo_pb" where
  "NodeInfo_marshal ni =
     \<lparr>npb_ID = Some (ni_ID ni), npb_Host = Some (ni_Host ni), npb_TCPHost = Some (ni_TCPHost ni),
      npb_PendingShardOwners =
        foldl (\<lambda>acc pso. acc @ [pso]) (replicate (length (ni_PendingShardOwners ni)) 0)
          (ni_PendingShardOwners ni)\<rparr>"

text \<open>The getters of a message give the zero value for a nil message or an unset field.\<close>

definition NodeInfo_unmarshal :: "NodeInfo_pb option \<Rightarrow> NodeInfo" where
  "NodeInfo_unmarshal pb = (case pb of
     None \<Rightarrow> zero_NodeInfo
   | Some pb \<Rightarrow> \<lparr>ni_ID = case_option 0 (\<lambda>v. v) (npb_ID pb), ni_Host = case_option [] (\<lambda>v. v) (npb_Host pb),
       ni_TCPHost = case_option [] (\<lambda>v. v) (npb_TCPHost pb),
       ni_PendingShardOwners = npb_PendingShardOwners pb\<rparr>)"

definition marshal :: "('x OssData \<Rightarrow> meta_error + byte list) \<Rightarrow> 'x Data \<Rightarrow> ClusterData_pb" where
  "marshal ossMarshal data =
     \<lparr>pb_Data = (case ossMarshal (d_Data data) of Inl e \<Rightarrow> None | Inr b \<Rightarrow> Some b),
      pb_MaxNodeID = None,
      pb_DataNodes = map (Some \<circ> NodeInfo_marshal) (d_DataNodes data),
      pb_MetaNodes = map (Some \<circ> NodeInfo_marshal) (d_MetaNodes data),
      pb_Users = replicate (length (d_Users data)) None\<rparr>"

definition MarshalBinary :: "('x OssData \<Rightarrow> meta_error + byte list) \<Rightarrow>
    (ClusterData_pb \<Rightarrow> meta_error + byte list) \<Rightarrow> 'x Data \<Rightarrow> meta_error + byte list" where
  "MarshalBinary ossMarshal protoMarshal data = protoMarshal (marshal ossMarshal data)"

text \<open>
  \<open>ossUnmarshal b\<close> is what \<open>UnmarshalBinary(b)\<close> leaves in a zero \<open>meta.Data\<close>; the error it may
  return is dropped by the code.
\<close>

definition unmarshal :: "(byte list \<Rightarrow> 'x OssData) \<Rightarrow> ClusterData_pb \<Rightarrow> 'x Data \<Rightarrow> 'x Data" where
  "unmarshal ossUnmarshal pb data = data\<lparr>
     d_Data := ossUnmarshal (case_option [] (\<lambda>v. v) (pb_Data pb)),
     d_MetaNodes := map NodeInfo_unmarshal (pb_MetaNodes pb)\<rparr>"

definition UnmarshalBinary :: "(byte list \<Rightarrow> 'x OssData) \<Rightarrow>
    (byte list \<Rightarrow> meta_error + ClusterData_pb) \<Rightarrow> byte list \<Rightarrow> ('x, unit) data_op" where
  "UnmarshalBinary ossUnmarshal protoUnmarshal buf data =
     (case protoUnmarshal buf of
        Inl e \<Rightarrow> (Inl e, data)
      | Inr pb \<Rightarrow> (Inr (), unmarshal ossUnmarshal pb data))"

section \<open>Shard groups\<close>

text \<open>\<open>Time.Truncate\<close> of the Go standard library, relative to the zero time.\<close>

definition Truncate :: "int \<Rightarrow> int \<Rightarrow> int" where
  "Truncate t d = (if d \<le> 0 then t else t - t mod d)"

text \<open>
  \<open>make([]meta.ShardInfo, shardN)\<close> panics for a negative length; \<open>generatedShards\<close> is called with
  the non-negative ones.
\<close>

fun generatedShards :: "nat \<Rightarrow> 'x OssData \<Rightarrow> ShardInfo list \<times> 'x OssData" where
  "generatedShards 0 od = ([], od)"
| "generatedShards (Suc shardN) od =
     (let od = od\<lparr>o_MaxShardID := o_MaxShardID od + 1\<rparr>;
          (shards, od') = generatedShards shardN od in
      (\<lparr>si_ID = o_MaxShardID od, si_Owners = []\<rparr> # shards, od'))"

fun assign_replicas :: "NodeInfo list \<Rightarrow> nat \<Rightarrow> nat \<Rightarrow> ShardInfo \<Rightarrow> ShardInfo \<times> nat" where
  "assign_replicas nodes 0 nodeIndex si = (si, nodeIndex)"
| "assign_replicas nodes (Suc j) nodeIndex si =
     assign_replicas nodes j (Suc nodeIndex)
       (si\<lparr>si_Owners := si_Owners si @ [\<lparr>so_NodeID = ni_ID (nodes ! (nodeIndex mod length nodes))\<rparr>]\<rparr>)"

fun assign_shards :: "NodeInfo list \<Rightarrow> nat \<Rightarrow> nat \<Rightarrow> ShardInfo list \<Rightarrow> ShardInfo list" where
  "assign_shards nodes replicaN nodeIndex [] = []"
| "assign_shards nodes replicaN nodeIndex (si # sis) =
     (case assign_replicas nodes replicaN nodeIndex si of
        (si, nodeIndex) \<Rightarrow> si # assign_shards nodes replicaN nodeIndex sis)"

text \<open>
  The parameters: \<open>retPol\<close> is the lookup of a retention policy (the position of the policy in the
  databases, none, or an error), \<open>byTime\<close> the lookup of a shard group by timestamp, \<open>sortSG\<close> the
  sort of the groups.
\<close>

type_synonym 'x retention_lookup = "'x OssData \<Rightarrow> string \<Rightarrow> string \<Rightarrow> string + (nat \<times> nat) option"

definition policy_at :: "'x OssData \<Rightarrow> nat \<Rightarrow> nat \<Rightarrow> RetentionPolicyInfo" where
  "policy_at od di ri = db_RetentionPolicies (o_Databases od ! di) ! ri"

definition set_groups :: "nat \<Rightarrow> nat \<Rightarrow> ShardGroupInfo list \<Rightarrow> 'x OssData \<Rightarrow> 'x OssData" where
  "set_groups di ri gs od = od\<lparr>o_Databases := (o_Databases od)[di := (o_Databases od ! di)
     \<lparr>db_RetentionPolicies := (db_RetentionPolicies (o_Databases od ! di))[ri :=
        (policy_at od di ri)\<lparr>rp_ShardGroups := gs\<rparr>]\<rparr>]\<rparr>"

definition replica_count :: "int \<Rightarrow> nat \<Rightarrow> int" where
  "replica_count replicaN n = (if replicaN = 0 then 1 else if replicaN > int n then int n else replicaN)"

definition CreateShardGroup :: "'x retention_lookup \<Rightarrow>
    (RetentionPolicyInfo \<Rightarrow> int \<Rightarrow> ShardGroupInfo option) \<Rightarrow>
    (ShardGroupInfo list \<Rightarrow> ShardGroupInfo list) \<Rightarrow> string \<Rightarrow> string \<Rightarrow> int \<Rightarrow> ('x, unit) data_op" where
  "CreateShardGroup retPol byTime sortSG database policy timestamp data =
     (if d_DataNodes data = [] then (Inr (), data)
      else case retPol (d_Data data) database policy of
        Inl e \<Rightarrow> (Inl (OssErr e), data)
      | Inr None \<Rightarrow> (Inl (ErrRetentionPolicyNotFound policy), data)
      | Inr (Some (di, ri)) \<Rightarrow>
        (let rpi = policy_at (d_Data data) di ri in
         if byTime rpi timestamp \<noteq> None then (Inr (), data)
         else let n = length (d_DataNodes data);
                  replicaN = replica_count (rp_ReplicaN rpi) n;
                  shardN = int n sdiv replicaN;
                  od = (d_Data data)\<lparr>o_MaxShardGroupID := o_MaxShardGroupID (d_Data data) + 1\<rparr>;
                  start = Truncate timestamp (rp_ShardGroupDuration rpi) in
         if shardN < 0 then (Inl MetaPanic, data\<lparr>d_Data := od\<rparr>)
         else let (shards, od) = generatedShards (nat shardN) od;
                  nodeIndex = unat (o_Index od mod word_of_nat n);
                  sgi = \<lparr>sg_ID = o_MaxShardGroupID od, sg_StartTime = start,
                    sg_EndTime = start + rp_ShardGroupDuration rpi, sg_DeletedAt = 0,
                    sg_Shards = assign_shards (d_DataNodes data) (nat replicaN) nodeIndex shards\<rparr> in
         (Inr (), data\<lparr>d_Data := set_groups di ri (sortSG (rp_ShardGroups rpi @ [sgi])) od\<rparr>)))"

definition TruncateShardsGrops :: "ShardGroupInfo \<Rightarrow> ('x, unit) data_op" where
  "TruncateShardsGrops sg data = (Inr (), data)"

section \<open>Shard owners\<close>

text \<open>
  \<open>AddPendingShardOwner\<close> and \<open>RemovePendingShardOwner\<close> assign to the loop variable, a copy: the
  nodes of \<open>data\<close> are not written.
\<close>

definition AddPendingShardOwner :: "u64 \<Rightarrow> 'x Data \<Rightarrow> 'x Data" where
  "AddPendingShardOwner nid data =
     (let copies = map (\<lambda>node. node\<lparr>ni_PendingShardOwners := ni_PendingShardOwners node @ [nid]\<rparr>)
        (d_MetaNodes data) in data)"

definition RemovePendingShardOwner :: "u64 \<Rightarrow> 'x Data \<Rightarrow> 'x Data" where
  "RemovePendingShardOwner nid data =
     (let copies = map (\<lambda>node. node\<lparr>ni_PendingShardOwners :=
        filter (\<lambda>pso. nid \<noteq> pso) (ni_PendingShardOwners node)\<rparr>) (d_MetaNodes data) in data)"

definition ShardOwners_sort :: "ShardOwner list \<Rightarrow> ShardOwner list" where
  "ShardOwners_sort = sort_key so_NodeID"

definition all_shards :: "'x OssData \<Rightarrow> ShardInfo list" where
  "all_shards od = concat (map (\<lambda>d. concat (map (\<lambda>rp. concat (map sg_Shards (rp_ShardGroups rp)))
     (db_RetentionPolicies d))) (o_Databases od))"

definition ShardLocation :: "u64 \<Rightarrow> 'x Data \<Rightarrow> meta_error + ShardInfo" where
  "ShardLocation shardID data =
     (case List.find (\<lambda>s. si_ID s = shardID) (all_shards (d_Data data)) of
        None \<Rightarrow> Inl (ErrFindShard shardID) | Some s \<Rightarrow> Inr s)"

definition UpdateShard :: "u64 \<Rightarrow> ShardOwner list \<Rightarrow> ('x, unit) data_op" where
  "UpdateShard shardID newOwners data = (Inl (ErrUpdateShard shardID), data)"

definition AddShardOwner :: "(ShardInfo \<Rightarrow> u64 \<Rightarrow> bool) \<Rightarrow> u64 \<Rightarrow> u64 \<Rightarrow> ('x, unit) data_op" where
  "AddShardOwner ownedBy shardID nodeID data =
     (case ShardLocation shardID data of
        Inl e \<Rightarrow> (Inl e, data)
      | Inr si \<Rightarrow>
          if \<not> ownedBy si nodeID then
            (if nodeID > d_MaxNodeID data then (Inr (), data)
             else UpdateShard shardID (ShardOwners_sort [\<lparr>so_NodeID = nodeID\<rparr>]) data)
          else (Inr (), data))"

text \<open>
  \<open>RemoveShardOwner\<close> looks into the shard only when the lookup failed, where \<open>si\<close> is nil and the
  call \<open>si.OwnedBy\<close> panics.
\<close>

definition RemoveShardOwner :: "(ShardInfo \<Rightarrow> u64 \<Rightarrow> bool) \<Rightarrow> u64 \<Rightarrow> u64 \<Rightarrow> ('x, unit) data_op" where
  "RemoveShardOwner ownedBy shardID nodeID data =
     (case ShardLocation shardID data of
        Inl e \<Rightarrow> (Inl MetaPanic, data)
      | Inr si \<Rightarrow> (Inr (), data))"

fun find_owner :: "u64 \<Rightarrow> ShardOwner list \<Rightarrow> nat \<Rightarrow> nat option" where
  "find_owner nodeID [] i = None"
| "find_owner nodeID (ow # os) i = (if so_NodeID ow = nodeID then Some i else find_owner nodeID os (Suc i))"

text \<open>
  \<open>copy(si.Owners[found:], si.Owners[found+1:])\<close> shifts the tail in place and keeps the length, so
  the last owner stays where it is. The slice is shared with the shard.
\<close>

definition PruneShard :: "ShardInfo \<Rightarrow> u64 \<Rightarrow> (meta_error + ShardOwner list) \<times> ShardInfo" where
  "PruneShard si nodeID =
     (case find_owner nodeID (si_Owners si) 0 of
        None \<Rightarrow> (Inl (ErrFindOwner nodeID), si)
      | Some found \<Rightarrow>
          let os = take found (si_Owners si) @ drop (Suc found) (si_Owners si) @ [last (si_Owners si)] in
          (Inr os, si\<lparr>si_Owners := os\<rparr>))"

section \<open>Users and roles\<close>

definition User :: "string \<Rightarrow> 'x Data \<Rightarrow> UserInfo option" where
  "User username data = List.find (\<lambda>u. u_Name u = username) (d_Users data)"

definition CreateUser :: "string \<Rightarrow> string \<Rightarrow> bool \<Rightarrow> ('x, unit) data_op" where
  "CreateUser name hash admin data =
     (if name = [] then (Inl ErrUsernameRequired, data)
      else if User name data \<noteq> None then (Inl ErrUserExists, data)
      else (Inr (), data\<lparr>d_Users := d_Users data @
        [\<lparr>u_Name = name, u_Hash = hash, u_Admin = admin, u_Privileges = ()\<rparr>]\<rparr>))"

fun drop_user :: "string \<Rightarrow> UserInfo list \<Rightarrow> UserInfo list option" where
  "drop_user name [] = None"
| "drop_user name (u # us) = (if u_Name u = name then Some us else map_option ((#) u) (drop_user name us))"

definition DropUser :: "string \<Rightarrow> ('x, unit) data_op" where
  "DropUser name data = (case drop_user name (d_Users data) of
     None \<Rightarrow> (Inl ErrUserNotFound, data) | Some us \<Rightarrow> (Inr (), data\<lparr>d_Users := us\<rparr>))"

definition AddUser :: "UserInfo \<Rightarrow> RoleInfo \<Rightarrow> RoleInfo" where
  "AddUser user r = r\<lparr>r_Users := r_Users r @ [user]\<rparr>"

definition AddUsers :: "UserInfo list \<Rightarrow> RoleInfo \<Rightarrow> RoleInfo" where
  "AddUsers users r = foldl (\<lambda>r usr. AddUser usr r) r users"

text \<open>\<open>RemoveUser\<close> finds the position of the user and then does nothing with it.\<close>

definition RemoveUser :: "UserInfo \<Rightarrow> RoleInfo \<Rightarrow> RoleInfo" where
  "RemoveUser user r =
     (case List.find (\<lambda>i. r_Users r ! i = user) [0..<length (r_Users r)] of None \<Rightarrow> r | Some deleteIndex \<Rightarrow> r)"

definition RemoveUsers :: "UserInfo list \<Rightarrow> RoleInfo \<Rightarrow> RoleInfo" where
  "RemoveUsers users r = foldl (\<lambda>r usr. RemoveUser usr r) r users"

text \<open>\<open>sort.Search\<close> of the Go standard library: binary search on \<open>[i, j)\<close>.\<close>

function sort_Search :: "(nat \<Rightarrow> bool) \<Rightarrow> nat \<Rightarrow> nat \<Rightarrow> nat" where
  "sort_Search f i j =
     (if i < j then
        let h = (i + j) div 2 in
        if \<not> f h then sort_Search f (Suc h) j else sort_Search f i h
      else i)"
  by pat_completeness auto
termination by (relation "measure (\<lambda>(f, i, j). j - i)") auto

declare sort_Search.simps [simp del]

definition HasUser :: "UserInfo \<Rightarrow> RoleInfo \<Rightarrow> bool" where
  "HasUser user r =
     (let res = sort_Search (\<lambda>i. r_Users r ! i = user) 0 (length (r_Users r)) in
      res < length (r_Users r) \<and> r_Users r ! res = user)"

end
