(* ===== verification/Meta_Users.thy ===== *)
theory Meta_Users
  imports Meta_Data
begin

text \<open>
  The user table of the metadata (\<open>User\<close>, \<open>CreateUser\<close>, \<open>DropUser\<close> and \<open>CloneUsers\<close> of
  \<open>src/meta/data.go\<close>) against the specification of a finite map from names to records, stated once
  for any keyed table as a locale, and the user set of a role.
\<close>

section \<open>Keyed tables\<close>

text \<open>
  A table with unique keys. \<open>create\<close> fails on an invalid or a used key, \<open>remove\<close> fails on an
  unused one; a failed operation leaves the table unchanged.
\<close>

datatype ('k, 'v) table_op = TCreate 'k 'v | TDrop 'k

fun map_step :: "('k \<Rightarrow> bool) \<Rightarrow> ('k, 'v) table_op \<Rightarrow> ('k \<Rightarrow> 'v option) \<Rightarrow> bool \<times> ('k \<Rightarrow> 'v option)" where
  "map_step valid (TCreate k v) m = (if valid k \<and> m k = None then (True, m(k \<mapsto> v)) else (False, m))"
| "map_step valid (TDrop k) m = (if m k = None then (False, m) else (True, m(k := None)))"

fun map_run :: "('k \<Rightarrow> bool) \<Rightarrow> ('k, 'v) table_op list \<Rightarrow> ('k \<Rightarrow> 'v option) \<Rightarrow> bool list \<times> ('k \<Rightarrow> 'v option)" where
  "map_run valid [] m = ([], m)"
| "map_run valid (op # ops) m =
     (case map_step valid op m of (b, m) \<Rightarrow> case map_run valid ops m of (bs, m) \<Rightarrow> (b # bs, m))"

locale keyed_table =
  fixes invar :: "'s \<Rightarrow> bool" and abs :: "'s \<Rightarrow> 'k \<Rightarrow> 'v option" and valid :: "'k \<Rightarrow> bool"
    and create :: "'k \<Rightarrow> 'v \<Rightarrow> 's \<Rightarrow> bool \<times> 's" and remove :: "'k \<Rightarrow> 's \<Rightarrow> bool \<times> 's"
  assumes create_ok: "invar s \<Longrightarrow> valid k \<Longrightarrow> abs s k = None \<Longrightarrow>
      fst (create k v s) \<and> invar (snd (create k v s)) \<and> abs (snd (create k v s)) = (abs s)(k \<mapsto> v)"
    and create_fail: "invar s \<Longrightarrow> \<not> valid k \<or> abs s k \<noteq> None \<Longrightarrow> create k v s = (False, s)"
    and remove_ok: "invar s \<Longrightarrow> abs s k \<noteq> None \<Longrightarrow>
      fst (remove k s) \<and> invar (snd (remove k s)) \<and> abs (snd (remove k s)) = (abs s)(k := None)"
    and remove_fail: "invar s \<Longrightarrow> abs s k = None \<Longrightarrow> remove k s = (False, s)"
begin

fun table_step :: "('k, 'v) table_op \<Rightarrow> 's \<Rightarrow> bool \<times> 's" where
  "table_step (TCreate k v) s = create k v s"
| "table_step (TDrop k) s = remove k s"

fun table_run :: "('k, 'v) table_op list \<Rightarrow> 's \<Rightarrow> bool list \<times> 's" where
  "table_run [] s = ([], s)"
| "table_run (op # ops) s =
     (case table_step op s of (b, s) \<Rightarrow> case table_run ops s of (bs, s) \<Rightarrow> (b # bs, s))"

lemma step_refines:
  assumes "invar s"
  shows "invar (snd (table_step op s)) \<and>
    (fst (table_step op s), abs (snd (table_step op s))) = map_step valid op (abs s)"
proof (cases op)
  case (TCreate k v)
  then show ?thesis
    using create_ok [OF assms, of k v] create_fail [OF assms, of k v] assms
    by (cases "valid k \<and> abs s k = None") auto
next
  case (TDrop k)
  then show ?thesis
    using remove_ok [OF assms, of k] remove_fail [OF assms, of k] assms by (cases "abs s k = None") auto
qed

lemma run_refines:
  "invar s \<Longrightarrow> invar (snd (table_run ops s)) \<and>
    (fst (table_run ops s), abs (snd (table_run ops s))) = map_run valid ops (abs s)"
proof (induction ops arbitrary: s)
  case (Cons op ops)
  obtain b s1 where 1: "table_step op s = (b, s1)" by (cases "table_step op s")
  obtain bs s2 where 2: "table_run ops s1 = (bs, s2)" by (cases "table_run ops s1")
  from step_refines [OF Cons.prems, of op] 1 have "invar s1" "map_step valid op (abs s) = (b, abs s1)" by auto
  with Cons.IH [of s1] 1 2 show ?case by (simp flip: prod.collapse) (metis case_prod_conv prod.collapse)
qed simp

end

section \<open>The users\<close>

definition users_inv :: "'x Data \<Rightarrow> bool" where
  "users_inv data \<longleftrightarrow> distinct (map u_Name (d_Users data))"

definition users_abs :: "'x Data \<Rightarrow> string \<Rightarrow> (string \<times> bool) option" where
  "users_abs data name = map_option (\<lambda>u. (u_Hash u, u_Admin u)) (User name data)"

definition user_create :: "string \<Rightarrow> string \<times> bool \<Rightarrow> 'x Data \<Rightarrow> bool \<times> 'x Data" where
  "user_create name v data = (case CreateUser name (fst v) (snd v) data of (r, data) \<Rightarrow> (r = Inr (), data))"

definition user_remove :: "string \<Rightarrow> 'x Data \<Rightarrow> bool \<times> 'x Data" where
  "user_remove name data = (case DropUser name data of (r, data) \<Rightarrow> (r = Inr (), data))"

lemma User_None: "User name data = None \<longleftrightarrow> name \<notin> u_Name ` set (d_Users data)"
  by (auto simp: User_def find_None_iff)

lemma find_append: "List.find P (xs @ ys) = (case List.find P xs of None \<Rightarrow> List.find P ys | Some x \<Rightarrow> Some x)"
  by (induction xs) auto

lemma User_append:
  "User n (data\<lparr>d_Users := d_Users data @ [u]\<rparr>) =
     (case User n data of None \<Rightarrow> if u_Name u = n then Some u else None | Some x \<Rightarrow> Some x)"
  by (simp add: User_def find_append split: option.splits)

lemma drop_user_None: "drop_user name us = None \<longleftrightarrow> name \<notin> u_Name ` set us"
  by (induction us) auto

lemma drop_user_Some:
  assumes "distinct (map u_Name us)" "drop_user name us = Some vs"
  shows "distinct (map u_Name vs) \<and> set vs = {u \<in> set us. u_Name u \<noteq> name} \<and>
    (\<forall>n. List.find (\<lambda>u. u_Name u = n) vs = (if n = name then None else List.find (\<lambda>u. u_Name u = n) us))"
  using assms
proof (induction us arbitrary: vs)
  case (Cons u us)
  show ?case
  proof (cases "u_Name u = name")
    case True
    with Cons.prems show ?thesis by (auto simp: find_None_iff rev_image_eqI)
  next
    case False
    with Cons.prems obtain ws where "vs = u # ws" "drop_user name us = Some ws" by auto
    with Cons False show ?thesis by auto
  qed
qed simp

interpretation users: keyed_table "users_inv :: 'x Data \<Rightarrow> bool" users_abs "\<lambda>name. name \<noteq> []" user_create user_remove
proof
  fix s :: "'x Data" and k v
  assume inv: "users_inv s"
  show "k \<noteq> [] \<Longrightarrow> users_abs s k = None \<Longrightarrow> fst (user_create k v s) \<and> users_inv (snd (user_create k v s)) \<and>
      users_abs (snd (user_create k v s)) = (users_abs s)(k \<mapsto> v)"
    using inv User_None [of k s]
    by (auto simp: user_create_def users_abs_def CreateUser_def users_inv_def User_append fun_eq_iff
        split: option.splits)
  show "\<not> k \<noteq> [] \<or> users_abs s k \<noteq> None \<Longrightarrow> user_create k v s = (False, s)"
    by (auto simp: user_create_def users_abs_def CreateUser_def)
  show "users_abs s k = None \<Longrightarrow> user_remove k s = (False, s)"
    by (simp add: user_remove_def users_abs_def DropUser_def User_None drop_user_None [symmetric])
  assume "users_abs s k \<noteq> None"
  then have "drop_user k (d_Users s) \<noteq> None" by (simp add: users_abs_def User_None drop_user_None)
  then obtain vs where "drop_user k (d_Users s) = Some vs" by blast
  with inv drop_user_Some [of "d_Users s" k vs] show "fst (user_remove k s) \<and> users_inv (snd (user_remove k s)) \<and>
      users_abs (snd (user_remove k s)) = (users_abs s)(k := None)"
    by (auto simp: user_remove_def DropUser_def users_inv_def users_abs_def User_def)
qed

section \<open>Properties\<close>

fun user_op :: "(string, string \<times> bool) table_op \<Rightarrow> 'x Data \<Rightarrow> bool \<times> 'x Data" where
  "user_op (TCreate name v) data = user_create name v data"
| "user_op (TDrop name) data = user_remove name data"

fun user_run :: "(string, string \<times> bool) table_op list \<Rightarrow> 'x Data \<Rightarrow> bool list \<times> 'x Data" where
  "user_run [] data = ([], data)"
| "user_run (op # ops) data =
     (case user_op op data of (b, data) \<Rightarrow> case user_run ops data of (bs, data) \<Rightarrow> (b # bs, data))"

lemma user_op_eq: "user_op op data = users.table_step op data"
  by (cases op) simp_all

lemma user_run_eq: "user_run ops data = users.table_run ops data"
  by (induction ops arbitrary: data) (simp_all add: user_op_eq)

text \<open>
  C17: The user table refines a finite map from names to password hash and admin flag: for any
  sequence of \<open>CreateUser\<close> and \<open>DropUser\<close> on metadata whose user names are distinct, the same calls
  succeed as on the map (creation fails exactly on the empty or a used name, removal exactly on an
  unused one), \<open>User\<close> afterwards answers as the map does, and the names stay distinct.
\<close>

theorem users_refine_map:
  assumes "users_inv data"
  shows "users_inv (snd (user_run ops data)) \<and>
    (fst (user_run ops data), users_abs (snd (user_run ops data))) =
      map_run (\<lambda>name. name \<noteq> []) ops (users_abs data)"
  using users.run_refines [OF assms] by (simp add: user_run_eq)

definition users0 :: "unit Data" where
  "users0 = \<lparr>d_Data = \<lparr>o_Term = 0, o_Index = 1, o_ClusterID = 0, o_Databases = [], o_MaxShardGroupID = 0,
     o_MaxShardID = 0, o_Users = [], o_rest = ()\<rparr>, d_MetaNodes = [], d_DataNodes = [],
     d_Users = [\<lparr>u_Name = ''root'', u_Hash = ''h0'', u_Admin = True, u_Privileges = ()\<rparr>], d_Roles = [], d_MaxNodeID = 0\<rparr>"

definition user_ops0 :: "(string, string \<times> bool) table_op list" where
  "user_ops0 = [TCreate ''ann'' (''h1'', False), TCreate ''root'' (''h2'', False), TDrop ''root'', TDrop ''bob'',
     TCreate [] (''h3'', True)]"

theorem users_refine_map_witness:
  "fst (user_run user_ops0 users0) = [True, False, True, False, False] \<and>
   users_abs (snd (user_run user_ops0 users0)) ''ann'' = Some (''h1'', False)"
proof -
  have inv: "users_inv users0" by code_simp
  have m: "map_run (\<lambda>name. name \<noteq> []) user_ops0 (users_abs users0) =
      ([True, False, True, False, False], ((users_abs users0)(''ann'' \<mapsto> (''h1'', False)))(''root'' := None))"
    by (simp add: user_ops0_def users_abs_def User_def users0_def)
  from users_refine_map [OF inv, of user_ops0] show ?thesis by (simp add: m)
qed

text \<open>
  A user does not survive the next command. \<open>Clone\<close>, with which every command of the state
  machine starts, keeps the number of users and replaces each by a zero value, so a user that
  \<open>CreateUser\<close> has just added under its (non-empty) name is unknown afterwards.
\<close>

theorem Clone_forgets_users:
  assumes "CreateUser name hash admin data = (Inr (), data')"
  shows "User name data' = Some \<lparr>u_Name = name, u_Hash = hash, u_Admin = admin, u_Privileges = ()\<rparr> \<and>
    User name (Clone ossClone data') = None \<and>
    length (d_Users (Clone ossClone data')) = length (d_Users data')"
proof -
  have "name \<noteq> []" "User name data = None"
    and d: "data' = data\<lparr>d_Users := d_Users data @ [\<lparr>u_Name = name, u_Hash = hash, u_Admin = admin, u_Privileges = ()\<rparr>]\<rparr>"
    using assms by (auto simp: CreateUser_def split: if_splits)
  then show ?thesis
    unfolding d by (auto simp: User_append) (auto simp: User_def Clone_def CloneUsers_def find_None_iff zero_UserInfo_def)
qed

theorem Clone_forgets_users_witness:
  "User ''ann'' (Clone (\<lambda>od. od) (snd (CreateUser ''ann'' ''h1'' False users0))) = None"
proof -
  have "CreateUser ''ann'' ''h1'' False users0 = (Inr (), snd (CreateUser ''ann'' ''h1'' False users0))"
    by (simp add: CreateUser_def User_def users0_def)
  from Clone_forgets_users [OF this] show ?thesis by blast
qed

section \<open>Roles\<close>

lemma HasUser_sound: "HasUser user r \<Longrightarrow> user \<in> set (r_Users r)"
  by (simp add: HasUser_def Let_def) (metis nth_mem)

lemma RemoveUser_id [simp]: "RemoveUser user r = r"
  by (simp add: RemoveUser_def split: option.splits)

lemma RemoveUsers_id: "RemoveUsers users r = r"
  by (induction users) (simp_all add: RemoveUsers_def)

lemma AddUsers_append: "r_Users (AddUsers users r) = r_Users r @ users"
  by (induction users arbitrary: r) (simp_all add: AddUsers_def AddUser_def)

definition role_user :: "string \<Rightarrow> UserInfo" where
  "role_user name = \<lparr>u_Name = name, u_Hash = [], u_Admin = False, u_Privileges = ()\<rparr>"

text \<open>
  \<open>HasUser\<close> searches an unordered list with \<open>sort.Search\<close>, which needs a monotone predicate: of
  the two users added to a role by \<open>AddUsers\<close> it finds the second and misses the first, and
  \<open>RemoveUsers\<close> of the second leaves it a member.
\<close>

theorem HasUser_misses_members:
  "\<not> HasUser (role_user ''ann'') (AddUsers [role_user ''ann'', role_user ''bob''] \<lparr>r_Users = []\<rparr>) \<and>
   HasUser (role_user ''bob'') (AddUsers [role_user ''ann'', role_user ''bob''] \<lparr>r_Users = []\<rparr>) \<and>
   HasUser (role_user ''bob'') (RemoveUsers [role_user ''bob''] (AddUsers [role_user ''ann'', role_user ''bob''] \<lparr>r_Users = []\<rparr>))"
  unfolding RemoveUsers_id HasUser_def AddUsers_append
  by (simp add: role_user_def sort_Search.simps numeral_eq_Suc)

end
