(* ===== verification/Meta_Shards.thy ===== *)
theory Meta_Shards
  imports Meta_Data "HOL-Library.Multiset"
begin

text \<open>
  Correctness of shard placement in the metadata (\<open>CreateShardGroup\<close>, \<open>generatedShards\<close>,
  \<open>DeleteMetaNode\<close>, \<open>DeleteDataNode\<close> and the shard-owner operations of \<open>src/meta/data.go\<close>): the
  round robin of \<open>CreateShardGroup\<close> against its arithmetic specification, and what the removal of a
  node does to the owners of the shards.
\<close>

section \<open>Round robin\<close>

lemma generatedShards_spec:
  "generatedShards n od =
     (map (\<lambda>i. \<lparr>si_ID = o_MaxShardID od + word_of_nat (Suc i), si_Owners = []\<rparr>) [0..<n],
      od\<lparr>o_MaxShardID := o_MaxShardID od + word_of_nat n\<rparr>)"
proof (induction n arbitrary: od)
  case (Suc n)
  then show ?case by (simp add: Let_def map_upt_Suc algebra_simps del: upt_Suc)
qed simp

lemma assign_replicas_spec:
  "assign_replicas ns r k si =
     (si\<lparr>si_Owners := si_Owners si @ map (\<lambda>j. \<lparr>so_NodeID = ni_ID (ns ! ((k + j) mod length ns))\<rparr>) [0..<r]\<rparr>, k + r)"
proof (induction r arbitrary: k si)
  case (Suc r)
  then show ?case by (simp add: map_upt_Suc del: upt_Suc)
qed simp

text \<open>Shard \<open>i\<close> gets the nodes at positions \<open>k + i * r, ..., k + i * r + r - 1\<close> around the ring.\<close>

definition ring_owners :: "NodeInfo list \<Rightarrow> nat \<Rightarrow> nat \<Rightarrow> nat \<Rightarrow> ShardOwner list" where
  "ring_owners ns r k i = map (\<lambda>j. \<lparr>so_NodeID = ni_ID (ns ! ((k + i * r + j) mod length ns))\<rparr>) [0..<r]"

lemma assign_shards_spec:
  "assign_shards ns r k ss = mapi (\<lambda>i s. s\<lparr>si_Owners := si_Owners s @ ring_owners ns r k i\<rparr>) ss"
proof (induction ss arbitrary: k)
  case Nil
  then show ?case by (simp add: mapi_def)
next
  case (Cons s ss)
  show ?case
  proof (rule nth_equalityI)
    show "length (assign_shards ns r k (s # ss)) = length (mapi (\<lambda>i s. s\<lparr>si_Owners := si_Owners s @ ring_owners ns r k i\<rparr>) (s # ss))"
      using Cons [of "k + r"] by (simp add: assign_replicas_spec)
    fix i assume "i < length (assign_shards ns r k (s # ss))"
    then have i: "i < length (s # ss)" using Cons [of "k + r"] by (simp add: assign_replicas_spec)
    have "ring_owners ns r (k + r) i' = ring_owners ns r k (Suc i')" for i'
      by (simp add: ring_owners_def algebra_simps)
    then show "assign_shards ns r k (s # ss) ! i =
        mapi (\<lambda>i s. s\<lparr>si_Owners := si_Owners s @ ring_owners ns r k i\<rparr>) (s # ss) ! i"
      using i Cons [of "k + r"] by (cases i) (simp_all add: assign_replicas_spec ring_owners_def)
  qed
qed

lemma concat_blocks:
  "concat (map (\<lambda>i. map (\<lambda>j. f (i * r + j)) [0..<r]) [0..<n]) = map f [0..<n * r]"
proof (induction n)
  case (Suc n)
  have "[0..<Suc n * r] = [0..<n * r] @ [n * r..<n * r + r]"
    using upt_add_eq_append [of 0 "n * r" r] by (simp add: add.commute)
  moreover have "[n * r..<n * r + r] = map (\<lambda>j. n * r + j) [0..<r]"
    using map_add_upt [of "n * r" r] by (simp add: add.commute)
  ultimately show ?case using Suc by simp
qed simp

lemma inj_on_mod_shift:
  fixes m :: nat
  assumes "l \<le> m"
  shows "inj_on (\<lambda>x. (k + x) mod m) {0..<l}"
proof (rule inj_onI)
  have le: "x = y" if xy: "y \<le> x" "x < l" "(k + x) mod m = (k + y) mod m" for x y
  proof -
    obtain q where "k + x = k + y + m * q" by (rule mod_eq_nat1E [OF xy(3)]) (use xy(1) in auto)
    then show ?thesis using xy assms by (cases q) auto
  qed
  fix x y assume a: "x \<in> {0..<l}" "y \<in> {0..<l}" "(k + x) mod m = (k + y) mod m"
  consider "y \<le> x" | "x \<le> y" by linarith
  then show "x = y"
  proof cases
    case 1 then show ?thesis by (rule le [OF _ _ a(3)]) (use a in simp)
  next
    case 2 then show ?thesis by (rule sym [OF le [OF _ _ a(3) [symmetric]]]) (use a in simp)
  qed
qed

lemma concat_map_Nil: "concat (map (\<lambda>i. []) xs) = []"
  by (induction xs) simp_all

lemma ring_owners_distinct:
  assumes "distinct (map ni_ID ns)" "n * r \<le> length ns"
  shows "distinct (concat (map (ring_owners ns r k) [0..<n]))"
proof (cases "ns = []")
  case True
  with assms have "r = 0 \<or> n = 0" by auto
  then show ?thesis by (elim disjE) (simp_all add: ring_owners_def [abs_def] concat_map_Nil)
next
  case False
  let ?f = "\<lambda>x. \<lparr>so_NodeID = ni_ID (ns ! ((k + x) mod length ns))\<rparr>"
  have "concat (map (ring_owners ns r k) [0..<n]) = map ?f [0..<n * r]"
    using concat_blocks [of ?f r n] by (simp add: ring_owners_def [abs_def] add.assoc)
  moreover have "inj_on ?f {0..<n * r}"
  proof (rule inj_onI)
    fix x y assume xy: "x \<in> {0..<n * r}" "y \<in> {0..<n * r}" and "?f x = ?f y"
    then have "map ni_ID ns ! ((k + x) mod length ns) = map ni_ID ns ! ((k + y) mod length ns)"
      using False by simp
    then have "(k + x) mod length ns = (k + y) mod length ns"
      using assms(1) False nth_eq_iff_index_eq [of "map ni_ID ns"] by simp
    then show "x = y" using xy by (rule inj_onD [OF inj_on_mod_shift [OF assms(2), of k]])
  qed
  ultimately show ?thesis by (simp add: distinct_map)
qed

section \<open>Creation of a shard group\<close>

lemma replica_count_bounds:
  assumes "0 < n" "0 \<le> R"
  shows "0 < replica_count R n" "replica_count R n \<le> int n"
  using assms by (auto simp: replica_count_def)

lemma sdiv_nat: "0 < r \<Longrightarrow> nat (int n sdiv r) = n div nat r"
  by (simp add: signed_divide_int_def nat_div_distrib)

lemma sdiv_nonneg: "0 < r \<Longrightarrow> \<not> int n sdiv r < 0"
  by (simp add: signed_divide_int_def pos_imp_zdiv_nonneg_iff not_less)

definition new_group :: "'x Data \<Rightarrow> RetentionPolicyInfo \<Rightarrow> int \<Rightarrow> ShardGroupInfo" where
  "new_group data rpi ts =
     (let n = length (d_DataNodes data); r = nat (replica_count (rp_ReplicaN rpi) n);
          start = Truncate ts (rp_ShardGroupDuration rpi) in
      \<lparr>sg_ID = o_MaxShardGroupID (d_Data data) + 1, sg_StartTime = start,
       sg_EndTime = start + rp_ShardGroupDuration rpi, sg_DeletedAt = 0,
       sg_Shards = map (\<lambda>i. \<lparr>si_ID = o_MaxShardID (d_Data data) + word_of_nat (Suc i),
         si_Owners = ring_owners (d_DataNodes data) r
           (unat (o_Index (d_Data data) mod word_of_nat n)) i\<rparr>) [0..<n div r]\<rparr>)"

lemma mapi_map: "mapi f (map g xs) = mapi (\<lambda>i x. f i (g x)) xs"
  by (rule nth_equalityI) simp_all

lemma mapi_upt: "mapi f [0..<n] = map (\<lambda>i. f i i) [0..<n]"
  by (rule nth_equalityI) simp_all

lemma policy_at_set_groups:
  assumes "di < length (o_Databases od)" "ri < length (db_RetentionPolicies (o_Databases od ! di))"
  shows "policy_at (set_groups di ri gs od) di ri = (policy_at od di ri)\<lparr>rp_ShardGroups := gs\<rparr>"
  using assms by (simp add: policy_at_def set_groups_def)

lemma CreateShardGroup_spec:
  assumes nodes: "d_DataNodes data \<noteq> []"
    and pol: "retPol (d_Data data) database policy = Inr (Some (di, ri))"
    and free: "byTime (policy_at (d_Data data) di ri) ts = None"
    and repl: "0 \<le> rp_ReplicaN (policy_at (d_Data data) di ri)"
  shows "CreateShardGroup retPol byTime sortSG database policy ts data =
    (Inr (), data\<lparr>d_Data := set_groups di ri
       (sortSG (rp_ShardGroups (policy_at (d_Data data) di ri) @ [new_group data (policy_at (d_Data data) di ri) ts]))
       ((d_Data data)\<lparr>o_MaxShardGroupID := o_MaxShardGroupID (d_Data data) + 1,
         o_MaxShardID := o_MaxShardID (d_Data data) + word_of_nat (length (d_DataNodes data) div
            nat (replica_count (rp_ReplicaN (policy_at (d_Data data) di ri)) (length (d_DataNodes data))))\<rparr>)\<rparr>)"
proof -
  note r = replica_count_bounds(1) [OF _ repl, of "length (d_DataNodes data)"]
  show ?thesis using nodes r
    by (simp add: CreateShardGroup_def pol free Let_def sdiv_nonneg sdiv_nat generatedShards_spec
        assign_shards_spec mapi_map mapi_upt new_group_def comp_def)
qed

text \<open>How a new group has to look for \<open>n\<close> data nodes: the promise of the comments in the code.\<close>

definition well_placed :: "'x Data \<Rightarrow> RetentionPolicyInfo \<Rightarrow> int \<Rightarrow> ShardGroupInfo \<Rightarrow> bool" where
  "well_placed data rpi ts sg \<longleftrightarrow>
     (let n = length (d_DataNodes data); r = nat (replica_count (rp_ReplicaN rpi) n) in
      sg_ID sg = o_MaxShardGroupID (d_Data data) + 1 \<and> sg_DeletedAt sg = 0 \<and>
      length (sg_Shards sg) = n div r \<and>
      (\<forall>s \<in> set (sg_Shards sg). length (si_Owners s) = r) \<and>
      distinct (concat (map si_Owners (sg_Shards sg))) \<and>
      so_NodeID ` set (concat (map si_Owners (sg_Shards sg))) \<subseteq> ni_ID ` set (d_DataNodes data) \<and>
      (0 < rp_ShardGroupDuration rpi \<longrightarrow> sg_StartTime sg \<le> ts \<and> ts < sg_EndTime sg \<and>
         rp_ShardGroupDuration rpi dvd sg_StartTime sg))"

lemma Truncate_bounds:
  assumes "0 < d"
  shows "Truncate t d \<le> t" "t < Truncate t d + d" "d dvd Truncate t d"
proof -
  have "0 \<le> t mod d" "t mod d < d" using assms by simp_all
  then show "Truncate t d \<le> t" "t < Truncate t d + d" using assms by (simp_all add: Truncate_def)
  show "d dvd Truncate t d" using assms by (simp add: Truncate_def minus_mod_eq_mult_div)
qed

lemma ring_owners_nodes:
  assumes "ns \<noteq> []"
  shows "so_NodeID ` set (ring_owners ns r k i) \<subseteq> ni_ID ` set ns"
  using assms by (auto simp: ring_owners_def)

lemma new_group_well_placed:
  assumes "d_DataNodes data \<noteq> []" "distinct (map ni_ID (d_DataNodes data))"
  shows "well_placed data rpi ts (new_group data rpi ts)"
proof -
  let ?n = "length (d_DataNodes data)"
  let ?r = "nat (replica_count (rp_ReplicaN rpi) ?n)" and ?k = "unat (o_Index (d_Data data) mod word_of_nat ?n)"
  have own: "map si_Owners (sg_Shards (new_group data rpi ts)) = map (ring_owners (d_DataNodes data) ?r ?k) [0..<?n div ?r]"
    by (simp add: new_group_def Let_def)
  have "distinct (concat (map si_Owners (sg_Shards (new_group data rpi ts))))"
    unfolding own by (rule ring_owners_distinct [OF assms(2)]) simp
  moreover have "so_NodeID ` set (concat (map si_Owners (sg_Shards (new_group data rpi ts)))) \<subseteq> ni_ID ` set (d_DataNodes data)"
    unfolding own using ring_owners_nodes [OF assms(1), of ?r ?k] by auto
  moreover have "\<forall>s \<in> set (sg_Shards (new_group data rpi ts)). length (si_Owners s) = ?r"
    by (auto simp: new_group_def Let_def ring_owners_def)
  moreover have "sg_StartTime (new_group data rpi ts) = Truncate ts (rp_ShardGroupDuration rpi)"
    "sg_EndTime (new_group data rpi ts) = Truncate ts (rp_ShardGroupDuration rpi) + rp_ShardGroupDuration rpi"
    "sg_ID (new_group data rpi ts) = o_MaxShardGroupID (d_Data data) + 1"
    "sg_DeletedAt (new_group data rpi ts) = 0" "length (sg_Shards (new_group data rpi ts)) = ?n div ?r"
    by (simp_all add: new_group_def Let_def)
  ultimately show ?thesis by (simp only: well_placed_def Let_def) (simp add: Truncate_bounds)
qed

text \<open>
  C11: \<open>CreateShardGroup\<close>, on data nodes with distinct IDs, a policy that is found at a place of the
  databases, has a non-negative replication factor and no group for the timestamp, adds exactly one
  group to that policy: with \<open>n\<close> nodes and \<open>r\<close> replicas (the factor of the policy, at least one and at
  most \<open>n\<close>) it has \<open>n div r\<close> shards, each shard has exactly \<open>r\<close> owners, no node owns two replicas in the
  group, every owner is a data node, and the timestamp lies in the group's aligned time range. Hypothesis
  on the sort: it permutes the groups.
\<close>

theorem CreateShardGroup_places_replicas:
  assumes "d_DataNodes data \<noteq> []" "distinct (map ni_ID (d_DataNodes data))"
    and "retPol (d_Data data) database policy = Inr (Some (di, ri))"
    and "di < length (o_Databases (d_Data data))"
    and "ri < length (db_RetentionPolicies (o_Databases (d_Data data) ! di))"
    and "byTime (policy_at (d_Data data) di ri) ts = None"
    and "0 \<le> rp_ReplicaN (policy_at (d_Data data) di ri)"
    and sort_permutes: "\<And>gs. mset (sortSG gs) = mset gs"
  shows "\<exists>data' sg. CreateShardGroup retPol byTime sortSG database policy ts data = (Inr (), data') \<and>
    mset (rp_ShardGroups (policy_at (d_Data data') di ri)) =
      add_mset sg (mset (rp_ShardGroups (policy_at (d_Data data) di ri))) \<and>
    well_placed data (policy_at (d_Data data) di ri) ts sg"
proof -
  note spec = CreateShardGroup_spec [where retPol = retPol and database = database and policy = policy and
      byTime = byTime and ts = ts and sortSG = sortSG, OF assms(1,3,6,7)]
  let ?d = "snd (CreateShardGroup retPol byTime sortSG database policy ts data)"
  have "CreateShardGroup retPol byTime sortSG database policy ts data = (Inr (), ?d)"
    using spec by simp
  moreover have "mset (rp_ShardGroups (policy_at (d_Data ?d) di ri)) =
      add_mset (new_group data (policy_at (d_Data data) di ri) ts) (mset (rp_ShardGroups (policy_at (d_Data data) di ri)))"
    using spec assms(4,5)
    by (simp add: policy_at_set_groups sort_permutes)
  ultimately show ?thesis using new_group_well_placed [OF assms(1,2)] by blast
qed

definition node0 :: "u64 \<Rightarrow> NodeInfo" where
  "node0 i = \<lparr>ni_ID = i, ni_Host = ''h'', ni_TCPHost = ''t'', ni_PendingShardOwners = []\<rparr>"

definition shards0 :: "unit Data" where
  "shards0 = \<lparr>d_Data = \<lparr>o_Term = 0, o_Index = 3, o_ClusterID = 0, o_Databases = [\<lparr>db_Name = ''db'', db_RetentionPolicies =
       [\<lparr>rp_Name = ''rp'', rp_ReplicaN = 2, rp_Duration = 0, rp_ShardGroupDuration = 100, rp_ShardGroups = [], rp_Subscriptions = []\<rparr>], db_DefaultRetentionPolicy = ''rp'', db_ContinuousQueries = []\<rparr>],
       o_MaxShardGroupID = 4, o_MaxShardID = 7, o_Users = [], o_rest = ()\<rparr>, d_MetaNodes = [],
     d_DataNodes = [node0 1, node0 2, node0 5, node0 6, node0 9], d_Users = [], d_Roles = [], d_MaxNodeID = 9\<rparr>"

theorem CreateShardGroup_places_replicas_witness:
  "\<exists>data' sg. CreateShardGroup (\<lambda>od d p. Inr (Some (0, 0))) (\<lambda>rp t. None) (\<lambda>gs. gs) ''db'' ''rp'' 250 shards0 = (Inr (), data') \<and>
    mset (rp_ShardGroups (policy_at (d_Data data') 0 0)) = {#sg#} \<and>
    well_placed shards0 (policy_at (d_Data shards0) 0 0) 250 sg"
proof -
  have g: "rp_ShardGroups (policy_at (d_Data shards0) 0 0) = []" by (simp add: shards0_def policy_at_def)
  show ?thesis
    using CreateShardGroup_places_replicas [of shards0 "\<lambda>od d p. Inr (Some (0, 0))" "''db''" "''rp''" 0 0
        "\<lambda>rp t. None" 250 "\<lambda>gs. gs"]
    by (simp add: g) (simp add: shards0_def policy_at_def node0_def)
qed

section \<open>Removal of nodes\<close>

definition all_groups :: "'x OssData \<Rightarrow> ShardGroupInfo list" where
  "all_groups od = concat (map (\<lambda>d. concat (map rp_ShardGroups (db_RetentionPolicies d))) (o_Databases od))"

definition owners_unique :: "'x OssData \<Rightarrow> bool" where
  "owners_unique od \<longleftrightarrow> list_all (\<lambda>s. distinct (map so_NodeID (si_Owners s))) (all_shards od)"

definition without_owner :: "u64 \<Rightarrow> ShardInfo \<Rightarrow> ShardInfo" where
  "without_owner nid s = s\<lparr>si_Owners := filter (\<lambda>ow. so_NodeID ow \<noteq> nid) (si_Owners s)\<rparr>"

lemma node_idx_append: "node_idx nid (xs @ ys) i acc = node_idx nid ys (i + length xs) (node_idx nid xs i acc)"
  by (induction xs arbitrary: i acc) simp_all

lemma node_idx_absent: "nid \<notin> so_NodeID ` set os \<Longrightarrow> node_idx nid os i acc = acc"
  by (induction os arbitrary: i acc) auto

lemma relinquish_filter:
  assumes "distinct (map so_NodeID (si_Owners s))"
  shows "relinquish nid s = without_owner nid s"
proof (cases "nid \<in> so_NodeID ` set (si_Owners s)")
  case False
  then have "filter (\<lambda>ow. so_NodeID ow \<noteq> nid) (si_Owners s) = si_Owners s" by (auto simp: filter_id_conv)
  with False show ?thesis by (simp add: relinquish_def without_owner_def node_idx_absent)
next
  case True
  then obtain ow xs ys where s: "si_Owners s = xs @ ow # ys" "so_NodeID ow = nid" by (auto dest: split_list)
  with assms have "nid \<notin> so_NodeID ` set xs" "nid \<notin> so_NodeID ` set ys" by auto
  moreover from this have "filter (\<lambda>ow. so_NodeID ow \<noteq> nid) xs = xs" "filter (\<lambda>ow. so_NodeID ow \<noteq> nid) ys = ys"
    by (auto simp: filter_id_conv)
  ultimately show ?thesis using s
    by (simp add: relinquish_def without_owner_def node_idx_append node_idx_absent)
qed

lemma map_mapi: "map g (mapi f xs) = mapi (\<lambda>i x. g (f i x)) xs"
  by (rule nth_equalityI) simp_all

lemma sg_Shards_relinquish_group: "sg_Shards (relinquish_group nid t sg) = map (relinquish nid) (sg_Shards sg)"
  by (simp add: relinquish_group_def Let_def)

lemma all_shards_relinquish:
  "all_shards (od\<lparr>o_Databases := relinquish_all nid now (o_Databases od)\<rparr>) = map (relinquish nid) (all_shards od)"
  by (simp add: all_shards_def relinquish_all_def map_mapi sg_Shards_relinquish_group map_concat comp_def)

lemma list_all2_concat_mapi:
  assumes "\<And>i x. i < length xs \<Longrightarrow> x = xs ! i \<Longrightarrow> list_all2 R (g x) (h i x)"
  shows "list_all2 R (concat (map g xs)) (concat (mapi h xs))"
  by (rule concat_transfer [THEN rel_funD]) (auto simp: list_all2_conv_all_nth [of "list_all2 R"] intro: assms)

text \<open>A group that keeps an owner keeps its deletion mark; one without owners is marked at some time read.\<close>

definition group_kept :: "(nat \<Rightarrow> nat \<Rightarrow> nat \<Rightarrow> int) \<Rightarrow> ShardGroupInfo \<Rightarrow> ShardGroupInfo \<Rightarrow> bool" where
  "group_kept now g g' \<longleftrightarrow>
     (if list_ex (\<lambda>s. si_Owners s \<noteq> []) (sg_Shards g') then sg_DeletedAt g' = sg_DeletedAt g
      else \<exists>di ri sgi. sg_DeletedAt g' = now di ri sgi)"

lemma group_kept_relinquish: "group_kept now g (relinquish_group nid (now di ri sgi) g)"
proof -
  have all: "length (filter (\<lambda>s. si_Owners s = []) ss) = length ss \<longleftrightarrow> \<not> list_ex (\<lambda>s. si_Owners s \<noteq> []) ss" for ss
    by (auto simp: filter_shorter list_ex_iff)
  show ?thesis
    using all [of "map (relinquish nid) (sg_Shards g)"]
    by (auto simp: group_kept_def relinquish_group_def Let_def)
qed

lemma all_groups_relinquish:
  "list_all2 (group_kept now) (all_groups od) (all_groups (od\<lparr>o_Databases := relinquish_all nid now (o_Databases od)\<rparr>))"
  by (simp add: all_groups_def relinquish_all_def map_mapi)
    (intro list_all2_concat_mapi, simp add: list_all2_conv_all_nth group_kept_relinquish)

text \<open>
  C25: \<open>DeleteMetaNode\<close> of a known ID, when no shard lists an owner twice, removes every meta node with
  that ID, takes exactly that ID out of the owners of every shard, leaves the data nodes alone, and marks
  a shard group as deleted only when no shard of the group has an owner left (and then always).
\<close>

theorem DeleteMetaNode_relinquishes:
  assumes "MetaNode nid data = Some n" and "owners_unique (d_Data data)"
  shows "\<exists>data'. DeleteMetaNode now nid data = (Inr (), data') \<and> MetaNode nid data' = None \<and>
    d_DataNodes data' = d_DataNodes data \<and>
    all_shards (d_Data data') = map (without_owner nid) (all_shards (d_Data data)) \<and>
    list_all2 (group_kept now) (all_groups (d_Data data)) (all_groups (d_Data data'))"
proof -
  let ?d = "snd (DeleteMetaNode now nid data)"
  have ex: "\<not> (\<forall>x \<in> set (d_MetaNodes data). ni_ID x \<noteq> nid)"
    using assms(1) by (auto simp: MetaNode_def find_node_def find_Some_iff)
  then have d: "DeleteMetaNode now nid data = (Inr (), data\<lparr>d_MetaNodes := filter (\<lambda>n. ni_ID n \<noteq> nid) (d_MetaNodes data),
        d_Data := (d_Data data)\<lparr>o_Databases := relinquish_all nid now (o_Databases (d_Data data))\<rparr>\<rparr>)"
    by (auto simp: DeleteMetaNode_def filter_shorter)
  have "map (relinquish nid) (all_shards (d_Data data)) = map (without_owner nid) (all_shards (d_Data data))"
    using assms(2) by (auto simp: owners_unique_def list_all_iff relinquish_filter)
  moreover have "MetaNode nid ?d = None" by (simp add: d MetaNode_def find_node_def find_None_iff)
  ultimately show ?thesis by (simp add: d all_shards_relinquish all_groups_relinquish)
qed

definition owned0 :: "unit Data" where
  "owned0 = shards0\<lparr>d_MetaNodes := [node0 2], d_Data := (d_Data shards0)\<lparr>o_Databases := [\<lparr>db_Name = ''db'', db_RetentionPolicies =
     [\<lparr>rp_Name = ''rp'', rp_ReplicaN = 2, rp_Duration = 0, rp_ShardGroupDuration = 100, rp_ShardGroups =
       [\<lparr>sg_ID = 1, sg_StartTime = 0, sg_EndTime = 100, sg_DeletedAt = 0, sg_Shards =
          [\<lparr>si_ID = 1, si_Owners = [\<lparr>so_NodeID = 1\<rparr>, \<lparr>so_NodeID = 2\<rparr>]\<rparr>, \<lparr>si_ID = 2, si_Owners = [\<lparr>so_NodeID = 2\<rparr>]\<rparr>]\<rparr>,
        \<lparr>sg_ID = 2, sg_StartTime = 100, sg_EndTime = 200, sg_DeletedAt = 0, sg_Shards =
          [\<lparr>si_ID = 3, si_Owners = [\<lparr>so_NodeID = 2\<rparr>]\<rparr>]\<rparr>], rp_Subscriptions = []\<rparr>], db_DefaultRetentionPolicy = ''rp'', db_ContinuousQueries = []\<rparr>]\<rparr>\<rparr>"

theorem DeleteMetaNode_relinquishes_witness:
  "map si_Owners (all_shards (d_Data (snd (DeleteMetaNode (\<lambda>di ri sgi. 77) 2 owned0)))) = [[\<lparr>so_NodeID = 1\<rparr>], [], []] \<and>
   map sg_DeletedAt (all_groups (d_Data (snd (DeleteMetaNode (\<lambda>di ri sgi. 77) 2 owned0)))) = [0, 77]"
proof
  have "MetaNode 2 owned0 = Some (node0 2)" "owners_unique (d_Data owned0)" by code_simp+
  from DeleteMetaNode_relinquishes [OF this, of "\<lambda>di ri sgi. 77"]
  have "all_shards (d_Data (snd (DeleteMetaNode (\<lambda>di ri sgi. 77) 2 owned0))) = map (without_owner 2) (all_shards (d_Data owned0))"
    by auto
  then show "map si_Owners (all_shards (d_Data (snd (DeleteMetaNode (\<lambda>di ri sgi. 77) 2 owned0)))) = [[\<lparr>so_NodeID = 1\<rparr>], [], []]"
    by (simp add: without_owner_def owned0_def all_shards_def)
  show "map sg_DeletedAt (all_groups (d_Data (snd (DeleteMetaNode (\<lambda>di ri sgi. 77) 2 owned0)))) = [0, 77]" by code_simp
qed

text \<open>
  \<open>DeleteDataNode\<close> of a known ID removes the node and touches no shard: a shard that only the
  removed node owned keeps it as its owner, although the comment of \<open>DeleteDataNode\<close> says that shards
  which would become orphaned are reassigned.
\<close>

theorem DeleteDataNode_leaves_owners:
  assumes "DataNode nid data = Some n"
  shows "\<exists>data'. DeleteDataNode nid data = (Inr (), data') \<and> DataNode nid data' = None \<and>
    all_shards (d_Data data') = all_shards (d_Data data)"
proof -
  have "\<not> (\<forall>x \<in> set (d_DataNodes data). ni_ID x \<noteq> nid)"
    using assms by (auto simp: DataNode_def find_node_def find_Some_iff)
  then have "DeleteDataNode nid data = (Inr (), data\<lparr>d_DataNodes := filter (\<lambda>n. ni_ID n \<noteq> nid) (d_DataNodes data)\<rparr>)"
    by (auto simp: DeleteDataNode_def filter_shorter)
  then show ?thesis by (auto simp: DataNode_def find_node_def find_None_iff)
qed

theorem DeleteDataNode_leaves_owners_witness:
  "DataNode 2 (snd (DeleteDataNode 2 owned0)) = None \<and>
   map si_Owners (all_shards (d_Data (snd (DeleteDataNode 2 owned0)))) =
     [[\<lparr>so_NodeID = 1\<rparr>, \<lparr>so_NodeID = 2\<rparr>], [\<lparr>so_NodeID = 2\<rparr>], [\<lparr>so_NodeID = 2\<rparr>]]"
proof -
  have "DataNode 2 owned0 = Some (node0 2)" by code_simp
  from DeleteDataNode_leaves_owners [OF this] show ?thesis by (auto simp: owned0_def all_shards_def)
qed

section \<open>Changing the owners of a shard\<close>

lemma AddShardOwner_unchanged: "snd (AddShardOwner ownedBy shardID nodeID data) = data"
  by (simp add: AddShardOwner_def UpdateShard_def split: sum.splits)

lemma AddShardOwner_fails:
  "ShardLocation shardID data = Inr si \<Longrightarrow> \<not> ownedBy si nodeID \<Longrightarrow> nodeID \<le> d_MaxNodeID data \<Longrightarrow>
     fst (AddShardOwner ownedBy shardID nodeID data) = Inl (ErrUpdateShard shardID)"
  by (simp add: AddShardOwner_def UpdateShard_def not_less [symmetric])

lemma find_owner_append: "nodeID \<notin> so_NodeID ` set xs \<Longrightarrow> find_owner nodeID (xs @ ys) i = find_owner nodeID ys (i + length xs)"
  by (induction xs arbitrary: i) auto

text \<open>
  \<open>PruneShard\<close> does not shorten the list of owners: removing an owner from the middle leaves the
  last owner twice, and removing the last owner leaves the list as it was, with the node still on it.
\<close>

theorem PruneShard_keeps_last_owner:
  assumes "si_Owners si = xs @ ow # ys" and "so_NodeID ow \<notin> so_NodeID ` set xs"
  shows "fst (PruneShard si (so_NodeID ow)) = Inr (if ys = [] then si_Owners si else xs @ ys @ [last ys])"
  using assms by (simp add: PruneShard_def find_owner_append Let_def)

theorem PruneShard_keeps_last_owner_witness:
  "fst (PruneShard \<lparr>si_ID = 1, si_Owners = [\<lparr>so_NodeID = 4\<rparr>, \<lparr>so_NodeID = 5\<rparr>]\<rparr> 5) = Inr [\<lparr>so_NodeID = 4\<rparr>, \<lparr>so_NodeID = 5\<rparr>]"
  using PruneShard_keeps_last_owner [of "\<lparr>si_ID = 1, si_Owners = [\<lparr>so_NodeID = 4\<rparr>, \<lparr>so_NodeID = 5\<rparr>]\<rparr>"
      "[\<lparr>so_NodeID = 4\<rparr>]" "\<lparr>so_NodeID = 5\<rparr>" "[]"] by simp

end
