(* ===== verification/Raft_State.thy ===== *)
theory Raft_State
  imports Meta_Data
begin

text \<open>
  The wrapper around the raft library (\<open>src/meta/raft_state.go\<close>). The library, its peer store and the
  network are the record \<open>raft_lib\<close> of functions on a world \<open>'w\<close>; the wrapper's own state is which of
  its parts exist (\<open>raft\<close>, \<open>transport\<close>, \<open>raftStore\<close> are nil or not) and its closing channel. Logging has
  no effect on the state and is left out.
\<close>

section \<open>Model\<close>

record 'w raft_lib =
  rl_IsLeader :: "'w \<Rightarrow> bool"
  rl_Leader :: "'w \<Rightarrow> string"
  rl_Peers :: "'w \<Rightarrow> meta_error + string list"
  rl_AddPeer :: "string \<Rightarrow> 'w \<Rightarrow> (meta_error + unit) \<times> 'w"
  rl_RemovePeer :: "string \<Rightarrow> 'w \<Rightarrow> (meta_error + unit) \<times> 'w"
  rl_NewBoltStore :: "string \<Rightarrow> 'w \<Rightarrow> (meta_error + unit) \<times> 'w"
  rl_NewFileSnapshotStore :: "string \<Rightarrow> int \<Rightarrow> 'w \<Rightarrow> (meta_error + unit) \<times> 'w"
  rl_NewRaft :: "int \<times> int \<times> int \<times> int \<times> bool \<Rightarrow> 'w \<Rightarrow> (meta_error + unit) \<times> 'w"
  rl_Shutdown :: "'w \<Rightarrow> (meta_error + unit) \<times> 'w"
  rl_CloseTransport :: "'w \<Rightarrow> 'w"
  rl_CloseStore :: "'w \<Rightarrow> 'w"
  rl_DialTimeout :: "string \<Rightarrow> int \<Rightarrow> 'w \<Rightarrow> (meta_error + nat) \<times> 'w"
  rl_ConnWrite :: "nat \<Rightarrow> byte list \<Rightarrow> 'w \<Rightarrow> (meta_error + unit) \<times> 'w"
  rl_ConnClose :: "nat \<Rightarrow> 'w \<Rightarrow> 'w"

definition raftLogCacheSize :: int where "raftLogCacheSize = 512"
definition raftSnapshotsRetained :: int where "raftSnapshotsRetained = 2"
definition raftTransportMaxPool :: int where "raftTransportMaxPool = 3"
definition raftTransportTimeout :: int where "raftTransportTimeout = 10 * 1000000000"

text \<open>The part of the meta configuration the wrapper reads (durations in nanoseconds).\<close>

record raft_timeouts =
  rt_HeartbeatTimeout :: int
  rt_ElectionTimeout :: int
  rt_LeaderLeaseTimeout :: int
  rt_CommitTimeout :: int

datatype channel = NilChan | OpenChan | ClosedChan

record raftState =
  rs_config :: raft_timeouts
  rs_closing :: channel
  rs_raft :: bool
  rs_transport :: bool
  rs_raftStore :: bool
  rs_goroutines :: nat
  rs_addr :: string
  rs_path :: string

definition newRaftState :: "raft_timeouts \<Rightarrow> string \<Rightarrow> raftState" where
  "newRaftState c addr =
     \<lparr>rs_config = c, rs_closing = NilChan, rs_raft = False, rs_transport = False, rs_raftStore = False,
      rs_goroutines = 0, rs_addr = addr, rs_path = []\<rparr>"

definition rs_isLeader :: "'w raft_lib \<Rightarrow> raftState \<Rightarrow> 'w \<Rightarrow> bool" where
  "rs_isLeader L r w = (if \<not> rs_raft r then False else rl_IsLeader L w)"

definition rs_leader :: "'w raft_lib \<Rightarrow> raftState \<Rightarrow> 'w \<Rightarrow> string" where
  "rs_leader L r w = (if \<not> rs_raft r then [] else rl_Leader L w)"

definition rs_peers :: "'w raft_lib \<Rightarrow> 'w \<Rightarrow> meta_error + string list" where
  "rs_peers L w = rl_Peers L w"

definition rs_addPeer :: "'w raft_lib \<Rightarrow> string \<Rightarrow> 'w \<Rightarrow> (meta_error + unit) \<times> 'w" where
  "rs_addPeer L addr w = (case rl_Peers L w of
     Inl e \<Rightarrow> (Inl e, w)
   | Inr peers \<Rightarrow> if addr \<in> set peers then (Inr (), w) else rl_AddPeer L addr w)"

definition rs_removePeer :: "'w raft_lib \<Rightarrow> raftState \<Rightarrow> string \<Rightarrow> 'w \<Rightarrow> (meta_error + unit) \<times> 'w" where
  "rs_removePeer L r addr w =
     (if \<not> rs_isLeader L r w then (Inl RaftNotLeader, w)
      else case rl_Peers L w of
        Inl e \<Rightarrow> (Inl e, w)
      | Inr peers \<Rightarrow> if addr \<notin> set peers then (Inr (), w) else rl_RemovePeer L addr w)"

text \<open>
  \<open>open\<close> writes the fields in the order of the code, so that an early return leaves the earlier ones
  set. The peers are read once; the guard asks for the removal of the own address when the peers do not
  contain it, with \<open>raft\<close> still nil.
\<close>

definition rs_open :: "'w raft_lib \<Rightarrow> raftState \<times> 'w \<Rightarrow> (meta_error + unit) \<times> (raftState \<times> 'w)" where
  "rs_open L st = (case st of (r, w) \<Rightarrow>
     let c = rs_config r;
         r = r\<lparr>rs_closing := OpenChan, rs_transport := True\<rparr>;
         peers = (case rs_peers L w of Inl e \<Rightarrow> [] | Inr ps \<Rightarrow> ps);
         w = (if rs_addr r \<notin> set peers then snd (rs_removePeer L r (rs_addr r) w) else w) in
     case rl_NewBoltStore L (rs_path r @ ''/raft.db'') w of
       (Inl e, w) \<Rightarrow> (Inl e, (r, w))
     | (Inr u, w) \<Rightarrow>
       let r = r\<lparr>rs_raftStore := True\<rparr> in
       (case rl_NewFileSnapshotStore L (rs_path r) raftSnapshotsRetained w of
         (Inl e, w) \<Rightarrow> (Inl e, (r, w))
       | (Inr u, w) \<Rightarrow>
         (case rl_NewRaft L (rt_HeartbeatTimeout c, rt_ElectionTimeout c, rt_LeaderLeaseTimeout c, rt_CommitTimeout c, False) w of
           (Inl e, w) \<Rightarrow> (Inl e, (r, w))
         | (Inr u, w) \<Rightarrow> (Inr (), (r\<lparr>rs_raft := True, rs_goroutines := Suc (rs_goroutines r)\<rparr>, w)))))"

text \<open>
  \<open>close\<close> of a nil receiver returns nil. Closing the channel lets \<open>logLeaderChanges\<close> return, which is
  what \<open>wg.Wait\<close> waits for; closing a closed channel panics.
\<close>

definition rs_close :: "'w raft_lib \<Rightarrow> raftState option \<times> 'w \<Rightarrow> (meta_error + unit) \<times> (raftState option \<times> 'w)" where
  "rs_close L st = (case st of
     (None, w) \<Rightarrow> (Inr (), (None, w))
   | (Some r, w) \<Rightarrow>
     if rs_closing r = ClosedChan then (Inl MetaPanic, (Some r, w))
     else let r = (if rs_closing r = OpenChan then r\<lparr>rs_closing := ClosedChan, rs_goroutines := 0\<rparr> else r);
              w = (if rs_transport r then rl_CloseTransport L w else w);
              r = r\<lparr>rs_transport := False\<rparr> in
     (case (if rs_raft r then rl_Shutdown L w else (Inr (), w)) of
       (Inl e, w) \<Rightarrow> (Inl e, (Some r, w))
     | (Inr u, w) \<Rightarrow>
        let r = r\<lparr>rs_raft := False\<rparr>;
            w = (if rs_raftStore r then rl_CloseStore L w else w) in
        (Inr (), (Some (r\<lparr>rs_raftStore := False\<rparr>), w))))"

text \<open>\<open>MuxHeader\<close> of \<open>src/meta/service.go\<close>, the byte a connection to the raft layer starts with.\<close>

definition MuxHeader :: byte where "MuxHeader = 8"

definition raftLayer_Dial :: "'w raft_lib \<Rightarrow> string \<Rightarrow> int \<Rightarrow> 'w \<Rightarrow> (meta_error + nat) \<times> 'w" where
  "raftLayer_Dial L addr timeout w = (case rl_DialTimeout L addr timeout w of
     (Inl e, w) \<Rightarrow> (Inl e, w)
   | (Inr conn, w) \<Rightarrow>
     (case rl_ConnWrite L conn [MuxHeader] w of
        (Inl e, w) \<Rightarrow> (Inl e, rl_ConnClose L conn w)
      | (Inr u, w) \<Rightarrow> (Inr conn, w)))"

section \<open>Lemmas\<close>

lemma removePeer_follower: "\<not> rs_isLeader L r w \<Longrightarrow> rs_removePeer L r a w = (Inl RaftNotLeader, w)"
  by (simp add: rs_removePeer_def)

text \<open>Before raft is created the wrapper is no leader, so the removal in \<open>open\<close> never happens.\<close>

lemma open_never_removes: "\<not> rs_raft r \<Longrightarrow> rs_removePeer L r a w = (Inl RaftNotLeader, w)"
  by (simp add: rs_removePeer_def rs_isLeader_def)

end
