(* ===== verification/Store_FSM.thy ===== *)
theory Store_FSM
  imports Raft_State
begin

text \<open>
  The replicated state machine of the meta store (\<open>src/meta/store_fsm.go\<close>): every command handler,
  \<open>Apply\<close>, \<open>Snapshot\<close>, \<open>Restore\<close> and \<open>Persist\<close>.

  The methods of the open-source metadata and the protobuf codec are the record \<open>oss_lib\<close>; a method
  returns its error or success with the data it leaves. A decoded command is a constructor of \<open>command\<close>
  with the fields of its extension; \<open>CmdNoExtension\<close> is a command whose extension is missing, on which
  the type assertion of its handler panics. Every replica evaluates the handlers with its own clock
  \<open>now\<close> and its own raft world. A panic is the value \<open>Inl MetaPanic\<close>: it ends the process.
\<close>

section \<open>State and commands\<close>

type_synonym 'x oss_op = "'x OssData \<Rightarrow> (string + unit) \<times> 'x OssData"

record RetentionPolicyUpdate =
  rpu_Name :: "string option"
  rpu_Duration :: "int option"
  rpu_ReplicaN :: "int option"

record 'x oss_lib =
  oss_Clone :: "'x OssData \<Rightarrow> 'x OssData"
  oss_CreateDatabase :: "string \<Rightarrow> 'x oss_op"
  oss_DropDatabase :: "string \<Rightarrow> 'x oss_op"
  oss_CreateRetentionPolicy :: "string \<Rightarrow> RetentionPolicyInfo \<Rightarrow> bool \<Rightarrow> 'x oss_op"
  oss_DropRetentionPolicy :: "string \<Rightarrow> string \<Rightarrow> 'x oss_op"
  oss_UpdateRetentionPolicy :: "string \<Rightarrow> string \<Rightarrow> RetentionPolicyUpdate \<Rightarrow> bool \<Rightarrow> 'x oss_op"
  oss_CreateShardGroup :: "string \<Rightarrow> string \<Rightarrow> int \<Rightarrow> 'x oss_op"
  oss_DeleteShardGroup :: "string \<Rightarrow> string \<Rightarrow> u64 \<Rightarrow> 'x oss_op"
  oss_CreateContinuousQuery :: "string \<Rightarrow> string \<Rightarrow> string \<Rightarrow> 'x oss_op"
  oss_DropContinuousQuery :: "string \<Rightarrow> string \<Rightarrow> 'x oss_op"
  oss_CreateSubscription :: "string \<Rightarrow> string \<Rightarrow> string \<Rightarrow> string \<Rightarrow> string list \<Rightarrow> 'x oss_op"
  oss_DropSubscription :: "string \<Rightarrow> string \<Rightarrow> string \<Rightarrow> 'x oss_op"
  oss_CreateUser :: "string \<Rightarrow> string \<Rightarrow> bool \<Rightarrow> 'x oss_op"
  oss_DropUser :: "string \<Rightarrow> 'x oss_op"
  oss_UpdateUser :: "string \<Rightarrow> string \<Rightarrow> 'x oss_op"
  oss_SetPrivilege :: "string \<Rightarrow> string \<Rightarrow> int \<Rightarrow> 'x oss_op"
  oss_SetAdminPrivilege :: "string \<Rightarrow> bool \<Rightarrow> 'x oss_op"
  oss_UnmarshalPolicy :: "byte list \<Rightarrow> string + RetentionPolicyInfo"
  oss_NewRetentionPolicyInfo :: "string \<Rightarrow> RetentionPolicyInfo"
  oss_Marshal :: "'x OssData \<Rightarrow> meta_error + byte list"
  oss_Unmarshal :: "byte list \<Rightarrow> 'x OssData"
  pb_Marshal :: "ClusterData_pb \<Rightarrow> meta_error + byte list"
  pb_Unmarshal :: "byte list \<Rightarrow> meta_error + ClusterData_pb"

datatype command =
    RemovePeerCommand string
  | CreateDatabaseCommand string "byte list"
  | DropDatabaseCommand string
  | CreateRetentionPolicyCommand string "byte list"
  | DropRetentionPolicyCommand string string
  | SetDefaultRetentionPolicyCommand string string
  | UpdateRetentionPolicyCommand string string "string option" "int option" "int option"
  | CreateShardGroupCommand string string int
  | DeleteShardGroupCommand string string u64
  | CreateContinuousQueryCommand string string string
  | DropContinuousQueryCommand string string
  | CreateSubscriptionCommand string string string string "string list"
  | DropSubscriptionCommand string string string
  | CreateUserCommand string string bool
  | DropUserCommand string
  | UpdateUserCommand string string
  | SetPrivilegeCommand string string int
  | SetAdminPrivilegeCommand string bool
  | SetDataCommand "byte list"
  | CreateMetaNodeCommand string string u64
  | DeleteMetaNodeCommand u64
  | SetMetaNodeCommand string string u64
  | CreateDataNodeCommand string string
  | DeleteDataNodeCommand u64
  | UpdateDataNodeCommand u64 string string
  | AddShardOwnerCommand
  | OtherCommand
  | CmdNoExtension

record raft_log =
  l_Index :: u64
  l_Term :: u64
  l_Data :: "byte list"

text \<open>
  The store: its metadata, whether it is open and closing, the raft wrapper, the setting
  \<open>RetentionAutoCreate\<close>, and the number of times \<open>dataChanged\<close> was closed and made anew.
\<close>

record 'x store =
  s_data :: "'x Data"
  s_autoCreate :: bool
  s_raftState :: "raftState option"
  s_dataChanged :: nat
  s_opened :: bool
  s_closing :: bool
  s_path :: string
  s_raftAddr :: string
  s_httpAddr :: string
  s_timeouts :: raft_timeouts

type_synonym ('x, 'a) store_op = "'x store \<Rightarrow> (meta_error + 'a) \<times> 'x store"

definition autoCreateRetentionPolicyName :: string where "autoCreateRetentionPolicyName = ''default''"
definition autoCreateRetentionPolicyPeriod :: int where "autoCreateRetentionPolicyPeriod = 0"
definition maxAutoCreatedRetentionPolicyReplicaN :: int where "maxAutoCreatedRetentionPolicyReplicaN = 3"

text \<open>\<open>time.Unix(0, ns)\<close> relative to the zero time.\<close>

definition UnixNano :: "int \<Rightarrow> int" where
  "UnixNano ns = ns + 62135596800 * 1000000000"

section \<open>Command handlers\<close>

definition clone_data :: "'x oss_lib \<Rightarrow> 'x store \<Rightarrow> 'x Data" where
  "clone_data A s = Clone (oss_Clone A) (s_data s)"

text \<open>
  The common shape of the handlers: clone, run a method of the open-source data on the clone, return its
  error with the store unchanged, otherwise install the clone.
\<close>

definition on_oss :: "'x oss_lib \<Rightarrow> 'x oss_op \<Rightarrow> ('x, unit) store_op" where
  "on_oss A f s = (let other = clone_data A s in
     case f (d_Data other) of
       (Inl e, od) \<Rightarrow> (Inl (OssErr e), s)
     | (Inr u, od) \<Rightarrow> (Inr (), s\<lparr>s_data := other\<lparr>d_Data := od\<rparr>\<rparr>))"

definition applyRemovePeerCommand :: "'w raft_lib \<Rightarrow> string \<Rightarrow> 'x store \<times> 'w \<Rightarrow> (meta_error + unit) \<times> ('x store \<times> 'w)" where
  "applyRemovePeerCommand L addr sw = (case sw of (s, w) \<Rightarrow>
     case s_raftState s of
       None \<Rightarrow> (Inl MetaPanic, (s, w))
     | Some r \<Rightarrow>
        (if rs_isLeader L r w then (Inr (), (s, snd (rs_removePeer L r addr w))) else (Inr (), (s, w))))"

text \<open>
  \<open>applyUpdateDataNodeCommand\<close> asks for the extension of the create command, whose value is a
  \<open>CreateDataNodeCommand\<close> or nil, and asserts that it is an \<open>UpdateDataNodeCommand\<close>: the assertion
  panics for every command, before the code that would update the node. No case of \<open>Apply\<close> calls it.
\<close>

definition applyUpdateDataNodeCommand :: "command \<Rightarrow> ('x, unit) store_op" where
  "applyUpdateDataNodeCommand cmd s = (Inl MetaPanic, s)"

definition auto_replicaN :: "nat \<Rightarrow> int" where
  "auto_replicaN n =
     (if int n > maxAutoCreatedRetentionPolicyReplicaN then maxAutoCreatedRetentionPolicyReplicaN
      else if int n < 1 then 1 else int n)"

definition applyCreateDatabaseCommand :: "'x oss_lib \<Rightarrow> string \<Rightarrow> byte list \<Rightarrow> ('x, unit) store_op" where
  "applyCreateDatabaseCommand A name policy s =
     (let other = clone_data A s in
      case oss_CreateDatabase A name (d_Data other) of
        (Inl e, od) \<Rightarrow> (Inl (OssErr e), s)
      | (Inr u, od) \<Rightarrow>
        (case oss_UnmarshalPolicy A policy of
           Inr rpi \<Rightarrow>
             (case oss_CreateRetentionPolicy A name
                 \<lparr>rp_Name = rp_Name rpi, rp_ReplicaN = rp_ReplicaN rpi, rp_Duration = rp_Duration rpi,
                  rp_ShardGroupDuration = rp_ShardGroupDuration rpi, rp_ShardGroups = [], rp_Subscriptions = []\<rparr> True od of
                (Inl e, od) \<Rightarrow>
                  (if OssErr e = ErrRetentionPolicyExists then (Inl ErrRetentionPolicyConflict, s) else (Inl (OssErr e), s))
              | (Inr u, od) \<Rightarrow> (Inr (), s\<lparr>s_data := other\<lparr>d_Data := od\<rparr>\<rparr>))
         | Inl e \<Rightarrow>
             (if s_autoCreate s then
                (case oss_CreateRetentionPolicy A name
                    ((oss_NewRetentionPolicyInfo A autoCreateRetentionPolicyName)
                       \<lparr>rp_ReplicaN := auto_replicaN (length (d_DataNodes other)),
                        rp_Duration := autoCreateRetentionPolicyPeriod\<rparr>) True od of
                   (Inl e, od) \<Rightarrow> (Inl (OssErr e), s)
                 | (Inr u, od) \<Rightarrow> (Inr (), s\<lparr>s_data := other\<lparr>d_Data := od\<rparr>\<rparr>))
              else (Inr (), s\<lparr>s_data := other\<lparr>d_Data := od\<rparr>\<rparr>))))"

definition applyDropDatabaseCommand :: "'x oss_lib \<Rightarrow> string \<Rightarrow> ('x, unit) store_op" where
  "applyDropDatabaseCommand A name = on_oss A (oss_DropDatabase A name)"

definition applyCreateRetentionPolicyCommand :: "'x oss_lib \<Rightarrow> ('x, unit) store_op" where
  "applyCreateRetentionPolicyCommand A s = (Inr (), s\<lparr>s_data := clone_data A s\<rparr>)"

definition applyDropRetentionPolicyCommand :: "'x oss_lib \<Rightarrow> string \<Rightarrow> string \<Rightarrow> ('x, unit) store_op" where
  "applyDropRetentionPolicyCommand A database name = on_oss A (oss_DropRetentionPolicy A database name)"

definition applySetDefaultRetentionPolicyCommand :: "'x oss_lib \<Rightarrow> ('x, unit) store_op" where
  "applySetDefaultRetentionPolicyCommand A s = (Inr (), s\<lparr>s_data := clone_data A s\<rparr>)"

definition applyUpdateRetentionPolicyCommand :: "'x oss_lib \<Rightarrow> string \<Rightarrow> string \<Rightarrow> string option \<Rightarrow> int option \<Rightarrow> int option \<Rightarrow>
    ('x, unit) store_op" where
  "applyUpdateRetentionPolicyCommand A database name newName duration replicaN =
     on_oss A (oss_UpdateRetentionPolicy A database name
       \<lparr>rpu_Name = newName, rpu_Duration = duration, rpu_ReplicaN = replicaN\<rparr> False)"

definition applyCreateShardGroupCommand :: "'x oss_lib \<Rightarrow> string \<Rightarrow> string \<Rightarrow> int \<Rightarrow> ('x, unit) store_op" where
  "applyCreateShardGroupCommand A database policy timestamp =
     on_oss A (oss_CreateShardGroup A database policy (UnixNano timestamp))"

definition applyDeleteShardGroupCommand :: "'x oss_lib \<Rightarrow> string \<Rightarrow> string \<Rightarrow> u64 \<Rightarrow> ('x, unit) store_op" where
  "applyDeleteShardGroupCommand A database policy sgid = on_oss A (oss_DeleteShardGroup A database policy sgid)"

definition applyCreateContinuousQueryCommand :: "'x oss_lib \<Rightarrow> string \<Rightarrow> string \<Rightarrow> string \<Rightarrow> ('x, unit) store_op" where
  "applyCreateContinuousQueryCommand A database name query = on_oss A (oss_CreateContinuousQuery A database name query)"

definition applyDropContinuousQueryCommand :: "'x oss_lib \<Rightarrow> string \<Rightarrow> string \<Rightarrow> ('x, unit) store_op" where
  "applyDropContinuousQueryCommand A database name = on_oss A (oss_DropContinuousQuery A database name)"

definition applyCreateSubscriptionCommand :: "'x oss_lib \<Rightarrow> string \<Rightarrow> string \<Rightarrow> string \<Rightarrow> string \<Rightarrow> string list \<Rightarrow>
    ('x, unit) store_op" where
  "applyCreateSubscriptionCommand A database rp name mode destinations =
     on_oss A (oss_CreateSubscription A database rp name mode destinations)"

definition applyDropSubscriptionCommand :: "'x oss_lib \<Rightarrow> string \<Rightarrow> string \<Rightarrow> string \<Rightarrow> ('x, unit) store_op" where
  "applyDropSubscriptionCommand A database rp name = on_oss A (oss_DropSubscription A database rp name)"

definition applyCreateUserCommand :: "'x oss_lib \<Rightarrow> string \<Rightarrow> string \<Rightarrow> bool \<Rightarrow> ('x, unit) store_op" where
  "applyCreateUserCommand A name hash admin = on_oss A (oss_CreateUser A name hash admin)"

definition applyDropUserCommand :: "'x oss_lib \<Rightarrow> string \<Rightarrow> ('x, unit) store_op" where
  "applyDropUserCommand A name = on_oss A (oss_DropUser A name)"

definition applyUpdateUserCommand :: "'x oss_lib \<Rightarrow> string \<Rightarrow> string \<Rightarrow> ('x, unit) store_op" where
  "applyUpdateUserCommand A name hash = on_oss A (oss_UpdateUser A name hash)"

definition applySetPrivilegeCommand :: "'x oss_lib \<Rightarrow> string \<Rightarrow> string \<Rightarrow> int \<Rightarrow> ('x, unit) store_op" where
  "applySetPrivilegeCommand A username database privilege = on_oss A (oss_SetPrivilege A username database privilege)"

definition applySetAdminPrivilegeCommand :: "'x oss_lib \<Rightarrow> string \<Rightarrow> bool \<Rightarrow> ('x, unit) store_op" where
  "applySetAdminPrivilegeCommand A username admin = on_oss A (oss_SetAdminPrivilege A username admin)"

text \<open>
  \<open>SetData\<close> starts from an empty \<open>Data\<close> whose \<open>Data\<close> field is nil and drops the error of
  \<open>UnmarshalBinary\<close>; when that fails \<open>Apply\<close> dereferences the nil field right afterwards.
\<close>

definition applySetDataCommand :: "'x oss_lib \<Rightarrow> byte list \<Rightarrow> ('x, unit) store_op" where
  "applySetDataCommand A b s =
     (case UnmarshalBinary (oss_Unmarshal A) (pb_Unmarshal A) b (fresh_Data (oss_Unmarshal A [])) of
        (Inl e, data) \<Rightarrow> (Inl MetaPanic, s)
      | (Inr u, data) \<Rightarrow> (Inr (), s\<lparr>s_data := data\<rparr>))"

definition set_cluster_id :: "u64 \<Rightarrow> 'x Data \<Rightarrow> 'x Data" where
  "set_cluster_id rand data =
     (if o_ClusterID (d_Data data) = 0 then data\<lparr>d_Data := (d_Data data)\<lparr>o_ClusterID := rand\<rparr>\<rparr> else data)"

definition applyCreateMetaNodeCommand :: "'x oss_lib \<Rightarrow> string \<Rightarrow> string \<Rightarrow> u64 \<Rightarrow> ('x, unit) store_op" where
  "applyCreateMetaNodeCommand A httpAddr tcpAddr rand s =
     (let other = snd (CreateMetaNode httpAddr tcpAddr (clone_data A s)) in
      (Inr (), s\<lparr>s_data := set_cluster_id rand other\<rparr>))"

definition applySetMetaNodeCommand :: "'x oss_lib \<Rightarrow> string \<Rightarrow> string \<Rightarrow> u64 \<Rightarrow> ('x, unit) store_op" where
  "applySetMetaNodeCommand A httpAddr tcpAddr rand s =
     (let other = set_cluster_id rand (clone_data A s) in
      (Inr (), s\<lparr>s_data := snd (SetMetaNode (o_ClusterID (d_Data other)) httpAddr tcpAddr other)\<rparr>))"

definition store_leave :: "'w raft_lib \<Rightarrow> NodeInfo \<Rightarrow> 'x store \<Rightarrow> 'w \<Rightarrow> (meta_error + unit) \<times> 'w" where
  "store_leave L n s w = (case s_raftState s of
     None \<Rightarrow> (Inl MetaPanic, w)
   | Some r \<Rightarrow> rs_removePeer L r (ni_TCPHost n) w)"

definition applyDeleteMetaNodeCommand :: "'x oss_lib \<Rightarrow> 'w raft_lib \<Rightarrow> (nat \<Rightarrow> nat \<Rightarrow> nat \<Rightarrow> int) \<Rightarrow> u64 \<Rightarrow>
    'x store \<times> 'w \<Rightarrow> (meta_error + unit) \<times> ('x store \<times> 'w)" where
  "applyDeleteMetaNodeCommand A L now nid sw = (case sw of (s, w) \<Rightarrow>
     let other = clone_data A s in
     case MetaNode nid other of
       None \<Rightarrow> (Inl ErrNodeNotFound, (s, w))
     | Some node \<Rightarrow>
       (case store_leave L node s w of (r, w) \<Rightarrow>
        if r \<noteq> Inr () \<and> r \<noteq> Inl RaftNotLeader then (Inl (projl r), (s, w))
        else case DeleteMetaNode now nid other of
          (Inl e, other) \<Rightarrow> (Inl e, (s, w))
        | (Inr u, other) \<Rightarrow> (Inr (), (s\<lparr>s_data := other\<rparr>, w))))"

definition applyCreateDataNodeCommand :: "'x oss_lib \<Rightarrow> ('x, unit) store_op" where
  "applyCreateDataNodeCommand A s = (Inr (), s\<lparr>s_data := clone_data A s\<rparr>)"

definition applyDeleteDataNodeCommand :: "'x oss_lib \<Rightarrow> u64 \<Rightarrow> ('x, unit) store_op" where
  "applyDeleteDataNodeCommand A nid s =
     (case DeleteDataNode nid (clone_data A s) of
        (Inl e, other) \<Rightarrow> (Inl e, s)
      | (Inr u, other) \<Rightarrow> (Inr (), s\<lparr>s_data := other\<rparr>))"

section \<open>Apply\<close>

definition local :: "('x, unit) store_op \<Rightarrow> 'x store \<times> 'w \<Rightarrow> (meta_error + unit) \<times> ('x store \<times> 'w)" where
  "local f sw = (case f (fst sw) of (r, s) \<Rightarrow> (r, (s, snd sw)))"

fun dispatch :: "'x oss_lib \<Rightarrow> 'w raft_lib \<Rightarrow> (nat \<Rightarrow> nat \<Rightarrow> nat \<Rightarrow> int) \<Rightarrow> command \<Rightarrow>
    'x store \<times> 'w \<Rightarrow> (meta_error + unit) \<times> ('x store \<times> 'w)" where
  "dispatch A L now (RemovePeerCommand addr) = applyRemovePeerCommand L addr"
| "dispatch A L now (CreateDatabaseCommand n p) = local (applyCreateDatabaseCommand A n p)"
| "dispatch A L now (DropDatabaseCommand n) = local (applyDropDatabaseCommand A n)"
| "dispatch A L now (CreateRetentionPolicyCommand d p) = local (applyCreateRetentionPolicyCommand A)"
| "dispatch A L now (DropRetentionPolicyCommand d n) = local (applyDropRetentionPolicyCommand A d n)"
| "dispatch A L now (SetDefaultRetentionPolicyCommand d n) = local (applySetDefaultRetentionPolicyCommand A)"
| "dispatch A L now (UpdateRetentionPolicyCommand d n m t r) = local (applyUpdateRetentionPolicyCommand A d n m t r)"
| "dispatch A L now (CreateShardGroupCommand d p t) = local (applyCreateShardGroupCommand A d p t)"
| "dispatch A L now (DeleteShardGroupCommand d p i) = local (applyDeleteShardGroupCommand A d p i)"
| "dispatch A L now (CreateContinuousQueryCommand d n q) = local (applyCreateContinuousQueryCommand A d n q)"
| "dispatch A L now (DropContinuousQueryCommand d n) = local (applyDropContinuousQueryCommand A d n)"
| "dispatch A L now (CreateSubscriptionCommand d p n m ds) = local (applyCreateSubscriptionCommand A d p n m ds)"
| "dispatch A L now (DropSubscriptionCommand d p n) = local (applyDropSubscriptionCommand A d p n)"
| "dispatch A L now (CreateUserCommand n h a) = local (applyCreateUserCommand A n h a)"
| "dispatch A L now (DropUserCommand n) = local (applyDropUserCommand A n)"
| "dispatch A L now (UpdateUserCommand n h) = local (applyUpdateUserCommand A n h)"
| "dispatch A L now (SetPrivilegeCommand u d p) = local (applySetPrivilegeCommand A u d p)"
| "dispatch A L now (SetAdminPrivilegeCommand u a) = local (applySetAdminPrivilegeCommand A u a)"
| "dispatch A L now (SetDataCommand b) = local (applySetDataCommand A b)"
| "dispatch A L now (CreateMetaNodeCommand h t r) = local (applyCreateMetaNodeCommand A h t r)"
| "dispatch A L now (DeleteMetaNodeCommand i) = applyDeleteMetaNodeCommand A L now i"
| "dispatch A L now (SetMetaNodeCommand h t r) = local (applySetMetaNodeCommand A h t r)"
| "dispatch A L now (CreateDataNodeCommand h t) = local (applyCreateDataNodeCommand A)"
| "dispatch A L now (DeleteDataNodeCommand i) = local (applyDeleteDataNodeCommand A i)"
| "dispatch A L now AddShardOwnerCommand = local (\<lambda>s. (Inr (), s))"
| "dispatch A L now (UpdateDataNodeCommand i h t) = local (\<lambda>s. (Inl MetaPanic, s))"
| "dispatch A L now OtherCommand = local (\<lambda>s. (Inl MetaPanic, s))"
| "dispatch A L now CmdNoExtension = local (\<lambda>s. (Inl MetaPanic, s))"

definition stamp :: "raft_log \<Rightarrow> 'x store \<Rightarrow> 'x store" where
  "stamp l s = s\<lparr>s_data := (s_data s)\<lparr>d_Data := (d_Data (s_data s))\<lparr>o_Term := l_Term l, o_Index := l_Index l\<rparr>\<rparr>,
     s_dataChanged := Suc (s_dataChanged s)\<rparr>"

definition Apply :: "'x oss_lib \<Rightarrow> 'w raft_lib \<Rightarrow> (byte list \<Rightarrow> meta_error + command) \<Rightarrow> (nat \<Rightarrow> nat \<Rightarrow> nat \<Rightarrow> int) \<Rightarrow>
    raft_log \<Rightarrow> 'x store \<times> 'w \<Rightarrow> (meta_error + unit) \<times> ('x store \<times> 'w)" where
  "Apply A L decode now l sw = (case decode (l_Data l) of
     Inl e \<Rightarrow> (Inl MetaPanic, sw)
   | Inr cmd \<Rightarrow>
     (case dispatch A L now cmd sw of (r, (s, w)) \<Rightarrow>
        if r = Inl MetaPanic then (Inl MetaPanic, (s, w)) else (r, (stamp l s, w))))"

section \<open>Snapshots\<close>

record 'x storeFSMSnapshot =
  snap_Data :: "'x Data"

definition Snapshot :: "'x store \<Rightarrow> 'x storeFSMSnapshot" where
  "Snapshot s = \<lparr>snap_Data = s_data s\<rparr>"

text \<open>\<open>r\<close> is what \<open>ioutil.ReadAll\<close> gives for the reader: an error or all bytes.\<close>

definition Restore :: "'x oss_lib \<Rightarrow> meta_error + byte list \<Rightarrow> ('x, unit) store_op" where
  "Restore A r s = (case r of
     Inl e \<Rightarrow> (Inl e, s)
   | Inr b \<Rightarrow>
     (case UnmarshalBinary (oss_Unmarshal A) (pb_Unmarshal A) b (fresh_Data (oss_Unmarshal A [])) of
        (Inl e, data) \<Rightarrow> (Inl e, s)
      | (Inr u, data) \<Rightarrow> (Inr (), s\<lparr>s_data := data\<rparr>)))"

record 'w snapshot_sink =
  sink_Write :: "byte list \<Rightarrow> 'w \<Rightarrow> (meta_error + unit) \<times> 'w"
  sink_Close :: "'w \<Rightarrow> (meta_error + unit) \<times> 'w"
  sink_Cancel :: "'w \<Rightarrow> 'w"

definition Persist :: "'x oss_lib \<Rightarrow> 'w snapshot_sink \<Rightarrow> 'x storeFSMSnapshot \<Rightarrow> 'w \<Rightarrow> (meta_error + unit) \<times> 'w" where
  "Persist A K snap w =
     (let (err, w) =
        (case MarshalBinary (oss_Marshal A) (pb_Marshal A) (snap_Data snap) of
           Inl e \<Rightarrow> (Inl e, w)
         | Inr p \<Rightarrow> check (sink_Write K p w) (\<lambda>u w. sink_Close K w)) in
      case err of Inl e \<Rightarrow> (Inl e, sink_Cancel K w) | Inr u \<Rightarrow> (Inr (), w))"

definition Release :: "'x storeFSMSnapshot \<Rightarrow> unit" where
  "Release snap = ()"

end
