(* ===== verification/Meta_Nodes.thy ===== *)
theory Meta_Nodes
  imports Meta_Data
begin

text \<open>
  Correctness of the node and user tables of the metadata (\<open>src/meta/data.go\<close>): the identity of
  nodes over any history of joins and removals, what the removal of a node does to the shards, and
  the user table as a finite map.
\<close>

section \<open>Node identity\<close>

definition nodes :: "'x Data \<Rightarrow> NodeInfo list" where
  "nodes data = d_MetaNodes data @ d_DataNodes data"

definition consistent :: "NodeInfo set \<Rightarrow> bool" where
  "consistent S \<longleftrightarrow> (\<forall>a \<in> S. \<forall>b \<in> S. ni_ID a = ni_ID b \<longleftrightarrow> ni_TCPHost a = ni_TCPHost b)"

definition node_inv :: "'x Data \<Rightarrow> bool" where
  "node_inv data \<longleftrightarrow>
     (\<forall>a \<in> set (nodes data). 0 < ni_ID a \<and> ni_ID a \<le> d_MaxNodeID data) \<and>
     consistent (set (nodes data)) \<and>
     distinct (map ni_ID (d_DataNodes data)) \<and> sorted (map ni_ID (d_DataNodes data))"

lemma consistent_insert:
  assumes "consistent S" "\<forall>a \<in> S. ni_ID a = ni_ID n \<longleftrightarrow> ni_TCPHost a = ni_TCPHost n"
  shows "consistent (insert n S)"
  using assms unfolding consistent_def by (metis insert_iff)

lemma consistent_subset: "consistent S \<Longrightarrow> T \<subseteq> S \<Longrightarrow> consistent T"
  by (auto simp: consistent_def)

lemma set_NodeInfos_sort [simp]: "set (NodeInfos_sort ns) = set ns"
  by (simp add: NodeInfos_sort_def)

lemma distinct_NodeInfos_sort [simp]: "distinct (map ni_ID (NodeInfos_sort ns)) = distinct (map ni_ID ns)"
  by (simp add: NodeInfos_sort_def distinct_map distinct_sort)

lemma sorted_NodeInfos_sort [simp]: "sorted (map ni_ID (NodeInfos_sort ns))"
  by (simp add: NodeInfos_sort_def)

lemma existing_id_cases:
  assumes inv: "\<forall>a \<in> set ns. 0 < ni_ID a"
  obtains "existing_id t ns = 0" "\<forall>a \<in> set ns. ni_TCPHost a \<noteq> t"
  | a where "a \<in> set ns" "ni_TCPHost a = t" "existing_id t ns = ni_ID a" "existing_id t ns \<noteq> 0"
proof (cases "List.find (\<lambda>n. ni_TCPHost n = t) ns")
  case None
  then have "existing_id t ns = 0" by (simp add: existing_id_def)
  moreover have "\<forall>a \<in> set ns. ni_TCPHost a \<noteq> t" using None by (auto simp: find_None_iff)
  ultimately show ?thesis by (rule that(1))
next
  case (Some a)
  then have "a \<in> set ns" "ni_TCPHost a = t" by (auto simp: find_Some_iff)
  with Some inv that(2) show ?thesis by (auto simp: existing_id_def)
qed

lemma u64_inc_le_iff: "(m :: u64) + 1 \<noteq> 0 \<Longrightarrow> a \<le> m \<Longrightarrow> a < m + 1"
  by unat_arith

lemma assign_id_fresh:
  assumes inv: "node_inv data" and new: "\<not> has_tcp t (d_DataNodes data)"
    and room: "d_MaxNodeID data + 1 \<noteq> 0" and eq: "assign_id t data = (i, data')"
  shows "d_MetaNodes data' = d_MetaNodes data" "d_DataNodes data' = d_DataNodes data"
    "0 < i" "i \<le> d_MaxNodeID data'" "d_MaxNodeID data \<le> d_MaxNodeID data'"
    "\<forall>a \<in> set (nodes data). ni_ID a = i \<longleftrightarrow> ni_TCPHost a = t"
proof -
  have pos: "\<forall>a \<in> set (d_MetaNodes data). 0 < ni_ID a" using inv by (auto simp: node_inv_def nodes_def)
  have same: "d_MetaNodes data' = d_MetaNodes data \<and> d_DataNodes data' = d_DataNodes data"
    using eq by (auto simp: assign_id_def Let_def split: if_splits)
  have nd: "\<forall>a \<in> set (d_DataNodes data). ni_TCPHost a \<noteq> t" using new by (auto simp: has_tcp_def list_ex_iff)
  have "0 < i \<and> i \<le> d_MaxNodeID data' \<and> d_MaxNodeID data \<le> d_MaxNodeID data' \<and>
     (\<forall>a \<in> set (nodes data). ni_ID a = i \<longleftrightarrow> ni_TCPHost a = t)"
  proof (rule existing_id_cases [OF pos, of t])
    assume z: "existing_id t (d_MetaNodes data) = 0" and nm: "\<forall>a \<in> set (d_MetaNodes data). ni_TCPHost a \<noteq> t"
    have i: "i = d_MaxNodeID data + 1" "d_MaxNodeID data' = d_MaxNodeID data + 1"
      using eq z by (auto simp: assign_id_def)
    have lt: "a \<in> set (nodes data) \<Longrightarrow> ni_ID a < i" for a
      using inv u64_inc_le_iff [OF room, of "ni_ID a"] i by (auto simp: node_inv_def)
    have "d_MaxNodeID data < i" using u64_inc_le_iff [OF room, of "d_MaxNodeID data"] i by simp
    then have "0 < i" "d_MaxNodeID data \<le> d_MaxNodeID data'" using i by (auto simp: word_neq_0_conv [symmetric] room)
    then show ?thesis using lt i nm nd by (fastforce simp: nodes_def)
  next
    fix a assume a: "a \<in> set (d_MetaNodes data)" "ni_TCPHost a = t"
      "existing_id t (d_MetaNodes data) = ni_ID a" "existing_id t (d_MetaNodes data) \<noteq> 0"
    then have "i = ni_ID a" "data' = data" using eq by (auto simp: assign_id_def)
    then show ?thesis using inv a by (auto simp: node_inv_def nodes_def consistent_def)
  qed
  then show "0 < i" "i \<le> d_MaxNodeID data'" "d_MaxNodeID data \<le> d_MaxNodeID data'"
    "\<forall>a \<in> set (nodes data). ni_ID a = i \<longleftrightarrow> ni_TCPHost a = t" by simp_all
  show "d_MetaNodes data' = d_MetaNodes data" "d_DataNodes data' = d_DataNodes data" using same by simp_all
qed

lemma node_inv_CreateDataNode:
  assumes "node_inv data" "d_MaxNodeID data + 1 \<noteq> 0"
  shows "node_inv (snd (CreateDataNode h t data))"
proof (cases "has_tcp t (d_DataNodes data)")
  case True then show ?thesis using assms by (simp add: CreateDataNode_def)
next
  case new: False
  obtain i data' where eq: "assign_id t data = (i, data')" by (cases "assign_id t data")
  note f = assign_id_fresh [OF assms(1) new assms(2) eq]
  have "i \<notin> ni_ID ` set (d_DataNodes data)"
    using f(6) new by (auto simp: nodes_def has_tcp_def list_ex_iff)
  moreover have "a \<in> set (nodes data) \<Longrightarrow> 0 < ni_ID a \<and> ni_ID a \<le> d_MaxNodeID data'" for a
    using assms(1) f(5) by (fastforce simp: node_inv_def)
  ultimately show ?thesis
    using assms(1) f new eq consistent_insert [of "set (nodes data)", where n = "\<lparr>ni_ID = i, ni_Host = h, ni_TCPHost = t, ni_PendingShardOwners = []\<rparr>"]
    by (auto simp: CreateDataNode_def node_inv_def nodes_def)
qed

lemma node_inv_CreateMetaNode:
  assumes "node_inv data" "d_MaxNodeID data + 1 \<noteq> 0"
  shows "node_inv (snd (CreateMetaNode h t data))"
proof (cases "has_tcp t (d_DataNodes data)")
  case True then show ?thesis using assms by (simp add: CreateMetaNode_def)
next
  case new: False
  obtain i data' where eq: "assign_id t data = (i, data')" by (cases "assign_id t data")
  note f = assign_id_fresh [OF assms(1) new assms(2) eq]
  have "a \<in> set (nodes data) \<Longrightarrow> 0 < ni_ID a \<and> ni_ID a \<le> d_MaxNodeID data'" for a
    using assms(1) f(5) by (fastforce simp: node_inv_def)
  then show ?thesis
    using assms(1) f new eq consistent_insert [of "set (nodes data)", where n = "\<lparr>ni_ID = i, ni_Host = h, ni_TCPHost = t, ni_PendingShardOwners = []\<rparr>"]
    by (auto simp: CreateMetaNode_def node_inv_def nodes_def)
qed

lemma node_inv_DeleteDataNode: "node_inv data \<Longrightarrow> node_inv (snd (DeleteDataNode i data))"
  by (auto simp: DeleteDataNode_def node_inv_def nodes_def Let_def distinct_map_filter sorted_filter
      elim: consistent_subset)

lemma node_inv_DeleteMetaNode: "node_inv data \<Longrightarrow> node_inv (snd (DeleteMetaNode now i data))"
  by (auto simp: DeleteMetaNode_def node_inv_def nodes_def Let_def elim: consistent_subset)

lemma MaxNodeID_step:
  "unat (d_MaxNodeID (snd (CreateDataNode h t data))) \<le> Suc (unat (d_MaxNodeID data))"
  "unat (d_MaxNodeID (snd (CreateMetaNode h t data))) \<le> Suc (unat (d_MaxNodeID data))"
  "d_MaxNodeID (snd (DeleteDataNode i data)) = d_MaxNodeID data"
  "d_MaxNodeID (snd (DeleteMetaNode now i data)) = d_MaxNodeID data"
proof -
  have "unat (m + 1) \<le> Suc (unat m)" for m :: u64 by unat_arith
  then show "unat (d_MaxNodeID (snd (CreateDataNode h t data))) \<le> Suc (unat (d_MaxNodeID data))"
    "unat (d_MaxNodeID (snd (CreateMetaNode h t data))) \<le> Suc (unat (d_MaxNodeID data))"
    by (auto simp: CreateDataNode_def CreateMetaNode_def assign_id_def Let_def)
qed (simp_all add: DeleteDataNode_def DeleteMetaNode_def Let_def)

lemma assign_id_origin:
  assumes inv: "node_inv data" and room: "d_MaxNodeID data + 1 \<noteq> 0" and eq: "assign_id t data = (i, data')"
  shows "d_MaxNodeID data < i \<or> (\<exists>b \<in> set (nodes data). ni_ID b = i \<and> ni_TCPHost b = t)"
proof -
  have pos: "\<forall>a \<in> set (d_MetaNodes data). 0 < ni_ID a" using inv by (auto simp: node_inv_def nodes_def)
  show ?thesis
  proof (rule existing_id_cases [OF pos, of t])
    assume "existing_id t (d_MetaNodes data) = 0"
    then have "i = d_MaxNodeID data + 1" using eq by (auto simp: assign_id_def)
    then show ?thesis using u64_inc_le_iff [OF room] by simp
  next
    fix a assume "a \<in> set (d_MetaNodes data)" "ni_TCPHost a = t"
      "existing_id t (d_MetaNodes data) = ni_ID a" "existing_id t (d_MetaNodes data) \<noteq> 0"
    then show ?thesis using eq by (auto simp: assign_id_def nodes_def)
  qed
qed

section \<open>Histories of joins and removals\<close>

datatype node_op =
    OpCreateMeta string string
  | OpCreateData string string
  | OpUpdateData u64 string string
  | OpDeleteMeta "nat \<Rightarrow> nat \<Rightarrow> nat \<Rightarrow> int" u64
  | OpDeleteData u64

fun node_step :: "node_op \<Rightarrow> 'x Data \<Rightarrow> 'x Data" where
  "node_step (OpCreateMeta h t) data = snd (CreateMetaNode h t data)"
| "node_step (OpCreateData h t) data = snd (CreateDataNode h t data)"
| "node_step (OpUpdateData i h t) data = snd (UpdateDataNode i h t data)"
| "node_step (OpDeleteMeta now i) data = snd (DeleteMetaNode now i data)"
| "node_step (OpDeleteData i) data = snd (DeleteDataNode i data)"

fun node_history :: "node_op list \<Rightarrow> 'x Data \<Rightarrow> 'x Data list" where
  "node_history [] data = [data]"
| "node_history (op # ops) data = data # node_history ops (node_step op data)"

definition one_host_per_id :: "NodeInfo set \<Rightarrow> bool" where
  "one_host_per_id E \<longleftrightarrow> (\<forall>a \<in> E. \<forall>b \<in> E. ni_ID a = ni_ID b \<longrightarrow> ni_TCPHost a = ni_TCPHost b)"

lemma one_host_per_id_subset: "one_host_per_id E \<Longrightarrow> F \<subseteq> E \<Longrightarrow> one_host_per_id F"
  by (auto simp: one_host_per_id_def)

lemma one_host_per_idD:
  "one_host_per_id E \<Longrightarrow> a \<in> E \<Longrightarrow> b \<in> E \<Longrightarrow> ni_ID a = ni_ID b \<Longrightarrow> ni_TCPHost a = ni_TCPHost b"
  unfolding one_host_per_id_def by blast

lemma node_step_inv:
  assumes "node_inv data" "d_MaxNodeID data + 1 \<noteq> 0"
  shows "node_inv (node_step op data)"
  using assms
  by (cases op) (simp_all add: node_inv_CreateMetaNode node_inv_CreateDataNode node_inv_DeleteMetaNode
      node_inv_DeleteDataNode UpdateDataNode_def)

lemma MaxNodeID_node_step: "unat (d_MaxNodeID (node_step op data)) \<le> Suc (unat (d_MaxNodeID data))"
  by (cases op) (simp_all add: MaxNodeID_step UpdateDataNode_def)

lemma node_step_new_node:
  assumes inv: "node_inv data" and room: "d_MaxNodeID data + 1 \<noteq> 0"
    and a: "a \<in> set (nodes (node_step op data))"
  shows "a \<in> set (nodes data) \<or> d_MaxNodeID data < ni_ID a \<or>
     (\<exists>b \<in> set (nodes data). ni_ID b = ni_ID a \<and> ni_TCPHost b = ni_TCPHost a)"
proof -
  have n: "d_MetaNodes (snd (assign_id t data)) = d_MetaNodes data"
    "d_DataNodes (snd (assign_id t data)) = d_DataNodes data" for t by (auto simp: assign_id_def Let_def)
  have new: "d_MaxNodeID data < fst (assign_id t data) \<or>
      (\<exists>b \<in> set (nodes data). ni_ID b = fst (assign_id t data) \<and> ni_TCPHost b = t)" for t
    by (rule assign_id_origin [OF inv room, where data' = "snd (assign_id t data)"]) simp
  show ?thesis
  proof (cases op)
    case (OpCreateMeta h t)
    with a n new [of t] show ?thesis
      by (auto simp: nodes_def CreateMetaNode_def Let_def case_prod_beta split: if_splits)
  next
    case (OpCreateData h t)
    with a n new [of t] show ?thesis
      by (auto simp: nodes_def CreateDataNode_def Let_def case_prod_beta split: if_splits)
  qed (use a in \<open>auto simp: nodes_def UpdateDataNode_def DeleteMetaNode_def DeleteDataNode_def Let_def
      split: if_splits\<close>)
qed

lemma MaxNodeID_mono:
  assumes "node_inv data" "d_MaxNodeID data + 1 \<noteq> 0"
  shows "d_MaxNodeID data \<le> d_MaxNodeID (node_step op data)"
proof -
  have "d_MaxNodeID data \<le> d_MaxNodeID data + 1" using u64_inc_le_iff [OF assms(2)] by (simp add: order.strict_implies_order)
  then show ?thesis
    by (cases op) (auto simp: CreateMetaNode_def CreateDataNode_def UpdateDataNode_def assign_id_def
        DeleteMetaNode_def DeleteDataNode_def Let_def)
qed

lemma node_history_inv:
  assumes "node_inv data" "unat (d_MaxNodeID data) + length ops < 2 ^ 64 - 1"
    and "one_host_per_id E" "set (nodes data) \<subseteq> E" "\<forall>a \<in> E. ni_ID a \<le> d_MaxNodeID data"
  shows "(\<forall>d \<in> set (node_history ops data). node_inv d) \<and>
    one_host_per_id (E \<union> (\<Union>d \<in> set (node_history ops data). set (nodes d)))"
  using assms
proof (induction ops arbitrary: data E)
  case Nil
  then show ?case by (simp add: Un_absorb2)
next
  case (Cons op ops)
  let ?d = "node_step op data" and ?E = "E \<union> set (nodes (node_step op data))"
  have room: "d_MaxNodeID data + 1 \<noteq> 0" using Cons.prems(2) by (simp add: u64_inc_nonzero)
  note inv = node_step_inv [OF Cons.prems(1) room, of op]
  have mono: "d_MaxNodeID data \<le> d_MaxNodeID ?d" by (rule MaxNodeID_mono [OF Cons.prems(1) room])
  have old: "\<exists>b \<in> E. ni_ID b = ni_ID a \<and> ni_TCPHost b = ni_TCPHost a"
    if "a \<in> ?E" "ni_ID a \<le> d_MaxNodeID data" for a
    using node_step_new_node [OF Cons.prems(1) room, of a op] that Cons.prems(4) by (auto simp: not_less [symmetric])
  have "ni_TCPHost a = ni_TCPHost b" if ab: "a \<in> ?E" "b \<in> ?E" "ni_ID a = ni_ID b" for a b
  proof (cases "ni_ID a \<le> d_MaxNodeID data")
    case True
    then obtain a' b' where ex: "a' \<in> E" "ni_ID a' = ni_ID a" "ni_TCPHost a' = ni_TCPHost a"
      "b' \<in> E" "ni_ID b' = ni_ID b" "ni_TCPHost b' = ni_TCPHost b"
      using old [OF ab(1)] old [OF ab(2)] ab(3) by auto
    then have "ni_TCPHost a' = ni_TCPHost b'" by (intro one_host_per_idD [OF Cons.prems(3)]) (simp_all add: ab(3))
    with ex show ?thesis by simp
  next
    case False
    then have "a \<in> set (nodes ?d)" "b \<in> set (nodes ?d)" using ab Cons.prems(5) by auto
    then show ?thesis using inv ab(3) by (auto simp: node_inv_def consistent_def)
  qed
  then have one: "one_host_per_id ?E" unfolding one_host_per_id_def by blast
  have "\<forall>a \<in> ?E. ni_ID a \<le> d_MaxNodeID ?d"
    using Cons.prems(5) mono inv by (auto simp: node_inv_def intro: order_trans)
  moreover have "unat (d_MaxNodeID ?d) + length ops < 2 ^ 64 - 1"
    using Cons.prems(2) MaxNodeID_node_step [of op data] by simp
  ultimately have "(\<forall>d \<in> set (node_history ops ?d). node_inv d) \<and>
      one_host_per_id (?E \<union> (\<Union>d \<in> set (node_history ops ?d). set (nodes d)))"
    using Cons.IH [OF inv _ one] by simp
  moreover from this have "one_host_per_id (E \<union> (\<Union>d \<in> set (node_history (op # ops) data). set (nodes d)))"
    by (elim conjE one_host_per_id_subset) (use Cons.prems(4) in auto)
  ultimately show ?case using Cons.prems(1) by simp
qed

lemma one_host_per_id_empty: "one_host_per_id {}"
  by (simp add: one_host_per_id_def)

lemma fresh_Data_inv:
  "node_inv (fresh_Data od)" "set (nodes (fresh_Data od)) = {}" "d_MaxNodeID (fresh_Data od) = 0"
  by (simp_all add: fresh_Data_def node_inv_def nodes_def consistent_def)

text \<open>
  C10: Over any history of joins, updates and removals of meta and data nodes that starts from empty
  metadata (fewer than 2^64 - 1 operations, so that the counter does not wrap), every state satisfies:
  IDs are positive and at most the counter, two nodes have the same ID exactly when they have the same
  TCP address, and the data nodes are sorted by ID without repetition. Moreover an ID is never given to
  a second TCP address, not even after the first node was removed.
\<close>

theorem node_ids_identify_hosts:
  assumes "length ops < 2 ^ 64 - 1"
  shows "(\<forall>d \<in> set (node_history ops (fresh_Data od)). node_inv d) \<and>
    one_host_per_id (\<Union>d \<in> set (node_history ops (fresh_Data od)). set (nodes d))"
  using node_history_inv [OF fresh_Data_inv(1), of od ops "{}"] fresh_Data_inv(2,3) [of od] assms one_host_per_id_empty
  by simp

definition od0 :: "unit OssData" where
  "od0 = \<lparr>o_Term = 0, o_Index = 1, o_ClusterID = 0, o_Databases = [], o_MaxShardGroupID = 0, o_MaxShardID = 0, o_Users = [], o_rest = ()\<rparr>"

definition ops0 :: "node_op list" where
  "ops0 = [OpCreateMeta ''a:8091'' ''a:8089'', OpCreateData ''a:8086'' ''a:8089'', OpCreateData ''b:8086'' ''b:8088'',
     OpDeleteData 2, OpCreateData ''c:8086'' ''c:8088'', OpUpdateData 1 ''x'' ''y'']"

theorem node_ids_identify_hosts_witness:
  "list_all node_inv (node_history ops0 (fresh_Data od0)) \<and>
   map ni_ID (d_DataNodes (last (node_history ops0 (fresh_Data od0)))) = [1, 3]"
proof
  have "length ops0 < 2 ^ 64 - 1" by (simp add: ops0_def)
  from node_ids_identify_hosts [OF this, of od0] show "list_all node_inv (node_history ops0 (fresh_Data od0))"
    by (simp add: list_all_iff)
  show "map ni_ID (d_DataNodes (last (node_history ops0 (fresh_Data od0)))) = [1, 3]" by code_simp
qed

text \<open>
  A meta node can join twice. \<open>CreateMetaNode\<close> looks for the address among the data nodes, so for
  the address of a known meta node it reuses the ID and appends a second entry, although the comment says
  it ensures that no node with the same host exists.
\<close>

theorem CreateMetaNode_duplicates:
  assumes "node_inv data" and "has_tcp t (d_MetaNodes data)" and "\<not> has_tcp t (d_DataNodes data)"
  shows "\<exists>data'. CreateMetaNode h t data = (Inr (), data') \<and>
    length (filter (\<lambda>n. ni_TCPHost n = t \<and> ni_ID n = existing_id t (d_MetaNodes data)) (d_MetaNodes data')) =
      Suc (length (filter (\<lambda>n. ni_TCPHost n = t \<and> ni_ID n = existing_id t (d_MetaNodes data)) (d_MetaNodes data)))"
proof -
  have "\<forall>a \<in> set (d_MetaNodes data). 0 < ni_ID a" using assms(1) by (auto simp: node_inv_def nodes_def)
  then have "existing_id t (d_MetaNodes data) \<noteq> 0"
    by (rule existing_id_cases [of _ t]) (use assms(2) in \<open>auto simp: has_tcp_def list_ex_iff\<close>)
  moreover have "length (filter P (NodeInfos_sort ns)) = length (filter P ns)" for P ns
    by (simp add: NodeInfos_sort_def filter_sort)
  ultimately show ?thesis using assms(3) by (simp add: CreateMetaNode_def assign_id_def)
qed

theorem CreateMetaNode_duplicates_witness:
  "length (filter (\<lambda>n. ni_TCPHost n = ''a:8089'' \<and> ni_ID n = 1)
     (d_MetaNodes (snd (CreateMetaNode ''b'' ''a:8089'' (snd (CreateMetaNode ''a'' ''a:8089'' (fresh_Data od0))))))) = 2"
proof -
  let ?d = "snd (CreateMetaNode ''a'' ''a:8089'' (fresh_Data od0))"
  have "node_inv ?d" "has_tcp ''a:8089'' (d_MetaNodes ?d)" "\<not> has_tcp ''a:8089'' (d_DataNodes ?d)" by code_simp+
  note d = CreateMetaNode_duplicates [OF this, of "''b''"]
  have "existing_id ''a:8089'' (d_MetaNodes ?d) = 1"
    "length (filter (\<lambda>n. ni_TCPHost n = ''a:8089'' \<and> ni_ID n = 1) (d_MetaNodes ?d)) = 1" by code_simp+
  with d show ?thesis by auto
qed

end
