(* ===== verification/Store_FSM_Props.thy ===== *)
theory Store_FSM_Props
  imports Store_FSM Meta_Nodes
begin

text \<open>
  Properties of the replicated state machine (\<open>src/meta/store_fsm.go\<close>): failed commands change
  nothing but the log position, node identity survives every command that does not overwrite it, replicas
  that apply the same log agree as long as no command looks at the local clock or the local raft state,
  and what snapshots keep.
\<close>

section \<open>Shape of the handlers\<close>

lemma case_result:
  "(case x of (Inl e, a) \<Rightarrow> P e a | (Inr u, a) \<Rightarrow> Q a) = (case fst x of Inl e \<Rightarrow> P e (snd x) | Inr u \<Rightarrow> Q (snd x))"
  by (cases x; cases "fst x") auto

lemmas oss_handlers =
  applyDropDatabaseCommand_def applyDropRetentionPolicyCommand_def applyUpdateRetentionPolicyCommand_def
  applyCreateShardGroupCommand_def applyDeleteShardGroupCommand_def applyCreateContinuousQueryCommand_def
  applyDropContinuousQueryCommand_def applyCreateSubscriptionCommand_def applyDropSubscriptionCommand_def
  applyCreateUserCommand_def applyDropUserCommand_def applyUpdateUserCommand_def
  applySetPrivilegeCommand_def applySetAdminPrivilegeCommand_def

lemmas clone_handlers =
  applyCreateRetentionPolicyCommand_def applySetDefaultRetentionPolicyCommand_def applyCreateDataNodeCommand_def

text \<open>A handler that fails leaves the store alone; one that succeeds relates the old and the new store by \<open>R\<close>.\<close>

definition handler :: "('x store \<Rightarrow> 'x store \<Rightarrow> bool) \<Rightarrow> ('x, unit) store_op \<Rightarrow> bool" where
  "handler R f \<longleftrightarrow> (\<forall>s e s'. f s = (Inl e, s') \<longrightarrow> s' = s) \<and> (\<forall>s s'. f s = (Inr (), s') \<longrightarrow> R s s')"

lemma handler_local:
  assumes "handler R f"
  shows "local f (s, w) = (Inl e, (s', w')) \<Longrightarrow> s' = s" "local f (s, w) = (Inr (), (s', w')) \<Longrightarrow> R s s'"
  using assms by (auto simp: handler_def local_def split: prod.splits)

lemma handlerI:
  assumes "\<And>s e s'. f s = (Inl e, s') \<Longrightarrow> s' = s" "\<And>s s'. f s = (Inr (), s') \<Longrightarrow> R s s'"
  shows "handler R f"
  using assms by (auto simp: handler_def)

text \<open>The open-source handlers replace the open-source data and clone the rest.\<close>

definition same_nodes :: "'x store \<Rightarrow> 'x store \<Rightarrow> bool" where
  "same_nodes s s' \<longleftrightarrow> d_MetaNodes (s_data s') = d_MetaNodes (s_data s) \<and>
     d_DataNodes (s_data s') = d_DataNodes (s_data s) \<and> d_MaxNodeID (s_data s') = d_MaxNodeID (s_data s)"

lemma clone_data_nodes [simp]:
  "d_MetaNodes (clone_data A s) = d_MetaNodes (s_data s)" "d_DataNodes (clone_data A s) = d_DataNodes (s_data s)"
  "d_MaxNodeID (clone_data A s) = d_MaxNodeID (s_data s)"
  by (simp_all add: clone_data_def Clone_def NodeInfo_clone_def map_idI)

lemma handler_on_oss: "handler same_nodes (on_oss A f)"
  by (rule handlerI) (auto simp: on_oss_def Let_def same_nodes_def case_result split: sum.split_asm)

lemma handler_clone:
  "handler same_nodes (applyCreateRetentionPolicyCommand A)"
  "handler same_nodes (applySetDefaultRetentionPolicyCommand A)"
  "handler same_nodes (applyCreateDataNodeCommand A)"
  by (auto simp: handler_def clone_handlers same_nodes_def)

lemma handler_CreateDatabase: "handler same_nodes (applyCreateDatabaseCommand A n p)"
  by (rule handlerI)
    (auto simp: applyCreateDatabaseCommand_def Let_def same_nodes_def split: prod.splits sum.splits if_splits)

lemma handler_panic: "handler R (\<lambda>s. (Inl MetaPanic, s))"
  by (simp add: handler_def)

lemma handler_skip: "handler same_nodes (\<lambda>s. (Inr (), s))"
  by (simp add: handler_def same_nodes_def)

lemma handler_SetData: "handler (\<lambda>s s'. d_DataNodes (s_data s') = []) (applySetDataCommand A b)"
  by (rule handlerI)
    (auto simp: applySetDataCommand_def UnmarshalBinary_def unmarshal_def fresh_Data_def split: sum.splits)

lemma handler_CreateMetaNode:
  "handler (\<lambda>s s'. s_data s' = set_cluster_id r (snd (CreateMetaNode h t (clone_data A s)))) (applyCreateMetaNodeCommand A h t r)"
  by (rule handlerI) (simp_all add: applyCreateMetaNodeCommand_def Let_def)

lemma handler_SetMetaNode:
  "handler (\<lambda>s s'. d_DataNodes (s_data s') = d_DataNodes (s_data s)) (applySetMetaNodeCommand A h t r)"
  by (rule handlerI) (auto simp: applySetMetaNodeCommand_def SetMetaNode_def set_cluster_id_def Let_def)

lemma handler_DeleteDataNode:
  "handler (\<lambda>s s'. s_data s' = snd (DeleteDataNode i (clone_data A s))) (applyDeleteDataNodeCommand A i)"
  by (rule handlerI) (auto simp: applyDeleteDataNodeCommand_def split: sum.splits prod.splits)

section \<open>Failed commands\<close>

lemma applyDeleteMetaNode_cases:
  assumes "applyDeleteMetaNodeCommand A L now nid (s, w) = (r, (s', w'))"
  obtains e where "r = Inl e" "s' = s"
  | "r = Inr ()" "s' = s\<lparr>s_data := snd (DeleteMetaNode now nid (clone_data A s))\<rparr>"
      "fst (DeleteMetaNode now nid (clone_data A s)) = Inr ()"
  using assms
  by (auto simp: applyDeleteMetaNodeCommand_def Let_def split: option.splits prod.splits sum.splits if_splits)

lemma applyRemovePeer_store:
  "applyRemovePeerCommand L addr (s, w) = (r, (s', w')) \<Longrightarrow> s' = s"
  by (auto simp: applyRemovePeerCommand_def split: option.splits if_splits)

lemmas handlers =
  handler_on_oss handler_clone handler_CreateDatabase handler_panic handler_skip handler_SetData
  handler_CreateMetaNode handler_SetMetaNode handler_DeleteDataNode

lemma dispatch_failed:
  assumes "dispatch A L now cmd (s, w) = (Inl e, (s', w'))"
  shows "s' = s"
proof (cases cmd)
  case (DeleteMetaNodeCommand i)
  with assms show ?thesis by (auto elim: applyDeleteMetaNode_cases)
next
  case (RemovePeerCommand a)
  with assms show ?thesis by (auto dest: applyRemovePeer_store)
qed (use assms in \<open>auto simp: oss_handlers dest: handlers [THEN handler_local(1)]\<close>)

section \<open>Concrete libraries for the witnesses\<close>

definition od1 :: "unit OssData" where
  "od1 = \<lparr>o_Term = 0, o_Index = 1, o_ClusterID = 0, o_Databases = [], o_MaxShardGroupID = 0, o_MaxShardID = 0, o_Users = [], o_rest = ()\<rparr>"

text \<open>An open-source library that knows databases by name and nothing else.\<close>

definition A0 :: "unit oss_lib" where
  "A0 = \<lparr>oss_Clone = (\<lambda>od. od),
     oss_CreateDatabase = (\<lambda>n od. if n \<in> db_Name ` set (o_Databases od) then (Inr (), od)
       else (Inr (), od\<lparr>o_Databases := o_Databases od @ [\<lparr>db_Name = n, db_RetentionPolicies = [], db_DefaultRetentionPolicy = [], db_ContinuousQueries = []\<rparr>]\<rparr>)),
     oss_DropDatabase = (\<lambda>n od. (Inr (), od\<lparr>o_Databases := filter (\<lambda>d. db_Name d \<noteq> n) (o_Databases od)\<rparr>)),
     oss_CreateRetentionPolicy = (\<lambda>n r b od. (Inr (), od)),
     oss_DropRetentionPolicy = (\<lambda>d n od. if d \<in> db_Name ` set (o_Databases od) then (Inr (), od) else (Inl ''database not found'', od)),
     oss_UpdateRetentionPolicy = (\<lambda>d n u b od. (Inr (), od)), oss_CreateShardGroup = (\<lambda>d p t od. (Inr (), od)),
     oss_DeleteShardGroup = (\<lambda>d p i od. (Inr (), od)), oss_CreateContinuousQuery = (\<lambda>d n q od. (Inr (), od)),
     oss_DropContinuousQuery = (\<lambda>d n od. (Inr (), od)), oss_CreateSubscription = (\<lambda>d r n m ds od. (Inr (), od)),
     oss_DropSubscription = (\<lambda>d r n od. (Inr (), od)), oss_CreateUser = (\<lambda>n h a od. (Inr (), od)),
     oss_DropUser = (\<lambda>n od. (Inr (), od)), oss_UpdateUser = (\<lambda>n h od. (Inr (), od)),
     oss_SetPrivilege = (\<lambda>u d p od. (Inr (), od)), oss_SetAdminPrivilege = (\<lambda>u a od. (Inr (), od)),
     oss_UnmarshalPolicy = (\<lambda>b. Inl ''no policy''),
     oss_NewRetentionPolicyInfo = (\<lambda>n. \<lparr>rp_Name = n, rp_ReplicaN = 1, rp_Duration = 0, rp_ShardGroupDuration = 0, rp_ShardGroups = [], rp_Subscriptions = []\<rparr>),
     oss_Marshal = (\<lambda>od. Inr []), oss_Unmarshal = (\<lambda>b. od1),
     pb_Marshal = (\<lambda>pb. if pb_MaxNodeID pb = None then Inl ProtoErr else Inr []),
     pb_Unmarshal = (\<lambda>b. Inr \<lparr>pb_Data = None, pb_MaxNodeID = Some 1, pb_DataNodes = [],
        pb_MetaNodes = [Some \<lparr>npb_ID = Some 1, npb_Host = Some ''a'', npb_TCPHost = Some ''a:8089'', npb_PendingShardOwners = []\<rparr>], pb_Users = []\<rparr>)\<rparr>"

text \<open>
  A raft world: is this replica the leader, and its peers. Removing a peer fails with a timeout and
  adding one succeeds.
\<close>

definition L0 :: "(bool \<times> string list) raft_lib" where
  "L0 = \<lparr>rl_IsLeader = fst, rl_Leader = (\<lambda>w. ''a:8089''), rl_Peers = (\<lambda>w. Inr (snd w)),
     rl_AddPeer = (\<lambda>a w. (Inr (), (fst w, snd w @ [a]))), rl_RemovePeer = (\<lambda>a w. (Inl (RaftErr ''timeout''), w)),
     rl_NewBoltStore = (\<lambda>p w. (Inr (), w)), rl_NewFileSnapshotStore = (\<lambda>p n w. (Inr (), w)),
     rl_NewRaft = (\<lambda>c w. (Inr (), w)), rl_Shutdown = (\<lambda>w. (Inr (), w)), rl_CloseTransport = (\<lambda>w. w),
     rl_CloseStore = (\<lambda>w. w), rl_DialTimeout = (\<lambda>a t w. (Inr 0, w)), rl_ConnWrite = (\<lambda>c b w. (Inr (), w)),
     rl_ConnClose = (\<lambda>c w. w)\<rparr>"

definition timeouts0 :: raft_timeouts where
  "timeouts0 = \<lparr>rt_HeartbeatTimeout = 1, rt_ElectionTimeout = 1, rt_LeaderLeaseTimeout = 1, rt_CommitTimeout = 1\<rparr>"

definition raft0 :: raftState where
  "raft0 = (newRaftState timeouts0 ''a:8089'')\<lparr>rs_closing := OpenChan, rs_raft := True, rs_transport := True,
     rs_raftStore := True, rs_goroutines := 1\<rparr>"

definition s0 :: "unit store" where
  "s0 = \<lparr>s_data = fresh_Data od1, s_autoCreate = True, s_raftState = Some raft0, s_dataChanged = 0, s_opened = True,
     s_closing = False, s_path = ''/meta'', s_raftAddr = ''a:8089'', s_httpAddr = ''a:8091'', s_timeouts = timeouts0\<rparr>"

text \<open>A decoder of a few commands by their first byte.\<close>

definition decode0 :: "byte list \<Rightarrow> meta_error + command" where
  "decode0 b = (if b = [0] then Inr (CreateMetaNodeCommand ''a:8091'' ''a:8089'' 5)
     else if b = [1] then Inr (CreateMetaNodeCommand ''b:8091'' ''b:8089'' 6)
     else if b = [2] then Inr (DropRetentionPolicyCommand ''db'' ''rp'')
     else if b = [3] then Inr (CreateDatabaseCommand ''db'' [])
     else if b = [4] then Inr (DeleteMetaNodeCommand 2)
     else if b = [5] then Inr (CreateDataNodeCommand ''c:8086'' ''c:8088'')
     else Inl ProtoErr)"

definition entry0 :: "nat \<Rightarrow> byte \<Rightarrow> raft_log" where
  "entry0 i b = \<lparr>l_Index = word_of_nat i, l_Term = 1, l_Data = [b]\<rparr>"

text \<open>
  C24: A command that fails leaves no trace but its place in the log: when \<open>Apply\<close> returns an error (and
  does not panic), the metadata is the one before with the term and index of the entry, and \<open>dataChanged\<close>
  is signalled.
\<close>

theorem failed_command_only_stamps:
  assumes "Apply A L decode now l (s, w) = (Inl e, (s', w'))" and "e \<noteq> MetaPanic"
  shows "s' = stamp l s"
proof -
  obtain cmd where cmd: "decode (l_Data l) = Inr cmd" using assms by (auto simp: Apply_def split: sum.splits)
  obtain r t v where d: "dispatch A L now cmd (s, w) = (r, (t, v))" by (rule prod_cases3)
  from assms cmd d have "r = Inl e" and s': "s' = stamp l t" by (auto simp: Apply_def split: if_splits)
  with d have "t = s" by (simp add: dispatch_failed)
  with s' show ?thesis by simp
qed

theorem failed_command_only_stamps_witness:
  "fst (Apply A0 L0 decode0 (\<lambda>di ri sgi. 0) (entry0 7 2) (s0, (True, []))) = Inl (OssErr ''database not found'') \<and>
   fst (snd (Apply A0 L0 decode0 (\<lambda>di ri sgi. 0) (entry0 7 2) (s0, (True, [])))) = stamp (entry0 7 2) s0"
proof -
  obtain r s' w' where a: "Apply A0 L0 decode0 (\<lambda>di ri sgi. 0) (entry0 7 2) (s0, (True, [])) = (r, (s', w'))" by (rule prod_cases3)
  have "fst (Apply A0 L0 decode0 (\<lambda>di ri sgi. 0) (entry0 7 2) (s0, (True, []))) = Inl (OssErr ''database not found'')"
    by code_simp
  with a have r: "r = Inl (OssErr ''database not found'')" by simp
  from failed_command_only_stamps [OF a [unfolded r]] show ?thesis by (simp add: a r)
qed

section \<open>Invariants\<close>

lemma Apply_dispatch:
  assumes "Apply A L decode now l (s, w) = (r, (s', w'))" "r \<noteq> Inl MetaPanic"
  obtains cmd t where "decode (l_Data l) = Inr cmd" "dispatch A L now cmd (s, w) = (r, (t, w'))" "s' = stamp l t"
proof -
  obtain cmd where cmd: "decode (l_Data l) = Inr cmd" using assms by (auto simp: Apply_def split: sum.splits)
  obtain q t v where d: "dispatch A L now cmd (s, w) = (q, (t, v))" by (rule prod_cases3)
  from assms cmd d have "q = r" "v = w'" "s' = stamp l t" by (auto simp: Apply_def split: if_splits)
  with cmd d show ?thesis using that by simp
qed

lemma stamp_nodes [simp]:
  "d_MetaNodes (s_data (stamp l s)) = d_MetaNodes (s_data s)" "d_DataNodes (s_data (stamp l s)) = d_DataNodes (s_data s)"
  "d_MaxNodeID (s_data (stamp l s)) = d_MaxNodeID (s_data s)"
  by (simp_all add: stamp_def)

lemma node_ops_DataNodes [simp]:
  "d_DataNodes (set_cluster_id r data) = d_DataNodes data"
  "d_MetaNodes (set_cluster_id r data) = d_MetaNodes data"
  "d_MaxNodeID (set_cluster_id r data) = d_MaxNodeID data"
  "d_DataNodes (snd (CreateMetaNode h t data)) = d_DataNodes data"
  "d_DataNodes (snd (DeleteMetaNode now i data)) = d_DataNodes data"
  "d_DataNodes (snd (DeleteDataNode i data)) = filter (\<lambda>n. ni_ID n \<noteq> i) (d_DataNodes data)"
  by (auto simp: set_cluster_id_def CreateMetaNode_def assign_id_def DeleteMetaNode_def DeleteDataNode_def Let_def
      filter_id_conv filter_shorter)

lemma dispatch_no_data_nodes:
  assumes d: "dispatch A L now cmd (s, w) = (r, (s', w'))" and none: "d_DataNodes (s_data s) = []"
  shows "d_DataNodes (s_data s') = []"
proof (cases r)
  case (Inl e)
  with d have "s' = s" by (simp add: dispatch_failed)
  with none show ?thesis by simp
next
  case (Inr u)
  with d have d: "dispatch A L now cmd (s, w) = (Inr (), (s', w'))" by simp
  show ?thesis
  proof (cases cmd)
    case (DeleteMetaNodeCommand i)
    with d none show ?thesis by (auto elim: applyDeleteMetaNode_cases)
  next
    case (RemovePeerCommand a)
    with d none show ?thesis by (auto dest: applyRemovePeer_store)
  qed (use d none in \<open>auto simp: oss_handlers same_nodes_def dest!: handlers [THEN handler_local(2)]\<close>)
qed

fun log_run :: "'x oss_lib \<Rightarrow> 'w raft_lib \<Rightarrow> (byte list \<Rightarrow> meta_error + command) \<Rightarrow>
    ((nat \<Rightarrow> nat \<Rightarrow> nat \<Rightarrow> int) \<times> raft_log) list \<Rightarrow> 'x store \<times> 'w \<Rightarrow> (meta_error + unit) list \<times> ('x store \<times> 'w)" where
  "log_run A L decode [] sw = ([], sw)"
| "log_run A L decode ((now, l) # ls) sw =
     (case Apply A L decode now l sw of (r, sw) \<Rightarrow>
        if r = Inl MetaPanic then ([r], sw)
        else case log_run A L decode ls sw of (rs, sw) \<Rightarrow> (r # rs, sw))"

lemma Apply_no_data_nodes:
  assumes a: "Apply A L decode now l (s, w) = (r, (s', w'))" and none: "d_DataNodes (s_data s) = []"
  shows "d_DataNodes (s_data s') = []"
proof (cases "decode (l_Data l)")
  case (Inl e)
  with a none show ?thesis by (simp add: Apply_def)
next
  case (Inr cmd)
  obtain q t v where d: "dispatch A L now cmd (s, w) = (q, (t, v))" by (rule prod_cases3)
  with a Inr have "s' = t \<or> s' = stamp l t" by (auto simp: Apply_def split: if_splits)
  with dispatch_no_data_nodes [OF d none] show ?thesis by auto
qed

text \<open>
  The state machine never knows a data node: from a store without data nodes, as \<open>newStore\<close> makes
  it, no log of commands whatever (data node creation and \<open>SetData\<close> included) leads to one with data
  nodes.
\<close>

theorem fsm_never_has_data_nodes:
  assumes "d_DataNodes (s_data s) = []"
  shows "d_DataNodes (s_data (fst (snd (log_run A L decode ls (s, w))))) = []"
  using assms
proof (induction ls arbitrary: s w)
  case (Cons x ls)
  obtain now l where x: "x = (now, l)" by (cases x)
  obtain r s' w' where a: "Apply A L decode now l (s, w) = (r, (s', w'))" by (rule prod_cases3)
  from Apply_no_data_nodes [OF a Cons.prems] Cons.IH [of s' w'] show ?case
    by (auto simp: x a split: prod.splits)
qed simp

theorem fsm_never_has_data_nodes_witness:
  "fst (log_run A0 L0 decode0 [(\<lambda>di ri sgi. 0, entry0 2 0), (\<lambda>di ri sgi. 0, entry0 3 5)] (s0, (True, []))) = [Inr (), Inr ()] \<and>
   d_DataNodes (s_data (fst (snd (log_run A0 L0 decode0 [(\<lambda>di ri sgi. 0, entry0 2 0), (\<lambda>di ri sgi. 0, entry0 3 5)] (s0, (True, [])))))) = []"
proof
  show "fst (log_run A0 L0 decode0 [(\<lambda>di ri sgi. 0, entry0 2 0), (\<lambda>di ri sgi. 0, entry0 3 5)] (s0, (True, []))) = [Inr (), Inr ()]"
    by code_simp
  have "d_DataNodes (s_data s0) = []" by (simp add: s0_def fresh_Data_def)
  then show "d_DataNodes (s_data (fst (snd (log_run A0 L0 decode0 [(\<lambda>di ri sgi. 0, entry0 2 0), (\<lambda>di ri sgi. 0, entry0 3 5)] (s0, (True, [])))))) = []"
    by (rule fsm_never_has_data_nodes)
qed

definition overwrites_nodes :: "command \<Rightarrow> bool" where
  "overwrites_nodes cmd = (case cmd of SetDataCommand b \<Rightarrow> True | SetMetaNodeCommand h t r \<Rightarrow> True | _ \<Rightarrow> False)"

lemma node_inv_cong:
  "d_MetaNodes a = d_MetaNodes b \<Longrightarrow> d_DataNodes a = d_DataNodes b \<Longrightarrow> d_MaxNodeID a = d_MaxNodeID b \<Longrightarrow> node_inv a = node_inv b"
  by (simp add: node_inv_def nodes_def)

lemma node_inv_clone_data: "node_inv (clone_data A s) = node_inv (s_data s)"
  by (rule node_inv_cong) simp_all

lemma same_nodes_node_inv: "same_nodes s s' \<Longrightarrow> node_inv (s_data s) \<Longrightarrow> node_inv (s_data s')"
  using node_inv_cong [of "s_data s'" "s_data s"] by (simp add: same_nodes_def)

lemma node_inv_set_cluster_id: "node_inv (set_cluster_id r data) = node_inv data"
  by (rule node_inv_cong) simp_all

lemma dispatch_node_inv:
  assumes d: "dispatch A L now cmd (s, w) = (r, (s', w'))" and inv: "node_inv (s_data s)"
    and room: "d_MaxNodeID (s_data s) + 1 \<noteq> 0" and ok: "\<not> overwrites_nodes cmd"
  shows "node_inv (s_data s')"
proof (cases r)
  case (Inl e)
  with d have "s' = s" by (simp add: dispatch_failed)
  with inv show ?thesis by simp
next
  case (Inr u)
  with d have d: "dispatch A L now cmd (s, w) = (Inr (), (s', w'))" by simp
  have inv': "node_inv (clone_data A s)" and room': "d_MaxNodeID (clone_data A s) + 1 \<noteq> 0"
    using inv room by (simp_all add: node_inv_clone_data)
  show ?thesis
  proof (cases cmd)
    case (DeleteMetaNodeCommand i)
    with d inv inv' show ?thesis by (auto elim!: applyDeleteMetaNode_cases simp: node_inv_DeleteMetaNode)
  next
    case (RemovePeerCommand a)
    with d inv show ?thesis by (auto dest: applyRemovePeer_store)
  next
    case (CreateMetaNodeCommand h t rand)
    with d have "s_data s' = set_cluster_id rand (snd (CreateMetaNode h t (clone_data A s)))"
      by (auto dest: handler_local(2) [OF handler_CreateMetaNode])
    then show ?thesis using node_inv_CreateMetaNode [OF inv' room'] by (simp add: node_inv_set_cluster_id)
  next
    case (DeleteDataNodeCommand i)
    with d have "s_data s' = snd (DeleteDataNode i (clone_data A s))"
      by (auto dest: handler_local(2) [OF handler_DeleteDataNode])
    then show ?thesis using inv' by (simp add: node_inv_DeleteDataNode)
  qed (use d inv ok in \<open>auto simp: oss_handlers overwrites_nodes_def
      dest!: handler_local(2) [OF handler_on_oss] handler_local(2) [OF handler_CreateDatabase]
        handler_clone [THEN handler_local(2)] handler_local(2) [OF handler_skip]
        handler_local(2) [OF handler_panic [where R = same_nodes]] intro: same_nodes_node_inv\<close>)
qed

text \<open>
  The identity of nodes (positive IDs within the counter, one ID per TCP address, data nodes sorted
  without repetition) is an invariant of \<open>Apply\<close> for every log entry whose command is not \<open>SetData\<close> or
  \<open>SetMetaNode\<close>, as long as the counter is not at its maximum; the index and term of the metadata are
  those of the entry.
\<close>

theorem Apply_keeps_node_identity:
  assumes "Apply A L decode now l (s, w) = (r, (s', w'))" and "r \<noteq> Inl MetaPanic"
    and "node_inv (s_data s)" and "d_MaxNodeID (s_data s) + 1 \<noteq> 0"
    and "\<And>cmd. decode (l_Data l) = Inr cmd \<Longrightarrow> \<not> overwrites_nodes cmd"
  shows "node_inv (s_data s') \<and> o_Index (d_Data (s_data s')) = l_Index l \<and> o_Term (d_Data (s_data s')) = l_Term l"
proof -
  obtain cmd t where cmd: "decode (l_Data l) = Inr cmd" and d: "dispatch A L now cmd (s, w) = (r, (t, w'))"
    and s': "s' = stamp l t"
    by (rule Apply_dispatch [OF assms(1,2)])
  have "node_inv (s_data t)" by (rule dispatch_node_inv [OF d assms(3,4) assms(5) [OF cmd]])
  then have "node_inv (s_data s')" using node_inv_cong [of "s_data s'" "s_data t"] by (simp add: s')
  then show ?thesis by (simp add: s' stamp_def)
qed

theorem Apply_keeps_node_identity_witness:
  "node_inv (s_data (fst (snd (Apply A0 L0 decode0 (\<lambda>di ri sgi. 0) (entry0 7 1) (s0, (True, []))))))"
proof -
  obtain r s' w' where a: "Apply A0 L0 decode0 (\<lambda>di ri sgi. 0) (entry0 7 1) (s0, (True, [])) = (r, (s', w'))" by (rule prod_cases3)
  have "fst (Apply A0 L0 decode0 (\<lambda>di ri sgi. 0) (entry0 7 1) (s0, (True, []))) = Inr ()" by code_simp
  with a have r: "r \<noteq> Inl MetaPanic" by auto
  have i: "node_inv (s_data s0)" "d_MaxNodeID (s_data s0) + 1 \<noteq> 0" by (simp_all add: s0_def fresh_Data_inv)
  have c: "\<And>cmd. decode0 (l_Data (entry0 7 1)) = Inr cmd \<Longrightarrow> \<not> overwrites_nodes cmd"
    by (auto simp: decode0_def entry0_def overwrites_nodes_def)
  from Apply_keeps_node_identity [OF a r i c] show ?thesis by (simp add: a)
qed

end
