(* ===== verification/Store_Replication.thy ===== *)
theory Store_Replication
  imports Store_FSM_Props "HOL-Library.Multiset"
begin

text \<open>
  Replication of the meta store: the contract of a replicated state machine as a locale, its
  interpretation on \<open>Apply\<close>, the command that breaks it, and what a snapshot carries from one replica to
  another (\<open>Persist\<close>, \<open>Restore\<close> of \<open>src/meta/store_fsm.go\<close>).
\<close>

section \<open>Replicated state machines\<close>

text \<open>
  Replicas apply the same log, each in its own environment. The contract asks that the commands called
  portable have an outcome that does not depend on the environment.
\<close>

locale replicated =
  fixes step :: "'e \<Rightarrow> 'c \<Rightarrow> 's \<Rightarrow> 'r \<times> 's" and portable :: "'c \<Rightarrow> bool"
  assumes portable_step: "portable c \<Longrightarrow> step e c s = step e' c s"
begin

fun run :: "('e \<times> 'c) list \<Rightarrow> 's \<Rightarrow> 'r list \<times> 's" where
  "run [] s = ([], s)"
| "run ((e, c) # xs) s = (case step e c s of (r, s) \<Rightarrow> case run xs s of (rs, s) \<Rightarrow> (r # rs, s))"

lemma run_agree: "map snd xs = map snd ys \<Longrightarrow> list_all portable (map snd xs) \<Longrightarrow> run xs s = run ys s"
proof (induction xs arbitrary: ys s)
  case (Cons x xs)
  obtain e c where x: "x = (e, c)" by (cases x)
  with Cons.prems obtain e' ys' where ys: "ys = (e', c) # ys'" "map snd xs = map snd ys'" by (cases ys) auto
  have "portable c" using Cons.prems(2) x by simp
  then have "step e c s = step e' c s" by (rule portable_step)
  moreover have "run xs t = run ys' t" for t using Cons ys by simp
  ultimately show ?case by (simp add: x ys)
qed simp

lemma run_append: "run (xs @ ys) s = (case run xs s of (rs, t) \<Rightarrow> case run ys t of (qs, u) \<Rightarrow> (rs @ qs, u))"
  by (induction xs arbitrary: s) (auto split: prod.splits)

text \<open>A replica that joins late catches up from the state another one had after a prefix of the log.\<close>

lemma catch_up:
  assumes "map snd xs = map snd xs'" "list_all portable (map snd xs)"
    and "map snd ys = map snd ys'" "list_all portable (map snd ys)"
  shows "snd (run ys (snd (run xs s))) = snd (run (xs' @ ys') s)"
  using run_agree [OF assms(1,2), of s] run_agree [OF assms(3,4)]
  by (simp add: run_append split: prod.splits)

end

section \<open>The meta store as a replica\<close>

type_synonym clock = "nat \<Rightarrow> nat \<Rightarrow> nat \<Rightarrow> int"

definition fsm_step :: "'x oss_lib \<Rightarrow> 'w raft_lib \<Rightarrow> (byte list \<Rightarrow> meta_error + command) \<Rightarrow>
    clock \<times> 'w \<Rightarrow> raft_log \<Rightarrow> 'x store \<Rightarrow> (meta_error + unit) \<times> 'x store" where
  "fsm_step A L decode env l s =
     (case Apply A L decode (fst env) l (s, snd env) of (r, (s, w)) \<Rightarrow> (r, s))"

definition portable_entry :: "(byte list \<Rightarrow> meta_error + command) \<Rightarrow> raft_log \<Rightarrow> bool" where
  "portable_entry decode l = (case decode (l_Data l) of Inr (DeleteMetaNodeCommand i) \<Rightarrow> False | _ \<Rightarrow> True)"

lemma dispatch_portable:
  assumes "\<forall>i. cmd \<noteq> DeleteMetaNodeCommand i"
  shows "fst (dispatch A L now cmd (s, w)) = fst (dispatch A L now' cmd (s, w')) \<and>
    fst (snd (dispatch A L now cmd (s, w))) = fst (snd (dispatch A L now' cmd (s, w')))"
  using assms
  by (cases cmd) (auto simp: local_def applyRemovePeerCommand_def split: prod.splits option.splits)

interpretation fsm: replicated "fsm_step A L decode" "portable_entry decode"
  for A :: "'x oss_lib" and L :: "'w raft_lib" and decode
proof
  fix l e e' and s :: "'x store"
  assume p: "portable_entry decode l"
  show "fsm_step A L decode e l s = fsm_step A L decode e' l s"
  proof (cases "decode (l_Data l)")
    case (Inr cmd)
    with p have "\<forall>i. cmd \<noteq> DeleteMetaNodeCommand i" by (auto simp: portable_entry_def)
    from dispatch_portable [OF this, of A L "fst e" s "snd e" "fst e'" "snd e'"] Inr show ?thesis
      by (auto simp: fsm_step_def Apply_def split: prod.splits)
  qed (simp add: fsm_step_def Apply_def)
qed

fun fsm_run :: "'x oss_lib \<Rightarrow> 'w raft_lib \<Rightarrow> (byte list \<Rightarrow> meta_error + command) \<Rightarrow>
    ((clock \<times> 'w) \<times> raft_log) list \<Rightarrow> 'x store \<Rightarrow> (meta_error + unit) list \<times> 'x store" where
  "fsm_run A L decode [] s = ([], s)"
| "fsm_run A L decode ((e, l) # xs) s =
     (case fsm_step A L decode e l s of (r, s) \<Rightarrow> case fsm_run A L decode xs s of (rs, s) \<Rightarrow> (r # rs, s))"

lemma fsm_run_eq: "fsm_run A L decode xs s = fsm.run A L decode xs s"
  by (induction xs arbitrary: s rule: list.induct) (auto split: prod.splits)


definition leader0 :: "((clock \<times> (bool \<times> string list)) \<times> raft_log) list" where
  "leader0 = [((\<lambda>di ri sgi. 1, (True, [''a:8089''])), entry0 2 0), ((\<lambda>di ri sgi. 2, (True, [''a:8089''])), entry0 3 1),
     ((\<lambda>di ri sgi. 3, (True, [''a:8089''])), entry0 4 3)]"

definition follower0 :: "((clock \<times> (bool \<times> string list)) \<times> raft_log) list" where
  "follower0 = [((\<lambda>di ri sgi. 7, (False, [])), entry0 2 0), ((\<lambda>di ri sgi. 8, (False, [])), entry0 3 1),
     ((\<lambda>di ri sgi. 9, (False, [])), entry0 4 3)]"


text \<open>
  The entry that deletes a meta node does break agreement. When the node is known to both replicas,
  a leader whose raft library fails to remove the peer answers with that error and keeps the node, and a
  follower that applies the same entry to the same store deletes it.
\<close>

theorem replicas_diverge_on_DeleteMetaNode:
  assumes cmd: "decode (l_Data l) = Inr (DeleteMetaNodeCommand nid)"
    and node: "MetaNode nid (s_data s) = Some n" and raft: "s_raftState s = Some r"
    and leader: "rs_isLeader L r w" "rl_Peers L w = Inr peers" "ni_TCPHost n \<in> set peers"
    and fails: "rl_RemovePeer L (ni_TCPHost n) w = (Inl e, w')" "e \<noteq> RaftNotLeader" "e \<noteq> MetaPanic"
    and follower: "\<not> rs_isLeader L r v"
  shows "fst (fsm_step A L decode (now, w) l s) = Inl e \<and>
    MetaNode nid (s_data (snd (fsm_step A L decode (now, w) l s))) = Some n \<and>
    fst (fsm_step A L decode (now', v) l s) = Inr () \<and>
    MetaNode nid (s_data (snd (fsm_step A L decode (now', v) l s))) = None"
proof -
  have node': "MetaNode nid (clone_data A s) = Some n" using node by (simp add: MetaNode_def)
  have "rs_removePeer L r (ni_TCPHost n) w = (Inl e, w')"
    using leader fails(1) by (simp add: rs_removePeer_def)
  then have l: "Apply A L decode now l (s, w) = (Inl e, (stamp l s, w'))"
    using cmd node' raft fails by (simp add: Apply_def applyDeleteMetaNodeCommand_def store_leave_def)
  have ex: "\<not> (\<forall>x \<in> set (d_MetaNodes (clone_data A s)). ni_ID x \<noteq> nid)"
    using node' by (auto simp: MetaNode_def find_node_def find_Some_iff)
  obtain d where d: "DeleteMetaNode now' nid (clone_data A s) = (Inr (), d)"
    "d_MetaNodes d = filter (\<lambda>n. ni_ID n \<noteq> nid) (d_MetaNodes (clone_data A s))"
    using ex by (auto simp: DeleteMetaNode_def filter_shorter simp del: clone_data_nodes)
  have f: "Apply A L decode now' l (s, v) = (Inr (), (stamp l (s\<lparr>s_data := d\<rparr>), v))"
    using cmd node' raft removePeer_follower [OF follower] d(1)
    by (simp add: Apply_def applyDeleteMetaNodeCommand_def store_leave_def)
  show ?thesis using node d(2)
    by (simp add: fsm_step_def l f MetaNode_def) (simp add: find_node_def find_None_iff)
qed

definition two_nodes :: "unit store" where
  "two_nodes = snd (fsm_run A0 L0 decode0 (take 2 leader0) s0)"

theorem replicas_diverge_on_DeleteMetaNode_witness:
  "MetaNode 2 (s_data (snd (fsm_step A0 L0 decode0 (\<lambda>di ri sgi. 0, (True, [''a:8089'', ''b:8089''])) (entry0 5 4) two_nodes))) \<noteq>
   MetaNode 2 (s_data (snd (fsm_step A0 L0 decode0 (\<lambda>di ri sgi. 0, (False, [])) (entry0 5 4) two_nodes)))"
proof -
  let ?n = "\<lparr>ni_ID = 2, ni_Host = ''b:8091'', ni_TCPHost = ''b:8089'', ni_PendingShardOwners = []\<rparr>"
  have "decode0 (l_Data (entry0 5 4)) = Inr (DeleteMetaNodeCommand 2)" by code_simp
  moreover have "MetaNode 2 (s_data two_nodes) = Some ?n" "s_raftState two_nodes = Some raft0" by code_simp+
  moreover have "rs_isLeader L0 raft0 (True, [''a:8089'', ''b:8089''])"
    "rl_Peers L0 (True, [''a:8089'', ''b:8089'']) = Inr [''a:8089'', ''b:8089'']" "\<not> rs_isLeader L0 raft0 (False, [])"
    "rl_RemovePeer L0 (ni_TCPHost ?n) (True, [''a:8089'', ''b:8089'']) = (Inl (RaftErr ''timeout''), (True, [''a:8089'', ''b:8089'']))"
    by (simp_all add: rs_isLeader_def L0_def raft0_def)
  ultimately show ?thesis
    using replicas_diverge_on_DeleteMetaNode [of decode0 "entry0 5 4" 2 two_nodes ?n raft0 L0 "(True, [''a:8089'', ''b:8089''])"
        "[''a:8089'', ''b:8089'']" "RaftErr ''timeout''" "(True, [''a:8089'', ''b:8089''])" "(False, [])" A0 "\<lambda>di ri sgi. 0" "\<lambda>di ri sgi. 0"]
    by simp
qed

section \<open>Snapshots\<close>

text \<open>
  A snapshot is never persisted. \<open>marshal\<close> leaves the field \<open>MaxNodeID\<close> of the message unset, the
  schema declares it required, and a codec that (as protobuf documents) reports an unset required field as
  an error therefore fails for every metadata; \<open>Persist\<close> cancels the sink without writing to it and
  returns the error.
\<close>

theorem Persist_always_fails:
  assumes required_field: "\<And>pb. pb_MaxNodeID pb = None \<Longrightarrow> \<exists>e. pb_Marshal A pb = Inl e"
  shows "\<exists>e. Persist A K (Snapshot s) w = (Inl e, sink_Cancel K w)"
proof -
  obtain e where "pb_Marshal A (marshal (oss_Marshal A) (s_data s)) = Inl e"
    using required_field [of "marshal (oss_Marshal A) (s_data s)"] by (auto simp: marshal_def)
  then show ?thesis by (simp add: Persist_def Snapshot_def MarshalBinary_def)
qed

theorem Persist_always_fails_witness:
  "\<exists>e. Persist A0 \<lparr>sink_Write = (\<lambda>p w. (Inr (), w @ p)), sink_Close = (\<lambda>w. (Inr (), w)), sink_Cancel = (\<lambda>w. [])\<rparr>
     (Snapshot s0) [] = (Inl e, [])"
  using Persist_always_fails [of A0 "\<lparr>sink_Write = (\<lambda>p w. (Inr (), w @ p)), sink_Close = (\<lambda>w. (Inr (), w)), sink_Cancel = (\<lambda>w. [])\<rparr>" s0 "[]"]
  by (simp add: A0_def)

lemma existing_id_absent: "\<not> has_tcp t ns \<Longrightarrow> existing_id t ns = 0"
  using find_None_iff [of "\<lambda>n. ni_TCPHost n = t" ns] by (simp add: existing_id_def has_tcp_def list_ex_iff)

text \<open>
  \<open>Restore\<close> keeps the meta nodes of the snapshot and forgets the data nodes, the users and the ID
  counter, so that the next meta node to join under a new address gets ID 1, even when a restored meta
  node has that ID.
\<close>

theorem Restore_resets_counter:
  assumes "pb_Unmarshal A b = Inr pb" and "Restore A (Inr b) s = (Inr (), s')"
    and "\<not> has_tcp t (map NodeInfo_unmarshal (pb_MetaNodes pb))"
  shows "d_MetaNodes (s_data s') = map NodeInfo_unmarshal (pb_MetaNodes pb) \<and>
    d_DataNodes (s_data s') = [] \<and> d_Users (s_data s') = [] \<and> d_MaxNodeID (s_data s') = 0 \<and>
    mset (d_MetaNodes (snd (CreateMetaNode h t (s_data s')))) =
      add_mset \<lparr>ni_ID = 1, ni_Host = h, ni_TCPHost = t, ni_PendingShardOwners = []\<rparr> (mset (d_MetaNodes (s_data s')))"
proof -
  have d: "s_data s' = unmarshal (oss_Unmarshal A) pb (fresh_Data (oss_Unmarshal A []))"
    using assms(1,2) by (auto simp: Restore_def UnmarshalBinary_def)
  have m: "d_MetaNodes (s_data s') = map NodeInfo_unmarshal (pb_MetaNodes pb)" "d_DataNodes (s_data s') = []"
    "d_Users (s_data s') = []" "d_MaxNodeID (s_data s') = 0"
    by (simp_all add: d unmarshal_def fresh_Data_def)
  have "existing_id t (d_MetaNodes (s_data s')) = 0" using assms(3) by (simp add: m existing_id_absent)
  then have "d_MetaNodes (snd (CreateMetaNode h t (s_data s'))) = NodeInfos_sort (d_MetaNodes (s_data s') @
      [\<lparr>ni_ID = 1, ni_Host = h, ni_TCPHost = t, ni_PendingShardOwners = []\<rparr>])"
    by (simp add: CreateMetaNode_def assign_id_def m has_tcp_def)
  then show ?thesis by (simp add: m NodeInfos_sort_def)
qed

theorem Restore_resets_counter_witness:
  "mset (d_MetaNodes (snd (CreateMetaNode ''b'' ''b:8089'' (s_data (snd (Restore A0 (Inr []) s0)))))) =
   {#\<lparr>ni_ID = 1, ni_Host = ''b'', ni_TCPHost = ''b:8089'', ni_PendingShardOwners = []\<rparr>,
     \<lparr>ni_ID = 1, ni_Host = ''a'', ni_TCPHost = ''a:8089'', ni_PendingShardOwners = []\<rparr>#}"
proof -
  obtain pb where pb: "pb_Unmarshal A0 [] = Inr pb" "map NodeInfo_unmarshal (pb_MetaNodes pb) =
      [\<lparr>ni_ID = 1, ni_Host = ''a'', ni_TCPHost = ''a:8089'', ni_PendingShardOwners = []\<rparr>]"
    by (simp add: A0_def NodeInfo_unmarshal_def)
  have r: "Restore A0 (Inr []) s0 = (Inr (), snd (Restore A0 (Inr []) s0))"
    by (simp add: Restore_def UnmarshalBinary_def pb(1))
  have t: "\<not> has_tcp ''b:8089'' (map NodeInfo_unmarshal (pb_MetaNodes pb))" by (simp add: pb(2) has_tcp_def)
  from Restore_resets_counter [OF pb(1) r t, of "''b''"] show ?thesis by (simp add: pb(2))
qed

section \<open>Round trip of the metadata\<close>

text \<open>
  What the protobuf representation carries: decoding the representation of \<open>data\<close> into any
  receiver restores the open-source data (when its codec round-trips) and every meta node without pending
  shard owners, and leaves the data nodes, users, roles and the ID counter of the receiver in place.
\<close>

theorem unmarshal_marshal:
  assumes "oss_Marshal A (d_Data data) = Inr b" and oss_roundtrip: "oss_Unmarshal A b = d_Data data"
    and "list_all (\<lambda>n. ni_PendingShardOwners n = []) (d_MetaNodes data)"
  shows "unmarshal (oss_Unmarshal A) (marshal (oss_Marshal A) data) receiver =
    receiver\<lparr>d_Data := d_Data data, d_MetaNodes := d_MetaNodes data\<rparr>"
proof -
  have "map (NodeInfo_unmarshal \<circ> (Some \<circ> NodeInfo_marshal)) (d_MetaNodes data) = d_MetaNodes data"
    using assms(3) by (intro map_idI) (auto simp: list_all_iff NodeInfo_unmarshal_def NodeInfo_marshal_def)
  then show ?thesis using assms(1,2) by (simp add: unmarshal_def marshal_def)
qed

theorem unmarshal_marshal_witness:
  "unmarshal (oss_Unmarshal A0) (marshal (oss_Marshal A0) ((fresh_Data od1)\<lparr>d_MetaNodes := [zero_NodeInfo]\<rparr>)) (fresh_Data od1) =
   (fresh_Data od1)\<lparr>d_MetaNodes := [zero_NodeInfo]\<rparr>"
  using unmarshal_marshal [of A0 "(fresh_Data od1)\<lparr>d_MetaNodes := [zero_NodeInfo]\<rparr>" "[]" "fresh_Data od1"]
  by (simp add: A0_def fresh_Data_def zero_NodeInfo_def)

end
