(* ===== verification/Points_Writer.thy ===== *)
theory Points_Writer
  imports Meta_Data "HOL-Library.Multiset"
begin

text \<open>
  The points writer (\<open>src/cluster/points_writer.go\<close>): the mapping of points to shards and the write of
  every shard's points to the local store.

  Points are values of any type \<open>'p\<close> with a time and a hash. The meta client, the store and the shard
  choice of the open-source \<open>ShardGroupInfo\<close> are the record \<open>pw_lib\<close> of functions on a world \<open>'w\<close>. Go
  iterates over a map in any order: the order is the parameter \<open>iter\<close>, a function from the keys to their
  enumeration. The goroutines that write the shards run in any order \<open>sched\<close>; each write is one step. They
  all run to their end, also when \<open>WritePoints\<close> has returned with the error of one of them: the world that
  \<open>WritePoints\<close> gives is the one after the last goroutine.
\<close>

section \<open>Model\<close>

datatype pw_error =
    ErrTimeout | ErrPartialWrite | ErrWriteFailed
  | ErrRPNotFound string | ErrDBNotFound string | ErrShardNotFound | PwErr string | PwPanic

record pw_stats =
  st_WriteReq :: int
  st_PointWriteReq :: int
  st_PointWriteReqLocal :: int
  st_WriteOK :: int
  st_WriteErr :: int
  st_SubWriteOK :: int
  st_SubWriteDrop :: int

record ('p, 'w) pw_lib =
  pw_Time :: "'p \<Rightarrow> int"
  pw_HashID :: "'p \<Rightarrow> u64"
  pw_DefaultRP :: "string \<Rightarrow> 'w \<Rightarrow> string option"
  pw_RetentionPolicy :: "string \<Rightarrow> string \<Rightarrow> 'w \<Rightarrow> pw_error + RetentionPolicyInfo option"
  pw_CreateShardGroup :: "string \<Rightarrow> string \<Rightarrow> int \<Rightarrow> 'w \<Rightarrow> (pw_error + ShardGroupInfo option) \<times> 'w"
  pw_ShardFor :: "ShardGroupInfo \<Rightarrow> u64 \<Rightarrow> ShardInfo option"
  pw_CreateShard :: "string \<Rightarrow> string \<Rightarrow> u64 \<Rightarrow> 'w \<Rightarrow> (pw_error + unit) \<times> 'w"
  pw_WriteToShard :: "u64 \<Rightarrow> 'p list \<Rightarrow> 'w \<Rightarrow> (pw_error + unit) \<times> 'w"

record 'p ShardMapping =
  sm_Points :: "(u64 \<times> 'p list) list"
  sm_Shards :: "(u64 \<times> ShardInfo) list"

definition NewShardMapping :: "'p ShardMapping" where
  "NewShardMapping = \<lparr>sm_Points = [], sm_Shards = []\<rparr>"

definition MapPoint :: "ShardInfo \<Rightarrow> 'p \<Rightarrow> 'p ShardMapping \<Rightarrow> 'p ShardMapping" where
  "MapPoint shardInfo p s =
     s\<lparr>sm_Points := AList.update (si_ID shardInfo)
         (case map_of (sm_Points s) (si_ID shardInfo) of None \<Rightarrow> [p] | Some points \<Rightarrow> points @ [p]) (sm_Points s),
       sm_Shards := AList.update (si_ID shardInfo) shardInfo (sm_Shards s)\<rparr>"

fun time_ranges :: "('p, 'w) pw_lib \<Rightarrow> int \<Rightarrow> 'p list \<Rightarrow> int list \<Rightarrow> int list" where
  "time_ranges P d [] ts = ts"
| "time_ranges P d (p # ps) ts = time_ranges P d ps (List.insert (Truncate (pw_Time P p) d) ts)"

fun create_groups :: "('p, 'w) pw_lib \<Rightarrow> string \<Rightarrow> string \<Rightarrow> int list \<Rightarrow> 'w \<Rightarrow>
    (pw_error + (int \<times> ShardGroupInfo option) list) \<times> 'w" where
  "create_groups P db rp [] w = (Inr [], w)"
| "create_groups P db rp (t # ts) w =
     (case pw_CreateShardGroup P db rp t w of
        (Inl e, w) \<Rightarrow> (Inl e, w)
      | (Inr sg, w) \<Rightarrow>
        (case create_groups P db rp ts w of
           (Inl e, w) \<Rightarrow> (Inl e, w)
         | (Inr sgs, w) \<Rightarrow> (Inr ((t, sg) # sgs), w)))"

text \<open>A nil group, or a group without shards, makes \<open>ShardFor\<close> panic.\<close>

definition shard_of :: "('p, 'w) pw_lib \<Rightarrow> (int \<times> ShardGroupInfo option) list \<Rightarrow> int \<Rightarrow> 'p \<Rightarrow> ShardInfo option" where
  "shard_of P sgs d p = (case map_of sgs (Truncate (pw_Time P p) d) of
     Some (Some sg) \<Rightarrow> pw_ShardFor P sg (pw_HashID P p) | _ \<Rightarrow> None)"

fun map_points :: "('p, 'w) pw_lib \<Rightarrow> (int \<times> ShardGroupInfo option) list \<Rightarrow> int \<Rightarrow> 'p list \<Rightarrow> 'p ShardMapping \<Rightarrow>
    pw_error + 'p ShardMapping" where
  "map_points P sgs d [] m = Inr m"
| "map_points P sgs d (p # ps) m =
     (case shard_of P sgs d p of None \<Rightarrow> Inl PwPanic | Some sh \<Rightarrow> map_points P sgs d ps (MapPoint sh p m))"

definition MapShards :: "('p, 'w) pw_lib \<Rightarrow> (int list \<Rightarrow> int list) \<Rightarrow> string \<Rightarrow> string \<Rightarrow> 'p list \<Rightarrow> 'w \<Rightarrow>
    (pw_error + 'p ShardMapping) \<times> 'w" where
  "MapShards P iter db rpn points w =
     (case pw_RetentionPolicy P db rpn w of
        Inl e \<Rightarrow> (Inl e, w)
      | Inr None \<Rightarrow> (Inl (ErrRPNotFound rpn), w)
      | Inr (Some rp) \<Rightarrow>
        (case create_groups P db rpn (iter (time_ranges P (rp_ShardGroupDuration rp) points [])) w of
           (Inl e, w) \<Rightarrow> (Inl e, w)
         | (Inr sgs, w) \<Rightarrow> (map_points P sgs (rp_ShardGroupDuration rp) points NewShardMapping, w)))"

text \<open>The writer: the subscriber's channel is nil or has a number of free places.\<close>

record PointsWriter =
  w_closed :: bool
  w_WriteTimeout :: int
  w_Subscriber :: "nat option"
  w_subPoints :: "nat option"
  w_stats :: pw_stats

definition zero_stats :: pw_stats where
  "zero_stats = \<lparr>st_WriteReq = 0, st_PointWriteReq = 0, st_PointWriteReqLocal = 0, st_WriteOK = 0, st_WriteErr = 0,
     st_SubWriteOK = 0, st_SubWriteDrop = 0\<rparr>"

definition DefaultWriteTimeout :: int where "DefaultWriteTimeout = 5 * 1000000000"

definition NewPointsWriter :: PointsWriter where
  "NewPointsWriter = \<lparr>w_closed = False, w_WriteTimeout = DefaultWriteTimeout, w_Subscriber = None, w_subPoints = None,
     w_stats = zero_stats\<rparr>"

definition pw_Open :: "PointsWriter \<Rightarrow> PointsWriter" where
  "pw_Open w = (let w = w\<lparr>w_closed := False\<rparr> in
     case w_Subscriber w of None \<Rightarrow> w | Some n \<Rightarrow> w\<lparr>w_subPoints := Some n\<rparr>)"

text \<open>Closing a closed channel panics; \<open>closing\<close> is never nil after \<open>NewPointsWriter\<close>.\<close>

definition pw_Close :: "PointsWriter \<Rightarrow> (pw_error + unit) \<times> PointsWriter" where
  "pw_Close w = (if w_closed w then (Inl PwPanic, w) else (Inr (), w\<lparr>w_closed := True, w_subPoints := None\<rparr>))"

definition count_local :: "nat \<Rightarrow> pw_stats \<Rightarrow> pw_stats" where
  "count_local n st = st\<lparr>st_PointWriteReqLocal := st_PointWriteReqLocal st + int n\<rparr>"

definition count_ok :: "pw_stats \<Rightarrow> pw_stats" where
  "count_ok st = st\<lparr>st_WriteOK := st_WriteOK st + 1\<rparr>"

definition count_err :: "pw_stats \<Rightarrow> pw_stats" where
  "count_err st = st\<lparr>st_WriteErr := st_WriteErr st + 1\<rparr>"

definition writeToShard :: "('p, 'w) pw_lib \<Rightarrow> u64 \<Rightarrow> string \<Rightarrow> string \<Rightarrow> 'p list \<Rightarrow> pw_stats \<times> 'w \<Rightarrow>
    (pw_error + unit) \<times> (pw_stats \<times> 'w)" where
  "writeToShard P sid db rp points stw = (case stw of (st, w) \<Rightarrow>
     let st = count_local (length points) st in
     case pw_WriteToShard P sid points w of
       (Inr u, w) \<Rightarrow> (Inr (), (count_ok st, w))
     | (Inl e, w) \<Rightarrow>
       (case (if e = ErrShardNotFound then pw_CreateShard P db rp sid w else (Inr (), w)) of
          (Inl e, w) \<Rightarrow> (Inl e, (count_err st, w))
        | (Inr u, w) \<Rightarrow>
          (case pw_WriteToShard P sid points w of
             (Inl e, w) \<Rightarrow> (Inl e, (count_err st, w))
           | (Inr u, w) \<Rightarrow> (Inr (), (count_ok st, w)))))"

text \<open>The goroutines of a request, run in the order \<open>sched\<close>; the results arrive in the same order.\<close>

fun write_shards :: "('p, 'w) pw_lib \<Rightarrow> string \<Rightarrow> string \<Rightarrow> (u64 \<times> 'p list) list \<Rightarrow> pw_stats \<times> 'w \<Rightarrow>
    (pw_error + unit) list \<times> (pw_stats \<times> 'w)" where
  "write_shards P db rp [] stw = ([], stw)"
| "write_shards P db rp ((sid, ps) # xs) stw =
     (case writeToShard P sid db rp ps stw of (r, stw) \<Rightarrow>
      case write_shards P db rp xs stw of (rs, stw) \<Rightarrow> (r # rs, stw))"

text \<open>
  The collecting loop. \<open>closeAt\<close> is the number of results received before the closing channel is chosen,
  if it ever is.
\<close>

fun collect :: "nat option \<Rightarrow> (pw_error + unit) list \<Rightarrow> pw_error + unit" where
  "collect c [] = Inr ()"
| "collect (Some 0) (r # rs) = Inl ErrWriteFailed"
| "collect c (r # rs) = (case r of Inl e \<Rightarrow> Inl e | Inr u \<Rightarrow> collect (map_option (\<lambda>n. n - 1) c) rs)"

definition send_subscriber :: "PointsWriter \<Rightarrow> PointsWriter" where
  "send_subscriber w = (case w_subPoints w of
     Some (Suc n) \<Rightarrow> w\<lparr>w_subPoints := Some n, w_stats := (w_stats w)\<lparr>st_SubWriteOK := st_SubWriteOK (w_stats w) + 1\<rparr>\<rparr>
   | _ \<Rightarrow> w\<lparr>w_stats := (w_stats w)\<lparr>st_SubWriteDrop := st_SubWriteDrop (w_stats w) + 1\<rparr>\<rparr>)"

datatype ConsistencyLevel = CLAny | CLOne | CLQuorum | CLAll

definition WritePoints :: "('p, 'w) pw_lib \<Rightarrow> (int list \<Rightarrow> int list) \<Rightarrow> ((u64 \<times> 'p list) list \<Rightarrow> (u64 \<times> 'p list) list) \<Rightarrow>
    nat option \<Rightarrow> string \<Rightarrow> string \<Rightarrow> ConsistencyLevel \<Rightarrow> 'p list \<Rightarrow> PointsWriter \<times> 'w \<Rightarrow>
    (pw_error + unit) \<times> (PointsWriter \<times> 'w)" where
  "WritePoints P iter sched closeAt db rp level points ww = (case ww of (pw, w) \<Rightarrow>
     let st = w_stats pw;
         pw = pw\<lparr>w_stats := st\<lparr>st_WriteReq := st_WriteReq st + 1, st_PointWriteReq := st_PointWriteReq st + int (length points)\<rparr>\<rparr> in
     case (if rp = [] then pw_DefaultRP P db w else Some rp) of
       None \<Rightarrow> (Inl (ErrDBNotFound db), (pw, w))
     | Some rp \<Rightarrow>
       (case MapShards P iter db rp points w of
          (Inl e, w) \<Rightarrow> (Inl e, (pw, w))
        | (Inr m, w) \<Rightarrow>
          (let pw = send_subscriber pw in
           case write_shards P db rp (sched (sm_Points m)) (w_stats pw, w) of
             (rs, (st, w)) \<Rightarrow> (collect closeAt rs, (pw\<lparr>w_stats := st\<rparr>, w)))))"

definition WritePointsInto :: "('p, 'w) pw_lib \<Rightarrow> (int list \<Rightarrow> int list) \<Rightarrow> ((u64 \<times> 'p list) list \<Rightarrow> (u64 \<times> 'p list) list) \<Rightarrow>
    nat option \<Rightarrow> string \<Rightarrow> string \<Rightarrow> 'p list \<Rightarrow> PointsWriter \<times> 'w \<Rightarrow> (pw_error + unit) \<times> (PointsWriter \<times> 'w)" where
  "WritePointsInto P iter sched closeAt db rp points ww = WritePoints P iter sched closeAt db rp CLOne points ww"

section \<open>Mapping of points to shards\<close>

definition bucket :: "'p ShardMapping \<Rightarrow> u64 \<Rightarrow> 'p list" where
  "bucket m sid = (case map_of (sm_Points m) sid of None \<Rightarrow> [] | Some ps \<Rightarrow> ps)"

definition mapping_inv :: "'p ShardMapping \<Rightarrow> bool" where
  "mapping_inv m \<longleftrightarrow> distinct (map fst (sm_Points m)) \<and> list_all (\<lambda>(sid, ps). ps \<noteq> []) (sm_Points m)"

lemma bucket_MapPoint:
  "bucket (MapPoint sh p m) sid = bucket m sid @ (if si_ID sh = sid then [p] else [])"
  by (simp add: bucket_def MapPoint_def update_conv' split: option.splits)

lemma list_all_update:
  "list_all Q al \<Longrightarrow> Q (k, v) \<Longrightarrow> list_all Q (AList.update k v al)"
  by (induction al) auto

lemma mapping_inv_MapPoint: "mapping_inv m \<Longrightarrow> mapping_inv (MapPoint sh p m)"
  unfolding mapping_inv_def MapPoint_def
  by (simp add: distinct_update list_all_update split: option.splits)

lemma map_points_spec:
  assumes "map_points P sgs d points m = Inr m'" "mapping_inv m"
  shows "mapping_inv m' \<and> (\<forall>p \<in> set points. shard_of P sgs d p \<noteq> None) \<and>
    (\<forall>sid. bucket m' sid = bucket m sid @ filter (\<lambda>p. si_ID (the (shard_of P sgs d p)) = sid) points)"
  using assms
proof (induction points arbitrary: m)
  case (Cons p ps)
  from Cons.prems obtain sh where sh: "shard_of P sgs d p = Some sh" "map_points P sgs d ps (MapPoint sh p m) = Inr m'"
    by (auto split: option.splits)
  from Cons.IH [OF sh(2) mapping_inv_MapPoint [OF Cons.prems(2)]] sh(1) show ?case by (simp add: bucket_MapPoint)
qed simp

lemma create_groups_origin:
  assumes "create_groups P db rp ts w = (Inr sgs, w')" "map_of sgs t = Some sg"
  shows "\<exists>w1 w2. pw_CreateShardGroup P db rp t w1 = (Inr sg, w2)"
  using assms
proof (induction ts arbitrary: w sgs)
  case (Cons u us)
  from Cons.prems(1) obtain sg0 v where u: "pw_CreateShardGroup P db rp u w = (Inr sg0, v)"
    by (auto split: prod.splits sum.splits)
  with Cons.prems(1) obtain sgs' where r: "create_groups P db rp us v = (Inr sgs', w')" "sgs = (u, sg0) # sgs'"
    by (auto split: prod.splits sum.splits)
  show ?case
  proof (cases "t = u")
    case True
    with Cons.prems(2) r(2) u show ?thesis by auto
  next
    case False
    with Cons.prems(2) r show ?thesis by (auto intro: Cons.IH)
  qed
qed simp

lemma shard_of_origin:
  assumes "create_groups P db rp ts w = (Inr sgs, w')" "shard_of P sgs d p \<noteq> None"
  shows "\<exists>w1 w2 sg. pw_CreateShardGroup P db rp (Truncate (pw_Time P p) d) w1 = (Inr (Some sg), w2) \<and>
    pw_ShardFor P sg (pw_HashID P p) = Some (the (shard_of P sgs d p))"
proof -
  from assms(2) obtain sg where sg: "map_of sgs (Truncate (pw_Time P p) d) = Some (Some sg)"
    "pw_ShardFor P sg (pw_HashID P p) = Some (the (shard_of P sgs d p))"
    by (auto simp: shard_of_def split: option.splits)
  then show ?thesis using create_groups_origin [OF assms(1) sg(1)] by blast
qed

lemma partition_shards:
  assumes "MapShards P iter db rpn points w = (Inr m, w')"
  shows "\<exists>shard rp. pw_RetentionPolicy P db rpn w = Inr (Some rp) \<and>
    (\<forall>p \<in> set points. \<exists>w1 w2 sg.
       pw_CreateShardGroup P db rpn (Truncate (pw_Time P p) (rp_ShardGroupDuration rp)) w1 = (Inr (Some sg), w2) \<and>
       pw_ShardFor P sg (pw_HashID P p) = Some (shard p)) \<and>
    (\<forall>sid. bucket m sid = filter (\<lambda>p. si_ID (shard p) = sid) points) \<and> mapping_inv m"
proof -
  from assms obtain rp where rp: "pw_RetentionPolicy P db rpn w = Inr (Some rp)"
    by (auto simp: MapShards_def split: sum.splits option.splits)
  let ?d = "rp_ShardGroupDuration rp"
  from assms rp obtain sgs where g: "create_groups P db rpn (iter (time_ranges P ?d points [])) w = (Inr sgs, w')"
    and m: "map_points P sgs ?d points NewShardMapping = Inr m"
    by (auto simp: MapShards_def split: sum.splits prod.splits)
  have "mapping_inv (NewShardMapping :: 'a ShardMapping)" "\<And>sid. bucket (NewShardMapping :: 'a ShardMapping) sid = []"
    by (simp_all add: mapping_inv_def NewShardMapping_def bucket_def)
  with map_points_spec [OF m] have *: "mapping_inv m" "\<forall>p \<in> set points. shard_of P sgs ?d p \<noteq> None"
    "\<forall>sid. bucket m sid = filter (\<lambda>p. si_ID (the (shard_of P sgs ?d p)) = sid) points" by auto
  have "\<forall>p \<in> set points. \<exists>w1 w2 sg. pw_CreateShardGroup P db rpn (Truncate (pw_Time P p) ?d) w1 = (Inr (Some sg), w2) \<and>
      pw_ShardFor P sg (pw_HashID P p) = Some (the (shard_of P sgs ?d p))"
    using shard_of_origin [OF g] *(2) by blast
  with rp * show ?thesis by (intro exI [of _ "\<lambda>p. the (shard_of P sgs ?d p)"] exI [of _ rp]) blast
qed

lemma partition_bucket:
  assumes "MapShards P iter db rpn points w = (Inr m, w')" "p \<in> set points"
  shows "\<exists>sid. p \<in> set (bucket m sid)"
  using partition_shards [OF assms(1)] assms(2) by auto

text \<open>
  C12: A mapping that \<open>MapShards\<close> returns partitions the points of the request: there is a shard for every
  point, chosen by the point's hash in the group that the meta client gave for the point's time range, and
  the entry of a shard ID is exactly the points of that shard, in the order of the request, with no empty
  entries and no ID twice.
\<close>

theorem MapShards_partitions:
  assumes "MapShards P iter db rpn points w = (Inr m, w')"
  shows "\<exists>shard rp. pw_RetentionPolicy P db rpn w = Inr (Some rp) \<and>
    (\<forall>p \<in> set points. \<exists>w1 w2 sg.
       pw_CreateShardGroup P db rpn (Truncate (pw_Time P p) (rp_ShardGroupDuration rp)) w1 = (Inr (Some sg), w2) \<and>
       pw_ShardFor P sg (pw_HashID P p) = Some (shard p)) \<and>
    (\<forall>sid. bucket m sid = filter (\<lambda>p. si_ID (shard p) = sid) points) \<and> mapping_inv m"
  by (rule partition_shards [OF assms])

text \<open>A store of the witnesses: a world is the list of existing shards with their points.\<close>

definition group0 :: "int \<Rightarrow> ShardGroupInfo" where
  "group0 t = \<lparr>sg_ID = 1, sg_StartTime = t, sg_EndTime = t + 100, sg_DeletedAt = 0, sg_Shards =
     (if t = 0 then [\<lparr>si_ID = 1, si_Owners = []\<rparr>, \<lparr>si_ID = 2, si_Owners = []\<rparr>] else [\<lparr>si_ID = 3, si_Owners = []\<rparr>])\<rparr>"

definition P0 :: "(int \<times> u64, (u64 \<times> (int \<times> u64) list) list) pw_lib" where
  "P0 = \<lparr>pw_Time = fst, pw_HashID = snd, pw_DefaultRP = (\<lambda>db w. Some ''rp''),
     pw_RetentionPolicy = (\<lambda>db rp w. Inr (Some \<lparr>rp_Name = rp, rp_ReplicaN = 1, rp_Duration = 0, rp_ShardGroupDuration = 100, rp_ShardGroups = [], rp_Subscriptions = []\<rparr>)),
     pw_CreateShardGroup = (\<lambda>db rp t w. (Inr (Some (group0 t)), w)),
     pw_ShardFor = (\<lambda>sg h. if sg_Shards sg = [] then None else Some (sg_Shards sg ! (unat h mod length (sg_Shards sg)))),
     pw_CreateShard = (\<lambda>db rp sid w. (Inr (), if map_of w sid = None then (sid, []) # w else w)),
     pw_WriteToShard = (\<lambda>sid ps w. case map_of w sid of None \<Rightarrow> (Inl ErrShardNotFound, w)
        | Some qs \<Rightarrow> (Inr (), AList.update sid (qs @ ps) w))\<rparr>"

definition points0 :: "(int \<times> u64) list" where
  "points0 = [(5, 0), (7, 1), (150, 4), (9, 2)]"

theorem MapShards_partitions_witness:
  "map_of (sm_Points (projr (fst (MapShards P0 (\<lambda>ts. ts) ''db'' ''rp'' points0 [])))) 1 = Some [(5, 0), (9, 2)] \<and>
   mapping_inv (projr (fst (MapShards P0 (\<lambda>ts. ts) ''db'' ''rp'' points0 [])))"
proof
  show "map_of (sm_Points (projr (fst (MapShards P0 (\<lambda>ts. ts) ''db'' ''rp'' points0 [])))) 1 = Some [(5, 0), (9, 2)]"
    by code_simp
  have "isl (fst (MapShards P0 (\<lambda>ts. ts) ''db'' ''rp'' points0 [])) = False" by code_simp
  then obtain m where "fst (MapShards P0 (\<lambda>ts. ts) ''db'' ''rp'' points0 []) = Inr m"
    by (cases "fst (MapShards P0 (\<lambda>ts. ts) ''db'' ''rp'' points0 [])") simp_all
  then have m: "MapShards P0 (\<lambda>ts. ts) ''db'' ''rp'' points0 [] = (Inr m, snd (MapShards P0 (\<lambda>ts. ts) ''db'' ''rp'' points0 []))"
    by (simp add: prod_eq_iff)
  from MapShards_partitions [OF m] show "mapping_inv (projr (fst (MapShards P0 (\<lambda>ts. ts) ''db'' ''rp'' points0 [])))"
    using m by (metis fst_conv sum.sel(2))
qed

section \<open>Writing\<close>

text \<open>
  What the store promises, for the set of points \<open>stored w sid\<close> it holds under a shard: a successful write
  stores its points, and neither a write nor the creation of a shard removes stored points.
\<close>

definition durable_store :: "('p, 'w) pw_lib \<Rightarrow> ('w \<Rightarrow> u64 \<Rightarrow> 'p set) \<Rightarrow> bool" where
  "durable_store P stored \<longleftrightarrow>
     (\<forall>sid ps w w'. pw_WriteToShard P sid ps w = (Inr (), w') \<longrightarrow> set ps \<subseteq> stored w' sid) \<and>
     (\<forall>sid ps w r w' i. pw_WriteToShard P sid ps w = (r, w') \<longrightarrow> stored w i \<subseteq> stored w' i) \<and>
     (\<forall>db rp sid w r w' i. pw_CreateShard P db rp sid w = (r, w') \<longrightarrow> stored w i \<subseteq> stored w' i)"

lemma durable_storeD:
  assumes "durable_store P stored"
  shows write_stores: "pw_WriteToShard P sid ps w = (Inr (), w') \<Longrightarrow> set ps \<subseteq> stored w' sid"
    and write_keeps: "pw_WriteToShard P sid ps w = (r, w') \<Longrightarrow> stored w i \<subseteq> stored w' i"
    and create_keeps: "pw_CreateShard P db rp sid w = (r, w') \<Longrightarrow> stored w i \<subseteq> stored w' i"
  using assms unfolding durable_store_def by blast+

lemma collect_ok: "collect c rs = Inr () \<Longrightarrow> list_all (\<lambda>r. r = Inr ()) rs"
  by (induction c rs rule: collect.induct) (auto split: sum.splits)

lemma writeToShard_stores:
  assumes durable: "durable_store P stored"
    and eq: "writeToShard P sid db rp ps (st, w) = (r, (st', w'))"
  shows "(\<forall>i. stored w i \<subseteq> stored w' i) \<and> (r = Inr () \<longrightarrow> set ps \<subseteq> stored w' sid)"
proof -
  obtain r1 w1 where 1: "pw_WriteToShard P sid ps w = (r1, w1)" by (rule prod.exhaust)
  note k1 = write_keeps [OF durable 1]
  show ?thesis
  proof (cases r1)
    case (Inr u)
    with eq 1 have "w' = w1" by (simp add: writeToShard_def Let_def)
    with k1 1 Inr write_stores [OF durable, of sid ps w w1] show ?thesis by auto
  next
    case (Inl e)
    obtain r2 w2 where 2: "(if e = ErrShardNotFound then pw_CreateShard P db rp sid w1 else (Inr (), w1)) = (r2, w2)"
      by (rule prod.exhaust)
    then have k2: "stored w1 i \<subseteq> stored w2 i" for i using create_keeps [OF durable, of db rp sid w1 r2 w2 i] by (auto split: if_splits)
    obtain r3 w3 where 3: "pw_WriteToShard P sid ps w2 = (r3, w3)" by (rule prod.exhaust)
    note k3 = write_keeps [OF durable 3]
    show ?thesis
    proof (cases r2)
      case (Inl e2)
      with eq 1 2 \<open>r1 = Inl e\<close> have "w' = w2" "r = Inl e2" by (simp_all add: writeToShard_def Let_def)
      with k1 k2 show ?thesis by blast
    next
      case (Inr u)
      with eq 1 2 3 \<open>r1 = Inl e\<close> have "w' = w3" "r = Inr () \<longrightarrow> r3 = Inr ()"
        by (auto simp: writeToShard_def Let_def split: sum.splits)
      with k1 k2 k3 3 write_stores [OF durable, of sid ps w2 w3] show ?thesis by blast
    qed
  qed
qed

lemma write_shards_stores:
  assumes durable: "durable_store P stored"
    and "write_shards P db rp xs (st, w) = (rs, (st', w'))"
  shows "(\<forall>i. stored w i \<subseteq> stored w' i) \<and>
    (list_all (\<lambda>r. r = Inr ()) rs \<longrightarrow> (\<forall>(sid, ps) \<in> set xs. set ps \<subseteq> stored w' sid))"
  using assms(2)
proof (induction xs arbitrary: rs st w)
  case (Cons x xs)
  obtain sid ps where x: "x = (sid, ps)" by (cases x)
  obtain r st1 w1 where 1: "writeToShard P sid db rp ps (st, w) = (r, (st1, w1))" by (rule prod_cases3)
  obtain qs st2 w2 where 2: "write_shards P db rp xs (st1, w1) = (qs, (st2, w2))" by (rule prod_cases3)
  from Cons.prems x 1 2 have eq: "rs = r # qs" "w' = w2" "st' = st2" by auto
  note a = writeToShard_stores [OF durable 1]
  note b = Cons.IH [OF 2 [folded eq(2,3)]]
  from b have "set ps \<subseteq> stored w1 sid \<Longrightarrow> set ps \<subseteq> stored w' sid" by blast
  moreover from a b have "\<forall>i. stored w i \<subseteq> stored w' i" by blast
  ultimately show ?case using a b by (simp add: eq(1) x)
qed simp

lemma WritePoints_cases:
  assumes "WritePoints P iter sched closeAt db rp level points (pw, w) = (Inr (), (pw', w'))"
  obtains rp' m w1 rs st st' where "(if rp = [] then pw_DefaultRP P db w else Some rp) = Some rp'"
    "MapShards P iter db rp' points w = (Inr m, w1)"
    "write_shards P db rp' (sched (sm_Points m)) (st, w1) = (rs, (st', w'))" "collect closeAt rs = Inr ()"
proof -
  from assms obtain rp' where rp': "(if rp = [] then pw_DefaultRP P db w else Some rp) = Some rp'"
    by (auto simp: WritePoints_def Let_def split: option.splits)
  obtain q w1 where m: "MapShards P iter db rp' points w = (q, w1)" by (rule prod.exhaust)
  with assms rp' obtain m where q: "q = Inr m" by (cases q) (simp_all add: WritePoints_def Let_def)
  let ?st = "w_stats pw"
  let ?pw = "send_subscriber (pw\<lparr>w_stats := ?st\<lparr>st_WriteReq := st_WriteReq ?st + 1,
      st_PointWriteReq := st_PointWriteReq ?st + int (length points)\<rparr>\<rparr>)"
  obtain rs st' w2 where r: "write_shards P db rp' (sched (sm_Points m)) (w_stats ?pw, w1) = (rs, (st', w2))"
    by (rule prod_cases3)
  from assms rp' m q r have "collect closeAt rs = Inr ()" "w2 = w'" by (simp_all add: WritePoints_def Let_def)
  with that [OF rp' m [unfolded q]] r show ?thesis by blast
qed


definition stored0 :: "(u64 \<times> (int \<times> u64) list) list \<Rightarrow> u64 \<Rightarrow> (int \<times> u64) set" where
  "stored0 w sid = (case map_of w sid of None \<Rightarrow> {} | Some ps \<Rightarrow> set ps)"

lemma durable_P0: "durable_store P0 stored0"
  unfolding durable_store_def P0_def stored0_def
  by (auto simp: update_conv' split: option.splits if_splits)

definition ww0 :: "PointsWriter \<times> (u64 \<times> (int \<times> u64) list) list" where
  "ww0 = (NewPointsWriter, [(2, [])])"


end
