(* ===== verification/Meta_Store.thy ===== *)
theory Meta_Store
  imports Store_FSM_Props
begin

text \<open>
  The meta store (\<open>src/meta/store.go\<close>): opening and closing, the queries, and the operations that send a
  command through raft. \<open>raftApply\<close> stands for \<open>raft.Apply\<close> of the library: it may run the state machine on
  the store and returns the error of the future or the response of the state machine (nil is \<open>None\<close>).
  \<open>enc\<close> stands for setting the extension and marshalling a command. The unfinished \<open>copyShard\<close>,
  \<open>removeShard\<close> and \<open>killCopyShard\<close>, which refer to undefined names, are not modelled.
\<close>

section \<open>Opening and closing\<close>

definition newStore :: "bool \<Rightarrow> string \<Rightarrow> raft_timeouts \<Rightarrow> 'x OssData \<Rightarrow> string \<Rightarrow> string \<Rightarrow> 'x store" where
  "newStore autoCreate dir ts od httpAddr raftAddr =
     \<lparr>s_data = fresh_Data (od\<lparr>o_Index := 1\<rparr>), s_autoCreate = autoCreate, s_raftState = None, s_dataChanged = 0, s_opened = False,
      s_closing = False, s_path = dir, s_raftAddr = raftAddr, s_httpAddr = httpAddr, s_timeouts = ts\<rparr>"

definition setOpen :: "('x, unit) store_op" where
  "setOpen s = (if s_opened s then (Inl ErrStoreOpen, s) else (Inr (), s\<lparr>s_opened := True\<rparr>))"

definition openRaft :: "'w raft_lib \<Rightarrow> 'x store \<times> 'w \<Rightarrow> (meta_error + unit) \<times> ('x store \<times> 'w)" where
  "openRaft L sw = (case sw of (s, w) \<Rightarrow>
     case rs_open L ((newRaftState (s_timeouts s) (s_raftAddr s))\<lparr>rs_path := s_path s\<rparr>, w) of
       (Inl e, (rs, w)) \<Rightarrow> (Inl e, (s, w))
     | (Inr u, (rs, w)) \<Rightarrow> (Inr (), (s\<lparr>s_raftState := Some rs\<rparr>, w)))"

definition store_leader :: "'w raft_lib \<Rightarrow> 'x store \<Rightarrow> 'w \<Rightarrow> string" where
  "store_leader L s w = (case s_raftState s of None \<Rightarrow> [] | Some r \<Rightarrow> if rs_raft r then rl_Leader L w else [])"

text \<open>
  The select of \<open>waitForLeader\<close> as the sequence of the cases it takes, each tick with the leader seen at that
  time. \<open>None\<close> is a sequence after which it still waits.
\<close>

datatype wait_event = EvClosing | EvTimer | EvTick string

fun waitForLeader :: "int \<Rightarrow> wait_event list \<Rightarrow> (meta_error + unit) option" where
  "waitForLeader timeout [] = None"
| "waitForLeader timeout (EvClosing # evs) = Some (Inl (ErrMsg ''closing''))"
| "waitForLeader timeout (EvTimer # evs) =
     (if timeout \<noteq> 0 then Some (Inl (ErrMsg ''timeout'')) else waitForLeader timeout evs)"
| "waitForLeader timeout (EvTick l # evs) = (if l \<noteq> [] then Some (Inr ()) else waitForLeader timeout evs)"

text \<open>
  The loop of \<open>open\<close> for a single peer waits with the election timeout again and again, one event sequence
  per round.
\<close>

fun wait_rounds :: "int \<Rightarrow> wait_event list list \<Rightarrow> unit option" where
  "wait_rounds timeout [] = None"
| "wait_rounds timeout (evs # rest) = (case waitForLeader timeout evs of
     None \<Rightarrow> None | Some (Inr u) \<Rightarrow> Some () | Some (Inl e) \<Rightarrow> wait_rounds timeout rest)"

definition store_open :: "'w raft_lib \<Rightarrow> (string \<Rightarrow> 'w \<Rightarrow> (meta_error + unit) \<times> 'w) \<Rightarrow> wait_event list \<Rightarrow> wait_event list list \<Rightarrow>
    'x store \<times> 'w \<Rightarrow> ((meta_error + unit) \<times> ('x store \<times> 'w)) option" where
  "store_open L mkdirAll evs rounds sw = (case sw of (s, w) \<Rightarrow>
     case setOpen s of
       (Inl e, s) \<Rightarrow> Some (Inl e, (s, w))
     | (Inr u, s) \<Rightarrow>
       (case mkdirAll (s_path s) w of
          (Inl e, w) \<Rightarrow> Some (Inl e, (s, w))
        | (Inr u, w) \<Rightarrow>
          (case openRaft L (s, w) of
             (Inl e, sw) \<Rightarrow> Some (Inl e, sw)
           | (Inr u, sw) \<Rightarrow>
             (case waitForLeader 0 evs of
                None \<Rightarrow> None
              | Some (Inl e) \<Rightarrow> Some (Inl e, sw)
              | Some (Inr u) \<Rightarrow>
                (case rs_peers L (snd sw) of
                   Inl e \<Rightarrow> Some (Inl e, sw)
                 | Inr peers \<Rightarrow>
                   if length peers \<le> 1
                   then map_option (\<lambda>u. (Inr (), sw)) (wait_rounds (rt_ElectionTimeout (s_timeouts s)) rounds)
                   else Some (Inr (), sw))))))"

definition raftOpened :: "'x store \<Rightarrow> bool" where
  "raftOpened s = s_opened s"

text \<open>
  \<open>close\<close> takes the store's mutex: when the caller holds it already, it never returns, which is \<open>None\<close>.
\<close>

definition store_close :: "'w raft_lib \<Rightarrow> bool \<Rightarrow> 'x store \<times> 'w \<Rightarrow> ((meta_error + unit) \<times> ('x store \<times> 'w)) option" where
  "store_close L mu_held sw = (case sw of (s, w) \<Rightarrow>
     if mu_held then None
     else if s_closing s then Some (Inr (), (s, w))
     else (case rs_close L (s_raftState s, w) of
             (r, (rs, w)) \<Rightarrow> Some (r, (s\<lparr>s_closing := True, s_raftState := rs\<rparr>, w))))"

definition store_reset :: "'w raft_lib \<Rightarrow> (string \<Rightarrow> 'w \<Rightarrow> (meta_error + unit) \<times> 'w) \<Rightarrow> (string \<Rightarrow> 'w \<Rightarrow> (meta_error + unit) \<times> 'w) \<Rightarrow>
    ('x store \<times> 'w \<Rightarrow> ((meta_error + unit) \<times> ('x store \<times> 'w)) option) \<Rightarrow>
    'x store \<times> 'w \<Rightarrow> ((meta_error + unit) \<times> ('x store \<times> 'w)) option" where
  "store_reset L rmAll rm reopen sw =
     (case store_close L True sw of
        None \<Rightarrow> None
      | Some (Inl e, sw) \<Rightarrow> Some (Inl e, sw)
      | Some (Inr u, (s, w)) \<Rightarrow>
        (case rmAll (s_path s @ ''/*'') w of
           (Inl e, w) \<Rightarrow> Some (Inl e, (s, w))
         | (Inr u, w) \<Rightarrow>
           (case rm (s_path s @ ''/raft.db'') w of
              (Inl e, w) \<Rightarrow> Some (Inl e, (s, w))
            | (Inr u, w) \<Rightarrow> reopen (s, w))))"

section \<open>Queries\<close>

definition store_peers :: "'w raft_lib \<Rightarrow> 'x store \<Rightarrow> 'w \<Rightarrow> string list" where
  "store_peers L s w = (case s_raftState s of
     None \<Rightarrow> [s_raftAddr s]
   | Some r \<Rightarrow> (case rs_peers L w of Inl e \<Rightarrow> [s_raftAddr s] | Inr peers \<Rightarrow> peers))"

definition ready :: "'w raft_lib \<Rightarrow> 'x store \<Rightarrow> 'w \<Rightarrow> bool" where
  "ready L s w = (length (store_peers L s w) \<ge> 2)"

definition store_snapshot :: "'x oss_lib \<Rightarrow> 'x store \<Rightarrow> 'x Data" where
  "store_snapshot A s = clone_data A s"

definition setSnapshot :: "'x Data \<Rightarrow> 'x store \<Rightarrow> 'x store" where
  "setSnapshot data s = s\<lparr>s_data := data\<rparr>"

text \<open>
  \<open>afterIndex\<close> returns a channel: \<open>None\<close> is a closed one, \<open>Some k\<close> the channel that is closed by the next change
  after the \<open>k\<close>-th.
\<close>

definition afterIndex :: "u64 \<Rightarrow> 'x store \<Rightarrow> nat option" where
  "afterIndex index s = (if index < o_Index (d_Data (s_data s)) then None else Some (s_dataChanged s))"

definition fires :: "'x store \<Rightarrow> nat option \<Rightarrow> bool" where
  "fires s ch = (case ch of None \<Rightarrow> True | Some k \<Rightarrow> k < s_dataChanged s)"

definition store_isLeader :: "'w raft_lib \<Rightarrow> 'x store \<Rightarrow> 'w \<Rightarrow> bool" where
  "store_isLeader L s w = (case s_raftState s of None \<Rightarrow> False | Some r \<Rightarrow> rl_IsLeader L w)"

definition leaderHTTP :: "'w raft_lib \<Rightarrow> 'x store \<Rightarrow> 'w \<Rightarrow> string" where
  "leaderHTTP L s w = (case s_raftState s of
     None \<Rightarrow> []
   | Some r \<Rightarrow> (case List.find (\<lambda>n. ni_TCPHost n = rl_Leader L w) (d_MetaNodes (s_data s)) of
       None \<Rightarrow> [] | Some n \<Rightarrow> ni_Host n))"

definition otherMetaServersHTTP :: "'x store \<Rightarrow> string list" where
  "otherMetaServersHTTP s = map ni_Host (filter (\<lambda>n. ni_TCPHost n \<noteq> s_raftAddr s) (d_MetaNodes (s_data s)))"

definition store_dataNode :: "'x store \<Rightarrow> NodeInfo list" where
  "store_dataNode s = d_DataNodes (s_data s)"

definition dataNodeByTCPHost :: "string \<Rightarrow> 'x store \<Rightarrow> NodeInfo option" where
  "dataNodeByTCPHost tcpHost s = List.find (\<lambda>n. ni_TCPHost n = tcpHost) (d_DataNodes (s_data s))"

definition store_index :: "'x store \<Rightarrow> u64" where
  "store_index s = o_Index (d_Data (s_data s))"

definition nodeByHTTPAddr :: "string \<Rightarrow> 'x store \<Rightarrow> meta_error + NodeInfo" where
  "nodeByHTTPAddr addr s = (case List.find (\<lambda>n. ni_Host n = addr) (d_DataNodes (s_data s)) of
     Some ni \<Rightarrow> Inr ni
   | None \<Rightarrow> (case List.find (\<lambda>n. ni_Host n = addr) (d_MetaNodes (s_data s)) of
       Some ni \<Rightarrow> Inr ni | None \<Rightarrow> Inl ErrNodeNotFound))"

section \<open>Commands through raft\<close>

type_synonym ('x, 'w) raft_apply = "byte list \<Rightarrow> 'x store \<times> 'w \<Rightarrow> (meta_error + meta_error option) \<times> ('x store \<times> 'w)"

definition rs_apply :: "('x, 'w) raft_apply \<Rightarrow> byte list \<Rightarrow> 'x store \<times> 'w \<Rightarrow> (meta_error + unit) \<times> ('x store \<times> 'w)" where
  "rs_apply raftApply b sw = (case raftApply b sw of
     (Inl e, sw) \<Rightarrow> (Inl e, sw)
   | (Inr resp, sw) \<Rightarrow> (case resp of Some err \<Rightarrow> (Inl err, sw) | None \<Rightarrow> (Inr (), sw)))"

definition store_apply :: "('x, 'w) raft_apply \<Rightarrow> byte list \<Rightarrow> 'x store \<times> 'w \<Rightarrow> (meta_error + unit) \<times> ('x store \<times> 'w)" where
  "store_apply raftApply b sw =
     (if s_raftState (fst sw) = None then (Inl (ErrMsg ''store not open''), sw) else rs_apply raftApply b sw)"

definition send_command :: "('x, 'w) raft_apply \<Rightarrow> (command \<Rightarrow> meta_error + byte list) \<Rightarrow> command \<Rightarrow>
    'x store \<times> 'w \<Rightarrow> (meta_error + unit) \<times> ('x store \<times> 'w)" where
  "send_command raftApply enc cmd sw = (case enc cmd of Inl e \<Rightarrow> (Inl e, sw) | Inr b \<Rightarrow> store_apply raftApply b sw)"

definition store_createMetaNode :: "('x, 'w) raft_apply \<Rightarrow> (command \<Rightarrow> meta_error + byte list) \<Rightarrow> u64 \<Rightarrow> string \<Rightarrow> string \<Rightarrow>
    'x store \<times> 'w \<Rightarrow> (meta_error + unit) \<times> ('x store \<times> 'w)" where
  "store_createMetaNode raftApply enc rand addr raftAddr =
     send_command raftApply enc (CreateMetaNodeCommand addr raftAddr rand)"

text \<open>\<open>deleteMetaNode\<close> returns nil when the command cannot be marshalled.\<close>

definition store_deleteMetaNode :: "('x, 'w) raft_apply \<Rightarrow> (command \<Rightarrow> meta_error + byte list) \<Rightarrow> u64 \<Rightarrow>
    'x store \<times> 'w \<Rightarrow> (meta_error + unit) \<times> ('x store \<times> 'w)" where
  "store_deleteMetaNode raftApply enc nid sw =
     (case enc (DeleteMetaNodeCommand nid) of Inl e \<Rightarrow> (Inr (), sw) | Inr b \<Rightarrow> store_apply raftApply b sw)"

definition store_createDataNode :: "('x, 'w) raft_apply \<Rightarrow> (command \<Rightarrow> meta_error + byte list) \<Rightarrow> string \<Rightarrow> string \<Rightarrow>
    'x store \<times> 'w \<Rightarrow> (meta_error + unit) \<times> ('x store \<times> 'w)" where
  "store_createDataNode raftApply enc addr raftAddr = send_command raftApply enc (CreateDataNodeCommand addr raftAddr)"

definition store_deleteDataNode :: "('x, 'w) raft_apply \<Rightarrow> (command \<Rightarrow> meta_error + byte list) \<Rightarrow> u64 \<Rightarrow>
    'x store \<times> 'w \<Rightarrow> (meta_error + unit) \<times> ('x store \<times> 'w)" where
  "store_deleteDataNode raftApply enc nid = send_command raftApply enc (DeleteDataNodeCommand nid)"

definition store_updateDataNode :: "('x, 'w) raft_apply \<Rightarrow> (command \<Rightarrow> meta_error + byte list) \<Rightarrow> u64 \<Rightarrow> string \<Rightarrow> string \<Rightarrow>
    'x store \<times> 'w \<Rightarrow> (meta_error + unit) \<times> ('x store \<times> 'w)" where
  "store_updateDataNode raftApply enc nid host tcpHost = send_command raftApply enc (UpdateDataNodeCommand nid host tcpHost)"

definition store_removePeer :: "'w raft_lib \<Rightarrow> string \<Rightarrow> 'x store \<Rightarrow> 'w \<Rightarrow> (meta_error + unit) \<times> 'w" where
  "store_removePeer L peer s w = (case s_raftState s of
     None \<Rightarrow> (Inl MetaPanic, w) | Some r \<Rightarrow> rs_removePeer L r peer w)"

definition join :: "'w raft_lib \<Rightarrow> ('x, 'w) raft_apply \<Rightarrow> (command \<Rightarrow> meta_error + byte list) \<Rightarrow> u64 \<Rightarrow> NodeInfo \<Rightarrow>
    'x store \<times> 'w \<Rightarrow> (meta_error + NodeInfo) \<times> ('x store \<times> 'w)" where
  "join L raftApply enc rand n sw = (case sw of (s, w) \<Rightarrow>
     if s_raftState s = None then (Inl (ErrMsg ''store not open''), (s, w))
     else case rs_addPeer L (ni_TCPHost n) w of
       (Inl e, w) \<Rightarrow> (Inl e, (s, w))
     | (Inr u, w) \<Rightarrow>
       (case store_createMetaNode raftApply enc rand (ni_Host n) (ni_TCPHost n) (s, w) of
          (Inl e, sw) \<Rightarrow> (Inl e, sw)
        | (Inr u, sw) \<Rightarrow>
          (case List.find (\<lambda>node. ni_TCPHost node = ni_TCPHost n \<and> ni_Host node = ni_Host n) (d_MetaNodes (s_data (fst sw))) of
             Some node \<Rightarrow> (Inr node, sw)
           | None \<Rightarrow> (Inl ErrNodeNotFound, sw))))"

section \<open>Waiting\<close>

lemma waitForLeader_ok: "waitForLeader timeout evs = Some (Inr ()) \<Longrightarrow> \<exists>l. l \<noteq> [] \<and> EvTick l \<in> set evs"
  by (induction timeout evs rule: waitForLeader.induct) (auto split: if_splits)

lemma waitForLeader_forever: "waitForLeader 0 evs = Some (Inl e) \<Longrightarrow> EvClosing \<in> set evs"
  by (induction "0 :: int" evs rule: waitForLeader.induct) (auto split: if_splits)

lemma on_oss_dataChanged: "on_oss A f s = (r, s') \<Longrightarrow> s_dataChanged s' = s_dataChanged s"
  by (auto simp: on_oss_def Let_def split: prod.splits sum.splits)

lemma dispatch_dataChanged:
  assumes "dispatch A L now cmd (s, w) = (r, (s', w'))"
  shows "s_dataChanged s' = s_dataChanged s"
proof (cases cmd)
  case (DeleteMetaNodeCommand i)
  with assms show ?thesis by (auto elim: applyDeleteMetaNode_cases)
next
  case (RemovePeerCommand a)
  with assms show ?thesis by (auto dest: applyRemovePeer_store)
next
  case (CreateDatabaseCommand n p)
  with assms show ?thesis
    by (auto simp: local_def applyCreateDatabaseCommand_def Let_def split: prod.splits sum.splits if_splits)
qed (use assms in \<open>auto simp: oss_handlers clone_handlers local_def applySetDataCommand_def applyCreateMetaNodeCommand_def
    applySetMetaNodeCommand_def applyDeleteDataNodeCommand_def Let_def dest!: on_oss_dataChanged
    split: prod.splits sum.splits\<close>)

text \<open>
  C27: A client that waits on the channel of \<open>afterIndex\<close> misses no change: right after the call the channel
  fires exactly when the store is already past the client's index, and after any entry that the state
  machine applies without a panic it fires.
\<close>

theorem afterIndex_misses_nothing:
  assumes "Apply A L decode now l (s, w) = (r, (s', w'))" and "r \<noteq> Inl MetaPanic"
  shows "(fires s (afterIndex i s) \<longleftrightarrow> i < store_index s) \<and> fires s' (afterIndex i s)"
proof -
  obtain cmd t where d: "dispatch A L now cmd (s, w) = (r, (t, w'))" and s': "s' = stamp l t"
    by (rule Apply_dispatch [OF assms])
  have "s_dataChanged t = s_dataChanged s" by (rule dispatch_dataChanged [OF d])
  then show ?thesis by (auto simp: fires_def afterIndex_def store_index_def s' stamp_def)
qed

theorem afterIndex_misses_nothing_witness:
  "fires (fst (snd (Apply A0 L0 decode0 (\<lambda>di ri sgi. 0) (entry0 7 1) (s0, (True, []))))) (afterIndex 1 s0)"
proof -
  obtain r s' w' where a: "Apply A0 L0 decode0 (\<lambda>di ri sgi. 0) (entry0 7 1) (s0, (True, [])) = (r, (s', w'))" by (rule prod_cases3)
  have "fst (Apply A0 L0 decode0 (\<lambda>di ri sgi. 0) (entry0 7 1) (s0, (True, []))) = Inr ()" by code_simp
  with a have "r \<noteq> Inl MetaPanic" by auto
  from afterIndex_misses_nothing [OF a this] show ?thesis by (simp add: a)
qed

section \<open>Lifecycle\<close>

text \<open>
  \<open>reset\<close> never returns: it calls \<open>close\<close> while it holds the store's mutex, and \<open>close\<close> waits for that
  mutex. Called without it, \<open>close\<close> does return.
\<close>

theorem reset_never_returns:
  "store_reset L rmAll rm reopen sw = None \<and> store_close L False sw \<noteq> None"
  by (auto simp: store_reset_def store_close_def split: prod.splits)

lemma openRaft_opened: "openRaft L (s, w) = (r, (s', w')) \<Longrightarrow> s_opened s' = s_opened s"
  by (auto simp: openRaft_def split: prod.splits sum.splits)

lemma store_open_marks_opened:
  assumes "store_open L mkdirAll evs rounds (s, w) = Some (Inl e, (s', w'))" "\<not> s_opened s"
  shows "s_opened s'"
proof -
  let ?s = "s\<lparr>s_opened := True\<rparr>"
  obtain q w1 where m: "mkdirAll (s_path ?s) w = (q, w1)" by (rule prod.exhaust)
  obtain r t v where o: "openRaft L (?s, w1) = (r, (t, v))" by (rule prod_cases3)
  have t: "s_opened t" using openRaft_opened [OF o] by simp
  have "s' = ?s \<or> s' = t"
    using assms m o by (cases q; cases r)
      (auto simp: store_open_def setOpen_def split: option.splits sum.splits if_splits)
  with t show ?thesis by auto
qed

text \<open>
  A failed \<open>open\<close> leaves the store marked as opened, so that a second attempt fails with \<open>ErrStoreOpen\<close>.
\<close>

lemma reopen_after_failure:
  assumes "store_open L mkdirAll evs rounds (s, w) = Some (Inl e, (s', w'))" "\<not> s_opened s"
  shows "store_open L mkdirAll evs' rounds' (s', w') = Some (Inl ErrStoreOpen, (s', w'))"
  using store_open_marks_opened [OF assms] by (simp add: store_open_def setOpen_def)

section \<open>Joining\<close>

text \<open>
  What \<open>raft.Apply\<close> documents, for a store that no other entry reaches meanwhile: when it returns a
  response, an entry with the given bytes was committed and run on the store, and the response is the one of
  the state machine.
\<close>

definition raft_commits :: "'x oss_lib \<Rightarrow> 'w raft_lib \<Rightarrow> (byte list \<Rightarrow> meta_error + command) \<Rightarrow> ('x, 'w) raft_apply \<Rightarrow> bool" where
  "raft_commits A L decode raftApply \<longleftrightarrow>
     (\<forall>b s w resp s' w'. raftApply b (s, w) = (Inr resp, (s', w')) \<longrightarrow>
        (\<exists>l now v v' r. l_Data l = b \<and> Apply A L decode now l (s, v) = (r, (s', v')) \<and> r \<noteq> Inl MetaPanic \<and>
           r = (case resp of None \<Rightarrow> Inr () | Some e \<Rightarrow> Inl e)))"

lemma CreateMetaNode_registers:
  assumes "\<not> has_tcp t (d_DataNodes data)"
  shows "\<exists>n \<in> set (d_MetaNodes (snd (CreateMetaNode h t data))). ni_TCPHost n = t \<and> ni_Host n = h"
  using assms by (auto simp: CreateMetaNode_def split: prod.splits)

lemma CreateMetaNode_rejected: "has_tcp t (d_DataNodes data) \<Longrightarrow> snd (CreateMetaNode h t data) = data"
  by (simp add: CreateMetaNode_def)

lemma raft_commits_createMetaNode:
  assumes "raft_commits A L decode raftApply" "raftApply b (s, w) = (Inr resp, (s', w'))"
    and "decode b = Inr (CreateMetaNodeCommand h t rand)"
  shows "resp = None \<and> d_MetaNodes (s_data s') = d_MetaNodes (snd (CreateMetaNode h t (clone_data A s)))"
proof -
  from assms(1,2) have "\<exists>l now v v' r. l_Data l = b \<and> Apply A L decode now l (s, v) = (r, (s', v')) \<and> r \<noteq> Inl MetaPanic \<and>
      r = (case resp of None \<Rightarrow> Inr () | Some e \<Rightarrow> Inl e)"
    unfolding raft_commits_def by blast
  then obtain l now v v' r where l: "l_Data l = b" "Apply A L decode now l (s, v) = (r, (s', v'))"
    and r: "r = (case resp of None \<Rightarrow> Inr () | Some e \<Rightarrow> Inl e)" by (elim exE conjE) (rule that)
  with assms(3) have "r = Inr ()" "d_MetaNodes (s_data s') = d_MetaNodes (snd (CreateMetaNode h t (clone_data A s)))"
    by (auto simp: Apply_def local_def applyCreateMetaNodeCommand_def Let_def)
  with r show ?thesis by (cases resp) auto
qed

text \<open>
  C26: \<open>join\<close> end to end: when the store has raft, the peer could be added, the command could be encoded (and
  decodes to itself) and raft returned a response, then \<open>join\<close> returns a registered meta node with the host
  and address of the joining one, unless the address belongs to a data node; in that case the peer has been
  added, the state machine has dropped the command without an error, and \<open>join\<close> answers \<open>ErrNodeNotFound\<close>
  when no meta node had that host and address before. Hypothesis: \<open>raft.Apply\<close> commits what it acknowledges.
\<close>

theorem join_registers_meta_node:
  assumes commits: "raft_commits A L decode raftApply"
    and "s_raftState s = Some rs" and "rs_addPeer L (ni_TCPHost n) w = (Inr (), w1)"
    and "enc (CreateMetaNodeCommand (ni_Host n) (ni_TCPHost n) rand) = Inr b"
    and "decode b = Inr (CreateMetaNodeCommand (ni_Host n) (ni_TCPHost n) rand)"
    and "raftApply b (s, w1) = (Inr resp, (s', w'))"
  shows "if has_tcp (ni_TCPHost n) (d_DataNodes (s_data s))
     then d_MetaNodes (s_data s') = d_MetaNodes (s_data s) \<and>
       (List.find (\<lambda>m. ni_TCPHost m = ni_TCPHost n \<and> ni_Host m = ni_Host n) (d_MetaNodes (s_data s)) = None \<longrightarrow>
          join L raftApply enc rand n (s, w) = (Inl ErrNodeNotFound, (s', w')))
     else \<exists>m \<in> set (d_MetaNodes (s_data s')). ni_TCPHost m = ni_TCPHost n \<and> ni_Host m = ni_Host n \<and>
       join L raftApply enc rand n (s, w) = (Inr m, (s', w'))"
proof -
  note c = raft_commits_createMetaNode [OF commits assms(6,5)]
  have j: "join L raftApply enc rand n (s, w) =
     (case List.find (\<lambda>m. ni_TCPHost m = ni_TCPHost n \<and> ni_Host m = ni_Host n) (d_MetaNodes (s_data s')) of
        Some node \<Rightarrow> (Inr node, (s', w')) | None \<Rightarrow> (Inl ErrNodeNotFound, (s', w')))"
    using assms c by (simp add: join_def store_createMetaNode_def send_command_def store_apply_def rs_apply_def)
  show ?thesis
  proof (cases "has_tcp (ni_TCPHost n) (d_DataNodes (s_data s))")
    case True
    then have "d_MetaNodes (s_data s') = d_MetaNodes (s_data s)" using c by (simp add: CreateMetaNode_rejected)
    with True j show ?thesis by simp
  next
    case False
    then have "\<exists>m \<in> set (d_MetaNodes (s_data s')). ni_TCPHost m = ni_TCPHost n \<and> ni_Host m = ni_Host n"
      using c CreateMetaNode_registers [of "ni_TCPHost n" "clone_data A s" "ni_Host n"] by simp
    then obtain m where "List.find (\<lambda>m. ni_TCPHost m = ni_TCPHost n \<and> ni_Host m = ni_Host n) (d_MetaNodes (s_data s')) = Some m"
      by (cases "List.find (\<lambda>m. ni_TCPHost m = ni_TCPHost n \<and> ni_Host m = ni_Host n) (d_MetaNodes (s_data s'))")
        (auto simp: find_None_iff)
    with False j show ?thesis by (auto simp: find_Some_iff intro!: bexI [of _ m])
  qed
qed

text \<open>A raft that commits every entry on the spot.\<close>

definition raft_apply0 :: "(unit, bool \<times> string list) raft_apply" where
  "raft_apply0 b sw = (case Apply A0 L0 decode0 (\<lambda>di ri sgi. 0) \<lparr>l_Index = 9, l_Term = 1, l_Data = b\<rparr> sw of
     (r, sw') \<Rightarrow> (case r of Inl MetaPanic \<Rightarrow> (Inl (RaftErr ''shutdown''), sw') | Inl e \<Rightarrow> (Inr (Some e), sw') | Inr u \<Rightarrow> (Inr None, sw')))"

definition enc0 :: "command \<Rightarrow> meta_error + byte list" where
  "enc0 cmd = (if cmd = CreateMetaNodeCommand ''b:8091'' ''b:8089'' 6 then Inr [1] else Inl ProtoErr)"

lemma raft_commits0: "raft_commits A0 L0 decode0 raft_apply0"
  unfolding raft_commits_def
proof (intro allI impI)
  fix b s w resp s' w'
  assume a: "raft_apply0 b (s, w) = (Inr resp, (s', w'))"
  let ?l = "\<lparr>l_Index = 9, l_Term = 1, l_Data = b\<rparr>"
  obtain r t v where 1: "Apply A0 L0 decode0 (\<lambda>di ri sgi. 0) ?l (s, w) = (r, (t, v))" by (rule prod_cases3)
  from a 1 have "t = s'" "v = w'" "r \<noteq> Inl MetaPanic" "r = (case resp of None \<Rightarrow> Inr () | Some e \<Rightarrow> Inl e)"
    by (auto simp: raft_apply0_def split: sum.splits meta_error.splits)
  with 1 show "\<exists>l now v v' r. l_Data l = b \<and> Apply A0 L0 decode0 now l (s, v) = (r, (s', v')) \<and> r \<noteq> Inl MetaPanic \<and>
      r = (case resp of None \<Rightarrow> Inr () | Some e \<Rightarrow> Inl e)"
    by (intro exI [of _ ?l] exI [of _ "\<lambda>di ri sgi. 0"] exI [of _ w] exI [of _ w'] exI [of _ r]) simp
qed

definition joining0 :: NodeInfo where
  "joining0 = \<lparr>ni_ID = 0, ni_Host = ''b:8091'', ni_TCPHost = ''b:8089'', ni_PendingShardOwners = []\<rparr>"

theorem join_registers_meta_node_witness:
  "\<exists>m. m \<in> set (d_MetaNodes (s_data (fst (snd (raft_apply0 [1] (s0, (True, [''b:8089''])))))))  \<and> ni_TCPHost m = ''b:8089'' \<and>
     fst (join L0 raft_apply0 enc0 6 joining0 (s0, (True, []))) = Inr m"
proof -
  obtain q s' w' where r: "raft_apply0 [1] (s0, (True, [''b:8089''])) = (q, (s', w'))" by (rule prod_cases3)
  have "fst (raft_apply0 [1] (s0, (True, [''b:8089'']))) = Inr None" by code_simp
  with r have r: "raft_apply0 [1] (s0, (True, [''b:8089''])) = (Inr None, (s', w'))" by simp
  have 1: "s_raftState s0 = Some raft0" "rs_addPeer L0 (ni_TCPHost joining0) (True, []) = (Inr (), (True, [''b:8089'']))"
    "enc0 (CreateMetaNodeCommand (ni_Host joining0) (ni_TCPHost joining0) 6) = Inr [1]"
    "decode0 [1] = Inr (CreateMetaNodeCommand (ni_Host joining0) (ni_TCPHost joining0) 6)"
    "has_tcp (ni_TCPHost joining0) (d_DataNodes (s_data s0)) = False"
    by code_simp+
  from join_registers_meta_node [where enc = enc0 and n = joining0 and rand = 6, OF raft_commits0 1(1-4) r] 1(5) show ?thesis
    by (auto simp: r joining0_def)
qed

end
