(* ===== verification/Rpc.thy ===== *)
theory Rpc
  imports Prelude
begin

text \<open>
  The messages between data nodes (\<open>src/rpc/rpc.go\<close>): setters and getters on the protobuf structs and the
  binary codec of every message. The wire codec of a protobuf struct (\<open>proto.Marshal\<close>, \<open>proto.Unmarshal\<close>),
  the codecs of points, iterator options and sources, and the constructor of a point are parameters; a field
  that was never set is \<open>None\<close>, and getters give the zero value for it. A Go map used as a set is the list of
  its keys; \<open>range\<close> enumerates it in any order, the parameter \<open>iter\<close>.
\<close>

section \<open>Requests to write a shard\<close>

datatype rpc_error = RpcErr string | RpcPanic

record 'p WritePointsRequest =
  wp_Database :: string
  wp_RetentionPolicy :: string
  wp_ConsistencyLevel :: int
  wp_Points :: "'p list"

text \<open>\<open>newPoint\<close> is \<open>models.NewPoint\<close> applied to the arguments of \<open>AddPoint\<close>; its error is dropped.\<close>

definition wp_AddPoint :: "rpc_error + 'p \<Rightarrow> 'p WritePointsRequest \<Rightarrow> 'p WritePointsRequest" where
  "wp_AddPoint newPoint w = (case newPoint of Inl e \<Rightarrow> w | Inr pt \<Rightarrow> w\<lparr>wp_Points := wp_Points w @ [pt]\<rparr>)"

record WriteShardRequest =
  ws_pbShardID :: "u64 option"
  ws_pbDatabase :: "string option"
  ws_pbRetentionPolicy :: "string option"
  ws_pbPoints :: "byte list list"

definition empty_WriteShardRequest :: WriteShardRequest where
  "empty_WriteShardRequest = \<lparr>ws_pbShardID = None, ws_pbDatabase = None, ws_pbRetentionPolicy = None, ws_pbPoints = []\<rparr>"

definition ws_SetShardID :: "u64 \<Rightarrow> WriteShardRequest \<Rightarrow> WriteShardRequest" where
  "ws_SetShardID i w = w\<lparr>ws_pbShardID := Some i\<rparr>"

definition ws_ShardID :: "WriteShardRequest \<Rightarrow> u64" where
  "ws_ShardID w = (case ws_pbShardID w of None \<Rightarrow> 0 | Some i \<Rightarrow> i)"

definition ws_SetDatabase :: "string \<Rightarrow> WriteShardRequest \<Rightarrow> WriteShardRequest" where
  "ws_SetDatabase db w = w\<lparr>ws_pbDatabase := Some db\<rparr>"

definition ws_SetRetentionPolicy :: "string \<Rightarrow> WriteShardRequest \<Rightarrow> WriteShardRequest" where
  "ws_SetRetentionPolicy rp w = w\<lparr>ws_pbRetentionPolicy := Some rp\<rparr>"

definition ws_Database :: "WriteShardRequest \<Rightarrow> string" where
  "ws_Database w = (case ws_pbDatabase w of None \<Rightarrow> [] | Some db \<Rightarrow> db)"

definition ws_RetentionPolicy :: "WriteShardRequest \<Rightarrow> string" where
  "ws_RetentionPolicy w = (case ws_pbRetentionPolicy w of None \<Rightarrow> [] | Some rp \<Rightarrow> rp)"

fun ws_AddPoints :: "('p \<Rightarrow> rpc_error + byte list) \<Rightarrow> 'p list \<Rightarrow> WriteShardRequest \<Rightarrow> rpc_error + WriteShardRequest" where
  "ws_AddPoints marshalPoint [] w = Inr w"
| "ws_AddPoints marshalPoint (p # ps) w =
     (case marshalPoint p of
        Inl e \<Rightarrow> Inl RpcPanic
      | Inr b \<Rightarrow> ws_AddPoints marshalPoint ps (w\<lparr>ws_pbPoints := ws_pbPoints w @ [b]\<rparr>))"

definition ws_AddPoint :: "('p \<Rightarrow> rpc_error + byte list) \<Rightarrow> rpc_error + 'p \<Rightarrow> WriteShardRequest \<Rightarrow> rpc_error + WriteShardRequest" where
  "ws_AddPoint marshalPoint newPoint w =
     (case newPoint of Inl e \<Rightarrow> Inr w | Inr pt \<Rightarrow> ws_AddPoints marshalPoint [pt] w)"

fun parse_points :: "(byte list \<Rightarrow> rpc_error + 'p) \<Rightarrow> byte list list \<Rightarrow> rpc_error + 'p list" where
  "parse_points parsePoint [] = Inr []"
| "parse_points parsePoint (b # bs) =
     (case parsePoint b of
        Inl e \<Rightarrow> Inl RpcPanic
      | Inr pt \<Rightarrow> (case parse_points parsePoint bs of Inl e \<Rightarrow> Inl e | Inr pts \<Rightarrow> Inr (pt # pts)))"

definition ws_unmarshalPoints :: "(byte list \<Rightarrow> rpc_error + 'p) \<Rightarrow> WriteShardRequest \<Rightarrow> rpc_error + 'p list" where
  "ws_unmarshalPoints parsePoint w = parse_points parsePoint (ws_pbPoints w)"

definition ws_Points :: "(byte list \<Rightarrow> rpc_error + 'p) \<Rightarrow> WriteShardRequest \<Rightarrow> rpc_error + 'p list" where
  "ws_Points parsePoint w = ws_unmarshalPoints parsePoint w"

text \<open>The codec of a message that is one protobuf struct.\<close>

definition pb_MarshalBinary :: "('m \<Rightarrow> rpc_error + byte list) \<Rightarrow> 'm \<Rightarrow> rpc_error + byte list" where
  "pb_MarshalBinary protoMarshal m = protoMarshal m"

definition pb_UnmarshalBinary :: "(byte list \<Rightarrow> rpc_error + 'm) \<Rightarrow> byte list \<Rightarrow> 'm \<Rightarrow> (rpc_error + unit) \<times> 'm" where
  "pb_UnmarshalBinary protoUnmarshal buf m = (case protoUnmarshal buf of Inl e \<Rightarrow> (Inl e, m) | Inr m' \<Rightarrow> (Inr (), m'))"

definition ws_MarshalBinary :: "(WriteShardRequest \<Rightarrow> rpc_error + byte list) \<Rightarrow> WriteShardRequest \<Rightarrow> rpc_error + byte list" where
  "ws_MarshalBinary = pb_MarshalBinary"

definition ws_UnmarshalBinary :: "(byte list \<Rightarrow> rpc_error + WriteShardRequest) \<Rightarrow> byte list \<Rightarrow> WriteShardRequest \<Rightarrow>
    (rpc_error + unit) \<times> WriteShardRequest" where
  "ws_UnmarshalBinary = pb_UnmarshalBinary"

section \<open>Responses\<close>

text \<open>\<open>int32(code)\<close> keeps the low 32 bits.\<close>

definition to_i32 :: "int \<Rightarrow> int" where
  "to_i32 x = signed_take_bit 31 x"

record WriteShardResponse =
  wr_pbCode :: "int option"
  wr_pbMessage :: "string option"

definition empty_WriteShardResponse :: WriteShardResponse where
  "empty_WriteShardResponse = \<lparr>wr_pbCode = None, wr_pbMessage = None\<rparr>"

definition wr_SetCode :: "int \<Rightarrow> WriteShardResponse \<Rightarrow> WriteShardResponse" where
  "wr_SetCode code w = w\<lparr>wr_pbCode := Some (to_i32 code)\<rparr>"

definition wr_SetMessage :: "string \<Rightarrow> WriteShardResponse \<Rightarrow> WriteShardResponse" where
  "wr_SetMessage message w = w\<lparr>wr_pbMessage := Some message\<rparr>"

definition wr_Code :: "WriteShardResponse \<Rightarrow> int" where
  "wr_Code w = (case wr_pbCode w of None \<Rightarrow> 0 | Some c \<Rightarrow> c)"

definition wr_Message :: "WriteShardResponse \<Rightarrow> string" where
  "wr_Message w = (case wr_pbMessage w of None \<Rightarrow> [] | Some m \<Rightarrow> m)"

definition wr_MarshalBinary :: "(WriteShardResponse \<Rightarrow> rpc_error + byte list) \<Rightarrow> WriteShardResponse \<Rightarrow> rpc_error + byte list" where
  "wr_MarshalBinary = pb_MarshalBinary"

definition wr_UnmarshalBinary :: "(byte list \<Rightarrow> rpc_error + WriteShardResponse) \<Rightarrow> byte list \<Rightarrow> WriteShardResponse \<Rightarrow>
    (rpc_error + unit) \<times> WriteShardResponse" where
  "wr_UnmarshalBinary = pb_UnmarshalBinary"

section \<open>Statements\<close>

record ExecuteStatementRequest =
  es_pbStatement :: "string option"
  es_pbDatabase :: "string option"

definition es_Statement :: "ExecuteStatementRequest \<Rightarrow> string" where
  "es_Statement r = (case es_pbStatement r of None \<Rightarrow> [] | Some s \<Rightarrow> s)"

definition es_SetStatement :: "string \<Rightarrow> ExecuteStatementRequest \<Rightarrow> ExecuteStatementRequest" where
  "es_SetStatement statement r = r\<lparr>es_pbStatement := Some statement\<rparr>"

definition es_Database :: "ExecuteStatementRequest \<Rightarrow> string" where
  "es_Database r = (case es_pbDatabase r of None \<Rightarrow> [] | Some d \<Rightarrow> d)"

definition es_SetDatabase :: "string \<Rightarrow> ExecuteStatementRequest \<Rightarrow> ExecuteStatementRequest" where
  "es_SetDatabase database r = r\<lparr>es_pbDatabase := Some database\<rparr>"

definition es_MarshalBinary :: "(ExecuteStatementRequest \<Rightarrow> rpc_error + byte list) \<Rightarrow> ExecuteStatementRequest \<Rightarrow> rpc_error + byte list" where
  "es_MarshalBinary = pb_MarshalBinary"

definition es_UnmarshalBinary :: "(byte list \<Rightarrow> rpc_error + ExecuteStatementRequest) \<Rightarrow> byte list \<Rightarrow> ExecuteStatementRequest \<Rightarrow>
    (rpc_error + unit) \<times> ExecuteStatementRequest" where
  "es_UnmarshalBinary = pb_UnmarshalBinary"

text \<open>\<open>ExecuteStatementResponse\<close> wraps the same protobuf struct as \<open>WriteShardResponse\<close> with the same methods.\<close>

type_synonym ExecuteStatementResponse = WriteShardResponse

definition er_SetCode :: "int \<Rightarrow> ExecuteStatementResponse \<Rightarrow> ExecuteStatementResponse" where
  "er_SetCode code w = w\<lparr>wr_pbCode := Some (to_i32 code)\<rparr>"

definition er_SetMessage :: "string \<Rightarrow> ExecuteStatementResponse \<Rightarrow> ExecuteStatementResponse" where
  "er_SetMessage message w = w\<lparr>wr_pbMessage := Some message\<rparr>"

definition er_Code :: "ExecuteStatementResponse \<Rightarrow> int" where
  "er_Code w = (case wr_pbCode w of None \<Rightarrow> 0 | Some c \<Rightarrow> c)"

definition er_Message :: "ExecuteStatementResponse \<Rightarrow> string" where
  "er_Message w = (case wr_pbMessage w of None \<Rightarrow> [] | Some m \<Rightarrow> m)"

definition er_MarshalBinary :: "(ExecuteStatementResponse \<Rightarrow> rpc_error + byte list) \<Rightarrow> ExecuteStatementResponse \<Rightarrow> rpc_error + byte list" where
  "er_MarshalBinary = pb_MarshalBinary"

definition er_UnmarshalBinary :: "(byte list \<Rightarrow> rpc_error + ExecuteStatementResponse) \<Rightarrow> byte list \<Rightarrow> ExecuteStatementResponse \<Rightarrow>
    (rpc_error + unit) \<times> ExecuteStatementResponse" where
  "er_UnmarshalBinary = pb_UnmarshalBinary"

section \<open>Iterators and field dimensions\<close>

record 'o CreateIteratorRequest =
  ci_ShardIDs :: "u64 list"
  ci_Opt :: 'o

record CreateIteratorRequest_pb =
  cipb_ShardIDs :: "u64 list"
  cipb_Opt :: "byte list"

definition ci_MarshalBinary :: "('o \<Rightarrow> rpc_error + byte list) \<Rightarrow> (CreateIteratorRequest_pb \<Rightarrow> rpc_error + byte list) \<Rightarrow>
    'o CreateIteratorRequest \<Rightarrow> rpc_error + byte list" where
  "ci_MarshalBinary marshalOpt protoMarshal r = (case marshalOpt (ci_Opt r) of
     Inl e \<Rightarrow> Inl e
   | Inr buf \<Rightarrow> protoMarshal \<lparr>cipb_ShardIDs = ci_ShardIDs r, cipb_Opt = buf\<rparr>)"

definition ci_UnmarshalBinary :: "(byte list \<Rightarrow> rpc_error + 'o) \<Rightarrow> (byte list \<Rightarrow> rpc_error + CreateIteratorRequest_pb) \<Rightarrow>
    byte list \<Rightarrow> 'o CreateIteratorRequest \<Rightarrow> (rpc_error + unit) \<times> 'o CreateIteratorRequest" where
  "ci_UnmarshalBinary unmarshalOpt protoUnmarshal data r = (case protoUnmarshal data of
     Inl e \<Rightarrow> (Inl e, r)
   | Inr pb \<Rightarrow>
     (let r = r\<lparr>ci_ShardIDs := cipb_ShardIDs pb\<rparr> in
      case unmarshalOpt (cipb_Opt pb) of Inl e \<Rightarrow> (Inl e, r) | Inr opt \<Rightarrow> (Inr (), r\<lparr>ci_Opt := opt\<rparr>)))"

text \<open>An error travels as its message: \<open>Some m\<close> is an error whose \<open>Error()\<close> is \<open>m\<close>.\<close>

record CreateIteratorResponse =
  cr_Err :: "string option"

definition cr_MarshalBinary :: "(string option \<Rightarrow> rpc_error + byte list) \<Rightarrow> CreateIteratorResponse \<Rightarrow> rpc_error + byte list" where
  "cr_MarshalBinary protoMarshal r = protoMarshal (cr_Err r)"

definition cr_UnmarshalBinary :: "(byte list \<Rightarrow> rpc_error + string option) \<Rightarrow> byte list \<Rightarrow> CreateIteratorResponse \<Rightarrow>
    (rpc_error + unit) \<times> CreateIteratorResponse" where
  "cr_UnmarshalBinary protoUnmarshal data r = (case protoUnmarshal data of
     Inl e \<Rightarrow> (Inl e, r)
   | Inr pbErr \<Rightarrow> (Inr (), (case pbErr of None \<Rightarrow> r | Some m \<Rightarrow> r\<lparr>cr_Err := Some m\<rparr>)))"

record 's FieldDimensionsRequest =
  fq_ShardIDs :: "u64 list"
  fq_Sources :: 's

record FieldDimensionsRequest_pb =
  fqpb_ShardIDs :: "u64 list"
  fqpb_Sources :: "byte list"

definition fq_MarshalBinary :: "('s \<Rightarrow> rpc_error + byte list) \<Rightarrow> (FieldDimensionsRequest_pb \<Rightarrow> rpc_error + byte list) \<Rightarrow>
    's FieldDimensionsRequest \<Rightarrow> rpc_error + byte list" where
  "fq_MarshalBinary marshalSources protoMarshal r = (case marshalSources (fq_Sources r) of
     Inl e \<Rightarrow> Inl e
   | Inr buf \<Rightarrow> protoMarshal \<lparr>fqpb_ShardIDs = fq_ShardIDs r, fqpb_Sources = buf\<rparr>)"

definition fq_UnmarshalBinary :: "(byte list \<Rightarrow> rpc_error + 's) \<Rightarrow> (byte list \<Rightarrow> rpc_error + FieldDimensionsRequest_pb) \<Rightarrow>
    byte list \<Rightarrow> 's FieldDimensionsRequest \<Rightarrow> (rpc_error + unit) \<times> 's FieldDimensionsRequest" where
  "fq_UnmarshalBinary unmarshalSources protoUnmarshal data r = (case protoUnmarshal data of
     Inl e \<Rightarrow> (Inl e, r)
   | Inr pb \<Rightarrow>
     (let r = r\<lparr>fq_ShardIDs := fqpb_ShardIDs pb\<rparr> in
      case unmarshalSources (fqpb_Sources pb) of Inl e \<Rightarrow> (Inl e, r) | Inr src \<Rightarrow> (Inr (), r\<lparr>fq_Sources := src\<rparr>)))"

record FieldDimensionsResponse =
  fd_Fields :: "string list"
  fd_Dimensions :: "string list"
  fd_Err :: "string option"

definition fd_MarshalBinary :: "(string list \<Rightarrow> string list) \<Rightarrow> (FieldDimensionsResponse \<Rightarrow> rpc_error + byte list) \<Rightarrow>
    FieldDimensionsResponse \<Rightarrow> rpc_error + byte list" where
  "fd_MarshalBinary iter protoMarshal r =
     protoMarshal \<lparr>fd_Fields = iter (fd_Fields r), fd_Dimensions = iter (fd_Dimensions r), fd_Err = fd_Err r\<rparr>"

definition to_set :: "string list \<Rightarrow> string list" where
  "to_set ks = foldl (\<lambda>m k. List.insert k m) [] ks"

definition fd_UnmarshalBinary :: "(byte list \<Rightarrow> rpc_error + FieldDimensionsResponse) \<Rightarrow> byte list \<Rightarrow> FieldDimensionsResponse \<Rightarrow>
    (rpc_error + unit) \<times> FieldDimensionsResponse" where
  "fd_UnmarshalBinary protoUnmarshal data r = (case protoUnmarshal data of
     Inl e \<Rightarrow> (Inl e, r)
   | Inr pb \<Rightarrow>
     (let r = r\<lparr>fd_Fields := to_set (fd_Fields pb), fd_Dimensions := to_set (fd_Dimensions pb)\<rparr> in
      (Inr (), (case fd_Err pb of None \<Rightarrow> r | Some m \<Rightarrow> r\<lparr>fd_Err := Some m\<rparr>))))"

section \<open>Joining the cluster\<close>

record JoinClusterRequest =
  jc_NodeID :: u64
  jc_NodeAddr :: string
  jc_MetaAddrs :: "string list"

record JoinClusterRequest_pb =
  jcpb_NodeID :: "u64 option"
  jcpb_NodeAddr :: "string option"
  jcpb_MetaAddrs :: "string list"
  jcpb_ImportMetaData :: "string option"

text \<open>Writing \<open>pb.MetaAddrs[i]\<close> for a nil slice panics.\<close>

fun set_addrs :: "nat \<Rightarrow> string list \<Rightarrow> string list \<Rightarrow> rpc_error + string list" where
  "set_addrs i [] xs = Inr xs"
| "set_addrs i (a # as) xs = (if i < length xs then set_addrs (Suc i) as (xs[i := a]) else Inl RpcPanic)"

definition jc_MarshalBinary :: "(JoinClusterRequest_pb \<Rightarrow> rpc_error + byte list) \<Rightarrow> JoinClusterRequest \<Rightarrow> rpc_error + byte list" where
  "jc_MarshalBinary protoMarshal jc = (case set_addrs 0 (jc_MetaAddrs jc) [] of
     Inl e \<Rightarrow> Inl e
   | Inr addrs \<Rightarrow> protoMarshal \<lparr>jcpb_NodeID = Some (jc_NodeID jc), jcpb_NodeAddr = Some (jc_NodeAddr jc),
       jcpb_MetaAddrs = addrs, jcpb_ImportMetaData = None\<rparr>)"

definition jc_UnmarshalBinary :: "(byte list \<Rightarrow> rpc_error + JoinClusterRequest_pb) \<Rightarrow> byte list \<Rightarrow> JoinClusterRequest \<Rightarrow>
    (rpc_error + unit) \<times> JoinClusterRequest" where
  "jc_UnmarshalBinary protoUnmarshal data jc = (case protoUnmarshal data of
     Inl e \<Rightarrow> (Inl e, jc)
   | Inr pb \<Rightarrow> (Inr (), \<lparr>jc_NodeID = (case jcpb_NodeID pb of None \<Rightarrow> 0 | Some i \<Rightarrow> i),
       jc_NodeAddr = (case jcpb_NodeAddr pb of None \<Rightarrow> [] | Some a \<Rightarrow> a), jc_MetaAddrs = jcpb_MetaAddrs pb\<rparr>))"

section \<open>Round trips\<close>

lemma to_i32_id: "- (2 ^ 31) \<le> x \<Longrightarrow> x < 2 ^ 31 \<Longrightarrow> to_i32 x = x"
  by (simp add: to_i32_def signed_take_bit_int_eq_self)

lemma wr_Code_SetCode: "- (2 ^ 31) \<le> c \<Longrightarrow> c < 2 ^ 31 \<Longrightarrow> wr_Code (wr_SetCode c w) = c"
  by (simp add: wr_Code_def wr_SetCode_def to_i32_id)

lemma set_to_set: "set (to_set ks) = set ks"
proof -
  have "set (foldl (\<lambda>m k. List.insert k m) m ks) = set m \<union> set ks" for m
    by (induction ks arbitrary: m) auto
  then show ?thesis by (simp add: to_set_def)
qed

lemma ws_AddPoints_spec:
  assumes "\<And>p. p \<in> set ps \<Longrightarrow> marshalPoint p = Inr (enc p)"
  shows "ws_AddPoints marshalPoint ps w = Inr (w\<lparr>ws_pbPoints := ws_pbPoints w @ map enc ps\<rparr>)"
  using assms by (induction ps arbitrary: w) simp_all

lemma parse_points_spec:
  assumes "\<And>p. p \<in> set ps \<Longrightarrow> parsePoint (enc p) = Inr p"
  shows "parse_points parsePoint (map enc ps) = Inr ps"
  using assms by (induction ps) simp_all

text \<open>
  C23: A request to write a shard arrives as it was built: after setting the shard, database and policy and
  adding points that can be encoded, encoding and decoding the message into any receiver gives back the shard
  ID, database, policy and exactly those points in order. Hypotheses: a point that was encoded parses to
  itself and the protobuf codec round-trips.
\<close>

theorem WriteShardRequest_roundtrip:
  assumes point_roundtrip: "\<And>p. p \<in> set ps \<Longrightarrow> marshalPoint p = Inr (enc p) \<and> parsePoint (enc p) = Inr p"
    and proto_roundtrip: "\<And>m b. protoMarshal m = Inr b \<Longrightarrow> protoUnmarshal b = Inr m"
    and "ws_AddPoints marshalPoint ps (ws_SetRetentionPolicy rp (ws_SetDatabase db (ws_SetShardID i empty_WriteShardRequest))) = Inr w"
    and "ws_MarshalBinary protoMarshal w = Inr b"
  shows "\<exists>w'. ws_UnmarshalBinary protoUnmarshal b receiver = (Inr (), w') \<and> ws_ShardID w' = i \<and> ws_Database w' = db \<and>
    ws_RetentionPolicy w' = rp \<and> ws_Points parsePoint w' = Inr ps"
proof -
  have w: "w = (ws_SetRetentionPolicy rp (ws_SetDatabase db (ws_SetShardID i empty_WriteShardRequest)))\<lparr>ws_pbPoints := map enc ps\<rparr>"
    using assms(3) ws_AddPoints_spec [of ps marshalPoint enc] point_roundtrip
    by (simp add: ws_SetRetentionPolicy_def ws_SetDatabase_def ws_SetShardID_def empty_WriteShardRequest_def)
  have "parse_points parsePoint (map enc ps) = Inr ps" by (rule parse_points_spec) (simp add: point_roundtrip)
  then have "ws_ShardID w = i \<and> ws_Database w = db \<and> ws_RetentionPolicy w = rp \<and> ws_Points parsePoint w = Inr ps"
    by (simp add: w ws_SetRetentionPolicy_def ws_SetDatabase_def ws_SetShardID_def ws_ShardID_def ws_Database_def
        ws_RetentionPolicy_def ws_Points_def ws_unmarshalPoints_def)
  moreover have "protoUnmarshal b = Inr w" using assms(4) proto_roundtrip by (simp add: ws_MarshalBinary_def pb_MarshalBinary_def)
  ultimately show ?thesis by (simp add: ws_UnmarshalBinary_def pb_UnmarshalBinary_def)
qed

definition ws0 :: WriteShardRequest where
  "ws0 = \<lparr>ws_pbShardID = Some 5, ws_pbDatabase = Some ''db'', ws_pbRetentionPolicy = Some ''rp'', ws_pbPoints = [[7], [8]]\<rparr>"

theorem WriteShardRequest_roundtrip_witness:
  "\<exists>w'. ws_UnmarshalBinary (\<lambda>b. if b = [1] then Inr ws0 else Inl (RpcErr [])) [1] empty_WriteShardRequest = (Inr (), w') \<and>
     ws_ShardID w' = 5 \<and> ws_Database w' = ''db'' \<and> ws_RetentionPolicy w' = ''rp'' \<and> ws_Points (\<lambda>b. Inr (hd b)) w' = Inr [7, 8]"
proof (rule WriteShardRequest_roundtrip [where marshalPoint = "\<lambda>p. Inr [p]" and enc = "\<lambda>p. [p]" and
      protoMarshal = "\<lambda>m. if m = ws0 then Inr [1] else Inl (RpcErr [])" and w = ws0])
  show "ws_AddPoints (\<lambda>p. Inr [p]) [7, 8] (ws_SetRetentionPolicy ''rp'' (ws_SetDatabase ''db'' (ws_SetShardID 5 empty_WriteShardRequest))) = Inr ws0"
    by (simp add: ws0_def ws_SetRetentionPolicy_def ws_SetDatabase_def ws_SetShardID_def empty_WriteShardRequest_def)
qed (auto simp: ws_MarshalBinary_def pb_MarshalBinary_def split: if_splits)

lemma FieldDimensionsResponse_roundtrip:
  assumes proto_roundtrip: "\<And>m b. protoMarshal m = Inr b \<Longrightarrow> protoUnmarshal b = Inr m"
    and iter: "\<And>ks. set (iter ks) = set ks"
    and "fd_MarshalBinary iter protoMarshal r = Inr b"
  shows "\<exists>r'. fd_UnmarshalBinary protoUnmarshal b receiver = (Inr (), r') \<and> set (fd_Fields r') = set (fd_Fields r) \<and>
    set (fd_Dimensions r') = set (fd_Dimensions r) \<and> fd_Err r' = (if fd_Err r = None then fd_Err receiver else fd_Err r)"
  using assms(3) proto_roundtrip [of "\<lparr>fd_Fields = iter (fd_Fields r), fd_Dimensions = iter (fd_Dimensions r), fd_Err = fd_Err r\<rparr>" b]
  by (auto simp: fd_MarshalBinary_def fd_UnmarshalBinary_def Let_def set_to_set iter split: option.splits)

lemma CreateIteratorRequest_roundtrip:
  assumes proto_roundtrip: "\<And>m b. protoMarshal m = Inr b \<Longrightarrow> protoUnmarshal b = Inr m"
    and opt_roundtrip: "\<And>opt b. marshalOpt opt = Inr b \<Longrightarrow> unmarshalOpt b = Inr opt"
    and "ci_MarshalBinary marshalOpt protoMarshal r = Inr b"
  shows "ci_UnmarshalBinary unmarshalOpt protoUnmarshal b receiver = (Inr (), r)"
proof -
  obtain ob where o: "marshalOpt (ci_Opt r) = Inr ob" using assms(3) by (auto simp: ci_MarshalBinary_def split: sum.splits)
  with assms(3) have "protoUnmarshal b = Inr \<lparr>cipb_ShardIDs = ci_ShardIDs r, cipb_Opt = ob\<rparr>"
    by (simp add: ci_MarshalBinary_def proto_roundtrip)
  then show ?thesis by (simp add: ci_UnmarshalBinary_def opt_roundtrip [OF o])
qed

lemma JoinClusterRequest_panics: "jc_MetaAddrs jc \<noteq> [] \<Longrightarrow> jc_MarshalBinary protoMarshal jc = Inl RpcPanic"
  by (cases "jc_MetaAddrs jc") (simp_all add: jc_MarshalBinary_def)

end
