(* ===== verification/Cluster_Service.thy ===== *)
theory Cluster_Service
  imports Rpc Tlv
begin

text \<open>
  The service of a data node that serves the other nodes (\<open>src/cluster/service.go\<close>): the accept loop, the
  loop over the messages of a connection, and the handlers of the requests. A connection is the bytes still to
  be read, which end where the peer or the closing service closes it, and the writer for the answers. The
  store, the codecs, the numbers of the message types and \<open>processExecuteStatementRequest\<close> (the last two are
  referred to by the sources and not defined there) are the record \<open>cs_lib\<close> of parameters. \<open>writeShardResponse\<close>
  is declared without parameters; its body and its calls give it the connection and the error, and so does the
  model. Logging is left out.
\<close>

section \<open>Model\<close>

datatype cs_error =
    CsErr string
  | ErrShardNotFound
  | CsRpc rpc_error
  | CsTlv "rpc_error tlv_error"
  | ErrCreateShard u64 cs_error
  | ErrWriteShard u64 cs_error
  | ErrNotAcrossCluster string

datatype ('s, 'c) statement =
    DropDatabaseStatement string
  | DropMeasurementStatement string
  | DropSeriesStatement 's 'c
  | DropRetentionPolicyStatement string
  | OtherStatement string

record cs_stats =
  cs_writeShardReq :: int
  cs_writeShardPointsReq :: int
  cs_writeShardFail :: int
  cs_createIteratorReq :: int
  cs_fieldDimensionsReq :: int

record ('p, 'o, 's, 'ic, 'i, 'w) cs_lib =
  cs_writeShardRequestMessage :: byte
  cs_writeShardResponseMessage :: byte
  cs_executeStatementRequestMessage :: byte
  cs_createIteratorRequestMessage :: byte
  cs_createIteratorResponseMessage :: byte
  cs_fieldDimensionsRequestMessage :: byte
  cs_fieldDimensionsResponseMessage :: byte
  cs_unmarshalWriteShard :: "byte list \<Rightarrow> rpc_error + WriteShardRequest"
  cs_marshalResponse :: "WriteShardResponse \<Rightarrow> rpc_error + byte list"
  cs_decodeCreateIterator :: "byte list \<Rightarrow> rpc_error + 'o CreateIteratorRequest"
  cs_marshalCreateIterator :: "string option \<Rightarrow> rpc_error + byte list"
  cs_decodeFieldDimensions :: "byte list \<Rightarrow> rpc_error + 's FieldDimensionsRequest"
  cs_iter :: "string list \<Rightarrow> string list"
  cs_marshalFieldDimensions :: "FieldDimensionsResponse \<Rightarrow> rpc_error + byte list"
  cs_parsePoint :: "byte list \<Rightarrow> rpc_error + 'p"
  cs_errorText :: "cs_error \<Rightarrow> string"
  cs_WriteToShard :: "u64 \<Rightarrow> 'p list \<Rightarrow> 'w \<Rightarrow> (cs_error + unit) \<times> 'w"
  cs_CreateShard :: "string \<Rightarrow> string \<Rightarrow> u64 \<Rightarrow> 'w \<Rightarrow> (cs_error + unit) \<times> 'w"
  cs_processExecuteStatementRequest :: "byte list \<Rightarrow> 'w \<Rightarrow> (cs_error + unit) \<times> 'w"
  cs_ShardIteratorCreator :: "u64 \<Rightarrow> 'w \<Rightarrow> 'ic option"
  cs_CreateIterator :: "'ic list \<Rightarrow> 'o \<Rightarrow> 'w \<Rightarrow> cs_error + 'i option"
  cs_FieldDimensions :: "'ic list \<Rightarrow> 's \<Rightarrow> 'w \<Rightarrow> cs_error + string list \<times> string list"
  cs_EncodeIterator :: "'i \<Rightarrow> writer \<Rightarrow> writer"

record ('s, 'c, 'w) delete_ops =
  do_DeleteDatabase :: "string \<Rightarrow> 'w \<Rightarrow> (cs_error + unit) \<times> 'w"
  do_DeleteMeasurement :: "string \<Rightarrow> string \<Rightarrow> 'w \<Rightarrow> (cs_error + unit) \<times> 'w"
  do_DeleteSeries :: "string \<Rightarrow> 's \<Rightarrow> 'c \<Rightarrow> 'w \<Rightarrow> (cs_error + unit) \<times> 'w"
  do_DeleteRetentionPolicy :: "string \<Rightarrow> string \<Rightarrow> 'w \<Rightarrow> (cs_error + unit) \<times> 'w"

fun executeStatement :: "('s, 'c, 'w) delete_ops \<Rightarrow> ('s, 'c) statement \<Rightarrow> string \<Rightarrow> 'w \<Rightarrow> (cs_error + unit) \<times> 'w" where
  "executeStatement D (DropDatabaseStatement name) database w = do_DeleteDatabase D name w"
| "executeStatement D (DropMeasurementStatement name) database w = do_DeleteMeasurement D database name w"
| "executeStatement D (DropSeriesStatement sources condition) database w = do_DeleteSeries D database sources condition w"
| "executeStatement D (DropRetentionPolicyStatement name) database w = do_DeleteRetentionPolicy D database name w"
| "executeStatement D (OtherStatement s) database w = (Inl (ErrNotAcrossCluster s), w)"

definition count_fail :: "cs_stats \<Rightarrow> cs_stats" where
  "count_fail st = st\<lparr>cs_writeShardFail := cs_writeShardFail st + 1\<rparr>"

text \<open>\<open>None\<close> is the panic of \<open>Points\<close> on bytes that are no point; nothing recovers from it.\<close>

definition processWriteShardRequest :: "('p, 'o, 's, 'ic, 'i, 'w) cs_lib \<Rightarrow> byte list \<Rightarrow> cs_stats \<Rightarrow> 'w \<Rightarrow>
    ((cs_error + unit) \<times> cs_stats \<times> 'w) option" where
  "processWriteShardRequest P buf st w =
     (case ws_UnmarshalBinary (cs_unmarshalWriteShard P) buf empty_WriteShardRequest of
        (Inl e, req) \<Rightarrow> Some (Inl (CsRpc e), st, w)
      | (Inr u, req) \<Rightarrow>
        (case ws_Points (cs_parsePoint P) req of
           Inl e \<Rightarrow> None
         | Inr points \<Rightarrow>
           (let st = st\<lparr>cs_writeShardPointsReq := cs_writeShardPointsReq st + int (length points)\<rparr>;
                sid = ws_ShardID req in
            case cs_WriteToShard P sid points w of
              (Inr u, w) \<Rightarrow> Some (Inr (), st, w)
            | (Inl e, w) \<Rightarrow>
              (if e = ErrShardNotFound then
                 (if ws_Database req = [] \<or> ws_RetentionPolicy req = [] then Some (Inr (), st, w)
                  else case cs_CreateShard P (ws_Database req) (ws_RetentionPolicy req) sid w of
                    (Inl e, w) \<Rightarrow> Some (Inl (ErrCreateShard sid e), count_fail st, w)
                  | (Inr u, w) \<Rightarrow>
                    (case cs_WriteToShard P sid points w of
                       (Inl e, w) \<Rightarrow> Some (Inl (ErrWriteShard sid e), count_fail st, w)
                     | (Inr u, w) \<Rightarrow> Some (Inr (), st, w)))
               else Some (Inl (ErrWriteShard sid e), count_fail st, w)))))"

definition response_for :: "('p, 'o, 's, 'ic, 'i, 'w) cs_lib \<Rightarrow> cs_error + unit \<Rightarrow> WriteShardResponse" where
  "response_for P r = (case r of
     Inl e \<Rightarrow> wr_SetMessage (cs_errorText P e) (wr_SetCode 1 empty_WriteShardResponse)
   | Inr u \<Rightarrow> wr_SetCode 0 empty_WriteShardResponse)"

definition writeShardResponse :: "('p, 'o, 's, 'ic, 'i, 'w) cs_lib \<Rightarrow> cs_error + unit \<Rightarrow> writer \<Rightarrow> writer" where
  "writeShardResponse P r out =
     (case wr_MarshalBinary (cs_marshalResponse P) (response_for P r) of
        Inl e \<Rightarrow> out
      | Inr buf \<Rightarrow> snd (WriteTLV (cs_writeShardResponseMessage P) buf out :: (rpc_error tlv_error + unit) \<times> writer))"

text \<open>The loop over the shards of a request: \<open>None\<close> when one of them has no iterator creator.\<close>

fun collect_creators :: "('p, 'o, 's, 'ic, 'i, 'w) cs_lib \<Rightarrow> u64 list \<Rightarrow> 'w \<Rightarrow> 'ic list option" where
  "collect_creators P [] w = Some []"
| "collect_creators P (sid # sids) w =
     (case cs_ShardIteratorCreator P sid w of
        None \<Rightarrow> None
      | Some ic \<Rightarrow> (case collect_creators P sids w of None \<Rightarrow> None | Some ics \<Rightarrow> Some (ic # ics)))"

definition create_iterator :: "('p, 'o, 's, 'ic, 'i, 'w) cs_lib \<Rightarrow> byte list \<Rightarrow> 'w \<Rightarrow> cs_error + 'i option" where
  "create_iterator P r w =
     (case fst (DecodeLV (cs_decodeCreateIterator P) r) of
        Inl e \<Rightarrow> Inl (CsTlv e)
      | Inr req \<Rightarrow>
        (case collect_creators P (ci_ShardIDs req) w of
           None \<Rightarrow> Inr None
         | Some ics \<Rightarrow> cs_CreateIterator P ics (ci_Opt req) w))"

text \<open>\<open>None\<close> is a panic: on every error the iterator is still nil when \<open>itr.Close()\<close> is called.\<close>

definition processCreateIteratorRequest :: "('p, 'o, 's, 'ic, 'i, 'w) cs_lib \<Rightarrow> byte list \<Rightarrow> writer \<Rightarrow> 'w \<Rightarrow> writer option" where
  "processCreateIteratorRequest P r out w =
     (case create_iterator P r w of
        Inl e \<Rightarrow> None
      | Inr itr \<Rightarrow>
        (case EncodeTLV (cr_MarshalBinary (cs_marshalCreateIterator P)) (cs_createIteratorResponseMessage P) \<lparr>cr_Err = None\<rparr> out of
           (Inl e, out) \<Rightarrow> Some out
         | (Inr u, out) \<Rightarrow> (case itr of None \<Rightarrow> Some out | Some i \<Rightarrow> Some (cs_EncodeIterator P i out))))"

definition field_dimensions :: "('p, 'o, 's, 'ic, 'i, 'w) cs_lib \<Rightarrow> byte list \<Rightarrow> 'w \<Rightarrow> cs_error + string list \<times> string list" where
  "field_dimensions P r w =
     (case fst (DecodeLV (cs_decodeFieldDimensions P) r) of
        Inl e \<Rightarrow> Inl (CsTlv e)
      | Inr req \<Rightarrow>
        (case collect_creators P (fq_ShardIDs req) w of
           None \<Rightarrow> Inr ([], [])
         | Some ics \<Rightarrow> cs_FieldDimensions P ics (fq_Sources req) w))"

definition processFieldDimensionsRequest :: "('p, 'o, 's, 'ic, 'i, 'w) cs_lib \<Rightarrow> byte list \<Rightarrow> writer \<Rightarrow> 'w \<Rightarrow> writer option" where
  "processFieldDimensionsRequest P r out w =
     (let respond = (\<lambda>resp. snd (EncodeTLV (fd_MarshalBinary (cs_iter P) (cs_marshalFieldDimensions P))
            (cs_fieldDimensionsResponseMessage P) resp out)) in
      case field_dimensions P r w of
        Inl e \<Rightarrow>
          (if e = CsTlv MakeSlicePanic then None
           else Some (respond \<lparr>fd_Fields = [], fd_Dimensions = [], fd_Err = Some (cs_errorText P e)\<rparr>))
      | Inr (fs, ds) \<Rightarrow> Some (respond \<lparr>fd_Fields = fs, fd_Dimensions = ds, fd_Err = None\<rparr>))"

section \<open>Connections\<close>

datatype conn_end = ConnClosed | ConnPanic

lemma length_ReadFull: "length (snd (ReadFull n r)) \<le> length r"
  by (simp add: ReadFull_def)

lemma length_ReadLV: "(res, r') = ReadLV r \<Longrightarrow> length r' \<le> length r"
  by (auto simp: ReadLV_def ReadFull_def Let_def split: if_splits)

lemma length_ReadType: "(Inr typ, r') = ReadType r \<Longrightarrow> length r' < length r"
  by (auto simp: ReadType_def ReadFull_def split: if_splits)

function handleConn :: "('p, 'o, 's, 'ic, 'i, 'w) cs_lib \<Rightarrow> byte list \<Rightarrow> writer \<Rightarrow> cs_stats \<Rightarrow> 'w \<Rightarrow>
    conn_end \<times> writer \<times> cs_stats \<times> 'w" where
  "handleConn P r out st w =
     (case (ReadType r :: (rpc_error tlv_error + byte) \<times> byte list) of
        (Inl e, r1) \<Rightarrow> (ConnClosed, out, st, w)
      | (Inr typ, r1) \<Rightarrow>
        if typ = cs_writeShardRequestMessage P then
          (case (ReadLV r1 :: (rpc_error tlv_error + byte list) \<times> byte list) of
             (Inl e, r2) \<Rightarrow> (if e = MakeSlicePanic then ConnPanic else ConnClosed, out, st, w)
           | (Inr buf, r2) \<Rightarrow>
             (case processWriteShardRequest P buf (st\<lparr>cs_writeShardReq := cs_writeShardReq st + 1\<rparr>) w of
                None \<Rightarrow> (ConnPanic, out, st\<lparr>cs_writeShardReq := cs_writeShardReq st + 1\<rparr>, w)
              | Some (err, st1, w1) \<Rightarrow> handleConn P r2 (writeShardResponse P err out) st1 w1))
        else if typ = cs_executeStatementRequestMessage P then
          (case (ReadLV r1 :: (rpc_error tlv_error + byte list) \<times> byte list) of
             (Inl e, r2) \<Rightarrow> (if e = MakeSlicePanic then ConnPanic else ConnClosed, out, st, w)
           | (Inr buf, r2) \<Rightarrow>
             (case cs_processExecuteStatementRequest P buf w of
                (err, w1) \<Rightarrow> handleConn P r2 (writeShardResponse P err out) st w1))
        else if typ = cs_createIteratorRequestMessage P then
          (case processCreateIteratorRequest P r1 out w of
             None \<Rightarrow> (ConnPanic, out, st\<lparr>cs_createIteratorReq := cs_createIteratorReq st + 1\<rparr>, w)
           | Some out1 \<Rightarrow> (ConnClosed, out1, st\<lparr>cs_createIteratorReq := cs_createIteratorReq st + 1\<rparr>, w))
        else if typ = cs_fieldDimensionsRequestMessage P then
          (case processFieldDimensionsRequest P r1 out w of
             None \<Rightarrow> (ConnPanic, out, st\<lparr>cs_fieldDimensionsReq := cs_fieldDimensionsReq st + 1\<rparr>, w)
           | Some out1 \<Rightarrow> (ConnClosed, out1, st\<lparr>cs_fieldDimensionsReq := cs_fieldDimensionsReq st + 1\<rparr>, w))
        else handleConn P r1 out st w)"
  by pat_completeness auto
termination
  by (relation "measure (\<lambda>(P, r, s). length r)") (auto dest!: length_ReadType length_ReadLV)

declare handleConn.simps [simp del]

text \<open>
  \<open>serve\<close>, over its rounds: whether \<open>closing\<close> is closed when the round starts, and what \<open>Accept\<close> gives then.
  The result is the connections handed to \<open>handleConn\<close> and whether the loop has returned.
\<close>

datatype 'c accept = Accepted 'c | AcceptErr string

fun contains :: "string \<Rightarrow> string \<Rightarrow> bool" where
  "contains sub [] \<longleftrightarrow> sub = []"
| "contains sub (c # s) \<longleftrightarrow> take (length sub) (c # s) = sub \<or> contains sub s"

fun serve :: "(bool \<times> 'c accept) list \<Rightarrow> 'c list \<times> bool" where
  "serve [] = ([], False)"
| "serve ((closing, a) # rounds) =
     (if closing then ([], True)
      else case a of
        AcceptErr e \<Rightarrow> if contains ''connection closed'' e then ([], True) else serve rounds
      | Accepted c \<Rightarrow> (case serve rounds of (cs, done) \<Rightarrow> (c # cs, done)))"

section \<open>Write requests\<close>

text \<open>
  What the service relies on of the store: \<open>contents w sid\<close> are the points of a shard, a successful write has
  stored its points, and neither writing nor creating a shard loses points.
\<close>

definition store_keeps :: "('p, 'o, 's, 'ic, 'i, 'w) cs_lib \<Rightarrow> ('w \<Rightarrow> u64 \<Rightarrow> 'p set) \<Rightarrow> bool" where
  "store_keeps P contents \<longleftrightarrow>
     (\<forall>sid ps w r w'. cs_WriteToShard P sid ps w = (r, w') \<longrightarrow>
        (\<forall>s. contents w s \<subseteq> contents w' s) \<and> (r = Inr () \<longrightarrow> set ps \<subseteq> contents w' sid)) \<and>
     (\<forall>db rp sid w r w'. cs_CreateShard P db rp sid w = (r, w') \<longrightarrow> (\<forall>s. contents w s \<subseteq> contents w' s))"

definition decodes :: "('p, 'o, 's, 'ic, 'i, 'w) cs_lib \<Rightarrow> byte list \<Rightarrow> WriteShardRequest \<Rightarrow> 'p list \<Rightarrow> bool" where
  "decodes P b req ps \<longleftrightarrow> cs_unmarshalWriteShard P b = Inr req \<and> ws_Points (cs_parsePoint P) req = Inr ps"

lemma store_keeps_write:
  "store_keeps P contents \<Longrightarrow> cs_WriteToShard P sid ps w = (r, w') \<Longrightarrow> contents w s \<subseteq> contents w' s"
  unfolding store_keeps_def by blast

lemma store_keeps_stored:
  "store_keeps P contents \<Longrightarrow> cs_WriteToShard P sid ps w = (Inr u, w') \<Longrightarrow> set ps \<subseteq> contents w' sid"
  unfolding store_keeps_def by auto

lemma store_keeps_create:
  "store_keeps P contents \<Longrightarrow> cs_CreateShard P db rp sid w = (r, w') \<Longrightarrow> contents w s \<subseteq> contents w' s"
  unfolding store_keeps_def by blast

lemmas process_defs = processWriteShardRequest_def ws_UnmarshalBinary_def pb_UnmarshalBinary_def decodes_def Let_def

lemma process_total: "decodes P b req ps \<Longrightarrow> \<exists>err st' w'. processWriteShardRequest P b st w = Some (err, st', w')"
  by (auto simp: process_defs split: prod.split sum.split)

lemma process_keeps:
  assumes "store_keeps P contents" "decodes P b req ps" "processWriteShardRequest P b st w = Some (err, st', w')"
  shows "contents w s \<subseteq> contents w' s"
  using assms(2,3) store_keeps_write [OF assms(1), of _ _ _ _ _ s] store_keeps_create [OF assms(1), of _ _ _ _ _ _ s]
  by (auto simp: process_defs split: prod.splits sum.splits if_splits) blast+

lemma process_stores:
  assumes "store_keeps P contents" "decodes P b req ps" "ws_Database req \<noteq> []" "ws_RetentionPolicy req \<noteq> []"
    and "processWriteShardRequest P b st w = Some (Inr u, st', w')"
  shows "set ps \<subseteq> contents w' (ws_ShardID req)"
  using assms(2-5) store_keeps_stored [OF assms(1)]
  by (auto simp: process_defs split: prod.splits sum.splits if_splits)

text \<open>What the connection answers to a stream of requests: one result per request.\<close>

fun answers :: "('p, 'o, 's, 'ic, 'i, 'w) cs_lib \<Rightarrow> byte list list \<Rightarrow> cs_stats \<Rightarrow> 'w \<Rightarrow>
    ((cs_error + unit) list \<times> cs_stats \<times> 'w) option" where
  "answers P [] st w = Some ([], st, w)"
| "answers P (b # bs) st w =
     (case processWriteShardRequest P b (st\<lparr>cs_writeShardReq := cs_writeShardReq st + 1\<rparr>) w of
        None \<Rightarrow> None
      | Some (err, st1, w1) \<Rightarrow>
        (case answers P bs st1 w1 of None \<Rightarrow> None | Some (errs, st2, w2) \<Rightarrow> Some (err # errs, st2, w2)))"

definition response_bytes :: "('p, 'o, 's, 'ic, 'i, 'w) cs_lib \<Rightarrow> (WriteShardResponse \<Rightarrow> byte list) \<Rightarrow> cs_error + unit \<Rightarrow> byte list" where
  "response_bytes P encR err = tlv_bytes (cs_writeShardResponseMessage P, encR (response_for P err))"

definition encodes_responses :: "('p, 'o, 's, 'ic, 'i, 'w) cs_lib \<Rightarrow> (WriteShardResponse \<Rightarrow> byte list) \<Rightarrow> bool" where
  "encodes_responses P encR \<longleftrightarrow> (\<forall>r. cs_marshalResponse P r = Inr (encR r) \<and> int (length (encR r)) < MaxMessageSize)"

lemma writeShardResponse_ok:
  assumes "encodes_responses P encR" "w_faults out = []"
  shows "writeShardResponse P err out = out\<lparr>w_out := w_out out @ response_bytes P encR err\<rparr>"
proof -
  have enc: "cs_marshalResponse P (response_for P err) = Inr (encR (response_for P err))"
    and len: "int (length (encR (response_for P err))) < MaxMessageSize"
    using assms(1) by (auto simp: encodes_responses_def)
  have "int (length (encR (response_for P err))) < 2 ^ 63"
    using len by (simp add: MaxMessageSize_def)
  then show ?thesis
    using assms(2) enc
    by (simp add: writeShardResponse_def wr_MarshalBinary_def pb_MarshalBinary_def WriteTLV_def WriteType_def
        WriteLV_ok response_bytes_def tlv_bytes_def)
qed

lemma handleConn_end: "handleConn P [] out st w = (ConnClosed, out, st, w)"
  by (simp add: handleConn.simps ReadType_def ReadFull_def)

lemma handleConn_write:
  assumes "tlv_ok (cs_writeShardRequestMessage P, b)"
    and "processWriteShardRequest P b (st\<lparr>cs_writeShardReq := cs_writeShardReq st + 1\<rparr>) w = Some (err, st1, w1)"
  shows "handleConn P (tlv_bytes (cs_writeShardRequestMessage P, b) @ r) out st w =
    handleConn P r (writeShardResponse P err out) st1 w1"
  using assms by (subst handleConn.simps) (simp add: tlv_bytes_def tlv_ok_def ReadLV_bytes)

lemma handleConn_answers:
  assumes "encodes_responses P encR" "list_all (\<lambda>b. tlv_ok (cs_writeShardRequestMessage P, b)) bs"
    and "answers P bs st w = Some (errs, st', w')" "w_faults out = []"
  shows "handleConn P (concat (map (\<lambda>b. tlv_bytes (cs_writeShardRequestMessage P, b)) bs)) out st w =
    (ConnClosed, out\<lparr>w_out := w_out out @ concat (map (response_bytes P encR) errs)\<rparr>, st', w')"
  using assms(2-4)
proof (induction bs arbitrary: out st w errs)
  case Nil
  then show ?case by (simp add: handleConn_end)
next
  case (Cons b bs)
  from Cons.prems(2) obtain err st1 w1 errs1 where
    step: "processWriteShardRequest P b (st\<lparr>cs_writeShardReq := cs_writeShardReq st + 1\<rparr>) w = Some (err, st1, w1)"
    and rest: "answers P bs st1 w1 = Some (errs1, st', w')" and errs: "errs = err # errs1"
    by (auto split: option.splits prod.splits)
  have "handleConn P (concat (map (\<lambda>b. tlv_bytes (cs_writeShardRequestMessage P, b)) (b # bs))) out st w =
      handleConn P (concat (map (\<lambda>b. tlv_bytes (cs_writeShardRequestMessage P, b)) bs)) (writeShardResponse P err out) st1 w1"
    using handleConn_write [OF _ step] Cons.prems(1) by simp
  also have "\<dots> = (ConnClosed, out\<lparr>w_out := w_out out @ concat (map (response_bytes P encR) errs)\<rparr>, st', w')"
    using Cons.IH [OF _ rest] Cons.prems(1,3) by (simp add: writeShardResponse_ok [OF assms(1)] errs)
  finally show ?case .
qed

definition well_formed :: "('p, 'o, 's, 'ic, 'i, 'w) cs_lib \<Rightarrow> byte list \<times> WriteShardRequest \<times> 'p list \<Rightarrow> bool" where
  "well_formed P q = (case q of (b, req, ps) \<Rightarrow>
     decodes P b req ps \<and> tlv_ok (cs_writeShardRequestMessage P, b) \<and> ws_Database req \<noteq> [] \<and> ws_RetentionPolicy req \<noteq> [])"

lemma well_formed_iff: "well_formed P (b, req, ps) \<longleftrightarrow>
  decodes P b req ps \<and> tlv_ok (cs_writeShardRequestMessage P, b) \<and> ws_Database req \<noteq> [] \<and> ws_RetentionPolicy req \<noteq> []"
  by (simp add: well_formed_def)

lemma answers_total:
  "list_all (well_formed P) qs \<Longrightarrow>
    \<exists>errs st' w'. answers P (map fst qs) st w = Some (errs, st', w') \<and> length errs = length qs"
proof (induction qs arbitrary: st w)
  case (Cons q qs)
  obtain b req ps where q: "q = (b, req, ps)" by (rule prod_cases3)
  with Cons.prems have "decodes P b req ps" by (simp add: well_formed_iff)
  from process_total [OF this] obtain err st1 w1 where
    step: "processWriteShardRequest P b (st\<lparr>cs_writeShardReq := cs_writeShardReq st + 1\<rparr>) w = Some (err, st1, w1)"
    by blast
  from Cons.IH [of st1 w1] Cons.prems show ?case using step by (auto simp: q)
qed simp

lemma answers_keep:
  assumes "store_keeps P contents" "list_all (well_formed P) qs" "answers P (map fst qs) st w = Some (errs, st', w')"
  shows "contents w s \<subseteq> contents w' s"
  using assms(2,3)
proof (induction qs arbitrary: st w errs)
  case (Cons q qs)
  obtain b req ps where q: "q = (b, req, ps)" by (rule prod_cases3)
  with Cons.prems obtain err st1 w1 errs1 where
    step: "processWriteShardRequest P b (st\<lparr>cs_writeShardReq := cs_writeShardReq st + 1\<rparr>) w = Some (err, st1, w1)"
    and rest: "answers P (map fst qs) st1 w1 = Some (errs1, st', w')" and dec: "decodes P b req ps"
    by (auto simp: well_formed_iff split: option.splits prod.splits)
  show ?case
    using process_keeps [OF assms(1) dec step] Cons.IH [OF _ rest] Cons.prems(1) by auto
qed simp

lemma answers_store:
  assumes "store_keeps P contents" "list_all (well_formed P) qs" "answers P (map fst qs) st w = Some (errs, st', w')"
    and "i < length qs" "errs ! i = Inr ()" "qs ! i = (b, req, ps)"
  shows "set ps \<subseteq> contents w' (ws_ShardID req)"
  using assms(2-6)
proof (induction qs arbitrary: st w errs i)
  case (Cons q qs)
  obtain b0 req0 ps0 where q: "q = (b0, req0, ps0)" by (rule prod_cases3)
  with Cons.prems obtain err st1 w1 errs1 where
    step: "processWriteShardRequest P b0 (st\<lparr>cs_writeShardReq := cs_writeShardReq st + 1\<rparr>) w = Some (err, st1, w1)"
    and rest: "answers P (map fst qs) st1 w1 = Some (errs1, st', w')" and errs: "errs = err # errs1"
    and wf: "decodes P b0 req0 ps0" "ws_Database req0 \<noteq> []" "ws_RetentionPolicy req0 \<noteq> []" "list_all (well_formed P) qs"
    by (auto simp: well_formed_iff split: option.splits prod.splits)
  show ?case
  proof (cases i)
    case 0
    then have "processWriteShardRequest P b0 (st\<lparr>cs_writeShardReq := cs_writeShardReq st + 1\<rparr>) w = Some (Inr (), st1, w1)"
      using step Cons.prems(4) by (simp add: errs)
    from process_stores [OF assms(1) wf(1-3) this] answers_keep [OF assms(1) wf(4) rest] 0 Cons.prems(5)
    show ?thesis by (auto simp: q)
  next
    case (Suc j)
    then show ?thesis using Cons.IH [OF wf(4) rest] Cons.prems(3-5) by (simp add: errs)
  qed
qed simp

text \<open>
  A store that is a map from shards to their points, points of one byte, and requests of the form shard, flag
  for a database and a policy, points: the library at which the theorems are applied.
\<close>

definition write0 :: "u64 \<Rightarrow> byte list \<Rightarrow> (u64 \<Rightarrow> byte list option) \<Rightarrow> (cs_error + unit) \<times> (u64 \<Rightarrow> byte list option)" where
  "write0 sid ps w = (case w sid of None \<Rightarrow> (Inl ErrShardNotFound, w) | Some xs \<Rightarrow> (Inr (), w(sid \<mapsto> xs @ ps)))"

definition create0 :: "string \<Rightarrow> string \<Rightarrow> u64 \<Rightarrow> (u64 \<Rightarrow> byte list option) \<Rightarrow> (cs_error + unit) \<times> (u64 \<Rightarrow> byte list option)" where
  "create0 db rp sid w = (Inr (), case w sid of None \<Rightarrow> w(sid \<mapsto> []) | Some xs \<Rightarrow> w)"

definition contents0 :: "(u64 \<Rightarrow> byte list option) \<Rightarrow> u64 \<Rightarrow> byte set" where
  "contents0 w sid = (case w sid of None \<Rightarrow> {} | Some xs \<Rightarrow> set xs)"

fun unmarshal0 :: "byte list \<Rightarrow> rpc_error + WriteShardRequest" where
  "unmarshal0 (sid # flag # ps) = Inr \<lparr>ws_pbShardID = Some (ucast sid), ws_pbDatabase = (if flag = 1 then Some ''db'' else None),
     ws_pbRetentionPolicy = (if flag = 1 then Some ''rp'' else None), ws_pbPoints = map (\<lambda>p. [p]) ps\<rparr>"
| "unmarshal0 bs = Inl (RpcErr ''short'')"

definition encR0 :: "WriteShardResponse \<Rightarrow> byte list" where
  "encR0 r = (if wr_Code r = 0 then [0] else [1])"

definition lib0 :: "(byte, unit, unit, unit, unit, u64 \<Rightarrow> byte list option) cs_lib" where
  "lib0 = \<lparr>cs_writeShardRequestMessage = 1, cs_writeShardResponseMessage = 2, cs_executeStatementRequestMessage = 3,
     cs_createIteratorRequestMessage = 4, cs_createIteratorResponseMessage = 5, cs_fieldDimensionsRequestMessage = 6,
     cs_fieldDimensionsResponseMessage = 7, cs_unmarshalWriteShard = unmarshal0, cs_marshalResponse = (\<lambda>r. Inr (encR0 r)),
     cs_decodeCreateIterator = (\<lambda>b. Inr \<lparr>ci_ShardIDs = [], ci_Opt = ()\<rparr>), cs_marshalCreateIterator = (\<lambda>e. Inr []),
     cs_decodeFieldDimensions = (\<lambda>b. Inr \<lparr>fq_ShardIDs = [], fq_Sources = ()\<rparr>), cs_iter = (\<lambda>ks. ks),
     cs_marshalFieldDimensions = (\<lambda>r. Inr []), cs_parsePoint = (\<lambda>b. Inr (hd b)), cs_errorText = (\<lambda>e. ''error''),
     cs_WriteToShard = write0, cs_CreateShard = create0, cs_processExecuteStatementRequest = (\<lambda>b w. (Inr (), w)),
     cs_ShardIteratorCreator = (\<lambda>sid w. Some ()), cs_CreateIterator = (\<lambda>ics opt w. Inl (CsErr ''no field'')),
     cs_FieldDimensions = (\<lambda>ics src w. Inr ([], [])), cs_EncodeIterator = (\<lambda>i out. out)\<rparr>"

definition stats0 :: cs_stats where
  "stats0 = \<lparr>cs_writeShardReq = 0, cs_writeShardPointsReq = 0, cs_writeShardFail = 0, cs_createIteratorReq = 0, cs_fieldDimensionsReq = 0\<rparr>"

definition req0 :: "bool \<Rightarrow> byte \<Rightarrow> WriteShardRequest" where
  "req0 named p = \<lparr>ws_pbShardID = Some 5, ws_pbDatabase = (if named then Some ''db'' else None),
     ws_pbRetentionPolicy = (if named then Some ''rp'' else None), ws_pbPoints = [[p]]\<rparr>"

lemma store_keeps0: "store_keeps lib0 contents0"
  by (auto simp: store_keeps_def lib0_def write0_def create0_def contents0_def split: option.splits if_splits)

lemma encodes_responses0: "encodes_responses lib0 encR0"
  by (simp add: encodes_responses_def lib0_def encR0_def MaxMessageSize_def)

lemma decodes0: "decodes lib0 [5, if named then 1 else 0, p] (req0 named p) [p]"
  by (simp add: decodes_def lib0_def req0_def ws_Points_def ws_unmarshalPoints_def)

lemma well_formed0: "well_formed lib0 ([5, 1, p], req0 True p, [p])"
  using decodes0 [of True p]
  by (simp add: well_formed_def tlv_ok_def MaxMessageSize_def ws_Database_def ws_RetentionPolicy_def req0_def)



text \<open>
  A write for a shard the node does not have, without a database or a policy, is acknowledged although it
  was dropped: the answer is the one of a success (code 0), no shard is created and nothing is written after
  the write the store refused.
\<close>

theorem dropped_write_is_acknowledged:
  assumes "decodes P b req ps" "cs_WriteToShard P (ws_ShardID req) ps w = (Inl ErrShardNotFound, w)"
    and "ws_Database req = [] \<or> ws_RetentionPolicy req = []"
  shows "\<exists>st'. processWriteShardRequest P b st w = Some (Inr (), st', w) \<and> cs_writeShardFail st' = cs_writeShardFail st \<and>
    wr_Code (response_for P (Inr ())) = 0"
  using assms
  by (auto simp: process_defs response_for_def wr_Code_def wr_SetCode_def to_i32_id)

theorem dropped_write_is_acknowledged_witness:
  "decodes lib0 [5, 0, 7] (req0 False 7) [7] \<and> cs_WriteToShard lib0 5 [7] Map.empty = (Inl ErrShardNotFound, Map.empty) \<and>
   (\<exists>st'. processWriteShardRequest lib0 [5, 0, 7] stats0 Map.empty = Some (Inr (), st', Map.empty) \<and> cs_writeShardFail st' = 0)"
proof -
  have d: "decodes lib0 [5, 0, 7] (req0 False 7) [7]" using decodes0 [of False 7] by simp
  have sid: "ws_ShardID (req0 False 7) = 5" by (simp add: ws_ShardID_def req0_def)
  have w: "cs_WriteToShard lib0 (ws_ShardID (req0 False 7)) [7] Map.empty = (Inl ErrShardNotFound, Map.empty)"
    by (simp add: lib0_def write0_def)
  have "ws_Database (req0 False 7) = [] \<or> ws_RetentionPolicy (req0 False 7) = []"
    by (simp add: ws_Database_def req0_def)
  from dropped_write_is_acknowledged [OF d w this, of stats0] d w show ?thesis by (auto simp: sid stats0_def)
qed

text \<open>
  A request for an iterator that fails takes the node down: whenever the request cannot be read or the
  iterator cannot be created, the handler closes the nil iterator and panics instead of answering with the error.
\<close>

theorem failed_CreateIterator_panics:
  assumes "cs_createIteratorRequestMessage P \<notin> {cs_writeShardRequestMessage P, cs_executeStatementRequestMessage P}"
    and "create_iterator P r w = Inl e"
  shows "fst (handleConn P (cs_createIteratorRequestMessage P # r) out st w) = ConnPanic \<and>
    fst (snd (handleConn P (cs_createIteratorRequestMessage P # r) out st w)) = out"
  using assms by (simp add: handleConn.simps processCreateIteratorRequest_def)

theorem failed_CreateIterator_panics_witness:
  "create_iterator lib0 (PutUint64 0) Map.empty = Inl (CsErr ''no field'') \<and>
   fst (handleConn lib0 (4 # PutUint64 0) \<lparr>w_out = [], w_faults = []\<rparr> stats0 Map.empty) = ConnPanic"
proof -
  have "ReadLV (PutUint64 0 @ [] @ []) = (Inr [] :: rpc_error tlv_error + byte list, [])"
    using ReadLV_bytes [of "[]" "[]"] by (simp add: MaxMessageSize_def to_u64_def)
  then have c: "create_iterator lib0 (PutUint64 0) Map.empty = Inl (CsErr ''no field'')"
    by (simp add: create_iterator_def DecodeLV_def lib0_def)
  have n: "cs_createIteratorRequestMessage lib0 \<notin> {cs_writeShardRequestMessage lib0, cs_executeStatementRequestMessage lib0}"
    and num: "cs_createIteratorRequestMessage lib0 = 4" by (simp_all add: lib0_def)
  from failed_CreateIterator_panics [OF n c] c show ?thesis by (simp add: num)
qed

end
