(* ===== verification/Meta_Client.thy ===== *)
theory Meta_Client
  imports Meta_Store
begin

text \<open>
  The client of the meta service (\<open>src/meta/client.go\<close>): its cache of the metadata, the commands it sends with
  retries and redirects, the polling of snapshots, leases and joining.

  The HTTP transport, the codecs, bcrypt, SHA-256, the random source and the methods of the open-source
  metadata are the record \<open>cl_lib\<close>; the transport acts on a world of any type, in which the meta servers live.
  What other goroutines do while a call runs is the record \<open>cl_env\<close>: at which round the client is found closed,
  and which snapshots the polling goroutine installs while the call waits. The list of servers does not change
  during a call. Logging and sleeping are left out, except for the pauses of \<open>AcquireLease\<close>, which are returned.
\<close>

section \<open>Client and parameters\<close>

datatype cl_error =
    ClMeta meta_error
  | ErrRedirect string
  | ErrCommand string
  | ErrStatus int
  | ClHTTP string
  | ErrService
  | ErrLeaseOwned
  | ErrLease string
  | ErrFormat string
  | ErrDatabaseNotFound string
  | ErrPolicyNotFound string
  | ErrPolicyDeleted
  | ErrInvalidSource
  | ErrNewNodeNotFound
  | ClPanic

record http_resp =
  h_status :: int
  h_location :: string
  h_body :: "string + byte list"

record Response_pb =
  res_OK :: "bool option"
  res_Error :: "string option"
  res_Index :: "u64 option"

record authUser =
  au_bhash :: string
  au_salt :: "byte list"
  au_hash :: "byte list"

text \<open>The cache: nil, the literal \<open>&Data{}\<close> whose field \<open>Data\<close> is nil, or metadata.\<close>

datatype 'x cache = NilCache | ZeroCache | Cached "'x Data"

text \<open>
  \<open>c_changed\<close> counts how often the channel \<open>changed\<close> was closed and made anew; \<open>c_closing\<close> is nil before \<open>Open\<close>,
  otherwise whether the channel is closed.
\<close>

record 'x Client =
  c_tls :: bool
  c_nodeID :: u64
  c_metaServers :: "string list"
  c_changed :: nat
  c_closing :: "bool option"
  c_cacheData :: "'x cache"
  c_path :: string
  c_authInfo :: string
  c_authCache :: "(string \<times> authUser) list"

record ('x, 'l, 'w) cl_lib =
  cl_Get :: "string \<Rightarrow> 'w \<Rightarrow> (string + http_resp) \<times> 'w"
  cl_Post :: "string \<Rightarrow> byte list \<Rightarrow> 'w \<Rightarrow> (string + http_resp) \<times> 'w"
  cl_Encode :: "command \<Rightarrow> meta_error + byte list"
  cl_Response :: "byte list \<Rightarrow> string + Response_pb"
  cl_oss :: "'x oss_lib"
  cl_LeaseJSON :: "byte list \<Rightarrow> string + 'l"
  cl_NodeJSON :: "NodeInfo \<Rightarrow> string + byte list"
  cl_NodeOfJSON :: "byte list \<Rightarrow> NodeInfo \<Rightarrow> string + NodeInfo option"
  cl_PeersJSON :: "byte list \<Rightarrow> string + string list"
  cl_CompareHash :: "string \<Rightarrow> string \<Rightarrow> bool"
  cl_GenerateHash :: "string \<Rightarrow> 'w \<Rightarrow> (string + string) \<times> 'w"
  cl_Sha256 :: "byte list \<Rightarrow> byte list"
  cl_ReadSalt :: "nat \<Rightarrow> 'w \<Rightarrow> (string + byte list) \<times> 'w"
  cl_PolicyOf :: "DatabaseInfo \<Rightarrow> string \<Rightarrow> RetentionPolicyInfo option"
  cl_RetentionPolicy :: "'x OssData \<Rightarrow> string \<Rightarrow> string \<Rightarrow> cl_error + RetentionPolicyInfo option"
  cl_GroupByTimestamp :: "'x OssData \<Rightarrow> string \<Rightarrow> string \<Rightarrow> int \<Rightarrow> cl_error + ShardGroupInfo option"
  cl_PolicyGroupByTimestamp :: "RetentionPolicyInfo \<Rightarrow> int \<Rightarrow> ShardGroupInfo option"
  cl_Deleted :: "ShardGroupInfo \<Rightarrow> bool"
  cl_Overlaps :: "ShardGroupInfo \<Rightarrow> int \<Rightarrow> int \<Rightarrow> bool"
  cl_MarshalPolicy :: "RetentionPolicyInfo \<Rightarrow> string + byte list"
  cl_Privileges :: "'x OssData \<Rightarrow> string \<Rightarrow> cl_error + (string \<times> int) list"
  cl_Privilege :: "'x OssData \<Rightarrow> string \<Rightarrow> string \<Rightarrow> cl_error + int option"

record 'x cl_env =
  ev_closed :: "nat \<Rightarrow> bool"
  ev_polls :: "'x Data list"

definition maxRetries :: nat where "maxRetries = 10"
definition SaltBytes :: nat where "SaltBytes = 32"

definition NewClient :: "'x Client" where
  "NewClient = \<lparr>c_tls = False, c_nodeID = 0, c_metaServers = [], c_changed = 0, c_closing = None, c_cacheData = ZeroCache,
     c_path = [], c_authInfo = [], c_authCache = []\<rparr>"

text \<open>\<open>Close\<close> before \<open>Open\<close> closes a nil channel, which panics.\<close>

definition client_Close :: "'x Client \<Rightarrow> (cl_error + unit) \<times> 'x Client" where
  "client_Close c = (case c_closing c of
     None \<Rightarrow> (Inl ClPanic, c)
   | Some True \<Rightarrow> (Inr (), c)
   | Some False \<Rightarrow> (Inr (), c\<lparr>c_closing := Some True\<rparr>))"

definition NodeID :: "'x Client \<Rightarrow> u64" where "NodeID c = c_nodeID c"
definition SetMetaServers :: "string list \<Rightarrow> 'x Client \<Rightarrow> 'x Client" where "SetMetaServers a c = c\<lparr>c_metaServers := a\<rparr>"
definition SetPath :: "string \<Rightarrow> 'x Client \<Rightarrow> 'x Client" where "SetPath path c = c\<lparr>c_path := path\<rparr>"
definition SetTLS :: "bool \<Rightarrow> 'x Client \<Rightarrow> 'x Client" where "SetTLS v c = c\<lparr>c_tls := v\<rparr>"
definition SetAuthInfo :: "string \<Rightarrow> 'x Client \<Rightarrow> 'x Client" where "SetAuthInfo a c = c\<lparr>c_authInfo := a\<rparr>"

definition client_url :: "string \<Rightarrow> 'x Client \<Rightarrow> string" where
  "client_url server c = (if c_tls c then ''https'' else ''http'') @ ''://'' @ server"

definition setData :: "'x Data \<Rightarrow> 'x Client \<Rightarrow> 'x Client" where
  "setData data c = c\<lparr>c_cacheData := Cached data\<rparr>"

text \<open>A list field of the cached metadata, and its open-source part, whose pointer may be nil.\<close>

definition cache_list :: "('x Data \<Rightarrow> 'a list) \<Rightarrow> 'x Client \<Rightarrow> cl_error + 'a list" where
  "cache_list f c = (case c_cacheData c of NilCache \<Rightarrow> Inl ClPanic | ZeroCache \<Rightarrow> Inr [] | Cached d \<Rightarrow> Inr (f d))"

definition cache_oss :: "'x Client \<Rightarrow> cl_error + 'x OssData" where
  "cache_oss c = (case c_cacheData c of Cached d \<Rightarrow> Inr (d_Data d) | _ \<Rightarrow> Inl ClPanic)"

definition bind_sum :: "'e + 'a \<Rightarrow> ('a \<Rightarrow> 'e + 'b) \<Rightarrow> 'e + 'b" where
  "bind_sum r k = (case r of Inl e \<Rightarrow> Inl e | Inr a \<Rightarrow> k a)"

definition client_index :: "'x Client \<Rightarrow> cl_error + u64" where
  "client_index c = bind_sum (cache_oss c) (\<lambda>od. Inr (o_Index od))"

section \<open>Sending commands\<close>

definition exec :: "('x, 'l, 'w) cl_lib \<Rightarrow> string \<Rightarrow> command \<Rightarrow> 'w \<Rightarrow> (cl_error + u64) \<times> 'w" where
  "exec P url cmd w = (case cl_Encode P cmd of
     Inl e \<Rightarrow> (Inl (ClMeta e), w)
   | Inr b \<Rightarrow>
     (case cl_Post P url b w of
        (Inl e, w) \<Rightarrow> (Inl (ClHTTP e), w)
      | (Inr resp, w) \<Rightarrow>
        if h_status resp = 307 then (Inl (ErrRedirect (h_location resp)), w)
        else if h_status resp \<noteq> 200 then (Inl (ErrStatus (h_status resp)), w)
        else (case h_body resp of
          Inl e \<Rightarrow> (Inl (ClHTTP e), w)
        | Inr body \<Rightarrow>
          (case cl_Response P body of
             Inl e \<Rightarrow> (Inl (ClHTTP e), w)
           | Inr res \<Rightarrow>
             (let es = (case res_Error res of None \<Rightarrow> [] | Some m \<Rightarrow> m) in
              if es \<noteq> [] then (Inl (ErrCommand es), w)
              else (Inr (case res_Index res of None \<Rightarrow> 0 | Some i \<Rightarrow> i), w))))))"

text \<open>
  \<open>updateAuthCache\<close> keeps the entries of users whose hash did not change. The locked part of \<open>pollForUpdates\<close>
  installs a snapshot, whatever its index, and wakes the waiting calls when the index has grown.
\<close>

fun keep_entries :: "(string \<times> authUser) list \<Rightarrow> UserInfo list \<Rightarrow> (string \<times> authUser) list \<Rightarrow> (string \<times> authUser) list" where
  "keep_entries old [] new = new"
| "keep_entries old (u # us) new =
     keep_entries old us
       (case map_of old (u_Name u) of
          None \<Rightarrow> new
        | Some cached \<Rightarrow> if au_bhash cached = u_Hash u then AList.update (u_Name u) cached new else new)"

definition updateAuthCache :: "'x Data \<Rightarrow> 'x Client \<Rightarrow> 'x Client" where
  "updateAuthCache data c = c\<lparr>c_authCache := keep_entries (c_authCache c) (d_Users data) []\<rparr>"

definition install :: "'x Data \<Rightarrow> 'x Client \<Rightarrow> 'x Client" where
  "install data c = (case client_index c of
     Inl e \<Rightarrow> c
   | Inr idx \<Rightarrow>
     (let c = updateAuthCache data (c\<lparr>c_cacheData := Cached data\<rparr>) in
      if idx < o_Index (d_Data data) then c\<lparr>c_changed := Suc (c_changed c)\<rparr> else c))"

text \<open>
  \<open>waitForIndex\<close>, with the snapshots installed meanwhile; \<open>None\<close> when it still waits after them. An installed
  snapshot that does not close the channel has no larger index than the one before, so that testing again is
  the same as going on waiting.
\<close>

fun waitForIndex :: "u64 \<Rightarrow> 'x Data list \<Rightarrow> 'x Client \<Rightarrow> ((cl_error + unit) \<times> 'x Client) option" where
  "waitForIndex idx [] c = (case client_index c of
     Inl e \<Rightarrow> Some (Inl e, c) | Inr i \<Rightarrow> if idx \<le> i then Some (Inr (), c) else None)"
| "waitForIndex idx (d # ds) c = (case client_index c of
     Inl e \<Rightarrow> Some (Inl e, c) | Inr i \<Rightarrow> if idx \<le> i then Some (Inr (), c) else waitForIndex idx ds (install d c))"

text \<open>The next server to try: the one of a redirect, or the current one, wrapping around.\<close>

definition next_url :: "string \<Rightarrow> nat \<Rightarrow> string \<Rightarrow> 'x Client \<Rightarrow> (string \<times> nat) option" where
  "next_url suffix cur redirect c =
     (if redirect \<noteq> [] then Some (redirect, cur)
      else let cur = (if cur \<ge> length (c_metaServers c) then 0 else cur) in
        if cur < length (c_metaServers c) then Some (client_url (c_metaServers c ! cur) c @ suffix, cur) else None)"

type_synonym ('x, 'w, 'a) cl_result = "((cl_error + 'a) \<times> ('x Client \<times> 'w)) option"

function exec_loop :: "('x, 'l, 'w) cl_lib \<Rightarrow> 'x cl_env \<Rightarrow> command \<Rightarrow> nat \<Rightarrow> nat \<Rightarrow> string \<Rightarrow> 'x Client \<Rightarrow> 'w \<Rightarrow>
    ('x, 'w, unit) cl_result" where
  "exec_loop P E cmd tries cur redirect c w =
     (if c_closing c = Some True \<or> ev_closed E tries then Some (Inr (), (c, w))
      else case next_url ''/execute'' cur redirect c of
        None \<Rightarrow> Some (Inl ClPanic, (c, w))
      | Some (url, cur') \<Rightarrow>
        (case exec P url cmd w of
           (Inr index, w') \<Rightarrow> map_option (\<lambda>(r, c). (r, (c, w'))) (waitForIndex index (ev_polls E) c)
         | (Inl err, w') \<Rightarrow>
           (if Suc tries > maxRetries then Some (Inl err, (c, w'))
            else (case err of
              ErrRedirect host \<Rightarrow> exec_loop P E cmd (Suc tries) (Suc cur') host c w'
            | ErrCommand m \<Rightarrow> Some (Inl err, (c, w'))
            | _ \<Rightarrow> exec_loop P E cmd (Suc tries) (Suc cur') [] c w'))))"
  by pat_completeness auto
termination
  by (relation "measure (\<lambda>(P, E, cmd, tries, cur, redirect, c, w). Suc maxRetries - tries)") auto

declare exec_loop.simps [simp del]

definition retryUntilExec :: "('x, 'l, 'w) cl_lib \<Rightarrow> 'x cl_env \<Rightarrow> command \<Rightarrow> 'x Client \<times> 'w \<Rightarrow> ('x, 'w, unit) cl_result" where
  "retryUntilExec P E cmd cw = exec_loop P E cmd 0 0 [] (fst cw) (snd cw)"

definition bind_cl :: "('x, 'w, 'a) cl_result \<Rightarrow> ('a \<Rightarrow> 'x Client \<times> 'w \<Rightarrow> ('x, 'w, 'b) cl_result) \<Rightarrow> ('x, 'w, 'b) cl_result" where
  "bind_cl r k = (case r of None \<Rightarrow> None | Some (Inl e, cw) \<Rightarrow> Some (Inl e, cw) | Some (Inr a, cw) \<Rightarrow> k a cw)"

section \<open>Snapshots\<close>

definition getSnapshot :: "('x, 'l, 'w) cl_lib \<Rightarrow> string \<Rightarrow> u64 \<Rightarrow> 'x Client \<Rightarrow> 'w \<Rightarrow> (cl_error + 'x Data) \<times> 'w" where
  "getSnapshot P server index c w =
     (case cl_Get P (client_url server c @ ''?index='' @ FormatUint index) w of
        (Inl e, w) \<Rightarrow> (Inl (ClHTTP e), w)
      | (Inr resp, w) \<Rightarrow>
        if h_status resp \<noteq> 200 then (Inl (ErrStatus (h_status resp)), w)
        else (case h_body resp of
          Inl e \<Rightarrow> (Inl (ClHTTP e), w)
        | Inr b \<Rightarrow>
          (case UnmarshalBinary (oss_Unmarshal (cl_oss P)) (pb_Unmarshal (cl_oss P)) b (fresh_Data (oss_Unmarshal (cl_oss P) [])) of
             (Inl e, data) \<Rightarrow> (Inl (ClMeta e), w)
           | (Inr u, data) \<Rightarrow> (Inr data, w))))"

text \<open>\<open>retryUntilSnapshot\<close> tries the servers in turn until one answers or the client is closed, which gives nil.\<close>

partial_function (option) snapshot_loop :: "('x, 'l, 'w) cl_lib \<Rightarrow> (nat \<Rightarrow> bool) \<Rightarrow> u64 \<Rightarrow> 'x Client \<Rightarrow> nat \<Rightarrow> nat \<Rightarrow> 'w \<Rightarrow>
    ((cl_error + 'x Data option) \<times> 'w) option" where
  "snapshot_loop P closed idx c n cur w =
     (if c_closing c = Some True \<or> closed n then Some (Inr None, w)
      else let cur = (if cur \<ge> length (c_metaServers c) then 0 else cur) in
        if cur \<ge> length (c_metaServers c) then Some (Inl ClPanic, w)
        else (case getSnapshot P (c_metaServers c ! cur) idx c w of
          (Inr data, w) \<Rightarrow> Some (Inr (Some data), w)
        | (Inl e, w) \<Rightarrow> snapshot_loop P closed idx c (Suc n) (Suc cur) w))"

definition retryUntilSnapshot :: "('x, 'l, 'w) cl_lib \<Rightarrow> (nat \<Rightarrow> bool) \<Rightarrow> u64 \<Rightarrow> 'x Client \<times> 'w \<Rightarrow>
    ((cl_error + 'x Data option) \<times> 'w) option" where
  "retryUntilSnapshot P closed idx cw = snapshot_loop P closed idx (fst cw) 0 0 (snd cw)"

definition client_Open :: "('x, 'l, 'w) cl_lib \<Rightarrow> (nat \<Rightarrow> bool) \<Rightarrow> 'x Client \<times> 'w \<Rightarrow> ('x, 'w, unit) cl_result" where
  "client_Open P closed cw =
     (let c = (fst cw)\<lparr>c_changed := 0, c_closing := Some False\<rparr> in
      case retryUntilSnapshot P closed 0 (c, snd cw) of
        None \<Rightarrow> None
      | Some (Inl e, w) \<Rightarrow> Some (Inl e, (c, w))
      | Some (Inr None, w) \<Rightarrow> Some (Inr (), (c\<lparr>c_cacheData := NilCache\<rparr>, w))
      | Some (Inr (Some data), w) \<Rightarrow> Some (Inr (), (c\<lparr>c_cacheData := Cached data\<rparr>, w)))"

text \<open>One round of \<open>pollForUpdates\<close>: whether it goes on.\<close>

definition poll_round :: "('x, 'l, 'w) cl_lib \<Rightarrow> (nat \<Rightarrow> bool) \<Rightarrow> 'x Client \<times> 'w \<Rightarrow> ('x, 'w, bool) cl_result" where
  "poll_round P closed cw = (case client_index (fst cw) of
     Inl e \<Rightarrow> Some (Inl e, cw)
   | Inr idx \<Rightarrow>
     (case retryUntilSnapshot P closed idx cw of
        None \<Rightarrow> None
      | Some (Inl e, w) \<Rightarrow> Some (Inl e, (fst cw, w))
      | Some (Inr None, w) \<Rightarrow> Some (Inr False, (fst cw, w))
      | Some (Inr (Some data), w) \<Rightarrow> Some (Inr True, (install data (fst cw), w))))"

partial_function (option) pollForUpdates :: "('x, 'l, 'w) cl_lib \<Rightarrow> (nat \<Rightarrow> nat \<Rightarrow> bool) \<Rightarrow> nat \<Rightarrow> 'x Client \<times> 'w \<Rightarrow> ('x, 'w, unit) cl_result" where
  "pollForUpdates P closed k cw = (case poll_round P (closed k) cw of
     None \<Rightarrow> None
   | Some (Inl e, cw) \<Rightarrow> Some (Inl e, cw)
   | Some (Inr goes_on, cw) \<Rightarrow> if goes_on then pollForUpdates P closed (Suc k) cw else Some (Inr (), cw))"

end
