(* ===== verification/Meta_Client_Ops.thy ===== *)
theory Meta_Client_Ops
  imports Meta_Client
begin

text \<open>
  The operations of the meta client (\<open>src/meta/client.go\<close>) on top of its cache and of \<open>retryUntilExec\<close>: lookups of
  nodes, databases, policies, users and shards, the operations that send a command, leases, ping and joining.
  Operations that the source leaves empty have no definition.
\<close>

section \<open>Nodes\<close>

definition find_in :: "('a \<Rightarrow> bool) \<Rightarrow> meta_error \<Rightarrow> cl_error + 'a list \<Rightarrow> cl_error + 'a" where
  "find_in p e r = bind_sum r (\<lambda>xs. case List.find p xs of None \<Rightarrow> Inl (ClMeta e) | Some x \<Rightarrow> Inr x)"

definition ClusterID :: "'x Client \<Rightarrow> cl_error + u64" where
  "ClusterID c = bind_sum (cache_oss c) (\<lambda>od. Inr (o_ClusterID od))"

definition client_DataNode :: "u64 \<Rightarrow> 'x Client \<Rightarrow> cl_error + NodeInfo" where
  "client_DataNode nid c = find_in (\<lambda>n. ni_ID n = nid) ErrNodeNotFound (cache_list d_DataNodes c)"

definition DataNodes :: "'x Client \<Rightarrow> cl_error + NodeInfo list" where
  "DataNodes c = cache_list d_DataNodes c"

definition DataNodeByHTTPHost :: "string \<Rightarrow> 'x Client \<Rightarrow> cl_error + NodeInfo" where
  "DataNodeByHTTPHost httpAddr c = find_in (\<lambda>n. ni_Host n = httpAddr) ErrNodeNotFound (DataNodes c)"

definition DataNodeByTCPHost :: "string \<Rightarrow> 'x Client \<Rightarrow> cl_error + NodeInfo" where
  "DataNodeByTCPHost tcpAddr c = find_in (\<lambda>n. ni_TCPHost n = tcpAddr) ErrNodeNotFound (DataNodes c)"

text \<open>A lookup in the cache between the commands of an operation.\<close>

definition look :: "('x Client \<Rightarrow> cl_error + 'a) \<Rightarrow> 'x Client \<times> 'w \<Rightarrow> ('x, 'w, 'a) cl_result" where
  "look f cw = Some (f (fst cw), cw)"

definition client_CreateDataNode :: "('x, 'l, 'w) cl_lib \<Rightarrow> 'x cl_env \<Rightarrow> string \<Rightarrow> string \<Rightarrow> 'x Client \<times> 'w \<Rightarrow> ('x, 'w, NodeInfo) cl_result" where
  "client_CreateDataNode P E httpAddr tcpAddr cw =
     bind_cl (retryUntilExec P E (CreateDataNodeCommand httpAddr tcpAddr) cw) (\<lambda>_ cw.
     bind_cl (look (DataNodeByTCPHost tcpAddr) cw) (\<lambda>n (c, w).
     Some (Inr n, (c\<lparr>c_nodeID := ni_ID n\<rparr>, w))))"

definition client_DeleteDataNode :: "('x, 'l, 'w) cl_lib \<Rightarrow> 'x cl_env \<Rightarrow> u64 \<Rightarrow> 'x Client \<times> 'w \<Rightarrow> ('x, 'w, unit) cl_result" where
  "client_DeleteDataNode P E nid = retryUntilExec P E (DeleteDataNodeCommand nid)"

definition MetaNodes :: "'x Client \<Rightarrow> cl_error + NodeInfo list" where
  "MetaNodes c = cache_list d_MetaNodes c"

definition MetaNodeByAddr :: "string \<Rightarrow> 'x Client \<Rightarrow> cl_error + NodeInfo option" where
  "MetaNodeByAddr addr c = bind_sum (cache_list d_MetaNodes c) (\<lambda>ns. Inr (List.find (\<lambda>n. ni_Host n = addr) ns))"

definition client_CreateMetaNode :: "('x, 'l, 'w) cl_lib \<Rightarrow> 'x cl_env \<Rightarrow> u64 \<Rightarrow> string \<Rightarrow> string \<Rightarrow> 'x Client \<times> 'w \<Rightarrow> ('x, 'w, NodeInfo) cl_result" where
  "client_CreateMetaNode P E rand httpAddr tcpAddr cw =
     bind_cl (retryUntilExec P E (CreateMetaNodeCommand httpAddr tcpAddr rand) cw) (\<lambda>_ cw.
     bind_cl (look (MetaNodeByAddr httpAddr) cw) (\<lambda>n (c, w).
     case n of
       None \<Rightarrow> Some (Inl ErrNewNodeNotFound, (c, w))
     | Some n \<Rightarrow> Some (Inr n, (c\<lparr>c_nodeID := ni_ID n\<rparr>, w))))"

definition client_DeleteMetaNode :: "('x, 'l, 'w) cl_lib \<Rightarrow> 'x cl_env \<Rightarrow> u64 \<Rightarrow> 'x Client \<times> 'w \<Rightarrow> ('x, 'w, unit) cl_result" where
  "client_DeleteMetaNode P E nid = retryUntilExec P E (DeleteMetaNodeCommand nid)"

section \<open>Databases and policies\<close>

definition client_Database :: "string \<Rightarrow> 'x Client \<Rightarrow> cl_error + DatabaseInfo option" where
  "client_Database name c = bind_sum (cache_oss c) (\<lambda>od. Inr (List.find (\<lambda>d. db_Name d = name) (o_Databases od)))"

definition Databases :: "'x Client \<Rightarrow> cl_error + DatabaseInfo list" where
  "Databases c = bind_sum (cache_oss c) (\<lambda>od. Inr (o_Databases od))"

definition client_CreateDatabase :: "('x, 'l, 'w) cl_lib \<Rightarrow> 'x cl_env \<Rightarrow> string \<Rightarrow> 'x Client \<times> 'w \<Rightarrow> ('x, 'w, DatabaseInfo option) cl_result" where
  "client_CreateDatabase P E name cw =
     bind_cl (look (client_Database name) cw) (\<lambda>db cw.
     case db of
       Some d \<Rightarrow> Some (Inr (Some d), cw)
     | None \<Rightarrow>
       bind_cl (retryUntilExec P E (CreateDatabaseCommand name []) cw) (\<lambda>_ cw. look (client_Database name) cw))"

text \<open>\<open>CreateDatabaseWithRetentionPolicy\<close>, from the marshalling of the policy on.\<close>

definition send_database :: "('x, 'l, 'w) cl_lib \<Rightarrow> 'x cl_env \<Rightarrow> string \<Rightarrow> RetentionPolicyInfo \<Rightarrow> 'x Client \<times> 'w \<Rightarrow> ('x, 'w, DatabaseInfo option) cl_result" where
  "send_database P E name rpi cw = (case cl_MarshalPolicy P rpi of
     Inl e \<Rightarrow> Some (Inl (ClHTTP e), cw)
   | Inr rpiB \<Rightarrow> bind_cl (retryUntilExec P E (CreateDatabaseCommand name rpiB) cw) (\<lambda>_ cw. look (client_Database name) cw))"

definition too_short :: "RetentionPolicyInfo \<Rightarrow> bool" where
  "too_short rpi \<longleftrightarrow> rp_Duration rpi < MinRetentionPolicyDuration \<and> rp_Duration rpi \<noteq> 0"

definition CreateDatabaseWithRetentionPolicy :: "('x, 'l, 'w) cl_lib \<Rightarrow> 'x cl_env \<Rightarrow> string \<Rightarrow> RetentionPolicyInfo \<Rightarrow>
    'x Client \<times> 'w \<Rightarrow> ('x, 'w, DatabaseInfo option) cl_result" where
  "CreateDatabaseWithRetentionPolicy P E name rpi cw =
     (if too_short rpi then Some (Inl (ClMeta ErrRetentionPolicyDurationTooLow), cw)
      else bind_cl (look (client_Database name) cw) (\<lambda>db cw.
        case Option.bind db (\<lambda>d. cl_PolicyOf P d (rp_Name rpi)) of
          Some rp \<Rightarrow>
            (if rp_ReplicaN rp \<noteq> rp_ReplicaN rpi \<or> rp_Duration rp \<noteq> rp_Duration rpi
             then Some (Inl (ClMeta ErrRetentionPolicyConflict), cw) else Some (Inr db, cw))
        | None \<Rightarrow> send_database P E name rpi cw))"

definition client_DropDatabase :: "('x, 'l, 'w) cl_lib \<Rightarrow> 'x cl_env \<Rightarrow> string \<Rightarrow> 'x Client \<times> 'w \<Rightarrow> ('x, 'w, unit) cl_result" where
  "client_DropDatabase P E name = retryUntilExec P E (DropDatabaseCommand name)"

definition client_RetentionPolicy :: "('x, 'l, 'w) cl_lib \<Rightarrow> string \<Rightarrow> string \<Rightarrow> 'x Client \<Rightarrow> cl_error + RetentionPolicyInfo option" where
  "client_RetentionPolicy P database name c =
     bind_sum (client_Database database c) (\<lambda>db. case db of
       None \<Rightarrow> Inl (ErrDatabaseNotFound database) | Some d \<Rightarrow> Inr (cl_PolicyOf P d name))"

text \<open>The error of the first lookup is dropped; only a panic is not.\<close>

definition client_CreateRetentionPolicy :: "('x, 'l, 'w) cl_lib \<Rightarrow> 'x cl_env \<Rightarrow> string \<Rightarrow> RetentionPolicyInfo \<Rightarrow>
    'x Client \<times> 'w \<Rightarrow> ('x, 'w, RetentionPolicyInfo option) cl_result" where
  "client_CreateRetentionPolicy P E database rpi cw =
     (case client_RetentionPolicy P database (rp_Name rpi) (fst cw) of
        Inl ClPanic \<Rightarrow> Some (Inl ClPanic, cw)
      | Inr (Some rp) \<Rightarrow> Some (Inr (Some rp), cw)
      | _ \<Rightarrow>
        (if too_short rpi then Some (Inl (ClMeta ErrRetentionPolicyDurationTooLow), cw)
         else (case cl_MarshalPolicy P rpi of
           Inl e \<Rightarrow> Some (Inl (ClHTTP e), cw)
         | Inr rpiB \<Rightarrow>
           bind_cl (retryUntilExec P E (CreateRetentionPolicyCommand database rpiB) cw)
             (\<lambda>_ cw. look (client_RetentionPolicy P database (rp_Name rpi)) cw))))"

definition client_DropRetentionPolicy :: "('x, 'l, 'w) cl_lib \<Rightarrow> 'x cl_env \<Rightarrow> string \<Rightarrow> string \<Rightarrow> 'x Client \<times> 'w \<Rightarrow> ('x, 'w, unit) cl_result" where
  "client_DropRetentionPolicy P E database name = retryUntilExec P E (DropRetentionPolicyCommand database name)"

definition client_SetDefaultRetentionPolicy :: "('x, 'l, 'w) cl_lib \<Rightarrow> 'x cl_env \<Rightarrow> string \<Rightarrow> string \<Rightarrow> 'x Client \<times> 'w \<Rightarrow> ('x, 'w, unit) cl_result" where
  "client_SetDefaultRetentionPolicy P E database name = retryUntilExec P E (SetDefaultRetentionPolicyCommand database name)"

text \<open>\<open>int64(*rpu.Duration)\<close> keeps the value, \<open>uint32(*rpu.ReplicaN)\<close> its low 32 bits.\<close>

definition client_UpdateRetentionPolicy :: "('x, 'l, 'w) cl_lib \<Rightarrow> 'x cl_env \<Rightarrow> string \<Rightarrow> string \<Rightarrow> RetentionPolicyUpdate \<Rightarrow>
    'x Client \<times> 'w \<Rightarrow> ('x, 'w, unit) cl_result" where
  "client_UpdateRetentionPolicy P E database name rpu =
     retryUntilExec P E (UpdateRetentionPolicyCommand database name (rpu_Name rpu) (rpu_Duration rpu)
       (map_option (\<lambda>n. n mod 2 ^ 32) (rpu_ReplicaN rpu)))"

definition client_CreateContinuousQuery :: "('x, 'l, 'w) cl_lib \<Rightarrow> 'x cl_env \<Rightarrow> string \<Rightarrow> string \<Rightarrow> string \<Rightarrow> 'x Client \<times> 'w \<Rightarrow> ('x, 'w, unit) cl_result" where
  "client_CreateContinuousQuery P E database name query = retryUntilExec P E (CreateContinuousQueryCommand database name query)"

definition client_DropContinuousQuery :: "('x, 'l, 'w) cl_lib \<Rightarrow> 'x cl_env \<Rightarrow> string \<Rightarrow> string \<Rightarrow> 'x Client \<times> 'w \<Rightarrow> ('x, 'w, unit) cl_result" where
  "client_DropContinuousQuery P E database name = retryUntilExec P E (DropContinuousQueryCommand database name)"

definition client_CreateSubscription :: "('x, 'l, 'w) cl_lib \<Rightarrow> 'x cl_env \<Rightarrow> string \<Rightarrow> string \<Rightarrow> string \<Rightarrow> string \<Rightarrow> string list \<Rightarrow>
    'x Client \<times> 'w \<Rightarrow> ('x, 'w, unit) cl_result" where
  "client_CreateSubscription P E database rp name mode destinations =
     retryUntilExec P E (CreateSubscriptionCommand database rp name mode destinations)"

definition client_DropSubscription :: "('x, 'l, 'w) cl_lib \<Rightarrow> 'x cl_env \<Rightarrow> string \<Rightarrow> string \<Rightarrow> string \<Rightarrow> 'x Client \<times> 'w \<Rightarrow> ('x, 'w, unit) cl_result" where
  "client_DropSubscription P E database rp name = retryUntilExec P E (DropSubscriptionCommand database rp name)"

definition client_Data :: "('x, 'l, 'w) cl_lib \<Rightarrow> 'x Client \<Rightarrow> cl_error + 'x Data" where
  "client_Data P c = (case c_cacheData c of Cached d \<Rightarrow> Inr (Clone (oss_Clone (cl_oss P)) d) | _ \<Rightarrow> Inl ClPanic)"

text \<open>The error of \<open>MarshalBinary\<close> is dropped: the command then carries no bytes.\<close>

definition client_SetData :: "('x, 'l, 'w) cl_lib \<Rightarrow> 'x cl_env \<Rightarrow> 'x Data \<Rightarrow> 'x Client \<times> 'w \<Rightarrow> ('x, 'w, unit) cl_result" where
  "client_SetData P E data =
     retryUntilExec P E (SetDataCommand (case MarshalBinary (oss_Marshal (cl_oss P)) (pb_Marshal (cl_oss P)) data of
       Inl e \<Rightarrow> [] | Inr b \<Rightarrow> b))"

definition client_MarshalBinary :: "('x, 'l, 'w) cl_lib \<Rightarrow> 'x Client \<Rightarrow> cl_error + byte list" where
  "client_MarshalBinary P c = (case c_cacheData c of
     Cached d \<Rightarrow> (case MarshalBinary (oss_Marshal (cl_oss P)) (pb_Marshal (cl_oss P)) d of Inl e \<Rightarrow> Inl (ClMeta e) | Inr b \<Rightarrow> Inr b)
   | _ \<Rightarrow> Inl ClPanic)"

section \<open>Shards\<close>

definition shard_groups :: "'x OssData \<Rightarrow> (DatabaseInfo \<times> RetentionPolicyInfo \<times> ShardGroupInfo) list" where
  "shard_groups od = concat (map (\<lambda>di. concat (map (\<lambda>rpi. map (\<lambda>sgi. (di, rpi, sgi)) (rp_ShardGroups rpi))
     (db_RetentionPolicies di))) (o_Databases od))"

definition ShardIDs :: "'x Client \<Rightarrow> cl_error + u64 list" where
  "ShardIDs c = bind_sum (cache_oss c) (\<lambda>od.
     Inr (sort (concat (map (\<lambda>(di, rpi, sgi). map si_ID (sg_Shards sgi)) (shard_groups od)))))"

definition in_range :: "('x, 'l, 'w) cl_lib \<Rightarrow> int \<Rightarrow> int \<Rightarrow> ShardGroupInfo \<Rightarrow> bool" where
  "in_range P tmin tmax g \<longleftrightarrow> \<not> (cl_Deleted P g \<or> \<not> cl_Overlaps P g tmin tmax)"

text \<open>The groups in the range with their positions in the policy.\<close>

definition groups_in_range :: "('x, 'l, 'w) cl_lib \<Rightarrow> string \<Rightarrow> string \<Rightarrow> int \<Rightarrow> int \<Rightarrow> 'x Client \<Rightarrow> cl_error + (nat \<times> ShardGroupInfo) list" where
  "groups_in_range P database policy tmin tmax c =
     bind_sum (cache_oss c) (\<lambda>od.
     bind_sum (cl_RetentionPolicy P od database policy) (\<lambda>rpi. case rpi of
       None \<Rightarrow> Inl (ErrPolicyNotFound policy)
     | Some rpi \<Rightarrow> Inr (filter (\<lambda>(i, g). in_range P tmin tmax g) (enumerate 0 (rp_ShardGroups rpi)))))"

definition ShardGroupsByTimeRange :: "('x, 'l, 'w) cl_lib \<Rightarrow> string \<Rightarrow> string \<Rightarrow> int \<Rightarrow> int \<Rightarrow> 'x Client \<Rightarrow> cl_error + ShardGroupInfo list" where
  "ShardGroupsByTimeRange P database policy tmin tmax c =
     bind_sum (groups_in_range P database policy tmin tmax c) (\<lambda>gs. Inr (map snd gs))"

text \<open>
  \<open>ShardsByTimeRange\<close> collects pointers into the slices of the cached metadata, so that a shard that several
  sources find is one key of the map. A pointer is the database, the policy and the positions of the group and of
  the shard; \<open>iter\<close> is the order in which the map is ranged over.
\<close>

datatype query_source = MeasurementSource string string | OtherSource

type_synonym shard_ptr = "string \<times> string \<times> nat \<times> nat"

definition group_shards :: "string \<Rightarrow> string \<Rightarrow> (nat \<times> ShardGroupInfo) list \<Rightarrow> (shard_ptr \<times> ShardInfo) list" where
  "group_shards database policy gs =
     concat (map (\<lambda>(i, g). map (\<lambda>(j, sh). ((database, policy, i, j), sh)) (enumerate 0 (sg_Shards g))) gs)"

fun collect_shards :: "('x, 'l, 'w) cl_lib \<Rightarrow> query_source list \<Rightarrow> int \<Rightarrow> int \<Rightarrow> 'x Client \<Rightarrow> (shard_ptr \<times> ShardInfo) list \<Rightarrow>
    cl_error + (shard_ptr \<times> ShardInfo) list" where
  "collect_shards P [] tmin tmax c m = Inr m"
| "collect_shards P (OtherSource # srcs) tmin tmax c m = Inl ErrInvalidSource"
| "collect_shards P (MeasurementSource database policy # srcs) tmin tmax c m =
     bind_sum (groups_in_range P database policy tmin tmax c) (\<lambda>gs.
       collect_shards P srcs tmin tmax c (fold (\<lambda>(k, sh). AList.update k sh) (group_shards database policy gs) m))"

definition ShardsByTimeRange :: "('x, 'l, 'w) cl_lib \<Rightarrow> ((shard_ptr \<times> ShardInfo) list \<Rightarrow> (shard_ptr \<times> ShardInfo) list) \<Rightarrow>
    query_source list \<Rightarrow> int \<Rightarrow> int \<Rightarrow> 'x Client \<Rightarrow> cl_error + ShardInfo list" where
  "ShardsByTimeRange P iter sources tmin tmax c =
     bind_sum (collect_shards P sources tmin tmax c []) (\<lambda>m. Inr (map snd (iter m)))"

text \<open>\<open>timestamp.UnixNano()\<close> for a time counted from the zero time; it wraps around at 64 bits.\<close>

definition to_UnixNano :: "int \<Rightarrow> int" where
  "to_UnixNano t = i64 (t - 62135596800 * 1000000000)"

definition client_CreateShardGroup :: "('x, 'l, 'w) cl_lib \<Rightarrow> 'x cl_env \<Rightarrow> string \<Rightarrow> string \<Rightarrow> int \<Rightarrow>
    'x Client \<times> 'w \<Rightarrow> ('x, 'w, ShardGroupInfo option) cl_result" where
  "client_CreateShardGroup P E database policy timestamp cw = (case cache_oss (fst cw) of
     Inl e \<Rightarrow> Some (Inl e, cw)
   | Inr od \<Rightarrow>
     (case cl_GroupByTimestamp P od database policy timestamp of
        Inr (Some sg) \<Rightarrow> Some (Inr (Some sg), cw)
      | _ \<Rightarrow>
        bind_cl (retryUntilExec P E (CreateShardGroupCommand database policy (to_UnixNano timestamp)) cw) (\<lambda>_ cw.
        bind_cl (look (client_RetentionPolicy P database policy) cw) (\<lambda>rpi cw.
        case rpi of
          None \<Rightarrow> Some (Inl ErrPolicyDeleted, cw)
        | Some rpi \<Rightarrow> Some (Inr (cl_PolicyGroupByTimestamp P rpi timestamp), cw)))))"

definition client_DeleteShardGroup :: "('x, 'l, 'w) cl_lib \<Rightarrow> 'x cl_env \<Rightarrow> string \<Rightarrow> string \<Rightarrow> u64 \<Rightarrow> 'x Client \<times> 'w \<Rightarrow> ('x, 'w, unit) cl_result" where
  "client_DeleteShardGroup P E database policy sgid = retryUntilExec P E (DeleteShardGroupCommand database policy sgid)"

text \<open>
  The policies of one database. A group that was created and is nil, because the policy has no group at the
  time, is dereferenced for the log line and panics.
\<close>

definition ends_between :: "('x, 'l, 'w) cl_lib \<Rightarrow> int \<Rightarrow> int \<Rightarrow> ShardGroupInfo \<Rightarrow> bool" where
  "ends_between P from to g \<longleftrightarrow> \<not> cl_Deleted P g \<and> sg_EndTime g < to \<and> from < sg_EndTime g"

fun precreate_policies :: "('x, 'l, 'w) cl_lib \<Rightarrow> 'x cl_env \<Rightarrow> int \<Rightarrow> int \<Rightarrow> string \<Rightarrow> RetentionPolicyInfo list \<Rightarrow>
    'x Client \<times> 'w \<Rightarrow> ('x, 'w, unit) cl_result" where
  "precreate_policies P E from to db [] cw = Some (Inr (), cw)"
| "precreate_policies P E from to db (rp # rps) cw =
     (if rp_ShardGroups rp \<noteq> [] \<and> ends_between P from to (last (rp_ShardGroups rp))
      then (case client_CreateShardGroup P E db (rp_Name rp) (sg_EndTime (last (rp_ShardGroups rp)) + 1) cw of
        None \<Rightarrow> None
      | Some (Inl ClPanic, cw) \<Rightarrow> Some (Inl ClPanic, cw)
      | Some (Inl e, cw) \<Rightarrow> precreate_policies P E from to db rps cw
      | Some (Inr None, cw) \<Rightarrow> Some (Inl ClPanic, cw)
      | Some (Inr (Some sg), cw) \<Rightarrow> precreate_policies P E from to db rps cw)
      else precreate_policies P E from to db rps cw)"

text \<open>\<open>return nil\<close> stands at the end of the body of the loop over the databases: only the first one is visited.\<close>

definition PrecreateShardGroups :: "('x, 'l, 'w) cl_lib \<Rightarrow> 'x cl_env \<Rightarrow> int \<Rightarrow> int \<Rightarrow> 'x Client \<times> 'w \<Rightarrow> ('x, 'w, unit) cl_result" where
  "PrecreateShardGroups P E from to cw = (case cache_oss (fst cw) of
     Inl e \<Rightarrow> Some (Inl e, cw)
   | Inr od \<Rightarrow>
     (case o_Databases od of
        [] \<Rightarrow> Some (Inr (), cw)
      | di # dis \<Rightarrow> precreate_policies P E from to (db_Name di) (db_RetentionPolicies di) cw))"

definition ShardOwner_of :: "('x, 'l, 'w) cl_lib \<Rightarrow> u64 \<Rightarrow> 'x Client \<Rightarrow> cl_error + (string \<times> string \<times> ShardGroupInfo) option" where
  "ShardOwner_of P shardID c = bind_sum (cache_oss c) (\<lambda>od.
     Inr (map_option (\<lambda>(di, rpi, g). (db_Name di, rp_Name rpi, g))
       (List.find (\<lambda>(di, rpi, g). \<not> cl_Deleted P g \<and> list_ex (\<lambda>sh. si_ID sh = shardID) (sg_Shards g)) (shard_groups od))))"

section \<open>Users\<close>

definition Users :: "'x Client \<Rightarrow> cl_error + UserInfo list" where
  "Users c = cache_list d_Users c"

definition client_User :: "string \<Rightarrow> 'x Client \<Rightarrow> cl_error + UserInfo" where
  "client_User name c = find_in (\<lambda>u. u_Name u = name) ErrUserNotFound (cache_list d_Users c)"

definition client_CreateUser :: "('x, 'l, 'w) cl_lib \<Rightarrow> 'x cl_env \<Rightarrow> string \<Rightarrow> string \<Rightarrow> bool \<Rightarrow> 'x Client \<times> 'w \<Rightarrow> ('x, 'w, UserInfo) cl_result" where
  "client_CreateUser P E name password admin cw = (case client_Data P (fst cw) of
     Inl e \<Rightarrow> Some (Inl e, cw)
   | Inr data \<Rightarrow>
     (case User name data of
        Some u \<Rightarrow>
          (if \<not> cl_CompareHash P (u_Hash u) password \<or> u_Admin u \<noteq> admin
           then Some (Inl (ClMeta ErrUserExists), cw) else Some (Inr u, cw))
      | None \<Rightarrow>
        (case cl_GenerateHash P password (snd cw) of
           (Inl e, w) \<Rightarrow> Some (Inl (ClHTTP e), (fst cw, w))
         | (Inr hash, w) \<Rightarrow>
           bind_cl (retryUntilExec P E (CreateUserCommand name hash admin) (fst cw, w)) (\<lambda>_ cw. look (client_User name) cw))))"

definition client_UpdateUser :: "('x, 'l, 'w) cl_lib \<Rightarrow> 'x cl_env \<Rightarrow> string \<Rightarrow> string \<Rightarrow> 'x Client \<times> 'w \<Rightarrow> ('x, 'w, unit) cl_result" where
  "client_UpdateUser P E name password cw = (case cl_GenerateHash P password (snd cw) of
     (Inl e, w) \<Rightarrow> Some (Inl (ClHTTP e), (fst cw, w))
   | (Inr hash, w) \<Rightarrow> retryUntilExec P E (UpdateUserCommand name hash) (fst cw, w))"

definition client_DropUser :: "('x, 'l, 'w) cl_lib \<Rightarrow> 'x cl_env \<Rightarrow> string \<Rightarrow> 'x Client \<times> 'w \<Rightarrow> ('x, 'w, unit) cl_result" where
  "client_DropUser P E name = retryUntilExec P E (DropUserCommand name)"

definition client_SetPrivilege :: "('x, 'l, 'w) cl_lib \<Rightarrow> 'x cl_env \<Rightarrow> string \<Rightarrow> string \<Rightarrow> int \<Rightarrow> 'x Client \<times> 'w \<Rightarrow> ('x, 'w, unit) cl_result" where
  "client_SetPrivilege P E username database p = retryUntilExec P E (SetPrivilegeCommand username database (signed_take_bit 31 p))"

definition client_SetAdminPrivilege :: "('x, 'l, 'w) cl_lib \<Rightarrow> 'x cl_env \<Rightarrow> string \<Rightarrow> bool \<Rightarrow> 'x Client \<times> 'w \<Rightarrow> ('x, 'w, unit) cl_result" where
  "client_SetAdminPrivilege P E username admin = retryUntilExec P E (SetAdminPrivilegeCommand username admin)"

definition UserPrivileges :: "('x, 'l, 'w) cl_lib \<Rightarrow> string \<Rightarrow> 'x Client \<Rightarrow> cl_error + (string \<times> int) list" where
  "UserPrivileges P username c = bind_sum (cache_oss c) (\<lambda>od. cl_Privileges P od username)"

definition UserPrivilege :: "('x, 'l, 'w) cl_lib \<Rightarrow> string \<Rightarrow> string \<Rightarrow> 'x Client \<Rightarrow> cl_error + int option" where
  "UserPrivilege P username database c = bind_sum (cache_oss c) (\<lambda>od. cl_Privilege P od username database)"

definition AdminUserExists :: "'x Client \<Rightarrow> cl_error + bool" where
  "AdminUserExists c = bind_sum (cache_oss c) (\<lambda>od. Inr (list_ex ou_Admin (o_Users od)))"

definition UserCount :: "'x Client \<Rightarrow> cl_error + nat" where
  "UserCount c = bind_sum (cache_oss c) (\<lambda>od. Inr (length (o_Users od)))"

section \<open>Leases, ping and joining\<close>

text \<open>\<open>string(b)\<close> of the bytes of a body; \<open>Ping\<close> passes it to \<open>fmt.Errorf\<close> as the format, which the error carries.\<close>

definition body_string :: "byte list \<Rightarrow> string" where
  "body_string b = map (\<lambda>x. char_of (unat x)) b"

text \<open>And back, \<open>[]byte(s)\<close>.\<close>

definition string_bytes :: "string \<Rightarrow> byte list" where
  "string_bytes s = map (\<lambda>c. word_of_nat (of_char c)) s"

definition Ping :: "('x, 'l, 'w) cl_lib \<Rightarrow> bool \<Rightarrow> 'x Client \<times> 'w \<Rightarrow> (cl_error + unit) \<times> 'w" where
  "Ping P checkAll cw = (case c_metaServers (fst cw) of
     [] \<Rightarrow> (Inl ClPanic, snd cw)
   | server # _ \<Rightarrow>
     (case cl_Get P (client_url server (fst cw) @ ''/ping'' @ (if checkAll then ''?all=true'' else [])) (snd cw) of
        (Inl e, w) \<Rightarrow> (Inl (ClHTTP e), w)
      | (Inr resp, w) \<Rightarrow>
        if h_status resp = 200 then (Inr (), w)
        else (case h_body resp of Inl e \<Rightarrow> (Inl (ClHTTP e), w) | Inr b \<Rightarrow> (Inl (ErrFormat (body_string b)), w))))"

fun lease_loop :: "('x, 'l, 'w) cl_lib \<Rightarrow> string \<Rightarrow> string list \<Rightarrow> 'x Client \<Rightarrow> 'w \<Rightarrow> (cl_error + 'l) \<times> 'w" where
  "lease_loop P name [] c w = (Inl (ErrLease ''unrecognized meta service error''), w)"
| "lease_loop P name (server # servers) c w =
     (case cl_Get P (client_url server c @ ''/lease?name='' @ name @ ''&nodeid='' @ FormatUint (c_nodeID c)) w of
        (Inl e, w) \<Rightarrow> (Inl (ClHTTP e), w)
      | (Inr resp, w) \<Rightarrow>
        if h_status resp = 200 then
          (case h_body resp of
             Inl e \<Rightarrow> (Inl (ClHTTP e), w)
           | Inr b \<Rightarrow> (case cl_LeaseJSON P b of Inl e \<Rightarrow> (Inl (ClHTTP e), w) | Inr l \<Rightarrow> (Inr l, w)))
        else if h_status resp = 409 then lease_loop P name servers c w
        else if h_status resp = 503 then (Inl (ClMeta ErrServiceUnavailable), w)
        else if h_status resp = 400 then
          (case h_body resp of Inl e \<Rightarrow> (Inl (ClHTTP e), w) | Inr b \<Rightarrow> (Inl (ErrLease (''meta service: '' @ body_string b)), w))
        else if h_status resp = 500 then (Inl (ErrLease ''meta service internal error''), w)
        else (Inl (ErrLease ''unrecognized meta service error''), w))"

definition acquireLease :: "('x, 'l, 'w) cl_lib \<Rightarrow> string \<Rightarrow> 'x Client \<times> 'w \<Rightarrow> (cl_error + 'l) \<times> 'w" where
  "acquireLease P name cw = lease_loop P name (c_metaServers (fst cw)) (fst cw) (snd cw)"

text \<open>
  The attempts \<open>n\<close> of \<open>AcquireLease\<close> from 1 to 10, with the list of the pauses in nanoseconds: \<open>10\<^sup>n\<close>
  milliseconds after attempt \<open>n\<close>, also after the last one.
\<close>

fun lease_attempts :: "('x, 'l, 'w) cl_lib \<Rightarrow> string \<Rightarrow> 'x Client \<Rightarrow> nat \<Rightarrow> nat \<Rightarrow> cl_error + 'l \<Rightarrow> 'w \<Rightarrow> (cl_error + 'l) \<times> int list \<times> 'w" where
  "lease_attempts P name c n 0 r0 w = (r0, [], w)"
| "lease_attempts P name c n (Suc k) r0 w =
     (case acquireLease P name (c, w) of (r, w) \<Rightarrow>
        if r = Inl (ClMeta ErrServiceUnavailable) \<or> r = Inl ErrService
        then (case lease_attempts P name c (Suc n) k r w of (r, pauses, w) \<Rightarrow> (r, i64 (10 ^ n * 1000000) # pauses, w))
        else (r, [], w))"

definition AcquireLease :: "('x, 'l, 'w) cl_lib \<Rightarrow> string \<Rightarrow> 'x Client \<times> 'w \<Rightarrow> (cl_error + 'l) \<times> int list \<times> 'w" where
  "AcquireLease P name cw = lease_attempts P name (fst cw) 1 10 (Inl ErrService) (snd cw)"

text \<open>The answer is decoded into the same node, so that fields it leaves out keep their values, and \<open>null\<close> gives nil.\<close>

partial_function (option) join_loop :: "('x, 'l, 'w) cl_lib \<Rightarrow> NodeInfo \<Rightarrow> byte list \<Rightarrow> 'x Client \<Rightarrow> nat \<Rightarrow> string \<Rightarrow> 'w \<Rightarrow>
    ((cl_error + NodeInfo option) \<times> 'w) option" where
  "join_loop P node b c cur redirect w = (case next_url ''/join'' cur redirect c of
     None \<Rightarrow> Some (Inl ClPanic, w)
   | Some (url, cur) \<Rightarrow>
     (case cl_Post P url b w of
        (Inl e, w) \<Rightarrow> join_loop P node b c (Suc cur) [] w
      | (Inr resp, w) \<Rightarrow>
        if h_status resp = 200 then
          (case bind_sum (h_body resp) (\<lambda>body. cl_NodeOfJSON P body node) of
             Inl e \<Rightarrow> Some (Inl (ClHTTP e), w)
           | Inr n \<Rightarrow> Some (Inr n, w))
        else if h_status resp = 307 then join_loop P node b c cur (h_location resp) w
        else join_loop P node b c (Suc cur) [] w))"

definition JoinMetaServer :: "('x, 'l, 'w) cl_lib \<Rightarrow> string \<Rightarrow> string \<Rightarrow> 'x Client \<times> 'w \<Rightarrow> ((cl_error + NodeInfo option) \<times> 'w) option" where
  "JoinMetaServer P httpAddr tcpAddr cw =
     (let node = \<lparr>ni_ID = 0, ni_Host = httpAddr, ni_TCPHost = tcpAddr, ni_PendingShardOwners = []\<rparr> in
      case cl_NodeJSON P node of
        Inl e \<Rightarrow> Some (Inl (ClHTTP e), snd cw)
      | Inr b \<Rightarrow> join_loop P node b (fst cw) 0 [] (snd cw))"

text \<open>\<open>Unique\<close> builds a set and ranges over it, in the order \<open>iter\<close>.\<close>

definition Unique :: "(string list \<Rightarrow> string list) \<Rightarrow> string list \<Rightarrow> string list" where
  "Unique iter peers = iter (fold List.insert peers [])"

definition Peers_Append :: "(string list \<Rightarrow> string list) \<Rightarrow> string list \<Rightarrow> string list \<Rightarrow> string list" where
  "Peers_Append iter p peers = Unique iter (peers @ p)"

definition Peers_Contains :: "string \<Rightarrow> string list \<Rightarrow> bool" where
  "Peers_Contains peer peers = list_ex (\<lambda>p. p = peer) peers"

fun peers_loop :: "('x, 'l, 'w) cl_lib \<Rightarrow> (string list \<Rightarrow> string list) \<Rightarrow> 'x Client \<Rightarrow> string list \<Rightarrow> string list \<Rightarrow> 'w \<Rightarrow> string list \<times> 'w" where
  "peers_loop P iter c [] peers w = (Unique iter peers, w)"
| "peers_loop P iter c (server # servers) peers w =
     (case cl_Get P (client_url server c @ ''/peers'') w of
        (Inl e, w) \<Rightarrow> peers_loop P iter c servers peers w
      | (Inr resp, w) \<Rightarrow>
        if h_status resp \<noteq> 200 then peers_loop P iter c servers peers w
        else (case h_body resp of
          Inl e \<Rightarrow> peers_loop P iter c servers peers w
        | Inr b \<Rightarrow> (case cl_PeersJSON P b of
            Inl e \<Rightarrow> peers_loop P iter c servers peers w
          | Inr p \<Rightarrow> peers_loop P iter c servers (Peers_Append iter p peers) w)))"

definition client_peers :: "('x, 'l, 'w) cl_lib \<Rightarrow> (string list \<Rightarrow> string list) \<Rightarrow> 'x Client \<times> 'w \<Rightarrow> string list \<times> 'w" where
  "client_peers P iter cw = peers_loop P iter (fst cw) (c_metaServers (fst cw)) [] (snd cw)"

end
