(* ===== verification/Meta_Client_Auth.thy ===== *)
theory Meta_Client_Auth
  imports Meta_Client_Ops Meta_Users
begin

text \<open>
  Authentication in the meta client (\<open>src/meta/client.go\<close>): \<open>hashWithSalt\<close>, \<open>saltedHash\<close> and \<open>Authenticate\<close> with its
  cache of salted hashes. The cache is consistent after every history of logins and snapshots, so that
  \<open>Authenticate\<close> answers what a comparison with the bcrypt hash would.
\<close>

definition hashWithSalt :: "('x, 'l, 'w) cl_lib \<Rightarrow> byte list \<Rightarrow> string \<Rightarrow> byte list" where
  "hashWithSalt P salt password = cl_Sha256 P (salt @ string_bytes password)"

text \<open>The bytes of a string determine it.\<close>

lemma body_string_bytes [simp]: "body_string (string_bytes s) = s"
  proof -
  have "char_of (unat (word_of_nat (of_char c) :: byte)) = c" for c
    by (simp add: unat_of_nat)
  then show ?thesis by (simp add: body_string_def string_bytes_def o_def)
qed

lemma string_bytes_inject [simp]: "string_bytes s = string_bytes t \<longleftrightarrow> s = t"
  using body_string_bytes by metis

definition saltedHash :: "('x, 'l, 'w) cl_lib \<Rightarrow> string \<Rightarrow> 'w \<Rightarrow> (string + (byte list \<times> byte list)) \<times> 'w" where
  "saltedHash P password w = (case cl_ReadSalt P SaltBytes w of
     (Inl e, w) \<Rightarrow> (Inl e, w)
   | (Inr salt, w) \<Rightarrow> (Inr (salt, hashWithSalt P salt password), w))"

definition cached_user :: "string \<Rightarrow> 'x Client \<Rightarrow> cl_error + UserInfo option" where
  "cached_user username c = bind_sum (cache_list d_Users c) (\<lambda>us. Inr (List.find (\<lambda>u. u_Name u = username) us))"

definition Authenticate :: "('x, 'l, 'w) cl_lib \<Rightarrow> string \<Rightarrow> string \<Rightarrow> 'x Client \<times> 'w \<Rightarrow> (cl_error + UserInfo) \<times> ('x Client \<times> 'w)" where
  "Authenticate P username password cw = (case cw of (c, w) \<Rightarrow>
     (case cached_user username c of
        Inl e \<Rightarrow> (Inl e, (c, w))
      | Inr None \<Rightarrow> (Inl (ClMeta ErrUserNotFound), (c, w))
      | Inr (Some userInfo) \<Rightarrow>
        if (case map_of (c_authCache c) username of
              Some au \<Rightarrow> hashWithSalt P (au_salt au) password = au_hash au | None \<Rightarrow> False)
        then (Inr userInfo, (c, w))
        else if \<not> cl_CompareHash P (u_Hash userInfo) password then (Inl (ClMeta ErrAuthenticate), (c, w))
        else (case saltedHash P password w of
          (Inl e, w) \<Rightarrow> (Inl (ClHTTP e), (c, w))
        | (Inr (salt, hashed), w) \<Rightarrow>
          (Inr userInfo, (c\<lparr>c_authCache := AList.update username
             \<lparr>au_bhash = u_Hash userInfo, au_salt = salt, au_hash = hashed\<rparr> (c_authCache c)\<rparr>, w)))))"

section \<open>Consistency of the cache\<close>

text \<open>The check without the cache.\<close>

definition bcrypt_check :: "('x, 'l, 'w) cl_lib \<Rightarrow> string \<Rightarrow> string \<Rightarrow> 'x Client \<Rightarrow> cl_error + UserInfo" where
  "bcrypt_check P username password c = (case cached_user username c of
     Inl e \<Rightarrow> Inl e
   | Inr None \<Rightarrow> Inl (ClMeta ErrUserNotFound)
   | Inr (Some u) \<Rightarrow> if cl_CompareHash P (u_Hash u) password then Inr u else Inl (ClMeta ErrAuthenticate))"

text \<open>
  An entry holds the salted hash of a password that the bcrypt hash in it accepts, and that hash is the one
  of the user of the cached metadata.
\<close>

definition auth_inv :: "('x, 'l, 'w) cl_lib \<Rightarrow> 'x Client \<Rightarrow> bool" where
  "auth_inv P c \<longleftrightarrow> (\<forall>name au. map_of (c_authCache c) name = Some au \<longrightarrow>
     (\<exists>pw. cl_CompareHash P (au_bhash au) pw \<and> au_hash au = hashWithSalt P (au_salt au) pw) \<and>
     (\<exists>u. cached_user name c = Inr (Some u) \<and> u_Hash u = au_bhash au))"

lemma auth_invI:
  assumes "\<And>name au. map_of (c_authCache c) name = Some au \<Longrightarrow>
    (\<exists>pw. cl_CompareHash P (au_bhash au) pw \<and> au_hash au = hashWithSalt P (au_salt au) pw) \<and>
    (\<exists>u. cached_user name c = Inr (Some u) \<and> u_Hash u = au_bhash au)"
  shows "auth_inv P c"
  using assms by (simp add: auth_inv_def)

lemma auth_invD:
  assumes "auth_inv P c" "map_of (c_authCache c) name = Some au" "cached_user name c = Inr (Some u)"
  shows "u_Hash u = au_bhash au" "\<exists>pw. cl_CompareHash P (u_Hash u) pw \<and> au_hash au = hashWithSalt P (au_salt au) pw"
  using assms by (fastforce simp: auth_inv_def)+

lemma auth_inv_empty: "c_authCache c = [] \<Longrightarrow> auth_inv P c"
  by (simp add: auth_inv_def)

lemma keep_entries_sound:
  "map_of (keep_entries old us new) name = Some au \<Longrightarrow>
     map_of new name = Some au \<or> map_of old name = Some au \<and> (\<exists>u \<in> set us. u_Name u = name \<and> u_Hash u = au_bhash au)"
proof (induction us arbitrary: new)
  case (Cons u us)
  then show ?case
    by (fastforce simp: update_conv split: option.splits if_splits dest!: Cons.IH)
qed simp

lemma find_user:
  assumes "distinct (map u_Name us)" "u \<in> set us"
  shows "List.find (\<lambda>v. u_Name v = u_Name u) us = Some u"
  using assms by (induction us) (auto simp: image_iff)

lemma auth_inv_install:
  assumes "auth_inv P c" "users_inv data"
  shows "auth_inv P (install data c)"
proof (cases "client_index c")
  case (Inr idx)
  have c: "c_authCache (install data c) = keep_entries (c_authCache c) (d_Users data) []"
      "c_cacheData (install data c) = Cached data"
    using Inr by (simp_all add: install_def updateAuthCache_def Let_def)
  show ?thesis
  proof (rule auth_invI)
    fix name au assume "map_of (c_authCache (install data c)) name = Some au"
    then obtain u where u: "map_of (c_authCache c) name = Some au" "u \<in> set (d_Users data)" "u_Name u = name" "u_Hash u = au_bhash au"
      using keep_entries_sound[of "c_authCache c" "d_Users data" "[]" name au] unfolding c by auto
    moreover have "cached_user name (install data c) = Inr (Some u)"
      using find_user[OF _ u(2)] assms(2) u(3) by (simp add: cached_user_def cache_list_def c bind_sum_def users_inv_def)
    ultimately show "(\<exists>pw. cl_CompareHash P (au_bhash au) pw \<and> au_hash au = hashWithSalt P (au_salt au) pw) \<and>
        (\<exists>u. cached_user name (install data c) = Inr (Some u) \<and> u_Hash u = au_bhash au)"
      using assms(1) by (auto simp: auth_inv_def)
  qed
qed (simp add: install_def assms)

lemma cached_user_authCache [simp]: "cached_user name (c\<lparr>c_authCache := m\<rparr>) = cached_user name c"
  by (simp add: cached_user_def cache_list_def)

lemma Authenticate_cases:
  assumes "Authenticate P username password (c, w) = (r, c', w')"
  obtains "c' = c" | u salt where "cached_user username c = Inr (Some u)" "cl_CompareHash P (u_Hash u) password"
      "c' = c\<lparr>c_authCache := AList.update username
         \<lparr>au_bhash = u_Hash u, au_salt = salt, au_hash = hashWithSalt P salt password\<rparr> (c_authCache c)\<rparr>"
proof (cases "\<exists>u. cached_user username c = Inr (Some u) \<and> cl_CompareHash P (u_Hash u) password")
  case True
  then obtain u where u: "cached_user username c = Inr (Some u)" "cl_CompareHash P (u_Hash u) password" by blast
  obtain x v where "cl_ReadSalt P SaltBytes w = (x, v)" by (rule prod.exhaust)
  with assms u show ?thesis
    by (cases x) (auto simp: Authenticate_def saltedHash_def intro: that split: if_split_asm)
next
  case False
  with assms have "c' = c"
    by (auto simp: Authenticate_def split: sum.split_asm option.split_asm if_split_asm)
  then show ?thesis by (rule that)
qed

lemma auth_inv_Authenticate:
  assumes "auth_inv P c" "Authenticate P username password (c, w) = (r, c', w')"
  shows "auth_inv P c'"
  using assms(2)
proof (cases rule: Authenticate_cases)
  case 2
  with assms(1) show ?thesis by (auto simp: auth_inv_def update_conv)
qed (use assms(1) in simp)

text \<open>
  \<open>Open\<close> takes a snapshot without updating the cache: a client that is opened a second time keeps the entries of
  its first life, also those whose user has another hash now.
\<close>

lemma Open_keeps_authCache:
  "client_Open P closed cw = Some (r, (c', w')) \<Longrightarrow> c_authCache c' = c_authCache (fst cw)"
  by (auto simp: client_Open_def Let_def split: option.splits sum.splits)

section \<open>Histories\<close>

text \<open>What changes the cache of an open client: logins and snapshots installed by the polling goroutine.\<close>

datatype 'x auth_event = Login string string | Snapshot "'x Data"

fun auth_run :: "('x, 'l, 'w) cl_lib \<Rightarrow> 'x auth_event list \<Rightarrow> 'x Client \<times> 'w \<Rightarrow> 'x Client \<times> 'w" where
  "auth_run P [] cw = cw"
| "auth_run P (Login username password # es) cw = auth_run P es (snd (Authenticate P username password cw))"
| "auth_run P (Snapshot data # es) cw = auth_run P es (install data (fst cw), snd cw)"

lemma auth_inv_run:
  assumes "auth_inv P (fst cw)" "list_all (\<lambda>e. case e of Snapshot d \<Rightarrow> users_inv d | Login _ _ \<Rightarrow> True) es"
  shows "auth_inv P (fst (auth_run P es cw))"
  using assms
proof (induction P es cw rule: auth_run.induct)
  case (2 P username password es cw)
  obtain r c' w' where "Authenticate P username password cw = (r, c', w')" by (rule prod_cases3)
  then show ?case using 2 auth_inv_Authenticate[of P "fst cw" username password "snd cw" r c' w'] by simp
next
  case (3 P data es cw)
  then show ?case using auth_inv_install[of P "fst cw" data] by simp
qed simp

lemma Authenticate_agrees:
  assumes "auth_inv P c" "\<And>w. \<exists>salt w'. cl_ReadSalt P SaltBytes w = (Inr salt, w')"
  shows "fst (Authenticate P username password (c, w)) = bcrypt_check P username password c \<or>
    (\<exists>u salt pw. cached_user username c = Inr (Some u) \<and> pw \<noteq> password \<and> cl_CompareHash P (u_Hash u) pw \<and>
       hashWithSalt P salt pw = hashWithSalt P salt password)"
proof -
  obtain salt w' where salt: "cl_ReadSalt P SaltBytes w = (Inr salt, w')" using assms(2) by blast
  show ?thesis
  proof (cases "\<exists>u au. cached_user username c = Inr (Some u) \<and> map_of (c_authCache c) username = Some au \<and>
      hashWithSalt P (au_salt au) password = au_hash au")
    case True
    then obtain u au where u: "cached_user username c = Inr (Some u)" and au: "map_of (c_authCache c) username = Some au"
      "hashWithSalt P (au_salt au) password = au_hash au" by blast
    then obtain pw where "cl_CompareHash P (u_Hash u) pw" "au_hash au = hashWithSalt P (au_salt au) pw"
      using auth_invD(2)[OF assms(1) au(1) u] by blast
    then show ?thesis
      using u au by (cases "pw = password") (simp_all add: Authenticate_def bcrypt_check_def, metis)
  next
    case False
    then show ?thesis
      using salt by (auto simp: Authenticate_def bcrypt_check_def saltedHash_def split: sum.splits option.splits)
  qed
qed

text \<open>
  C8: The cache of salted hashes changes no answer. After every history of logins and installed snapshots of a
  client that starts with an empty cache, \<open>Authenticate\<close> answers as the comparison with the bcrypt hash of the
  user in the current metadata does, so that a changed password is refused as soon as the snapshot with the
  new hash is installed. The one exception is a wrong password with the same salted SHA-256 as the right one.
  The snapshots list every user name once, and the random source does not fail.
\<close>

theorem Authenticate_refines_bcrypt:
  assumes "c_authCache c = []"
    and "list_all (\<lambda>e. case e of Snapshot d \<Rightarrow> users_inv d | Login _ _ \<Rightarrow> True) es"
    and "\<And>w. \<exists>salt w'. cl_ReadSalt P SaltBytes w = (Inr salt, w')"
    and "auth_run P es (c, w) = (c', w')"
  shows "fst (Authenticate P username password (c', w')) = bcrypt_check P username password c' \<or>
    (\<exists>u salt pw. cached_user username c' = Inr (Some u) \<and> pw \<noteq> password \<and> cl_CompareHash P (u_Hash u) pw \<and>
       hashWithSalt P salt pw = hashWithSalt P salt password)"
  using auth_inv_run[of P "(c, w)" es] auth_inv_empty[OF assms(1)] assms(2,4)
  by (intro Authenticate_agrees assms(3)) auto

text \<open>A client library with given transport for concrete runs.\<close>

definition clib0 :: "(string \<Rightarrow> 'w \<Rightarrow> (string + http_resp) \<times> 'w) \<Rightarrow> (string \<Rightarrow> byte list \<Rightarrow> 'w \<Rightarrow> (string + http_resp) \<times> 'w) \<Rightarrow>
    (byte list \<Rightarrow> string + Response_pb) \<Rightarrow> (unit, unit, 'w) cl_lib" where
  "clib0 get post response = \<lparr>cl_Get = get, cl_Post = post, cl_Encode = enc0, cl_Response = response, cl_oss = A0,
     cl_LeaseJSON = (\<lambda>b. Inr ()), cl_NodeJSON = (\<lambda>n. Inr []), cl_NodeOfJSON = (\<lambda>b n. Inr (Some n)), cl_PeersJSON = (\<lambda>b. Inr []),
     cl_CompareHash = (\<lambda>h p. h = ''#'' @ p), cl_GenerateHash = (\<lambda>p w. (Inr (''#'' @ p), w)), cl_Sha256 = (\<lambda>b. b),
     cl_ReadSalt = (\<lambda>n w. (Inr (replicate n 7), w)),
     cl_PolicyOf = (\<lambda>d n. List.find (\<lambda>rp. rp_Name rp = n) (db_RetentionPolicies d)),
     cl_RetentionPolicy = (\<lambda>od d n. Inr (Option.bind (List.find (\<lambda>di. db_Name di = d) (o_Databases od))
        (\<lambda>di. List.find (\<lambda>rp. rp_Name rp = n) (db_RetentionPolicies di)))),
     cl_GroupByTimestamp = (\<lambda>od d n t. Inr None), cl_PolicyGroupByTimestamp = (\<lambda>rp t. None), cl_Deleted = (\<lambda>g. False),
     cl_Overlaps = (\<lambda>g a b. True), cl_MarshalPolicy = (\<lambda>rp. Inr []), cl_Privileges = (\<lambda>od u. Inr []), cl_Privilege = (\<lambda>od u d. Inr None)\<rparr>"

definition users1 :: "string \<Rightarrow> unit Data" where
  "users1 hash = (fresh_Data od1)\<lparr>d_Users := [\<lparr>u_Name = ''bob'', u_Hash = hash, u_Admin = False, u_Privileges = ()\<rparr>]\<rparr>"

definition clib1 :: "(unit, unit, unit) cl_lib" where
  "clib1 = clib0 (\<lambda>u w. (Inl [], w)) (\<lambda>u b w. (Inl [], w)) (\<lambda>b. Inl [])"

theorem Authenticate_refines_bcrypt_witness:
  "fst (Authenticate clib1 ''bob'' ''a'' (auth_run clib1 [Login ''bob'' ''a'', Snapshot (users1 ''#b'')]
     (setData (users1 ''#a'') NewClient, ()))) = Inl (ClMeta ErrAuthenticate)"
proof -
  let ?es = "[Login ''bob'' ''a'', Snapshot (users1 ''#b'')]" and ?c = "setData (users1 ''#a'') NewClient"
  obtain c' w' where run: "auth_run clib1 ?es (?c, ()) = (c', w')" by (rule prod.exhaust)
  have c': "c_cacheData c' = Cached (users1 ''#b'')"
    using run by (auto simp: install_def client_index_def cache_oss_def bind_sum_def updateAuthCache_def Let_def setData_def
      Authenticate_def cached_user_def cache_list_def users1_def clib1_def clib0_def saltedHash_def)
  have "fst (Authenticate clib1 ''bob'' ''a'' (c', w')) = bcrypt_check clib1 ''bob'' ''a'' c'"
    using Authenticate_refines_bcrypt[of ?c ?es clib1 "()" c' w' "''bob''" "''a''"] run
    by (auto simp: setData_def NewClient_def users_inv_def users1_def clib1_def clib0_def hashWithSalt_def)
  also have "\<dots> = Inl (ClMeta ErrAuthenticate)"
    by (simp add: bcrypt_check_def cached_user_def cache_list_def c' bind_sum_def users1_def clib1_def clib0_def)
  finally show ?thesis using run by simp
qed

end
