(* ===== verification/Meta_Config.thy ===== *)
theory Meta_Config
  imports Meta_Store
begin

text \<open>
  The configuration of the meta node (\<open>src/meta/config.go\<close>) and the overriding of fields by environment variables,
  which the data node has a second version of (\<open>src/cmd/influxd/run/config.go\<close>); host and port of addresses.

  A value seen through \<open>reflect\<close> is the datatype \<open>cval\<close>: the fields of a struct come with their toml tag, their name
  and whether they can be set. Arrays are not told from slices, and the kinds that the code does not name are
  \<open>VOther\<close>. The environment and the parsers of \<open>strconv\<close> and \<open>time\<close> that are not modelled are the record \<open>env_lib\<close>.
\<close>

section \<open>Addresses\<close>

text \<open>\<open>net.SplitHostPort\<close> and \<open>net.JoinHostPort\<close>.\<close>

datatype addr_error = MissingPort | TooManyColons | MissingBracket | UnexpectedBracket

text \<open>The text before and after the last \<open>c\<close>.\<close>

fun split_last :: "char \<Rightarrow> string \<Rightarrow> (string \<times> string) option" where
  "split_last c [] = None"
| "split_last c (x # xs) = (case split_last c xs of
     Some (a, b) \<Rightarrow> Some (x # a, b)
   | None \<Rightarrow> if x = c then Some ([], xs) else None)"

definition SplitHostPort :: "string \<Rightarrow> addr_error + string \<times> string" where
  "SplitHostPort hostport = (case split_last CHR '':'' hostport of
     None \<Rightarrow> Inl MissingPort
   | Some (before, port) \<Rightarrow>
     if take 1 hostport = ''[''
     then (let host = takeWhile (\<lambda>c. c \<noteq> CHR '']'') (tl hostport); rest = dropWhile (\<lambda>c. c \<noteq> CHR '']'') (tl hostport) in
       if rest = [] then Inl MissingBracket
       else if tl rest = [] then Inl MissingPort
       else if tl rest \<noteq> CHR '':'' # port then (if hd (tl rest) = CHR '':'' then Inl TooManyColons else Inl MissingPort)
       else if CHR ''['' \<in> set (tl hostport) \<or> CHR '']'' \<in> set (tl rest) then Inl UnexpectedBracket
       else Inr (host, port))
     else if CHR '':'' \<in> set before then Inl TooManyColons
     else if CHR ''['' \<in> set hostport \<or> CHR '']'' \<in> set hostport then Inl UnexpectedBracket
     else Inr (before, port))"

definition JoinHostPort :: "string \<Rightarrow> string \<Rightarrow> string" where
  "JoinHostPort host port = (if CHR '':'' \<in> set host then ''['' @ host @ '']:'' @ port else host @ '':'' @ port)"

definition wildcard :: "string \<Rightarrow> bool" where
  "wildcard host \<longleftrightarrow> host = [] \<or> host = ''0.0.0.0'' \<or> host = ''::''"

definition DefaultHost :: "string \<Rightarrow> string \<Rightarrow> addr_error + string" where
  "DefaultHost hostname addr = (case SplitHostPort addr of
     Inl e \<Rightarrow> Inl e
   | Inr (host, port) \<Rightarrow> if wildcard host then Inr (JoinHostPort hostname port) else Inr addr)"

definition DefaultHostname :: string where "DefaultHostname = ''localhost''"

definition defaultHost :: "string \<Rightarrow> string" where
  "defaultHost addr = (case DefaultHost DefaultHostname addr of Inl e \<Rightarrow> addr | Inr address \<Rightarrow> address)"

lemma split_last_None: "split_last c s = None \<longleftrightarrow> c \<notin> set s"
  by (induction s) (auto split: option.splits)

lemma split_last_app: "c \<notin> set b \<Longrightarrow> split_last c (a @ c # b) = Some (a, b)"
  by (induction a) (simp_all add: split_last_None [THEN iffD2])

lemma split_last_Some: "split_last c s = Some (a, b) \<Longrightarrow> s = a @ c # b \<and> c \<notin> set b"
  by (induction s arbitrary: a) (auto simp: split_last_None split: option.splits if_splits)

definition no_brackets :: "string \<Rightarrow> bool" where
  "no_brackets s \<longleftrightarrow> CHR ''['' \<notin> set s \<and> CHR '']'' \<notin> set s"

lemma SplitHostPort_JoinHostPort:
  assumes "no_brackets host" "no_brackets port" "CHR '':'' \<notin> set port"
  shows "SplitHostPort (JoinHostPort host port) = Inr (host, port)"
proof (cases "CHR '':'' \<in> set host")
  case True
  have *: "split_last CHR '':'' (CHR ''['' # host @ CHR '']'' # CHR '':'' # port) = Some (CHR ''['' # host @ '']'', port)"
    using split_last_app[OF assms(3), of "CHR ''['' # host @ '']''"] by simp
  have "takeWhile (\<lambda>c. c \<noteq> CHR '']'') (host @ CHR '']'' # CHR '':'' # port) = host"
    "dropWhile (\<lambda>c. c \<noteq> CHR '']'') (host @ CHR '']'' # CHR '':'' # port) = CHR '']'' # CHR '':'' # port"
    using assms(1) by (auto simp: no_brackets_def takeWhile_tail dropWhile_append3)
  with True assms * show ?thesis by (auto simp: SplitHostPort_def JoinHostPort_def no_brackets_def)
next
  case False
  have "take 1 (host @ CHR '':'' # port) \<noteq> ''[''" using assms(1) by (cases host) (auto simp: no_brackets_def)
  with False assms show ?thesis
    by (auto simp: SplitHostPort_def JoinHostPort_def no_brackets_def split_last_app)
qed

lemma SplitHostPort_port:
  assumes "SplitHostPort addr = Inr (host, port)"
  shows "no_brackets port" "CHR '':'' \<notin> set port"
proof -
  obtain a where s: "split_last CHR '':'' addr = Some (a, port)"
    using assms by (auto simp: SplitHostPort_def Let_def split: option.splits if_splits)
  note sp = split_last_Some[OF s]
  then show "CHR '':'' \<notin> set port" by simp
  show "no_brackets port"
  proof (cases "take 1 addr = ''[''")
    case True
    then obtain r where r: "addr = CHR ''['' # r" by (cases addr) auto
    with assms s True have "tl (dropWhile (\<lambda>c. c \<noteq> CHR '']'') r) = CHR '':'' # port"
        "CHR ''['' \<notin> set r" "CHR '']'' \<notin> set (tl (dropWhile (\<lambda>c. c \<noteq> CHR '']'') r))"
      by (auto simp: SplitHostPort_def Let_def split: if_splits)
    moreover have "set port \<subseteq> set r" using sp r by (cases a) auto
    ultimately show ?thesis by (auto simp: no_brackets_def)
  next
    case False
    with assms s sp show ?thesis by (auto simp: SplitHostPort_def no_brackets_def split: if_splits)
  qed
qed

text \<open>
  \<open>DefaultHost\<close> makes an address other nodes can use: the result splits again, its port is the one of the
  bind address, its host is not a wildcard, and it is the given hostname exactly when the bind address had one.
\<close>

lemma DefaultHost_splits:
  assumes "SplitHostPort addr = Inr (host, port)" "no_brackets hostname" "\<not> wildcard hostname"
  shows "\<exists>remote. DefaultHost hostname addr = Inr remote \<and>
    SplitHostPort remote = Inr (if wildcard host then hostname else host, port) \<and>
    DefaultHost hostname remote = Inr remote"
  using assms SplitHostPort_JoinHostPort[OF assms(2) SplitHostPort_port[OF assms(1)]]
  by (auto simp: DefaultHost_def)

lemma SplitHostPort_host:
  assumes "SplitHostPort addr = Inr (host, port)"
  shows "no_brackets host"
proof (cases "take 1 addr = ''[''")
  case True
  with assms have "CHR ''['' \<notin> set (tl addr)" "host = takeWhile (\<lambda>c. c \<noteq> CHR '']'') (tl addr)"
    by (auto simp: SplitHostPort_def Let_def split: option.splits if_splits)
  then show ?thesis by (auto simp: no_brackets_def dest: set_takeWhileD)
next
  case False
  with assms show ?thesis
    by (auto simp: SplitHostPort_def no_brackets_def dest!: split_last_Some split: option.splits if_splits)
qed

section \<open>Meta configuration\<close>

definition DefaultRaftBindAddress :: string where "DefaultRaftBindAddress = '':8088''"
definition DefaultHTTPBindAddress :: string where "DefaultHTTPBindAddress = '':8091''"
definition DefaultHeartbeatTimeout :: int where "DefaultHeartbeatTimeout = 1000 * 1000000"
definition DefaultElectionTimeout :: int where "DefaultElectionTimeout = 1000 * 1000000"
definition DefaultGossipFrequency :: int where "DefaultGossipFrequency = 5 * 1000 * 1000000"
definition DefaultAnnouncementExpiration :: int where "DefaultAnnouncementExpiration = 30 * 1000 * 1000000"
definition DefaultLeaderLeaseTimeout :: int where "DefaultLeaderLeaseTimeout = 500 * 1000000"
definition DefaultCommitTimeout :: int where "DefaultCommitTimeout = 50 * 1000000"
definition DefaultLeaseDuration :: int where "DefaultLeaseDuration = 60 * 1000000000"

record MetaConfig =
  m_Enabled :: bool
  m_Dir :: string
  m_RemoteHostname :: string
  m_BindAddress :: string
  m_HTTPBindAddress :: string
  m_HTTPSEnabled :: bool
  m_HTTPSCertificate :: string
  m_RetentionAutoCreate :: bool
  m_Gossipfrequency :: int
  m_Announcementexpiration :: int
  m_ElectionTimeout :: int
  m_HeartbeatTimeout :: int
  m_LeaderLeaseTimeout :: int
  m_CommitTimeout :: int
  m_ClusterTracing :: bool
  m_RaftPromotionEnabled :: bool
  m_LoggingEnabled :: bool
  m_PprofEnabled :: bool
  m_LeaseDuration :: int

definition NewConfig :: MetaConfig where
  "NewConfig = \<lparr>m_Enabled = True, m_Dir = [], m_RemoteHostname = [], m_BindAddress = DefaultRaftBindAddress,
     m_HTTPBindAddress = DefaultHTTPBindAddress, m_HTTPSEnabled = False, m_HTTPSCertificate = [], m_RetentionAutoCreate = True,
     m_Gossipfrequency = DefaultGossipFrequency, m_Announcementexpiration = DefaultAnnouncementExpiration,
     m_ElectionTimeout = DefaultElectionTimeout, m_HeartbeatTimeout = DefaultHeartbeatTimeout,
     m_LeaderLeaseTimeout = DefaultLeaderLeaseTimeout, m_CommitTimeout = DefaultCommitTimeout, m_ClusterTracing = False,
     m_RaftPromotionEnabled = True, m_LoggingEnabled = True, m_PprofEnabled = False, m_LeaseDuration = DefaultLeaseDuration\<rparr>"

text \<open>
  \<open>NewDemoConfig\<close>, with the home directory of \<open>user.Current\<close> if that succeeds and the variable \<open>HOME\<close>: the directory
  is joined before the home directory is known.
\<close>

definition NewDemoConfig :: "string option \<Rightarrow> string \<Rightarrow> MetaConfig option" where
  "NewDemoConfig current HOME =
     (let c = NewConfig\<lparr>m_Dir := ''.influxdb/meta''\<rparr> in
      if current \<noteq> None then Some c else if HOME \<noteq> [] then Some c else None)"

definition MetaConfig_Validate :: "MetaConfig \<Rightarrow> string + unit" where
  "MetaConfig_Validate m = (if m_Dir m = [] then Inl ''Meta.Dir must be specified'' else Inr ())"

section \<open>Environment variables\<close>

datatype 'f cval =
    VString string
  | VInt nat bool int
  | VUint nat int
  | VBool bool
  | VFloat nat 'f
  | VStruct "(string \<times> string \<times> bool \<times> 'f cval) list"
  | VPtr "'f cval option"
  | VSlice "'f cval list"
  | VOther

record 'f env_lib =
  en_Getenv :: "string \<Rightarrow> string"
  en_ParseDuration :: "string \<Rightarrow> int option"
  en_ParseInt :: "string \<Rightarrow> nat \<Rightarrow> int option"
  en_ParseUint :: "string \<Rightarrow> nat \<Rightarrow> int option"
  en_ParseFloat :: "string \<Rightarrow> nat \<Rightarrow> 'f option"

datatype cfg_error = ErrApply string string string

definition ParseBool :: "string \<Rightarrow> bool option" where
  "ParseBool s =
     (if s \<in> {''1'', ''t'', ''T'', ''true'', ''TRUE'', ''True''} then Some True
      else if s \<in> {''0'', ''f'', ''F'', ''false'', ''FALSE'', ''False''} then Some False
      else None)"

definition upper :: "char \<Rightarrow> char" where
  "upper c = (let n = (of_char c :: nat) in if 97 \<le> n \<and> n \<le> 122 then char_of (n - 32) else c)"

definition ToUpper :: "string \<Rightarrow> string" where
  "ToUpper s = map upper s"

definition env_key :: "string \<Rightarrow> string \<Rightarrow> string" where
  "env_key prefix tag =
     (let configName = map (\<lambda>c. if c = CHR ''-'' then CHR ''_'' else c) tag in
      ToUpper (if prefix \<noteq> [] then prefix @ ''_'' @ configName else configName))"

definition elem_key :: "string \<Rightarrow> nat \<Rightarrow> string" where
  "elem_key key i = key @ ''_'' @ decimal i"

text \<open>
  The part of a field that is neither a slice nor a sub-config. The meta node has no case for unsigned integers:
  they go to the default case, which does nothing.
\<close>

definition set_field :: "'f env_lib \<Rightarrow> bool \<Rightarrow> string \<Rightarrow> string \<Rightarrow> 'f cval \<Rightarrow> (cfg_error + unit) \<times> 'f cval" where
  "set_field E uints key fieldKey f =
     (let val = en_Getenv E key; fail = (Inl (ErrApply key fieldKey val), f) in
      if val = [] then (Inr (), f)
      else (case f of
        VString s \<Rightarrow> (Inr (), VString val)
      | VInt bits dur i \<Rightarrow>
          (case (if dur then en_ParseDuration E val else en_ParseInt E val bits) of
             None \<Rightarrow> fail | Some j \<Rightarrow> (Inr (), VInt bits dur j))
      | VUint bits i \<Rightarrow>
          (if uints then (case en_ParseUint E val bits of None \<Rightarrow> fail | Some j \<Rightarrow> (Inr (), VUint bits j)) else (Inr (), f))
      | VBool b \<Rightarrow> (case ParseBool val of None \<Rightarrow> fail | Some b \<Rightarrow> (Inr (), VBool b))
      | VFloat bits x \<Rightarrow> (case en_ParseFloat E val bits of None \<Rightarrow> fail | Some y \<Rightarrow> (Inr (), VFloat bits y))
      | _ \<Rightarrow> (Inr (), f)))"

fun is_slice :: "'f cval \<Rightarrow> bool" where
  "is_slice (VSlice vs) = True"
| "is_slice v = False"

text \<open>A loop over a list with index that stops at the first error and keeps what it has done.\<close>

fun map_err :: "(nat \<Rightarrow> 'a \<Rightarrow> ('e + unit) \<times> 'a) \<Rightarrow> nat \<Rightarrow> 'a list \<Rightarrow> ('e + unit) \<times> 'a list" where
  "map_err f i [] = (Inr (), [])"
| "map_err f i (x # xs) = (case f i x of
     (Inl e, y) \<Rightarrow> (Inl e, y # xs)
   | (Inr u, y) \<Rightarrow> apsnd (\<lambda>ys. y # ys) (map_err f (Suc i) xs))"

text \<open>
  One field of a struct, as both versions have it: \<open>rec\<close> is the recursive call, \<open>elem\<close> what happens to an element
  of a slice.
\<close>

type_synonym 'f cfield = "string \<times> string \<times> bool \<times> 'f cval"
type_synonym 'f env_op = "string \<Rightarrow> 'f cval \<Rightarrow> (cfg_error + unit) \<times> 'f cval"

definition field_value :: "'f env_lib \<Rightarrow> bool \<Rightarrow> 'f env_op \<Rightarrow> (string \<Rightarrow> nat \<Rightarrow> 'f cval \<Rightarrow> (cfg_error + unit) \<times> 'f cval) \<Rightarrow>
    string \<Rightarrow> string \<Rightarrow> 'f cval \<Rightarrow> (cfg_error + unit) \<times> 'f cval" where
  "field_value E uints rec elem key fieldKey f = (case f of
     VSlice vs \<Rightarrow> apsnd VSlice (map_err (elem key) 0 vs)
   | VStruct fs \<Rightarrow> rec key f
   | VPtr p \<Rightarrow> rec key f
   | _ \<Rightarrow> set_field E uints key fieldKey f)"

definition apply_field :: "'f env_lib \<Rightarrow> bool \<Rightarrow> 'f env_op \<Rightarrow> (string \<Rightarrow> nat \<Rightarrow> 'f cval \<Rightarrow> (cfg_error + unit) \<times> 'f cval) \<Rightarrow>
    string \<Rightarrow> 'f cfield \<Rightarrow> (cfg_error + unit) \<times> 'f cfield" where
  "apply_field E uints rec elem prefix fld = (case fld of (tag, fieldKey, settable, f) \<Rightarrow>
     apsnd (\<lambda>f. (tag, fieldKey, settable, f))
       (if settable \<or> is_slice f then field_value E uints rec elem (env_key prefix tag) fieldKey f else (Inr (), f)))"

text \<open>The struct in a value, behind a pointer or not; other values are left alone.\<close>

definition on_struct :: "('f cfield list \<Rightarrow> (cfg_error + unit) \<times> 'f cfield list) \<Rightarrow> 'f cval \<Rightarrow> (cfg_error + unit) \<times> 'f cval" where
  "on_struct k v = (case v of
     VStruct fs \<Rightarrow> apsnd VStruct (k fs)
   | VPtr (Some (VStruct fs)) \<Rightarrow> apsnd (\<lambda>fs. VPtr (Some (VStruct fs))) (k fs)
   | _ \<Rightarrow> (Inr (), v))"

text \<open>
  \<open>applyEnvOverrides\<close> of the meta node. The first argument bounds the nesting of the calls; \<open>depth\<close> of the value is
  enough (\<open>applyEnvOverrides_fuel\<close>).
\<close>

primrec applyEnvOverrides :: "nat \<Rightarrow> 'f env_lib \<Rightarrow> 'f env_op" where
  "applyEnvOverrides 0 E = (\<lambda>prefix v. (Inr (), v))"
| "applyEnvOverrides (Suc n) E = (\<lambda>prefix.
     on_struct (map_err (\<lambda>_. apply_field E False (applyEnvOverrides n E)
       (\<lambda>key i v. applyEnvOverrides n E (elem_key key i) v) prefix) 0))"

text \<open>
  The version of the data node has unsigned integers and applies every element of a slice twice, first under the
  name of the slice alone.
\<close>

primrec data_applyEnvOverrides :: "nat \<Rightarrow> 'f env_lib \<Rightarrow> 'f env_op" where
  "data_applyEnvOverrides 0 E = (\<lambda>prefix v. (Inr (), v))"
| "data_applyEnvOverrides (Suc n) E = (\<lambda>prefix.
     on_struct (map_err (\<lambda>_. apply_field E True (data_applyEnvOverrides n E)
       (\<lambda>key i v. case data_applyEnvOverrides n E key v of
          (Inl e, v) \<Rightarrow> (Inl e, v)
        | (Inr u, v) \<Rightarrow> data_applyEnvOverrides n E (elem_key key i) v) prefix) 0))"

fun depth :: "'f cval \<Rightarrow> nat" where
  "depth (VStruct fs) = Suc (fold max (map (\<lambda>(t, n, s, f). depth f) fs) 0)"
| "depth (VPtr (Some v)) = depth v"
| "depth (VSlice vs) = fold max (map depth vs) 0"
| "depth v = 0"

text \<open>The configuration of the meta node as \<open>reflect\<close> shows it, and back.\<close>

definition meta_fields :: "MetaConfig \<Rightarrow> 'f cfield list" where
  "meta_fields m =
     [(''enabled'', ''Enabled'', True, VBool (m_Enabled m)),
      (''dir'', ''Dir'', True, VString (m_Dir m)),
      (''-'', ''RemoteHostname'', True, VString (m_RemoteHostname m)),
      (''bind-address'', ''BindAddress'', True, VString (m_BindAddress m)),
      (''http-bind-address'', ''HTTPBindAddress'', True, VString (m_HTTPBindAddress m)),
      (''https-enabled'', ''HTTPSEnabled'', True, VBool (m_HTTPSEnabled m)),
      (''https-certificate'', ''HTTPSCertificate'', True, VString (m_HTTPSCertificate m)),
      (''retention-autocreate'', ''RetentionAutoCreate'', True, VBool (m_RetentionAutoCreate m)),
      (''gossip-frequency'', ''Gossipfrequency'', True, VInt 64 True (m_Gossipfrequency m)),
      (''announcement-expiration'', ''Announcementexpiration'', True, VInt 64 True (m_Announcementexpiration m)),
      (''election-timeout'', ''ElectionTimeout'', True, VInt 64 True (m_ElectionTimeout m)),
      (''heartbeat-timeout'', ''HeartbeatTimeout'', True, VInt 64 True (m_HeartbeatTimeout m)),
      (''leader-lease-timeout'', ''LeaderLeaseTimeout'', True, VInt 64 True (m_LeaderLeaseTimeout m)),
      (''commit-timeout'', ''CommitTimeout'', True, VInt 64 True (m_CommitTimeout m)),
      (''cluster-tracing'', ''ClusterTracing'', True, VBool (m_ClusterTracing m)),
      (''raft-promotion-enabled'', ''RaftPromotionEnabled'', True, VBool (m_RaftPromotionEnabled m)),
      (''logging-enabled'', ''LoggingEnabled'', True, VBool (m_LoggingEnabled m)),
      (''pprof-enabled'', ''PprofEnabled'', True, VBool (m_PprofEnabled m)),
      (''lease-duration'', ''LeaseDuration'', True, VInt 64 True (m_LeaseDuration m))]"

definition config_value :: "MetaConfig \<Rightarrow> 'f cval" where
  "config_value m = VPtr (Some (VStruct [(''meta'', ''Meta'', True, VPtr (Some (VStruct (meta_fields m))))]))"

fun as_bool :: "'f cval \<Rightarrow> bool" where "as_bool (VBool b) = b" | "as_bool v = False"
fun as_string :: "'f cval \<Rightarrow> string" where "as_string (VString s) = s" | "as_string v = []"
fun as_int :: "'f cval \<Rightarrow> int" where "as_int (VInt bits dur i) = i" | "as_int v = 0"

definition of_fields :: "'f cval list \<Rightarrow> MetaConfig" where
  "of_fields vs = \<lparr>m_Enabled = as_bool (vs ! 0), m_Dir = as_string (vs ! 1), m_RemoteHostname = as_string (vs ! 2),
     m_BindAddress = as_string (vs ! 3), m_HTTPBindAddress = as_string (vs ! 4), m_HTTPSEnabled = as_bool (vs ! 5),
     m_HTTPSCertificate = as_string (vs ! 6), m_RetentionAutoCreate = as_bool (vs ! 7), m_Gossipfrequency = as_int (vs ! 8),
     m_Announcementexpiration = as_int (vs ! 9), m_ElectionTimeout = as_int (vs ! 10), m_HeartbeatTimeout = as_int (vs ! 11),
     m_LeaderLeaseTimeout = as_int (vs ! 12), m_CommitTimeout = as_int (vs ! 13), m_ClusterTracing = as_bool (vs ! 14),
     m_RaftPromotionEnabled = as_bool (vs ! 15), m_LoggingEnabled = as_bool (vs ! 16), m_PprofEnabled = as_bool (vs ! 17),
     m_LeaseDuration = as_int (vs ! 18)\<rparr>"

fun of_value :: "'f cval \<Rightarrow> MetaConfig" where
  "of_value (VPtr (Some (VStruct [(t, n, s, VPtr (Some (VStruct fs)))]))) = of_fields (map (\<lambda>(t, n, s, f). f) fs)"
| "of_value v = NewConfig"

definition ApplyEnvOverrides :: "'f env_lib \<Rightarrow> MetaConfig \<Rightarrow> (cfg_error + unit) \<times> MetaConfig" where
  "ApplyEnvOverrides E m = apsnd of_value (applyEnvOverrides (depth (config_value m :: 'f cval)) E ''INFLUXDB'' (config_value m))"

section \<open>Types\<close>

fun skel :: "'f cval \<Rightarrow> unit cval" where
  "skel (VString s) = VString []"
| "skel (VInt bits dur i) = VInt bits dur 0"
| "skel (VUint bits i) = VUint bits 0"
| "skel (VBool b) = VBool False"
| "skel (VFloat bits x) = VFloat bits ()"
| "skel (VStruct fs) = VStruct (map (\<lambda>(t, n, s, f). (t, n, s, skel f)) fs)"
| "skel (VPtr p) = VPtr (map_option skel p)"
| "skel (VSlice vs) = VSlice (map skel vs)"
| "skel VOther = VOther"

text \<open>The integers fit their widths; durations have 64 bits.\<close>

fun typed :: "'f cval \<Rightarrow> bool" where
  "typed (VInt bits dur i) \<longleftrightarrow> (dur \<longrightarrow> bits = 64) \<and> - (2 ^ (bits - 1)) \<le> i \<and> i < 2 ^ (bits - 1)"
| "typed (VUint bits i) \<longleftrightarrow> 0 \<le> i \<and> i < 2 ^ bits"
| "typed (VStruct fs) \<longleftrightarrow> (\<forall>(t, n, s, f) \<in> set fs. typed f)"
| "typed (VPtr p) \<longleftrightarrow> (\<forall>v \<in> set_option p. typed v)"
| "typed (VSlice vs) \<longleftrightarrow> (\<forall>v \<in> set vs. typed v)"
| "typed v \<longleftrightarrow> True"

text \<open>The results of the parsers are in range.\<close>

definition parsers_fit :: "'f env_lib \<Rightarrow> bool" where
  "parsers_fit E \<longleftrightarrow>
     (\<forall>s i. en_ParseDuration E s = Some i \<longrightarrow> - (2 ^ 63) \<le> i \<and> i < 2 ^ 63) \<and>
     (\<forall>s bits i. en_ParseInt E s bits = Some i \<longrightarrow> - (2 ^ (bits - 1)) \<le> i \<and> i < 2 ^ (bits - 1)) \<and>
     (\<forall>s bits i. en_ParseUint E s bits = Some i \<longrightarrow> 0 \<le> i \<and> i < 2 ^ bits)"

lemma map_err_all2:
  assumes "\<And>i x. x \<in> set xs \<Longrightarrow> R x (snd (f i x))" "\<And>x. R x x"
  shows "list_all2 R xs (snd (map_err f i xs))"
  using assms
proof (induction xs arbitrary: i)
  case (Cons x xs)
  have "list_all2 R ys ys" for ys using assms(2) by (simp add: list_all2_refl)
  with Cons show ?case
    by (auto split: prod.splits sum.splits) (metis snd_conv)+
qed simp

text \<open>A relation between a value and its overridden form that the constructors and \<open>set_field\<close> respect.\<close>

locale value_relation =
  fixes E :: "'f env_lib" and R :: "'f cval \<Rightarrow> 'f cval \<Rightarrow> bool"
  assumes refl: "R v v"
    and trans: "R u v \<Longrightarrow> R v w \<Longrightarrow> R u w"
    and set: "R f (snd (set_field E uints key fieldKey f))"
    and slice: "list_all2 R vs vs' \<Longrightarrow> R (VSlice vs) (VSlice vs')"
    and struct: "list_all2 (\<lambda>(t, n, s, f) (t', n', s', f'). t' = t \<and> n' = n \<and> s' = s \<and> R f f') fs fs' \<Longrightarrow> R (VStruct fs) (VStruct fs')"
    and ptr: "R u v \<Longrightarrow> R (VPtr (Some u)) (VPtr (Some v))"
begin

lemma field:
  assumes "\<And>key v. R v (snd (rec key v))" "\<And>key i v. R v (snd (elem key i v))"
  shows "(\<lambda>(t, n, s, f) (t', n', s', f'). t' = t \<and> n' = n \<and> s' = s \<and> R f f') fld
    (snd (apply_field E uints rec elem prefix fld))"
proof -
  obtain t n s f where fld: "fld = (t, n, s, f)" by (rule prod_cases4)
  have "R f (snd (field_value E uints rec elem key n f))" for key
    using assms by (cases f) (auto simp: field_value_def intro!: slice map_err_all2 set simp: refl)
  then show ?thesis by (auto simp: apply_field_def fld refl)
qed

lemma in_struct:
  assumes "\<And>key v. R v (snd (rec key v))" "\<And>key i v. R v (snd (elem key i v))"
  shows "R v (snd (on_struct (map_err (\<lambda>_. apply_field E uints rec elem prefix) 0) v))"
proof -
  have "R (VStruct fs) (VStruct (snd (map_err (\<lambda>_. apply_field E uints rec elem prefix) 0 fs)))" for fs
    by (rule struct, rule map_err_all2, rule field) (auto simp: assms refl)
  then show ?thesis
    by (auto simp: on_struct_def refl intro: ptr split: cval.splits option.splits)
qed

lemma meta: "R v (snd (applyEnvOverrides n E prefix v))"
  by (induction n arbitrary: prefix v) (auto intro!: in_struct simp: refl)

lemma data: "R v (snd (data_applyEnvOverrides n E prefix v))"
proof (induction n arbitrary: prefix v)
  case (Suc n)
  have "R v (snd (case data_applyEnvOverrides n E key v of (Inl e, v) \<Rightarrow> (Inl e, v)
     | (Inr u, v) \<Rightarrow> data_applyEnvOverrides n E (elem_key key i) v))" for key i v
  proof -
    obtain r x where x: "data_applyEnvOverrides n E key v = (r, x)" by (rule prod.exhaust)
    have "R v x" using Suc[of v key] x by simp
    then show ?thesis using trans Suc[of x] by (cases r) (auto simp: x)
  qed
  with Suc show ?case by (auto intro!: in_struct)
qed (simp add: refl)

end

lemma skel_struct:
  assumes "list_all2 (\<lambda>(t, n, s, f) (t', n', s', f'). t' = t \<and> n' = n \<and> s' = s \<and> skel f' = skel f) fs fs'"
  shows "skel (VStruct fs') = skel (VStruct fs)"
  using assms by (induction rule: list_all2_induct) auto

lemma skel_slice: "list_all2 (\<lambda>v v'. skel v' = skel v) vs vs' \<Longrightarrow> map skel vs' = map skel vs"
  by (induction rule: list_all2_induct) auto

lemma set_field_skel [simp]: "skel (snd (set_field E uints key fieldKey f)) = skel f"
  by (cases f) (auto simp: set_field_def Let_def split: option.splits)

interpretation shape: value_relation E "\<lambda>v v'. skel v' = skel v" for E
  by unfold_locales (erule skel_struct | erule skel_slice | simp)+

lemma typed_struct:
  assumes "list_all2 (\<lambda>(t, n, s, f) (t', n', s', f'). t' = t \<and> n' = n \<and> s' = s \<and> (typed f \<longrightarrow> typed f')) fs fs'"
  shows "typed (VStruct fs) \<longrightarrow> typed (VStruct fs')"
  using assms by (induction rule: list_all2_induct) auto

lemma typed_slice: "list_all2 (\<lambda>v v'. typed v \<longrightarrow> typed v') vs vs' \<Longrightarrow> typed (VSlice vs) \<longrightarrow> typed (VSlice vs')"
  by (induction rule: list_all2_induct) auto

lemma set_field_typed: "parsers_fit E \<Longrightarrow> typed f \<Longrightarrow> typed (snd (set_field E uints key fieldKey f))"
  by (cases f) (auto simp: set_field_def Let_def parsers_fit_def split: option.splits)

interpretation typing: value_relation E "\<lambda>v v'. parsers_fit E \<longrightarrow> typed v \<longrightarrow> typed v'" for E
proof unfold_locales
  fix fs fs' :: "'a cfield list"
  assume "list_all2 (\<lambda>(t, n, s, f) (t', n', s', f'). t' = t \<and> n' = n \<and> s' = s \<and> (parsers_fit E \<longrightarrow> typed f \<longrightarrow> typed f')) fs fs'"
  then show "parsers_fit E \<longrightarrow> typed (VStruct fs) \<longrightarrow> typed (VStruct fs')"
    by (cases "parsers_fit E") (simp_all add: typed_struct del: typed.simps)
next
  fix vs vs' :: "'a cval list"
  assume "list_all2 (\<lambda>v v'. parsers_fit E \<longrightarrow> typed v \<longrightarrow> typed v') vs vs'"
  then show "parsers_fit E \<longrightarrow> typed (VSlice vs) \<longrightarrow> typed (VSlice vs')"
    by (cases "parsers_fit E") (simp_all add: typed_slice del: typed.simps)
qed (auto intro: set_field_typed)

section \<open>Enough fuel\<close>

lemma fold_max_le: "fold max xs (a :: nat) \<le> n \<longleftrightarrow> a \<le> n \<and> (\<forall>x \<in> set xs. x \<le> n)"
  by (induction xs arbitrary: a) auto

lemma map_err_cong:
  "(\<And>i x. x \<in> set xs \<Longrightarrow> f i x = g i x) \<Longrightarrow> map_err f i xs = map_err g i xs"
  by (induction xs arbitrary: i) (auto split: prod.splits sum.splits)

lemma depth_struct: "depth (VStruct fs) \<le> Suc n \<Longrightarrow> (t, m, s, f) \<in> set fs \<Longrightarrow> depth f \<le> n"
  by (fastforce simp: fold_max_le)

lemma apply_field_cong:
  assumes "\<And>key v. depth v \<le> n \<Longrightarrow> rec key v = rec' key v" "\<And>key i v. depth v \<le> n \<Longrightarrow> elem key i v = elem' key i v"
    and "depth (snd (snd (snd fld))) \<le> n"
  shows "apply_field E uints rec elem prefix fld = apply_field E uints rec' elem' prefix fld"
proof -
  obtain t m s f where fld: "fld = (t, m, s, f)" by (rule prod_cases4)
  have "map_err (elem key) 0 vs = map_err (elem' key) 0 vs" if "f = VSlice vs" for key vs
    using assms(3) that by (intro map_err_cong assms(2)) (auto simp: fld fold_max_le)
  then have "field_value E uints rec elem key m f = field_value E uints rec' elem' key m f" for key
    using assms(1)[of f] assms(3) by (auto simp: field_value_def fld split: cval.splits)
  then show ?thesis by (simp add: apply_field_def fld)
qed

lemma on_struct_cong:
  assumes "\<And>fs. depth (VStruct fs) \<le> depth v \<Longrightarrow> k fs = k' fs"
  shows "on_struct k v = on_struct k' v"
  using assms by (auto simp: on_struct_def split: cval.splits option.splits)

lemma depth_of_skel [simp]: "depth (skel v) = depth v"
proof (induction v)
  case (VStruct fs)
  have "depth (skel f) = depth f" if "(t, n, s, f) \<in> set fs" for t n s f
    by (rule VStruct[OF that, of "(n, s, f)" "(s, f)"]) (simp_all add: prod_set_simps)
  then have "map ((\<lambda>(t, n, s, f). depth f) \<circ> (\<lambda>(t, n, s, f). (t, n, s, skel f))) fs = map (\<lambda>(t, n, s, f). depth f) fs"
    unfolding map_eq_conv by fastforce
  then show ?case by (simp only: depth.simps skel.simps map_map)
next
  case (VPtr p)
  then show ?case by (cases p) simp_all
next
  case (VSlice vs)
  then have "map (depth \<circ> skel) vs = map depth vs" by simp
  then show ?case by (simp only: depth.simps skel.simps map_map)
qed simp_all

lemma depth_skel: "skel v' = skel v \<Longrightarrow> depth v' = depth v"
  by (metis depth_of_skel)

lemma on_struct_none: "depth v = 0 \<Longrightarrow> on_struct k v = (Inr (), v)"
  by (auto simp: on_struct_def split: cval.splits option.splits)

lemma struct_loop_cong:
  fixes v :: "'f cval"
  assumes "depth v \<le> Suc n"
    and "\<And>key v. depth v \<le> n \<Longrightarrow> rec key v = rec' key v" "\<And>key i v. depth v \<le> n \<Longrightarrow> elem key i v = elem' key i v"
  shows "on_struct (map_err (\<lambda>_. apply_field E uints rec elem prefix) 0) v =
         on_struct (map_err (\<lambda>_. apply_field E uints rec' elem' prefix) 0) v"
proof (rule on_struct_cong)
  fix fs :: "'f cfield list"
  assume "depth (VStruct fs) \<le> depth v"
  with assms(1) have "depth f \<le> n" if "(t, m, s, f) \<in> set fs" for t m s f
    using depth_struct that by (metis le_trans)
  then show "map_err (\<lambda>_. apply_field E uints rec elem prefix) 0 fs = map_err (\<lambda>_. apply_field E uints rec' elem' prefix) 0 fs"
    by (intro map_err_cong apply_field_cong[of n] assms(2,3)) auto
qed

lemma applyEnvOverrides_enough:
  "depth v \<le> n \<Longrightarrow> depth v \<le> m \<Longrightarrow> applyEnvOverrides n E prefix v = applyEnvOverrides m E prefix v"
proof (induction n arbitrary: m prefix v)
  case 0
  then show ?case by (cases m) (simp_all add: on_struct_none)
next
  case (Suc n)
  show ?case
  proof (cases m)
    case (Suc m')
    have "on_struct (map_err (\<lambda>_. apply_field E False (applyEnvOverrides n E) (\<lambda>key i. applyEnvOverrides n E (elem_key key i)) prefix) 0) v =
      on_struct (map_err (\<lambda>_. apply_field E False (applyEnvOverrides m' E) (\<lambda>key i. applyEnvOverrides m' E (elem_key key i)) prefix) 0) v"
      by (rule struct_loop_cong[of v "min n m'"]) (use Suc.prems Suc in \<open>auto intro: Suc.IH\<close>)
    then show ?thesis by (simp add: Suc)
  qed (use Suc.prems in \<open>simp add: on_struct_none\<close>)
qed

lemma data_applyEnvOverrides_enough:
  "depth v \<le> n \<Longrightarrow> depth v \<le> m \<Longrightarrow> data_applyEnvOverrides n E prefix v = data_applyEnvOverrides m E prefix v"
proof (induction n arbitrary: m prefix v)
  case 0
  then show ?case by (cases m) (simp_all add: on_struct_none)
next
  case (Suc n)
  show ?case
  proof (cases m)
    case (Suc m')
    let ?elem = "\<lambda>n key i v. case data_applyEnvOverrides n E key v of (Inl e, v) \<Rightarrow> (Inl e, v)
       | (Inr u, v) \<Rightarrow> data_applyEnvOverrides n E (elem_key key i) v"
    have "on_struct (map_err (\<lambda>_. apply_field E True (data_applyEnvOverrides n E) (?elem n) prefix) 0) v =
      on_struct (map_err (\<lambda>_. apply_field E True (data_applyEnvOverrides m' E) (?elem m') prefix) 0) v"
    proof (rule struct_loop_cong[of v "min n m'"])
      fix key i and v :: "'a cval"
      assume "depth v \<le> min n m'"
      moreover from this have "data_applyEnvOverrides n E key v = data_applyEnvOverrides m' E key v"
        by (auto intro: Suc.IH)
      moreover have "depth (snd (data_applyEnvOverrides m' E key v)) = depth v"
        by (rule depth_skel) (rule shape.data)
      ultimately show "?elem n key i v = ?elem m' key i v"
        by (auto intro: Suc.IH split: prod.splits sum.splits)
    qed (use Suc.prems Suc in \<open>auto intro: Suc.IH\<close>)
    then show ?thesis by (simp add: Suc)
  qed (use Suc.prems in \<open>simp add: on_struct_none\<close>)
qed

section \<open>Which variables reach a field\<close>

text \<open>
  A path leads through the positions of fields and elements. \<open>get\<close> is the value at its end, \<open>keys_at\<close> the variables
  that are applied to it, in order, when \<open>el\<close> are those of an element of a slice.
\<close>

fun subs :: "'f cval \<Rightarrow> 'f cval list" where
  "subs (VStruct fs) = map (\<lambda>(t, n, s, f). f) fs"
| "subs (VPtr (Some (VStruct fs))) = map (\<lambda>(t, n, s, f). f) fs"
| "subs (VSlice vs) = vs"
| "subs v = []"

fun struct_fields :: "'f cval \<Rightarrow> 'f cfield list" where
  "struct_fields (VStruct fs) = fs"
| "struct_fields (VPtr (Some (VStruct fs))) = fs"
| "struct_fields v = []"

fun get :: "'f cval \<Rightarrow> nat list \<Rightarrow> 'f cval option" where
  "get v [] = Some v"
| "get v (j # js) = (if j < length (subs v) then get (subs v ! j) js else None)"

fun keys_at :: "(string \<Rightarrow> nat \<Rightarrow> string list) \<Rightarrow> string list \<Rightarrow> 'f cval \<Rightarrow> nat list \<Rightarrow> string list"
  and field_keys :: "(string \<Rightarrow> nat \<Rightarrow> string list) \<Rightarrow> string list \<Rightarrow> 'f cval \<Rightarrow> nat list \<Rightarrow> string list" where
  "keys_at el ps v [] = []"
| "keys_at el ps v (j # js) =
     (if j < length (struct_fields v) then
        (case struct_fields v ! j of (t, n, s, f) \<Rightarrow> field_keys el (if s \<or> is_slice f then map (\<lambda>p. env_key p t) ps else []) f js)
      else [])"
| "field_keys el ks f [] = ks"
| "field_keys el ks f (j # js) =
     (if is_slice f then (if j < length (subs f) then keys_at el (concat (map (\<lambda>k. el k j) ks)) (subs f ! j) js else [])
      else if j < length (struct_fields f) then
        (case struct_fields f ! j of (t, n, s, g) \<Rightarrow> field_keys el (if s \<or> is_slice g then map (\<lambda>p. env_key p t) ks else []) g js)
      else [])"

fun is_leaf :: "'f cval \<Rightarrow> bool" where
  "is_leaf (VStruct fs) = False"
| "is_leaf (VPtr p) = False"
| "is_leaf (VSlice vs) = False"
| "is_leaf v = True"

text \<open>
  What a text means for a field: a value of the field's kind, or none if it is not one. Without unsigned integers
  their fields, like those of other kinds, take any text and stay as they are. Of several variables the last one
  that is set counts.
\<close>

fun reads :: "'f env_lib \<Rightarrow> bool \<Rightarrow> 'f cval \<Rightarrow> string \<Rightarrow> 'f cval option" where
  "reads E uints (VString _) s = Some (VString s)"
| "reads E uints (VBool _) s = map_option VBool (ParseBool s)"
| "reads E uints (VInt bits True _) s = map_option (VInt bits True) (en_ParseDuration E s)"
| "reads E uints (VInt bits False _) s = map_option (VInt bits False) (en_ParseInt E s bits)"
| "reads E True (VUint bits _) s = map_option (VUint bits) (en_ParseUint E s bits)"
| "reads E uints (VFloat bits _) s = map_option (VFloat bits) (en_ParseFloat E s bits)"
| "reads E uints f s = Some f"

definition readable :: "'f env_lib \<Rightarrow> bool \<Rightarrow> 'f cval \<Rightarrow> string \<Rightarrow> bool" where
  "readable E uints f key \<longleftrightarrow> en_Getenv E key = [] \<or> reads E uints f (en_Getenv E key) \<noteq> None"

definition assigned :: "'f env_lib \<Rightarrow> bool \<Rightarrow> 'f cval \<Rightarrow> string list \<Rightarrow> 'f cval option" where
  "assigned E uints f keys = (case filter (\<lambda>k. en_Getenv E k \<noteq> []) keys of
     [] \<Rightarrow> Some f
   | k # ks \<Rightarrow> reads E uints f (en_Getenv E (last (k # ks))))"

definition override :: "'f env_lib \<Rightarrow> bool \<Rightarrow> 'f cval \<Rightarrow> string \<Rightarrow> 'f cval" where
  "override E uints f key = (if en_Getenv E key = [] then f else case_option f id (reads E uints f (en_Getenv E key)))"

lemma set_field_ok:
  assumes "is_leaf f"
  shows "set_field E uints key n f = (Inr (), f') \<longleftrightarrow> readable E uints f key \<and> f' = override E uints f key"
  using assms by (cases "(E, uints, f, en_Getenv E key)" rule: reads.cases)
    (auto simp: override_def readable_def set_field_def Let_def split: option.splits)

lemma set_field_fails: "is_leaf f \<Longrightarrow> set_field E uints key n f = (Inl e, f') \<Longrightarrow> \<not> readable E uints f key"
  using set_field_ok[of f E uints key n "override E uints f key"] by auto

lemma reads_kind: "reads E uints f t = Some g \<Longrightarrow> reads E uints g s = reads E uints f s"
  by (cases "(E, uints, f, t)" rule: reads.cases) auto

lemma reads_override [simp]: "reads E uints (override E uints f key) s = reads E uints f s"
  by (auto simp: override_def reads_kind split: option.splits)

lemma readable_override [simp]: "readable E uints (override E uints f k) key = readable E uints f key"
  by (simp add: readable_def)

lemma foldl_override [simp]:
  "reads E uints (foldl (override E uints) f ks) s = reads E uints f s"
  "readable E uints (foldl (override E uints) f ks) key = readable E uints f key"
  by (induction ks arbitrary: f) simp_all

lemma foldl_assigned:
  assumes "\<forall>k \<in> set ks. readable E uints f k"
  shows "assigned E uints f ks = Some (foldl (override E uints) f ks)"
  using assms
proof (induction ks rule: rev_induct)
  case (snoc k ks)
  then show ?case
    by (cases "en_Getenv E k = []")
      (auto simp: assigned_def override_def[of E uints "foldl (override E uints) f ks"] readable_def split: list.splits option.splits)
qed (simp add: assigned_def)

lemma reads_number:
  "reads E uints (VInt bits dur i) s = map_option (VInt bits dur) (if dur then en_ParseDuration E s else en_ParseInt E s bits)"
  "reads E uints (VUint bits i) s = (if uints then map_option (VUint bits) (en_ParseUint E s bits) else Some (VUint bits i))"
  by (cases dur; simp) (cases uints; simp)

lemma readable_skel:
  assumes "skel g = skel f"
  shows "readable E uints g key = readable E uints f key"
proof -
  have "reads E uints g s = None \<longleftrightarrow> reads E uints f s = None" for s
    using assms by (cases f; cases g) (simp_all add: reads_number)
  then show ?thesis by (simp add: readable_def)
qed

lemma field_keys_struct: "\<not> is_slice f \<Longrightarrow> field_keys el ks f (j # js) = keys_at el ks f (j # js)"
  by simp

lemma keys_at_nil [simp]: "keys_at el [] v path = []" "field_keys el [] v path = []"
  by (induction path arbitrary: v) (auto split: prod.splits)

lemma keys_at_append:
  "keys_at el (ps @ qs) v path = keys_at el ps v path @ keys_at el qs v path"
  "field_keys el (ps @ qs) v path = field_keys el ps v path @ field_keys el qs v path"
  by (induction path arbitrary: ps qs v) (auto split: prod.splits)

lemma skel_parts [simp]:
  "is_slice (skel v) = is_slice v" "subs (skel v) = map skel (subs v)"
  "struct_fields (skel v) = map (\<lambda>(t, n, s, f). (t, n, s, skel f)) (struct_fields v)"
    apply (cases v; simp)
   apply (cases v rule: subs.cases; simp add: case_prod_unfold o_def)
  apply (cases v rule: subs.cases; simp)
  done

lemma keys_at_of_skel [simp]:
  "keys_at el ps (skel v) path = keys_at el ps v path"
  "field_keys el ps (skel v) path = field_keys el ps v path"
  by (induction path arbitrary: ps v) (auto split: prod.splits)

lemma keys_at_skel: "skel v' = skel v \<Longrightarrow> keys_at el ps v' path = keys_at el ps v path"
  by (metis keys_at_of_skel(1))

lemma apsnd_eq_iff: "apsnd f p = (a, c) \<longleftrightarrow> (\<exists>b. p = (a, b) \<and> c = f b)"
  by (cases p) auto

lemma map_err_nth:
  "map_err f i xs = (Inr u, ys) \<Longrightarrow> length ys = length xs \<and> (\<forall>j < length xs. f (i + j) (xs ! j) = (Inr (), ys ! j))"
proof (induction xs arbitrary: i ys)
  case (Cons x xs)
  from Cons.prems obtain y zs where "f i x = (Inr (), y)" "map_err f (Suc i) xs = (Inr u, zs)" "ys = y # zs"
    by (auto simp: apsnd_eq_iff split: prod.splits sum.splits)
  with Cons.IH show ?case by (force simp: nth_Cons split: nat.splits)
qed simp

lemma map_err_fails:
  "map_err f i xs = (Inl e, ys) \<Longrightarrow> \<exists>j < length xs. \<exists>y. f (i + j) (xs ! j) = (Inl e, y)"
proof (induction xs arbitrary: i ys)
  case (Cons x xs)
  show ?case
  proof (cases "fst (f i x)")
    case (Inl e')
    with Cons.prems show ?thesis by (intro exI[of _ 0]) (auto simp: prod_eq_iff split: prod.splits sum.splits)
  next
    case (Inr u)
    with Cons.prems obtain zs where "map_err f (Suc i) xs = (Inl e, zs)"
      by (auto simp: apsnd_eq_iff split: prod.splits)
    from Cons.IH[OF this] show ?thesis by auto
  qed
qed simp

text \<open>What a call does to the leaves of a value, and that one of them is named by a variable it cannot take.\<close>

definition unreadable :: "'f env_lib \<Rightarrow> bool \<Rightarrow> (string \<Rightarrow> nat \<Rightarrow> string list) \<Rightarrow> string list \<Rightarrow> 'f cval \<Rightarrow> bool" where
  "unreadable E uints el ps v \<longleftrightarrow> (\<exists>path f. get v path = Some f \<and> is_leaf f \<and>
     (\<exists>k \<in> set (keys_at el ps v path). \<not> readable E uints f k))"

definition sets_leaves :: "'f env_lib \<Rightarrow> bool \<Rightarrow> (string \<Rightarrow> nat \<Rightarrow> string list) \<Rightarrow> string list \<Rightarrow> 'f cval \<Rightarrow> 'f cval \<Rightarrow> bool" where
  "sets_leaves E uints el ps v v' \<longleftrightarrow> (\<forall>path f. get v path = Some f \<longrightarrow> is_leaf f \<longrightarrow>
     (\<forall>k \<in> set (keys_at el ps v path). readable E uints f k) \<and>
     get v' path = Some (foldl (override E uints) f (keys_at el ps v path)))"

lemma field_value_leaves:
  assumes "\<And>key v v'. depth v \<le> n \<Longrightarrow> rec key v = (Inr (), v') \<Longrightarrow> sets_leaves E uints el [key] v v'"
    and "\<And>key i v v'. depth v \<le> n \<Longrightarrow> elem key i v = (Inr (), v') \<Longrightarrow> sets_leaves E uints el (el key i) v v'"
    and "field_value E uints rec elem key m f = (Inr (), f')" "depth f \<le> n" "get f path = Some g" "is_leaf g"
  shows "(\<forall>k \<in> set (field_keys el [key] f path). readable E uints g k) \<and>
    get f' path = Some (foldl (override E uints) g (field_keys el [key] f path))"
proof (cases "is_leaf f")
  case True
  then have "subs f = []" by (cases f) auto
  with assms(5) have "path = []" "g = f" by (cases path; simp)+
  moreover have "set_field E uints key m f = (Inr (), f')" using True assms(3) by (cases f) (auto simp: field_value_def)
  ultimately show ?thesis using set_field_ok[OF True] by simp
next
  case False
  with assms(5,6) obtain j js where path: "path = j # js" by (cases path) auto
  show ?thesis
  proof (cases "is_slice f")
    case True
    then obtain vs where f: "f = VSlice vs" by (cases f) auto
    with assms(3) obtain vs' where f': "f' = VSlice vs'" and "map_err (elem key) 0 vs = (Inr (), vs')"
      by (auto simp: field_value_def apsnd_eq_iff)
    from map_err_nth[OF this(2)] assms(5) have "j < length vs" "length vs' = length vs" "elem key j (vs ! j) = (Inr (), vs' ! j)" "get (vs ! j) js = Some g"
      by (auto simp: path f split: if_splits)
    moreover from this assms(4) have "depth (vs ! j) \<le> n" by (auto simp: f fold_max_le)
    ultimately show ?thesis using assms(2)[of "vs ! j" key j "vs' ! j"] assms(6) by (simp add: path f f' sets_leaves_def)
  next
    case sl: False
    with False have "rec key f = (Inr (), f')" using assms(3) by (cases f) (auto simp: field_value_def)
    from assms(1)[OF assms(4) this] assms(5,6) show ?thesis
      unfolding path field_keys_struct[OF sl] sets_leaves_def by blast
  qed
qed

lemma struct_leaves:
  assumes "\<And>key v v'. depth v \<le> n \<Longrightarrow> rec key v = (Inr (), v') \<Longrightarrow> sets_leaves E uints el [key] v v'"
    and "\<And>key i v v'. depth v \<le> n \<Longrightarrow> elem key i v = (Inr (), v') \<Longrightarrow> sets_leaves E uints el (el key i) v v'"
    and "map_err (\<lambda>_. apply_field E uints rec elem prefix) 0 fs = (Inr (), fs')" "depth (VStruct fs) \<le> Suc n"
  shows "sets_leaves E uints el [prefix] (VStruct fs) (VStruct fs')"
  unfolding sets_leaves_def
proof (intro allI impI)
  fix path g assume g: "get (VStruct fs) path = Some g" "is_leaf g"
  then obtain j js where path: "path = j # js" by (cases path) auto
  with g have j: "j < length fs" by (auto split: if_splits)
  obtain t m s f where fj: "fs ! j = (t, m, s, f)" by (rule prod_cases4)
  note nth = map_err_nth[OF assms(3)]
  have "apply_field E uints rec elem prefix (fs ! j) = (Inr (), fs' ! j)" using nth j by simp
  then obtain f' where f': "fs' ! j = (t, m, s, f')"
      "(if s \<or> is_slice f then field_value E uints rec elem (env_key prefix t) m f else (Inr (), f)) = (Inr (), f')"
    by (auto simp: fj apply_field_def apsnd_eq_iff)
  have "depth f \<le> n" using depth_struct[OF assms(4)] j fj by (metis nth_mem)
  moreover have "get f js = Some g" using g(1) j by (simp add: path fj)
  ultimately have "(\<forall>k \<in> set (field_keys el (if s \<or> is_slice f then [env_key prefix t] else []) f js). readable E uints g k) \<and>
      get f' js = Some (foldl (override E uints) g (field_keys el (if s \<or> is_slice f then [env_key prefix t] else []) f js))"
    using f'(2) g(2) field_value_leaves[OF assms(1,2)] by (auto split: if_splits)
  then show "(\<forall>k \<in> set (keys_at el [prefix] (VStruct fs) path). readable E uints g k) \<and>
      get (VStruct fs') path = Some (foldl (override E uints) g (keys_at el [prefix] (VStruct fs) path))"
    using j nth by (auto simp: path fj f')
qed

lemma on_struct_leaves:
  assumes "\<And>key v v'. depth v \<le> n \<Longrightarrow> rec key v = (Inr (), v') \<Longrightarrow> sets_leaves E uints el [key] v v'"
    and "\<And>key i v v'. depth v \<le> n \<Longrightarrow> elem key i v = (Inr (), v') \<Longrightarrow> sets_leaves E uints el (el key i) v v'"
    and "on_struct (map_err (\<lambda>_. apply_field E uints rec elem prefix) 0) v = (Inr (), v')" "depth v \<le> Suc n"
  shows "sets_leaves E uints el [prefix] v v'"
proof (cases v rule: subs.cases)
  case (1 fs)
  with assms(3,4) show ?thesis by (auto simp: on_struct_def apsnd_eq_iff intro!: struct_leaves[OF assms(1,2)])
next
  case (2 fs)
  with assms(3) obtain fs' where fs': "v' = VPtr (Some (VStruct fs'))"
      "map_err (\<lambda>_. apply_field E uints rec elem prefix) 0 fs = (Inr (), fs')"
    by (auto simp: on_struct_def apsnd_eq_iff)
  have "sets_leaves E uints el [prefix] (VStruct fs) (VStruct fs')"
    using assms(4) 2 by (intro struct_leaves[OF assms(1,2) fs'(2)]) auto
  then have "(\<forall>k \<in> set (keys_at el [prefix] (VStruct fs) path). readable E uints f k) \<and>
      get (VStruct fs') path = Some (foldl (override E uints) f (keys_at el [prefix] (VStruct fs) path))"
    if "get (VStruct fs) path = Some f" "is_leaf f" for path f
    using that by (simp add: sets_leaves_def)
  moreover have "get (VPtr (Some (VStruct gs))) (j # js) = get (VStruct gs) (j # js)"
      "keys_at el [prefix] (VPtr (Some (VStruct gs))) (j # js) = keys_at el [prefix] (VStruct gs) (j # js)"
    for gs :: "'a cfield list" and j js by simp_all
  ultimately show ?thesis unfolding sets_leaves_def 2 fs'(1)
    by (metis get.simps(1) is_leaf.simps(2) neq_Nil_conv option.inject)
qed (use assms(3) in \<open>auto simp: on_struct_def sets_leaves_def elim!: get.elims split: if_splits\<close>)

lemma applyEnvOverrides_leaves:
  assumes "depth v \<le> n" "applyEnvOverrides n E prefix v = (Inr (), v')"
  shows "sets_leaves E False (\<lambda>k i. [elem_key k i]) [prefix] v v'"
  using assms
proof (induction n arbitrary: prefix v v')
  case 0
  then show ?case by (cases v rule: subs.cases) (auto simp: sets_leaves_def elim!: get.elims split: if_splits)
next
  case (Suc n)
  show ?case
    by (rule on_struct_leaves[where n = n and rec = "applyEnvOverrides n E" and prefix = prefix
        and elem = "\<lambda>key i v. applyEnvOverrides n E (elem_key key i) v"]) (use Suc in auto)
qed

lemma sets_leaves_trans:
  assumes "sets_leaves E uints el ps u v" "sets_leaves E uints el qs v w" "skel v = skel u"
  shows "sets_leaves E uints el (ps @ qs) u w"
  unfolding sets_leaves_def
proof (intro allI impI)
  fix path f assume f: "get u path = Some f" "is_leaf f"
  let ?g = "foldl (override E uints) f (keys_at el ps u path)"
  have "is_leaf (override E uints f k)" if "is_leaf f" for f k
    using that by (cases "(E, uints, f, en_Getenv E k)" rule: reads.cases) (auto simp: override_def split: option.splits)
  then have "is_leaf (foldl (override E uints) f ks)" for ks
    using f(2) by (induction ks arbitrary: f) auto
  moreover have "get v path = Some ?g" using assms(1) f by (auto simp: sets_leaves_def)
  ultimately have "(\<forall>k \<in> set (keys_at el qs u path). readable E uints ?g k) \<and>
      get w path = Some (foldl (override E uints) ?g (keys_at el qs u path))"
    using assms(2) unfolding sets_leaves_def keys_at_skel[OF assms(3)] by blast
  moreover have "\<forall>k \<in> set (keys_at el ps u path). readable E uints f k" using assms(1) f by (auto simp: sets_leaves_def)
  ultimately show "(\<forall>k \<in> set (keys_at el (ps @ qs) u path). readable E uints f k) \<and>
      get w path = Some (foldl (override E uints) f (keys_at el (ps @ qs) u path))"
    by (auto simp: keys_at_append)
qed

lemma data_applyEnvOverrides_leaves:
  assumes "depth v \<le> n" "data_applyEnvOverrides n E prefix v = (Inr (), v')"
  shows "sets_leaves E True (\<lambda>k i. [k, elem_key k i]) [prefix] v v'"
  using assms
proof (induction n arbitrary: prefix v v')
  case 0
  then show ?case by (cases v rule: subs.cases) (auto simp: sets_leaves_def elim!: get.elims split: if_splits)
next
  case (Suc n)
  let ?el = "\<lambda>k i. [k, elem_key k i]"
  let ?elem = "\<lambda>key i v. case data_applyEnvOverrides n E key v of (Inl e, v) \<Rightarrow> (Inl e, v)
       | (Inr u, v) \<Rightarrow> data_applyEnvOverrides n E (elem_key key i) v"
  have elem: "sets_leaves E True ?el (?el key i) v v'" if "depth v \<le> n" "?elem key i v = (Inr (), v')" for key i v v'
  proof -
    from that obtain x where x: "data_applyEnvOverrides n E key v = (Inr (), x)" "data_applyEnvOverrides n E (elem_key key i) x = (Inr (), v')"
      by (auto split: prod.splits sum.splits)
    have sk: "skel x = skel v" using shape.data[where v = v and n = n and E = E and prefix = key] x(1) by simp
    then have "depth x \<le> n" using depth_skel that(1) by metis
    then show ?thesis
      using sets_leaves_trans[OF Suc.IH[OF that(1) x(1)] Suc.IH[OF _ x(2)] sk] by simp
  qed
  show ?case
    by (rule on_struct_leaves[where n = n and rec = "data_applyEnvOverrides n E" and prefix = prefix and elem = ?elem])
      (use Suc elem in auto)
qed

text \<open>A call that fails has met a variable that one of the fields cannot take.\<close>

lemma get_of_skel: "get (skel v) path = map_option skel (get v path)"
  by (induction path arbitrary: v) auto

lemma unreadable_skel:
  assumes "skel v' = skel v" "unreadable E uints el ps v'"
  shows "unreadable E uints el ps v"
proof -
  from assms(2) obtain path f k where f: "get v' path = Some f" "is_leaf f" "k \<in> set (keys_at el ps v' path)" "\<not> readable E uints f k"
    by (auto simp: unreadable_def)
  moreover from this(1) assms(1) obtain g where g: "get v path = Some g" "skel g = skel f"
    using get_of_skel[of v path] get_of_skel[of v' path] by auto
  moreover have "is_leaf g" using f(2) g(2) by (cases f; cases g) auto
  ultimately show ?thesis
    using keys_at_skel[OF assms(1), of el ps path] readable_skel[OF g(2)] unfolding unreadable_def by metis
qed

lemma field_value_fails:
  assumes "\<And>key v v' e. depth v \<le> n \<Longrightarrow> rec key v = (Inl e, v') \<Longrightarrow> unreadable E uints el [key] v"
    and "\<And>key i v v' e. depth v \<le> n \<Longrightarrow> elem key i v = (Inl e, v') \<Longrightarrow> unreadable E uints el (el key i) v"
    and "field_value E uints rec elem key m f = (Inl e, f')" "depth f \<le> n"
  shows "\<exists>path g. get f path = Some g \<and> is_leaf g \<and> (\<exists>k \<in> set (field_keys el [key] f path). \<not> readable E uints g k)"
proof (cases "is_leaf f")
  case True
  then have "set_field E uints key m f = (Inl e, f')" using assms(3) by (cases f) (auto simp: field_value_def)
  from set_field_fails[OF True this] True show ?thesis by (intro exI[of _ "[]"]) simp
next
  case False
  show ?thesis
  proof (cases "is_slice f")
    case True
    then obtain vs where f: "f = VSlice vs" by (cases f) auto
    with assms(3) obtain vs' where "map_err (elem key) 0 vs = (Inl e, vs')"
      by (auto simp: field_value_def apsnd_eq_iff)
    from map_err_fails[OF this] obtain j y where j: "j < length vs" "elem key j (vs ! j) = (Inl e, y)" by auto
    with assms(4) have "depth (vs ! j) \<le> n" by (auto simp: f fold_max_le)
    from assms(2)[OF this j(2)] obtain js g where
      "get (vs ! j) js = Some g" "is_leaf g" "\<exists>k \<in> set (keys_at el (el key j) (vs ! j) js). \<not> readable E uints g k"
      by (auto simp: unreadable_def)
    with j(1) show ?thesis by (intro exI[of _ "j # js"]) (simp add: f)
  next
    case sl: False
    with False have "rec key f = (Inl e, f')" using assms(3) by (cases f) (auto simp: field_value_def)
    from assms(1)[OF assms(4) this] obtain path g where
      g: "get f path = Some g" "is_leaf g" "\<exists>k \<in> set (keys_at el [key] f path). \<not> readable E uints g k"
      by (auto simp: unreadable_def)
    from g(3) have "field_keys el [key] f path = keys_at el [key] f path"
      using field_keys_struct[OF sl] by (cases path) (simp, blast)
    with g show ?thesis by metis
  qed
qed

lemma on_struct_fails:
  assumes "\<And>key v v' e. depth v \<le> n \<Longrightarrow> rec key v = (Inl e, v') \<Longrightarrow> unreadable E uints el [key] v"
    and "\<And>key i v v' e. depth v \<le> n \<Longrightarrow> elem key i v = (Inl e, v') \<Longrightarrow> unreadable E uints el (el key i) v"
    and "on_struct (map_err (\<lambda>_. apply_field E uints rec elem prefix) 0) v = (Inl e, v')" "depth v \<le> Suc n"
  shows "unreadable E uints el [prefix] v"
proof -
  let ?fs = "struct_fields v"
  from assms(3) obtain fs' where "map_err (\<lambda>_. apply_field E uints rec elem prefix) 0 ?fs = (Inl e, fs')"
    by (cases v rule: subs.cases) (auto simp: on_struct_def apsnd_eq_iff)
  from map_err_fails[OF this] obtain j y where j: "j < length ?fs" "apply_field E uints rec elem prefix (?fs ! j) = (Inl e, y)"
    by auto
  obtain t m s f where fj: "?fs ! j = (t, m, s, f)" by (rule prod_cases4)
  with j(2) obtain f' where f': "s \<or> is_slice f" "field_value E uints rec elem (env_key prefix t) m f = (Inl e, f')"
    by (auto simp: apply_field_def apsnd_eq_iff split: if_splits)
  have "depth (VStruct ?fs) \<le> Suc n" using assms(4) j(1) by (cases v rule: subs.cases) auto
  then have "depth f \<le> n" using depth_struct j(1) fj by (metis nth_mem)
  then obtain js g where
    g: "get f js = Some g" "is_leaf g" "\<exists>k \<in> set (field_keys el [env_key prefix t] f js). \<not> readable E uints g k"
    using field_value_fails[where rec = rec and elem = elem and el = el, OF _ _ f'(2)] assms(1,2) by meson
  have "get v (j # js) = Some g" using j(1) fj g(1) by (cases v rule: subs.cases) auto
  moreover have "keys_at el [prefix] v (j # js) = field_keys el [env_key prefix t] f js"
    using j(1) fj f'(1) by auto
  ultimately show ?thesis using g(2,3) unfolding unreadable_def by metis
qed

lemma applyEnvOverrides_fails:
  "depth v \<le> n \<Longrightarrow> applyEnvOverrides n E prefix v = (Inl e, v') \<Longrightarrow> unreadable E False (\<lambda>k i. [elem_key k i]) [prefix] v"
proof (induction n arbitrary: prefix v v' e)
  case (Suc n)
  show ?case
    by (rule on_struct_fails[where n = n and rec = "applyEnvOverrides n E" and prefix = prefix
        and elem = "\<lambda>key i v. applyEnvOverrides n E (elem_key key i) v"]) (use Suc in auto)
qed simp

lemma data_applyEnvOverrides_fails:
  "depth v \<le> n \<Longrightarrow> data_applyEnvOverrides n E prefix v = (Inl e, v') \<Longrightarrow> unreadable E True (\<lambda>k i. [k, elem_key k i]) [prefix] v"
proof (induction n arbitrary: prefix v v' e)
  case (Suc n)
  let ?el = "\<lambda>k i. [k, elem_key k i]"
  let ?elem = "\<lambda>key i v. case data_applyEnvOverrides n E key v of (Inl e, v) \<Rightarrow> (Inl e, v)
       | (Inr u, v) \<Rightarrow> data_applyEnvOverrides n E (elem_key key i) v"
  have split: "unreadable E True ?el (?el key i) v" if "unreadable E True ?el [key] v \<or> unreadable E True ?el [elem_key key i] v" for key i v
    using that keys_at_append(1)[of ?el "[key]" "[elem_key key i]" v] by (auto simp: unreadable_def)
  have elem: "unreadable E True ?el (?el key i) v" if v: "depth v \<le> n" "?elem key i v = (Inl e, v')" for key i v v' e
  proof -
    obtain r x where x: "data_applyEnvOverrides n E key v = (r, x)" by (rule prod.exhaust)
    have sk: "skel x = skel v" using shape.data[where v = v and n = n and E = E and prefix = key] x by simp
    then have "depth x \<le> n" using depth_skel v(1) by metis
    with v x have "unreadable E True ?el [key] v \<or> unreadable E True ?el [elem_key key i] x"
      using Suc.IH[of v key] Suc.IH[of x "elem_key key i"] by (auto split: sum.splits)
    with unreadable_skel[OF sk] split show ?thesis by blast
  qed
  show ?case
    by (rule on_struct_fails[where n = n and rec = "data_applyEnvOverrides n E" and prefix = prefix and elem = ?elem])
      (use Suc elem in auto)
qed simp

lemma sets_leaves_assigned:
  assumes "sets_leaves E uints el ps v v'"
  shows "\<not> unreadable E uints el ps v"
    and "get v path = Some f \<Longrightarrow> is_leaf f \<Longrightarrow> get v' path = assigned E uints f (keys_at el ps v path)"
  using assms foldl_assigned by (fastforce simp: sets_leaves_def unreadable_def)+

lemma overrides_cases:
  assumes "\<And>e v'. call = (Inl e, v') \<Longrightarrow> unreadable E uints el ps v"
    and "\<And>v'. call = (Inr (), v') \<Longrightarrow> sets_leaves E uints el ps v v'"
  shows "case call of (Inl e, v') \<Rightarrow> unreadable E uints el ps v
    | (Inr u, v') \<Rightarrow> \<not> unreadable E uints el ps v \<and>
        (\<forall>path f. get v path = Some f \<longrightarrow> is_leaf f \<longrightarrow> get v' path = assigned E uints f (keys_at el ps v path))"
  using assms by (cases call; cases "fst call") (auto simp: sets_leaves_assigned)

section \<open>Properties\<close>

text \<open>
  C14: Environment variables never change the type of a configuration, whatever they hold and whether the call
  fails or not: both versions of \<open>applyEnvOverrides\<close> keep the structure of the value with its tags, kinds, widths
  and lengths, and every integer still fits its width. The parsers return numbers in range, as documented.
\<close>

theorem env_overrides_keep_types:
  assumes "parsers_fit E" "typed v"
    and "v' = snd (applyEnvOverrides n E prefix v) \<or> v' = snd (data_applyEnvOverrides n E prefix v)"
  shows "typed v' \<and> skel v' = skel v"
  using assms typing.meta typing.data shape.meta shape.data by metis

definition env0 :: "unit env_lib" where
  "env0 = \<lparr>en_Getenv = (\<lambda>k. if k = ''INFLUXDB_UDP'' then ''7'' else if k = ''INFLUXDB_UDP_1_BATCH'' then ''300'' else
       if k = ''INFLUXDB_META_DIR'' then ''/m'' else []),
     en_ParseDuration = (\<lambda>s. None), en_ParseInt = (\<lambda>s bits. if s = ''300'' \<and> bits = 16 then Some 300 else None),
     en_ParseUint = (\<lambda>s bits. None), en_ParseFloat = (\<lambda>s bits. None)\<rparr>"

definition udp0 :: "unit cval" where
  "udp0 = VStruct [(''udp'', ''UDPInputs'', True, VSlice (replicate 2 (VStruct [(''batch'', ''Batch'', True, VInt 16 False 5)])))]"

lemma parsers_fit_env0: "parsers_fit env0"
  by (auto simp: parsers_fit_def env0_def)

theorem env_overrides_keep_types_witness:
  "typed (snd (applyEnvOverrides 2 env0 ''INFLUXDB'' udp0)) \<and> skel (snd (applyEnvOverrides 2 env0 ''INFLUXDB'' udp0)) = skel udp0"
proof -
  have "typed udp0" by (simp add: udp0_def)
  then show ?thesis by (rule env_overrides_keep_types[OF parsers_fit_env0]) (rule disjI1, rule HOL.refl)
qed

text \<open>
  C13: Overriding fails exactly when a set variable that names a field does not hold a value of the field's kind, and
  otherwise every field ends with the value of the last set variable that names it, or as it was. The variables
  that name a field are \<open>keys_at\<close>: on the meta node the one made of the prefix, the tags on the path and the indices
  of slice elements, on the data node for a slice element first the one without and then the one with the index.
\<close>

theorem env_overrides_exact:
  assumes "depth v \<le> n"
  shows "(case applyEnvOverrides n E prefix v of
       (Inl e, v') \<Rightarrow> unreadable E False (\<lambda>k i. [elem_key k i]) [prefix] v
     | (Inr u, v') \<Rightarrow> \<not> unreadable E False (\<lambda>k i. [elem_key k i]) [prefix] v \<and>
         (\<forall>path f. get v path = Some f \<longrightarrow> is_leaf f \<longrightarrow>
            get v' path = assigned E False f (keys_at (\<lambda>k i. [elem_key k i]) [prefix] v path))) \<and>
    (case data_applyEnvOverrides n E prefix v of
       (Inl e, v') \<Rightarrow> unreadable E True (\<lambda>k i. [k, elem_key k i]) [prefix] v
     | (Inr u, v') \<Rightarrow> \<not> unreadable E True (\<lambda>k i. [k, elem_key k i]) [prefix] v \<and>
         (\<forall>path f. get v path = Some f \<longrightarrow> is_leaf f \<longrightarrow>
            get v' path = assigned E True f (keys_at (\<lambda>k i. [k, elem_key k i]) [prefix] v path)))"
  by (rule conjI; rule overrides_cases)
    (erule applyEnvOverrides_fails[OF assms] applyEnvOverrides_leaves[OF assms]
      data_applyEnvOverrides_fails[OF assms] data_applyEnvOverrides_leaves[OF assms])+

theorem env_overrides_exact_witness:
  "get (snd (applyEnvOverrides 2 env0 ''INFLUXDB'' udp0)) [0, 1, 0] = Some (VInt 16 False 300)"
proof -
  have "depth udp0 \<le> 2" "get udp0 [0, 1, 0] = Some (VInt 16 False 5)" "is_leaf (VInt 16 False 5)"
    "fst (applyEnvOverrides 2 env0 ''INFLUXDB'' udp0) = Inr ()"
    "assigned env0 False (VInt 16 False 5) (keys_at (\<lambda>k i. [elem_key k i]) [''INFLUXDB''] udp0 [0, 1, 0]) = Some (VInt 16 False 300)"
    by code_simp+
  moreover from this obtain v' where "applyEnvOverrides 2 env0 ''INFLUXDB'' udp0 = (Inr (), v')"
    by (metis prod.collapse)
  ultimately show ?thesis using env_overrides_exact[of udp0 2 env0 "''INFLUXDB''"] by (simp del: get.simps keys_at.simps)
qed

text \<open>The meta configuration is again one after the overrides.\<close>

lemma skel_iff:
  "skel v = VString [] \<longleftrightarrow> (\<exists>s. v = VString s)" "skel v = VBool False \<longleftrightarrow> (\<exists>b. v = VBool b)"
  "skel v = VInt bits dur 0 \<longleftrightarrow> (\<exists>i. v = VInt bits dur i)"
  "skel v = VPtr (Some u) \<longleftrightarrow> (\<exists>w. v = VPtr (Some w) \<and> skel w = u)"
  "skel v = VStruct gs \<longleftrightarrow> (\<exists>fs. v = VStruct fs \<and> map (\<lambda>(t, n, s, f). (t, n, s, skel f)) fs = gs)"
  by (cases v; auto)+

lemma of_meta_fields [simp]: "of_fields (map (\<lambda>(t, n, s, f). f) (meta_fields m)) = m"
  by (simp add: of_fields_def meta_fields_def)

lemma of_config_value [simp]: "of_value (config_value m) = m"
  by (simp add: config_value_def)

lemma skel_field_iff:
  "map (\<lambda>(t, n, s, f). (t, n, s, skel f)) fs = (t, n, s, u) # us \<longleftrightarrow>
     (\<exists>f gs. fs = (t, n, s, f) # gs \<and> skel f = u \<and> map (\<lambda>(t, n, s, f). (t, n, s, skel f)) gs = us)"
  by (cases fs) auto

lemma skel_meta_fields:
  assumes "map (\<lambda>(t, n, s, f). (t, n, s, skel f)) fs = map (\<lambda>(t, n, s, f). (t, n, s, skel f)) (meta_fields m)"
  shows "\<exists>m'. fs = meta_fields m'"
proof -
  have "fs = meta_fields (of_fields (map (\<lambda>(t, n, s, f). f) fs))"
    using assms unfolding meta_fields_def list.map prod.case skel.simps skel_field_iff skel_iff map_is_Nil_conv
    by (elim exE conjE, hypsubst) (simp add: of_fields_def)
  then show ?thesis by blast
qed

lemma skel_config_value: "skel v = skel (config_value m :: 'f cval) \<Longrightarrow> \<exists>m'. v = config_value m'"
  by (auto simp: config_value_def skel_iff map_eq_Cons_conv dest!: skel_meta_fields)

lemma ApplyEnvOverrides_value:
  "config_value (snd (ApplyEnvOverrides E m)) = snd (applyEnvOverrides (depth (config_value m :: 'f cval)) (E :: 'f env_lib) ''INFLUXDB'' (config_value m))"
proof -
  obtain m' where "snd (applyEnvOverrides (depth (config_value m :: 'f cval)) E ''INFLUXDB'' (config_value m)) = config_value m'"
    using skel_config_value[OF shape.meta] by blast
  then show ?thesis by (simp add: ApplyEnvOverrides_def)
qed

text \<open>The directory comes from \<open>INFLUXDB_META_DIR\<close>, and the field that is excluded from the file from \<open>INFLUXDB_META__\<close>.\<close>

lemma meta_keys:
  "keys_at (\<lambda>k i. [elem_key k i]) [''INFLUXDB''] (config_value m :: 'f cval) [0, 1] = [''INFLUXDB_META_DIR'']" (is ?k1)
  "keys_at (\<lambda>k i. [elem_key k i]) [''INFLUXDB''] (config_value m :: 'f cval) [0, 2] = [''INFLUXDB_META__'']" (is ?k2)
proof -
  have "env_key ''INFLUXDB'' ''meta'' = ''INFLUXDB_META''" "env_key ''INFLUXDB_META'' ''dir'' = ''INFLUXDB_META_DIR''"
    "env_key ''INFLUXDB_META'' ''-'' = ''INFLUXDB_META__''"
    by code_simp+
  then show ?k1 ?k2 by (simp_all add: config_value_def meta_fields_def)
qed

lemma ApplyEnvOverrides_Dir:
  assumes "fst (ApplyEnvOverrides E m) = Inr ()"
  shows "m_Dir (snd (ApplyEnvOverrides E m)) = (if en_Getenv E ''INFLUXDB_META_DIR'' = [] then m_Dir m else en_Getenv E ''INFLUXDB_META_DIR'')"
proof -
  let ?v = "config_value m :: 'a cval" and ?m' = "snd (ApplyEnvOverrides E m)"
  have "applyEnvOverrides (depth ?v) E ''INFLUXDB'' ?v = (Inr (), config_value ?m')"
    using assms ApplyEnvOverrides_value[of E m] by (simp add: ApplyEnvOverrides_def prod_eq_iff)
  from applyEnvOverrides_leaves[OF order_refl this, unfolded sets_leaves_def, THEN spec, of "[0, 1]", THEN spec, of "VString (m_Dir m)"]
  have "get ?v [0, 1] = Some (VString (m_Dir m)) \<longrightarrow> (\<forall>k \<in> set [''INFLUXDB_META_DIR'']. readable E False (VString (m_Dir m)) k) \<and> get (config_value ?m' :: 'a cval) [0, 1] =
      Some (foldl (override E False) (VString (m_Dir m)) [''INFLUXDB_META_DIR''])"
    by (simp only: meta_keys(1) is_leaf.simps simp_thms)
  moreover have "get (config_value k :: 'a cval) [0, 1] = Some (VString (m_Dir k))" for k
    by (simp add: config_value_def meta_fields_def)
  ultimately have "VString (m_Dir ?m') = foldl (override E False) (VString (m_Dir m)) [''INFLUXDB_META_DIR'']"
    by (simp only: option.inject)
  then show ?thesis by (auto simp: override_def split: if_splits)
qed

end
