(* ===== verification/Meta_Handler.thy ===== *)
theory Meta_Handler
  imports Meta_Client Meta_Config
begin

text \<open>
  The HTTP handler of the meta service (\<open>src/meta/handler.go\<close>) and its response logger
  (\<open>src/meta/response_logger.go\<close>): the response writer and its wrappers, the filters that \<open>WrapHandler\<close> stacks, the
  dispatch, and the handlers of commands, snapshots, pings and leases.

  \<open>net/url\<close> parsing and printing, gzip, the UUID and the texts of times are the record \<open>h_lib\<close>, as are the protobuf
  encoding of the answer, the HTTP client of \<open>servePing\<close> and the leases, whose type the repository does not define.
  The methods without a body have no definition.
\<close>

section \<open>Response writers\<close>

type_synonym headers = "(string \<times> string) list"

definition hdr_Get :: "string \<Rightarrow> headers \<Rightarrow> string" where
  "hdr_Get k h = (case map_of h k of None \<Rightarrow> [] | Some v \<Rightarrow> v)"

definition hdr_Set :: "string \<Rightarrow> string \<Rightarrow> headers \<Rightarrow> headers" where
  "hdr_Set k v h = filter (\<lambda>(k', v'). k' \<noteq> k) h @ [(k, v)]"

definition hdr_Add :: "string \<Rightarrow> string \<Rightarrow> headers \<Rightarrow> headers" where
  "hdr_Add k v h = h @ [(k, v)]"

text \<open>
  The writer of \<open>net/http\<close>: the header map, the status with the headers as they were when it was sent, and the
  body. The first \<open>Write\<close> sends status 200, later calls of \<open>WriteHeader\<close> have no effect.
\<close>

record rw =
  rw_header :: headers
  rw_sent :: "(int \<times> headers) option"
  rw_body :: "byte list"

definition rw_WriteHeader :: "int \<Rightarrow> rw \<Rightarrow> rw" where
  "rw_WriteHeader s w = (if rw_sent w = None then w\<lparr>rw_sent := Some (s, rw_header w)\<rparr> else w)"

definition rw_Write :: "byte list \<Rightarrow> rw \<Rightarrow> rw" where
  "rw_Write b w = (let w = rw_WriteHeader 200 w in w\<lparr>rw_body := rw_body w @ b\<rparr>)"

record responseLogger =
  l_status :: int
  l_size :: int

text \<open>A writer, wrapped by a response logger or by a gzip writer with what was written to it so far.\<close>

datatype writer = Plain rw | Logged responseLogger writer | Gzipped "byte list" writer

text \<open>What a gzip writer passes on when bytes are written after others, and when it is closed.\<close>

record gzip_lib =
  gz_emit :: "byte list \<Rightarrow> byte list \<Rightarrow> byte list"
  gz_end :: "byte list \<Rightarrow> byte list"

fun w_Write :: "gzip_lib \<Rightarrow> byte list \<Rightarrow> writer \<Rightarrow> writer" where
  "w_Write G b (Plain w) = Plain (rw_Write b w)"
| "w_Write G b (Logged l w) =
     Logged (l\<lparr>l_status := (if l_status l = 0 then 200 else l_status l), l_size := i64 (l_size l + int (length b))\<rparr>) (w_Write G b w)"
| "w_Write G b (Gzipped c w) =
     Gzipped (c @ b) (if gz_emit G c b = [] then w else w_Write G (gz_emit G c b) w)"

fun w_WriteHeader :: "int \<Rightarrow> writer \<Rightarrow> writer" where
  "w_WriteHeader s (Plain w) = Plain (rw_WriteHeader s w)"
| "w_WriteHeader s (Logged l w) = Logged (l\<lparr>l_status := s\<rparr>) (w_WriteHeader s w)"
| "w_WriteHeader s (Gzipped c w) = Gzipped c (w_WriteHeader s w)"

fun on_header :: "(headers \<Rightarrow> headers) \<Rightarrow> writer \<Rightarrow> writer" where
  "on_header f (Plain w) = Plain (w\<lparr>rw_header := f (rw_header w)\<rparr>)"
| "on_header f (Logged l w) = Logged l (on_header f w)"
| "on_header f (Gzipped c w) = Gzipped c (on_header f w)"

definition l_Status :: "responseLogger \<Rightarrow> int" where
  "l_Status l = (if l_status l = 0 then 200 else l_status l)"

fun base :: "writer \<Rightarrow> rw" where
  "base (Plain w) = w"
| "base (Logged l w) = base w"
| "base (Gzipped c w) = base w"

text \<open>\<open>http.Error\<close> and \<open>http.Redirect\<close> to an absolute address.\<close>

definition http_Error :: "gzip_lib \<Rightarrow> string \<Rightarrow> int \<Rightarrow> writer \<Rightarrow> writer" where
  "http_Error G msg code w =
     w_Write G (map (\<lambda>c. word_of_nat (of_char c)) (msg @ [CHR 0x0A]))
       (w_WriteHeader code (on_header (\<lambda>h. hdr_Set ''X-Content-Type-Options'' ''nosniff''
          (hdr_Set ''Content-Type'' ''text/plain; charset=utf-8'' h)) w))"

section \<open>Requests and log lines\<close>

record http_req =
  rq_Method :: string
  rq_Path :: string
  rq_RawQuery :: string
  rq_Header :: headers
  rq_Body :: "string + byte list"
  rq_RemoteAddr :: string
  rq_User :: "string option"
  rq_BasicAuth :: "string option"
  rq_Proto :: string

record ('l, 'w) h_lib =
  hl_gzip :: gzip_lib
  hl_Query :: "string \<Rightarrow> (string \<times> string) list"
  hl_Encode :: "(string \<times> string) list \<Rightarrow> string"
  hl_RequestURI :: "string \<Rightarrow> string \<Rightarrow> string"
  hl_RedirectBody :: "string \<Rightarrow> byte list"
  hl_UUID :: string
  hl_Start :: string
  hl_Since :: string
  hl_Stack :: string
  hl_Response :: "Response_pb \<Rightarrow> string + byte list"
  hl_ErrorText :: "meta_error \<Rightarrow> string"
  hl_Get :: "string \<Rightarrow> 'w \<Rightarrow> (string + http_resp) \<times> 'w"
  hl_Acquire :: "string \<Rightarrow> u64 \<Rightarrow> 'l \<Rightarrow> ((byte list option) \<times> bool) \<times> 'l"

definition q_Get :: "('l, 'w) h_lib \<Rightarrow> http_req \<Rightarrow> string \<Rightarrow> string" where
  "q_Get H r k = (case map_of (hl_Query H (rq_RawQuery r)) k of None \<Rightarrow> [] | Some v \<Rightarrow> v)"

definition redactPassword :: "('l, 'w) h_lib \<Rightarrow> http_req \<Rightarrow> http_req" where
  "redactPassword H r =
     (if q_Get H r ''p'' \<noteq> []
      then r\<lparr>rq_RawQuery := hl_Encode H (hdr_Set ''p'' ''[REDACTED]'' (hl_Query H (rq_RawQuery r)))\<rparr> else r)"

fun detect :: "string list \<Rightarrow> string" where
  "detect [] = []"
| "detect (v # vs) = (if v \<noteq> [] then v else detect vs)"

definition parseUsername :: "('l, 'w) h_lib \<Rightarrow> http_req \<Rightarrow> string" where
  "parseUsername H r =
     (let username = (case rq_User r of Some name \<Rightarrow> name | None \<Rightarrow> []);
          username = (if q_Get H r ''u'' \<noteq> [] then q_Get H r ''u'' else username) in
      if username = [] then (case rq_BasicAuth r of Some u \<Rightarrow> u | None \<Rightarrow> []) else username)"

definition Itoa :: "int \<Rightarrow> string" where
  "Itoa i = (if i < 0 then ''-'' @ decimal (nat (- i)) else decimal (nat i))"

fun join_with :: "string \<Rightarrow> string list \<Rightarrow> string" where
  "join_with sep [] = []"
| "join_with sep [x] = x"
| "join_with sep (x # y # ys) = x @ sep @ join_with sep (y # ys)"

definition buildLogLine :: "('l, 'w) h_lib \<Rightarrow> responseLogger \<Rightarrow> http_req \<Rightarrow> string \<times> http_req" where
  "buildLogLine H l r =
     (let r = redactPassword H r; username = parseUsername H r;
          host = (case SplitHostPort (rq_RemoteAddr r) of Inl e \<Rightarrow> rq_RemoteAddr r | Inr (host, port) \<Rightarrow> host) in
      (join_with '' '' [host, ''-'', detect [username, ''-''], ''['' @ hl_Start H @ '']'', rq_Method r,
         hl_RequestURI H (rq_Path r) (rq_RawQuery r), rq_Proto r, detect [Itoa (l_Status l), ''-''], Itoa (l_size l),
         detect [hdr_Get ''Referer'' (rq_Header r), ''-''], detect [hdr_Get ''User-Agent'' (rq_Header r), ''-''],
         hdr_Get ''Request-Id'' (rq_Header r), hl_Since H], r))"

section \<open>Filters\<close>

text \<open>
  A handler acts on the request, which it may change, on the writer, on the lines of the log and on the world.
  It returns (\<open>True\<close>) or panics (\<open>False\<close>), and does neither (\<open>None\<close>) while it waits. Calling a nil handler panics.
\<close>

record 's hctx =
  x_req :: http_req
  x_w :: writer
  x_log :: "string list"
  x_s :: 's

type_synonym 's http_handler = "'s hctx \<Rightarrow> (bool \<times> 's hctx) option"

definition call :: "'s http_handler option \<Rightarrow> 's http_handler" where
  "call inner x = (case inner of None \<Rightarrow> Some (False, x) | Some h \<Rightarrow> h x)"

definition contains :: "string \<Rightarrow> string \<Rightarrow> bool" where
  "contains sub s = list_ex (\<lambda>n. take (length sub) (drop n s) = sub) [0..<Suc (length s)]"

text \<open>The gzip writer is closed and taken off also after a panic.\<close>

definition gzipFilter :: "('l, 'w) h_lib \<Rightarrow> 's http_handler option \<Rightarrow> 's http_handler" where
  "gzipFilter H inner x =
     (if \<not> contains ''gzip'' (hdr_Get ''Accept-Encoding'' (rq_Header (x_req x))) then call inner x
      else let w = on_header (hdr_Set ''Content-Encoding'' ''gzip'') (x_w x) in
        map_option (apsnd (\<lambda>x. x\<lparr>x_w := (case x_w x of
            Gzipped c w \<Rightarrow> if gz_end (hl_gzip H) c = [] then w else w_Write (hl_gzip H) (gz_end (hl_gzip H) c) w
          | w \<Rightarrow> w)\<rparr>))
          (call inner (x\<lparr>x_w := Gzipped [] w\<rparr>)))"

definition versionHeader :: "string \<Rightarrow> 's http_handler option \<Rightarrow> 's http_handler" where
  "versionHeader version inner x = call inner (x\<lparr>x_w := on_header (hdr_Add ''X-Influxdb-Version'' version) (x_w x)\<rparr>)"

definition requestID :: "('l, 'w) h_lib \<Rightarrow> 's http_handler option \<Rightarrow> 's http_handler" where
  "requestID H inner x =
     (let r = (x_req x)\<lparr>rq_Header := hdr_Set ''Request-Id'' (hl_UUID H) (rq_Header (x_req x))\<rparr> in
      call inner (x\<lparr>x_req := r, x_w := on_header (hdr_Set ''Request-Id'' (hdr_Get ''Request-Id'' (rq_Header r))) (x_w x)\<rparr>))"

definition unlog :: "writer \<Rightarrow> responseLogger \<times> writer" where
  "unlog w = (case w of Logged l w \<Rightarrow> (l, w) | w \<Rightarrow> (\<lparr>l_status = 0, l_size = 0\<rparr>, w))"

definition log_request :: "('l, 'w) h_lib \<Rightarrow> string \<Rightarrow> responseLogger \<Rightarrow> 's hctx \<Rightarrow> 's hctx" where
  "log_request H suffix l x = (case buildLogLine H l (x_req x) of
     (line, r) \<Rightarrow> x\<lparr>x_req := r, x_log := x_log x @ [line @ suffix]\<rparr>)"

definition logging :: "('l, 'w) h_lib \<Rightarrow> 's http_handler option \<Rightarrow> 's http_handler" where
  "logging H inner x =
     (case call inner (x\<lparr>x_w := Logged \<lparr>l_status = 0, l_size = 0\<rparr> (x_w x)\<rparr>) of
        None \<Rightarrow> None
      | Some (ok, x) \<Rightarrow>
        (case unlog (x_w x) of (l, w) \<Rightarrow>
           Some (ok, if ok then log_request H [] l (x\<lparr>x_w := w\<rparr>) else x\<lparr>x_w := w\<rparr>)))"

definition recovery :: "('l, 'w) h_lib \<Rightarrow> 's http_handler option \<Rightarrow> 's http_handler" where
  "recovery H inner x =
     (case call inner (x\<lparr>x_w := Logged \<lparr>l_status = 0, l_size = 0\<rparr> (x_w x)\<rparr>) of
        None \<Rightarrow> None
      | Some (ok, x) \<Rightarrow>
        (case unlog (x_w x) of (l, w) \<Rightarrow>
           Some (True, if ok then x\<lparr>x_w := w\<rparr> else log_request H ('' [panic:'' @ hl_Stack H) l (x\<lparr>x_w := w\<rparr>))))"

section \<open>Handler\<close>

record 'l handler =
  h_loggingEnabled :: bool
  h_HTTPSEnabled :: bool
  h_closing :: bool
  h_leases :: 'l
  h_version :: string
  h_remoteAddr :: string

definition newHandler :: "(int \<Rightarrow> 'l) \<Rightarrow> MetaConfig \<Rightarrow> string \<Rightarrow> string \<Rightarrow> 'l handler" where
  "newHandler NewLeases c version remoteAddr =
     \<lparr>h_loggingEnabled = m_ClusterTracing c, h_HTTPSEnabled = m_HTTPSEnabled c, h_closing = False,
      h_leases = NewLeases (m_LeaseDuration c), h_version = version, h_remoteAddr = remoteAddr\<rparr>"

text \<open>\<open>WrapHandler\<close> starts its stack of filters from a nil handler and does not use \<open>hf\<close>.\<close>

definition WrapHandler :: "('l, 'w) h_lib \<Rightarrow> 'l handler \<Rightarrow> 's http_handler \<Rightarrow> 's http_handler" where
  "WrapHandler H h hf =
     (let handler = None;
          handler = Some (gzipFilter H handler);
          handler = Some (versionHeader (h_version h) handler);
          handler = Some (requestID H handler);
          handler = (if h_loggingEnabled h then Some (logging H handler) else handler)
      in recovery H handler)"

definition handler_Close :: "'l handler \<Rightarrow> 'l handler" where
  "handler_Close h = h\<lparr>h_closing := True\<rparr>"

definition isClosed :: "'l handler \<Rightarrow> bool" where
  "isClosed h = h_closing h"

definition httpError :: "('l, 'w) h_lib \<Rightarrow> 'l handler \<Rightarrow> string \<Rightarrow> int \<Rightarrow> 's hctx \<Rightarrow> 's hctx" where
  "httpError H h err status x = x\<lparr>x_w := http_Error (hl_gzip H) [] status (x_w x),
     x_log := (if h_loggingEnabled h then x_log x @ [err] else x_log x)\<rparr>"

definition jsonError :: "('l, 'w) h_lib \<Rightarrow> 'l handler \<Rightarrow> string \<Rightarrow> int \<Rightarrow> 's hctx \<Rightarrow> 's hctx" where
  "jsonError H h err status x = x\<lparr>x_w := http_Error (hl_gzip H) [] status (x_w x),
     x_log := (if h_loggingEnabled h then x_log x @ [err] else x_log x)\<rparr>"

definition reply :: "('l, 'w) h_lib \<Rightarrow> byte list \<Rightarrow> 's hctx \<Rightarrow> 's hctx" where
  "reply H b x = x\<lparr>x_w := w_Write (hl_gzip H) b (x_w x)\<rparr>"

definition http_Redirect :: "('l, 'w) h_lib \<Rightarrow> string \<Rightarrow> int \<Rightarrow> 's hctx \<Rightarrow> 's hctx" where
  "http_Redirect H url code x =
     (let m = rq_Method (x_req x);
          had = (hdr_Get ''Content-Type'' (rw_header (base (x_w x))) \<noteq> []);
          w = on_header (hdr_Set ''Location'' url) (x_w x);
          w = (if \<not> had \<and> (m = ''GET'' \<or> m = ''HEAD'') then on_header (hdr_Set ''Content-Type'' ''text/html; charset=utf-8'') w else w);
          w = w_WriteHeader code w in
      x\<lparr>x_w := (if \<not> had \<and> m = ''GET'' then w_Write (hl_gzip H) (hl_RedirectBody H url) w else w)\<rparr>)"

definition scheme :: "'l handler \<Rightarrow> string" where
  "scheme h = (if h_HTTPSEnabled h then ''https://'' else ''http://'')"

section \<open>Serving\<close>

text \<open>The handlers on a store and the world of raft and the network; a call of \<open>h_lib\<close> acts on the latter.\<close>

definition validateCommand :: "(byte list \<Rightarrow> meta_error + command) \<Rightarrow> byte list \<Rightarrow> meta_error + unit" where
  "validateCommand decode b = (case decode b of Inl e \<Rightarrow> Inl e | Inr cmd \<Rightarrow> Inr ())"

definition send_response :: "('l, 'w) h_lib \<Rightarrow> 'l handler \<Rightarrow> Response_pb \<Rightarrow> 's hctx \<Rightarrow> 's hctx" where
  "send_response H h resp x = (case hl_Response H resp of
     Inl e \<Rightarrow> httpError H h e 500 x
   | Inr b \<Rightarrow> reply H b (x\<lparr>x_w := on_header (hdr_Add ''Content-Type'' ''application/octet-stream'') (x_w x)\<rparr>))"

definition serveExec :: "('l, 'w) h_lib \<Rightarrow> 'w raft_lib \<Rightarrow> ('x, 'w) raft_apply \<Rightarrow> (byte list \<Rightarrow> meta_error + command) \<Rightarrow> 'l handler \<Rightarrow>
    ('x store \<times> 'w) http_handler" where
  "serveExec H L raftApply decode h x =
     (if isClosed h then Some (True, httpError H h ''server closed'' 503 x)
      else case rq_Body (x_req x) of
        Inl e \<Rightarrow> Some (True, httpError H h e 500 x)
      | Inr body \<Rightarrow>
        (case validateCommand decode body of
           Inl e \<Rightarrow> Some (True, httpError H h (''unable to unmarshal command: '' @ hl_ErrorText H e) 400 x)
         | Inr u \<Rightarrow>
           (case store_apply raftApply body (x_s x) of
              (Inl e, sw) \<Rightarrow>
                (let x = x\<lparr>x_s := sw\<rparr> in
                 if e = RaftNotLeader then
                   (let l = leaderHTTP L (fst sw) (snd sw) in
                    if l = [] then Some (True, httpError H h ''no leader'' 503 x)
                    else Some (True, http_Redirect H (scheme h @ l @ ''/execute'') 307 x))
                 else Some (True, send_response H h \<lparr>res_OK = Some False, res_Error = Some (hl_ErrorText H e), res_Index = None\<rparr> x))
            | (Inr u, sw) \<Rightarrow>
                Some (True, send_response H h \<lparr>res_OK = Some False, res_Error = None, res_Index = Some (store_index (fst sw))\<rparr>
                  (x\<lparr>x_s := sw\<rparr>)))))"

text \<open>
  \<open>strconv.ParseUint(s, 10, 64)\<close> with the value it returns beside an error: 0 for a syntax error, the largest
  number when the value does not fit.
\<close>

fun scan_uint :: "nat \<Rightarrow> string \<Rightarrow> nat \<times> bool" where
  "scan_uint n [] = (n, True)"
| "scan_uint n (c # cs) =
     (if \<not> is_digit c then (0, False)
      else let m = 10 * n + digit_val c in if m \<ge> 2 ^ 64 then (2 ^ 64 - 1, False) else scan_uint m cs)"

definition parse_index :: "string \<Rightarrow> u64 \<times> bool" where
  "parse_index s = (if s = [] then (0, False) else apfst of_nat (scan_uint 0 s))"

text \<open>
  The case that the select of \<open>serveSnapshot\<close> takes: the channel of \<open>afterIndex\<close>, with the store at that time, the
  client that went away, or the handler that closes. A case that is not ready is not taken: the call waits.
\<close>

datatype 'x snap_event = SnapChanged "'x store" | SnapGone | SnapClosing

definition send_snapshot :: "('l, 'w) h_lib \<Rightarrow> 'x oss_lib \<Rightarrow> 'l handler \<Rightarrow> ('x store \<times> 'w) hctx \<Rightarrow> ('x store \<times> 'w) hctx" where
  "send_snapshot H A h x =
     (case MarshalBinary (oss_Marshal A) (pb_Marshal A) (store_snapshot A (fst (x_s x))) of
        Inl e \<Rightarrow> httpError H h (hl_ErrorText H e) 500 x
      | Inr b \<Rightarrow> reply H b (x\<lparr>x_w := on_header (hdr_Add ''Content-Type'' ''application/octet-stream'') (x_w x)\<rparr>))"

definition serveSnapshot :: "('l, 'w) h_lib \<Rightarrow> 'x oss_lib \<Rightarrow> 'l handler \<Rightarrow> 'x snap_event \<Rightarrow> ('x store \<times> 'w) http_handler" where
  "serveSnapshot H A h ev x =
     (if isClosed h then Some (True, httpError H h ''server closed'' 500 x)
      else
        (case parse_index (q_Get H (x_req x) ''index'') of (index, ok) \<Rightarrow>
           (let x = (if ok then x else x\<lparr>x_w := http_Error (hl_gzip H) ''error parsing index'' 400 (x_w x)\<rparr>) in
            (case ev of
               SnapChanged s' \<Rightarrow>
                 if fires s' (afterIndex index (fst (x_s x)))
                 then Some (True, send_snapshot H A h (x\<lparr>x_s := (s', snd (x_s x))\<rparr>)) else None
             | SnapGone \<Rightarrow> Some (True, x)
             | SnapClosing \<Rightarrow> Some (True, httpError H h ''server closed'' 500 x)))))"

text \<open>Asking the other servers who the leader is, until one disagrees or does not answer.\<close>

fun all_agree :: "('l, 'w) h_lib \<Rightarrow> 'l handler \<Rightarrow> string \<Rightarrow> string list \<Rightarrow> 'w \<Rightarrow> bool \<times> 'w" where
  "all_agree H h leader [] w = (True, w)"
| "all_agree H h leader (n # ns) w =
     (case hl_Get H (scheme h @ n @ ''/ping'') w of
        (Inl e, w) \<Rightarrow> (False, w)
      | (Inr resp, w) \<Rightarrow>
        (case h_body resp of
           Inl e \<Rightarrow> (False, w)
         | Inr b \<Rightarrow> if leader \<noteq> map (\<lambda>x. char_of (unat x)) b then (False, w) else all_agree H h leader ns w))"

definition servePing :: "('l, 'w) h_lib \<Rightarrow> 'w raft_lib \<Rightarrow> 'l handler \<Rightarrow> ('x store \<times> 'w) http_handler" where
  "servePing H L h x = (case x_s x of (s, w) \<Rightarrow>
     (if q_Get H (x_req x) ''all'' = []
      then Some (True, reply H (map (\<lambda>c. word_of_nat (of_char c)) (store_leader L s w)) x)
      else (case all_agree H h (store_leader L s w) (otherMetaServersHTTP s) w of
        (healthy, w) \<Rightarrow>
          let x = x\<lparr>x_s := (s, w)\<rparr> in
          if healthy then Some (True, reply H (map (\<lambda>c. word_of_nat (of_char c)) (store_leader L s w)) x)
          else Some (True, httpError H h ''one or more metaservers not up'' 500 x))))"

text \<open>
  \<open>hl_Acquire\<close> returns the lease as JSON, \<open>None\<close> if that fails, and whether the node owns it. The content type is
  added after the status was written.
\<close>

definition serveLease :: "('l, 'w) h_lib \<Rightarrow> 'w raft_lib \<Rightarrow> 'l handler \<Rightarrow> ('x store \<times> 'w) hctx \<Rightarrow> (('x store \<times> 'w) hctx \<times> 'l handler)" where
  "serveLease H L h x =
     (let name = q_Get H (x_req x) ''name''; nodeIDStr = q_Get H (x_req x) ''nodeid'';
          leader = leaderHTTP L (fst (x_s x)) (snd (x_s x)); bad = (\<lambda>msg. x\<lparr>x_w := http_Error (hl_gzip H) msg 400 (x_w x)\<rparr>) in
      if name = [] then (bad ''lease name required'', h)
      else if nodeIDStr = [] then (bad ''node ID required'', h)
      else if leader \<noteq> h_remoteAddr h then
        (if leader = [] then (httpError H h ''no leader'' 503 x, h)
         else (http_Redirect H (scheme h @ leader @ ''/lease?'' @ hl_Encode H (hl_Query H (rq_RawQuery (x_req x)))) 307 x, h))
      else (case parse_index nodeIDStr of (nodeID, ok) \<Rightarrow>
        if \<not> ok then (bad ''invalid node ID'', h)
        else (case hl_Acquire H name nodeID (h_leases h) of ((json, owned), ls) \<Rightarrow>
          (let h = h\<lparr>h_leases := ls\<rparr> in
           case json of
             None \<Rightarrow> (httpError H h ''json'' 500 x, h)
           | Some b \<Rightarrow>
             (let w = w_WriteHeader (if owned then 200 else 409) (x_w x);
                  w = on_header (hdr_Add ''Content-Type'' ''application/json'') w in
              (reply H b (x\<lparr>x_w := w\<rparr>), h))))))"

text \<open>\<open>ServeHTTP\<close> with the handlers it names.\<close>

definition ServeHTTP :: "('l, 'w) h_lib \<Rightarrow> 'l handler \<Rightarrow> 's http_handler \<Rightarrow> 's http_handler \<Rightarrow> 's http_handler \<Rightarrow> 's http_handler \<Rightarrow> 's http_handler" where
  "ServeHTTP H h ping lease snapshot execute x =
     (if rq_Method (x_req x) = ''GET'' then
        (if rq_Path (x_req x) = ''/ping'' then WrapHandler H h ping x
         else if rq_Path (x_req x) = ''/lease'' then WrapHandler H h lease x
         else WrapHandler H h snapshot x)
      else if rq_Method (x_req x) = ''POST'' then WrapHandler H h execute x
      else Some (True, x\<lparr>x_w := http_Error (hl_gzip H) [] 400 (x_w x)\<rparr>))"

text \<open>The response that the client receives of a writer without wrappers.\<close>

definition received :: "rw \<Rightarrow> http_resp" where
  "received w = \<lparr>h_status = (case rw_sent w of None \<Rightarrow> 200 | Some (s, h) \<Rightarrow> s),
     h_location = (case rw_sent w of None \<Rightarrow> [] | Some (s, h) \<Rightarrow> hdr_Get ''Location'' h), h_body = Inr (rw_body w)\<rparr>"

end
