(* ===== verification/Meta_Api.thy ===== *)
theory Meta_Api
  imports Meta_Handler Meta_Client_Auth
begin

text \<open>
  The meta client (\<open>src/meta/client.go\<close>) against the handler of the meta service (\<open>src/meta/handler.go\<close>): what a
  command that the client reports as done means for the store, and what the wrapped handlers and the snapshots
  amount to.
\<close>

section \<open>Attempts\<close>

text \<open>\<open>k\<close> failed calls of \<open>exec\<close> in a row.\<close>

inductive attempts :: "('x, 'l, 'w) cl_lib \<Rightarrow> command \<Rightarrow> nat \<Rightarrow> 'w \<Rightarrow> 'w \<Rightarrow> bool" for P cmd where
  none: "attempts P cmd 0 w w"
| more: "exec P url cmd w = (Inl e, w') \<Longrightarrow> attempts P cmd k w' w'' \<Longrightarrow> attempts P cmd (Suc k) w w''"

text \<open>How a call of \<open>retryUntilExec\<close> ends after \<open>k\<close> failed attempts.\<close>

definition ends :: "('x, 'l, 'w) cl_lib \<Rightarrow> 'x cl_env \<Rightarrow> command \<Rightarrow> 'x Client \<Rightarrow> nat \<Rightarrow> 'w \<Rightarrow> cl_error + unit \<Rightarrow> 'x Client \<Rightarrow> 'w \<Rightarrow> bool" where
  "ends P E cmd c n w1 r c' w' \<longleftrightarrow>
     (r = Inr () \<and> c' = c \<and> w' = w1 \<and> (c_closing c = Some True \<or> ev_closed E n)) \<or>
     (r = Inl ClPanic \<and> c' = c \<and> w' = w1) \<or>
     (\<exists>url index. exec P url cmd w1 = (Inr index, w') \<and> waitForIndex index (ev_polls E) c = Some (r, c')) \<or>
     (\<exists>url err. exec P url cmd w1 = (Inl err, w') \<and> r = Inl err \<and> c' = c \<and> (n = maxRetries \<or> (\<exists>m. err = ErrCommand m)))"

text \<open>One attempt: the call ends here or goes on after a failed \<open>exec\<close>.\<close>

lemma exec_loop_step:
  assumes "exec_loop P E cmd tries cur redirect c w = Some (r, (c', w'))"
  shows "tries \<le> maxRetries \<longrightarrow> ends P E cmd c tries w r c' w' \<or>
    (\<exists>url err w2 cur' redirect'. Suc tries \<le> maxRetries \<and> exec P url cmd w = (Inl err, w2) \<and>
       exec_loop P E cmd (Suc tries) cur' redirect' c w2 = Some (r, (c', w')))"
proof (cases "c_closing c = Some True \<or> ev_closed E tries")
  case True
  with assms show ?thesis unfolding exec_loop.simps[of P E cmd tries cur redirect c w] ends_def by auto
next
  case opened: False
  note step = assms[unfolded exec_loop.simps[of P E cmd tries cur redirect c w] if_not_P[OF opened]]
  show ?thesis
  proof (cases "next_url ''/execute'' cur redirect c")
    case None
    with step show ?thesis unfolding ends_def by auto
  next
    case (Some uc)
    obtain url cur' where uc: "uc = (url, cur')" by (rule prod.exhaust)
    obtain q w2 where q: "exec P url cmd w = (q, w2)" by (rule prod.exhaust)
    show ?thesis
    proof (cases q)
      case (Inr index)
      with step Some uc q show ?thesis by (auto simp: ends_def)
    next
      case (Inl err)
      with step Some uc q have "(if Suc tries > maxRetries then Some (Inl err, (c, w2)) else (case err of
              ErrRedirect host \<Rightarrow> exec_loop P E cmd (Suc tries) (Suc cur') host c w2
            | ErrCommand m \<Rightarrow> Some (Inl err, (c, w2))
            | _ \<Rightarrow> exec_loop P E cmd (Suc tries) (Suc cur') [] c w2)) = Some (r, (c', w'))" by simp
      moreover have "ends P E cmd c tries w (Inl err) c w2" if "tries = maxRetries \<or> (\<exists>m. err = ErrCommand m)"
        using q Inl that by (auto simp: ends_def)
      ultimately show ?thesis using q[unfolded Inl] by (auto split: if_splits cl_error.splits)
    qed
  qed
qed

lemma exec_loop_outcome:
  assumes "exec_loop P E cmd tries cur redirect c w = Some (r, (c', w'))" "tries + n = maxRetries"
  shows "\<exists>k w1. k \<le> n \<and> attempts P cmd k w w1 \<and> ends P E cmd c (tries + k) w1 r c' w'"
  using assms
proof (induction n arbitrary: tries cur redirect w)
  case 0
  with exec_loop_step[OF 0(1)] show ?case by (auto intro: attempts.none)
next
  case (Suc n)
  from exec_loop_step[OF Suc.prems(1)] Suc.prems(2)
  consider "ends P E cmd c tries w r c' w'" | url err w2 cur' redirect' where "exec P url cmd w = (Inl err, w2)"
      "exec_loop P E cmd (Suc tries) cur' redirect' c w2 = Some (r, (c', w'))" by auto
  then show ?case
  proof cases
    case 1
    then show ?thesis by (intro exI[of _ 0] exI[of _ w]) (simp add: attempts.none)
  next
    case 2
    from Suc.IH[OF 2(2)] Suc.prems(2) obtain k w1
      where "k \<le> n" "attempts P cmd k w2 w1" "ends P E cmd c (Suc tries + k) w1 r c' w'" by auto
    with 2(1) show ?thesis by (intro exI[of _ "Suc k"] exI[of _ w1]) (auto intro: attempts.more)
  qed
qed

lemma retryUntilExec_outcome:
  assumes "retryUntilExec P E cmd (c, w) = Some (r, (c', w'))"
  obtains k w1 where "k \<le> maxRetries" "attempts P cmd k w w1" "ends P E cmd c k w1 r c' w'"
  using exec_loop_outcome[of P E cmd 0 0 "[]" c w r c' w' maxRetries] assms that by (auto simp: retryUntilExec_def)

lemma exec_loop_returns:
  assumes "\<And>url index w1 w2. exec P url cmd w1 = (Inr index, w2) \<Longrightarrow> waitForIndex index (ev_polls E) c \<noteq> None"
  shows "exec_loop P E cmd tries cur redirect c w \<noteq> None"
  using assms
proof (induction P E cmd tries cur redirect c w rule: exec_loop.induct)
  case (1 P E cmd tries cur redirect c w)
  then show ?case
    by (subst exec_loop.simps) (auto split: option.splits prod.splits sum.splits cl_error.splits)
qed

lemma waitForIndex_reaches:
  "waitForIndex idx ds c = Some (Inr u, c') \<Longrightarrow> \<exists>i. client_index c' = Inr i \<and> idx \<le> i"
  by (induction idx ds c rule: waitForIndex.induct) (auto split: sum.splits if_splits)

text \<open>A command is posted at most eleven times, whatever the servers answer.\<close>

lemma attempts_count:
  fixes cnt :: "'w \<Rightarrow> nat"
  assumes "attempts P cmd k w w'" "\<And>url w. cnt (snd (exec P url cmd w)) \<le> Suc (cnt w)"
  shows "cnt w' \<le> cnt w + k"
  using assms(1)
proof induction
  case (more url w e w' k w'')
  then show ?case using assms(2)[of url w] by simp
qed simp

lemma exec_count:
  assumes "\<And>url b w. cnt (snd (cl_Post P url b w)) \<le> Suc (cnt w)"
  shows "(cnt (snd (exec P url cmd w)) :: nat) \<le> Suc (cnt w)"
proof -
  have "snd (exec P url cmd w) = snd (cl_Post P url b w)" if "cl_Encode P cmd = Inr b" for b
    using that by (cases "cl_Post P url b w") (auto simp: exec_def Let_def split: sum.splits)
  moreover have "snd (exec P url cmd w) = w" if "cl_Encode P cmd = Inl e" for e
    using that by (simp add: exec_def)
  ultimately show ?thesis using assms by (cases "cl_Encode P cmd") (simp_all add: le_SucI)
qed

lemma retryUntilExec_posts:
  fixes cnt :: "'w \<Rightarrow> nat"
  assumes post: "\<And>url b w. cnt (snd (cl_Post P url b w)) \<le> Suc (cnt w)"
    and "retryUntilExec P E cmd (c, w) = Some (r, (c', w'))"
  shows "cnt w' \<le> cnt w + Suc maxRetries"
proof -
  note ec = exec_count[of cnt P, OF post]
  obtain k w1 where k: "k \<le> maxRetries" "attempts P cmd k w w1" "ends P E cmd c k w1 r c' w'"
    by (rule retryUntilExec_outcome[OF assms(2)])
  from k(3) have "w' = w1 \<or> (\<exists>url. w' = snd (exec P url cmd w1))" by (auto simp: ends_def) (metis snd_conv)+
  then have "cnt w' \<le> Suc (cnt w1)" using ec by auto
  with attempts_count[OF k(2) ec] k(1) show ?thesis by simp
qed


text \<open>A transport that fails and counts the requests.\<close>

definition clib2 :: "(unit, unit, nat) cl_lib" where
  "clib2 = clib0 (\<lambda>u w. (Inl [], w)) (\<lambda>u b n. (Inl [], Suc n)) (\<lambda>b. Inl [])"

definition env2 :: "unit cl_env" where
  "env2 = \<lparr>ev_closed = (\<lambda>n. False), ev_polls = []\<rparr>"


section \<open>Answers of the handler\<close>

text \<open>A request that arrives at a handler, and the response the client gets; after a panic the connection is closed.\<close>

definition fresh_ctx :: "http_req \<Rightarrow> 's \<Rightarrow> 's hctx" where
  "fresh_ctx r s = \<lparr>x_req = r, x_w = Plain \<lparr>rw_header = [], rw_sent = None, rw_body = []\<rparr>, x_log = [], x_s = s\<rparr>"

lemma fresh_ctx_sel [simp]:
  "x_s (fresh_ctx r s) = s" "x_req (fresh_ctx r s) = r" "x_w (fresh_ctx r s) = Plain \<lparr>rw_header = [], rw_sent = None, rw_body = []\<rparr>"
  by (simp_all add: fresh_ctx_def)

definition answer :: "'s http_handler \<Rightarrow> http_req \<Rightarrow> 's \<Rightarrow> (string + http_resp) \<times> 's" where
  "answer hf r s = (case hf (fresh_ctx r s) of
     None \<Rightarrow> (Inl ''timeout'', s)
   | Some (ok, x) \<Rightarrow> if ok then (Inr (received (base (x_w x))), x_s x) else (Inl ''EOF'', x_s x))"

lemma received_Error:
  "h_status (received (base (http_Error G msg code (Plain w)))) = (case rw_sent w of None \<Rightarrow> code | Some (s, h) \<Rightarrow> s)"
  by (auto simp: http_Error_def received_def rw_Write_def rw_WriteHeader_def Let_def split: option.splits)

lemma x_httpError [simp]: "x_s (httpError H h e code x) = x_s x" "x_w (httpError H h e code x) = http_Error (hl_gzip H) [] code (x_w x)"
  by (simp_all add: httpError_def)

lemma received_Redirect:
  "x_w x = Plain w \<Longrightarrow> rw_sent w = None \<Longrightarrow> h_status (received (base (x_w (http_Redirect H url code x)))) = code"
  by (auto simp: http_Redirect_def received_def rw_Write_def rw_WriteHeader_def Let_def)

lemma x_Redirect [simp]: "x_s (http_Redirect H url code x) = x_s x"
  by (simp add: http_Redirect_def Let_def)

lemma send_response_cases:
  assumes "answer (\<lambda>x. Some (True, send_response H h msg (x\<lparr>x_s := t\<rparr>))) r s = (Inr resp, s')" "h_status resp = 200"
  obtains b where "hl_Response H msg = Inr b" "resp = \<lparr>h_status = 200, h_location = [], h_body = Inr b\<rparr>" "s' = t"
  using assms
  by (auto simp: answer_def send_response_def fresh_ctx_def received_Error split: sum.splits)
    (auto simp: reply_def received_def rw_Write_def rw_WriteHeader_def hdr_Add_def hdr_Get_def)

text \<open>A client whose commands are posted to \<open>serveExec\<close>, with codecs that agree and errors that have a text.\<close>

definition exec_served :: "('x, 'l, 'x store \<times> 'w) cl_lib \<Rightarrow> ('m, 'w) h_lib \<Rightarrow> 'w raft_lib \<Rightarrow> ('x, 'w) raft_apply \<Rightarrow>
    (byte list \<Rightarrow> meta_error + command) \<Rightarrow> 'm handler \<Rightarrow> (string \<Rightarrow> byte list \<Rightarrow> http_req) \<Rightarrow> bool" where
  "exec_served P H L raftApply decode h req \<longleftrightarrow>
     (\<forall>url b s. cl_Post P url b s = answer (serveExec H L raftApply decode h) (req url b) s) \<and>
     (\<forall>url b. rq_Body (req url b) = Inr b) \<and>
     (\<forall>resp b. hl_Response H resp = Inr b \<longrightarrow> res_OK resp \<noteq> None \<longrightarrow> cl_Response P b = Inr resp) \<and>
     (\<forall>e. hl_ErrorText H e \<noteq> [])"

lemma serveExec_answers:
  assumes "rq_Body r = Inr b" "answer (serveExec H L raftApply decode h) r s = (Inr resp, s')" "h_status resp = 200"
  obtains rb where "store_apply raftApply b s = (Inr (), s')" "resp = \<lparr>h_status = 200, h_location = [], h_body = Inr rb\<rparr>"
      "hl_Response H \<lparr>res_OK = Some False, res_Error = None, res_Index = Some (store_index (fst s'))\<rparr> = Inr rb"
  | rb e where "store_apply raftApply b s = (Inl e, s')" "resp = \<lparr>h_status = 200, h_location = [], h_body = Inr rb\<rparr>"
      "hl_Response H \<lparr>res_OK = Some False, res_Error = Some (hl_ErrorText H e), res_Index = None\<rparr> = Inr rb"
proof (cases "isClosed h \<or> (\<exists>e. validateCommand decode b = Inl e)")
  case True
  with assms show ?thesis
    by (cases "isClosed h") (auto simp: answer_def serveExec_def fresh_ctx_def received_Error)
next
  case False
  then obtain u where v: "\<not> isClosed h" "validateCommand decode b = Inr u" by (cases "validateCommand decode b") auto
  obtain q sw where q: "store_apply raftApply b s = (q, sw)" by (rule prod.exhaust)
  show ?thesis
  proof (cases q)
    case (Inr u)
    with assms v q have a: "answer (\<lambda>x. Some (True, send_response H h
        \<lparr>res_OK = Some False, res_Error = None, res_Index = Some (store_index (fst sw))\<rparr> (x\<lparr>x_s := sw\<rparr>))) r s = (Inr resp, s')"
      by (simp add: answer_def serveExec_def fresh_ctx_def)
    show ?thesis by (rule send_response_cases[OF a assms(3)]) (use that(1) q Inr in auto)
  next
    case (Inl e)
    show ?thesis
    proof (cases "e = RaftNotLeader")
      case True
      with assms v q Inl show ?thesis
        by (auto simp: answer_def serveExec_def fresh_ctx_def Let_def received_Error received_Redirect split: if_splits)
    next
      case False
      with assms v q Inl have a: "answer (\<lambda>x. Some (True, send_response H h
          \<lparr>res_OK = Some False, res_Error = Some (hl_ErrorText H e), res_Index = None\<rparr> (x\<lparr>x_s := sw\<rparr>))) r s = (Inr resp, s')"
        by (simp add: answer_def serveExec_def fresh_ctx_def Let_def)
      show ?thesis by (rule send_response_cases[OF a assms(3)]) (use that(2) q Inl in auto)
    qed
  qed
qed

lemma exec_serveExec:
  assumes "exec_served P H L raftApply decode h req" "exec P url cmd s = (Inr index, s')"
  shows "\<exists>b. cl_Encode P cmd = Inr b \<and> store_apply raftApply b s = (Inr (), s') \<and> index = store_index (fst s')"
proof -
  from assms(2) obtain b resp rb res where b: "cl_Encode P cmd = Inr b" and p: "cl_Post P url b s = (Inr resp, s')" "h_status resp = 200"
      "h_body resp = Inr rb" "cl_Response P rb = Inr res" and r: "case_option [] (\<lambda>m. m) (res_Error res) = []"
      "index = case_option 0 (\<lambda>i. i) (res_Index res)"
    by (auto simp: exec_def Let_def split: sum.splits prod.splits if_splits)
  from assms(1)[unfolded exec_served_def] p(1) have a: "answer (serveExec H L raftApply decode h) (req url b) s = (Inr resp, s')" and body: "rq_Body (req url b) = Inr b"
      and codec: "\<And>msg c. hl_Response H msg = Inr c \<Longrightarrow> res_OK msg \<noteq> None \<Longrightarrow> cl_Response P c = Inr msg"
      and errs: "\<And>e. hl_ErrorText H e \<noteq> []"
    by metis+
  from serveExec_answers[OF body a p(2)] show ?thesis
  proof cases
    case (1 c)
    with p(3,4) codec[OF 1(3)] r b show ?thesis by auto
  next
    case (2 c e)
    with p(3,4) codec[OF 2(3)] r errs[of e] show ?thesis by auto
  qed
qed

lemma store_apply_commits:
  assumes "raft_commits A L decode raftApply" "store_apply raftApply b (t, w) = (Inr (), (s', w'))"
  shows "\<exists>l now v v'. l_Data l = b \<and> Apply A L decode now l (t, v) = (Inr (), (s', v')) \<and> store_index s' = l_Index l"
proof -
  obtain q sw where q: "raftApply b (t, w) = (q, sw)" by (rule prod.exhaust)
  with assms(2) have "q = Inr None \<and> sw = (s', w')"
    by (cases q) (auto simp: store_apply_def rs_apply_def split: if_splits option.splits)
  with q have "raftApply b (t, w) = (Inr None, (s', w'))" by simp
  from assms(1)[unfolded raft_commits_def, rule_format, OF this]
  obtain l now v v' where l: "l_Data l = b" "Apply A L decode now l (t, v) = (Inr (), (s', v'))" by auto
  obtain cmd x where "s' = stamp l x" by (rule Apply_dispatch[OF l(2)]) simp_all
  then have "store_index s' = l_Index l" by (simp add: store_index_def stamp_def)
  with l show ?thesis by blast
qed

text \<open>
  C7: A command that the client reports as done took effect, and the client sees it. When \<open>retryUntilExec\<close> returns
  nil on a client that is not closed and whose commands are posted to \<open>serveExec\<close>, raft has committed an entry
  with the bytes of the command, the state machine has applied it without an error and left the store as it is
  now, and the cached metadata is at least as new as that entry.
\<close>

theorem acknowledged_command_is_committed:
  assumes "raft_commits A L decode raftApply" and "exec_served P H L raftApply decode h req"
    and "retryUntilExec P E cmd (c, s) = Some (Inr (), (c', s'))" "c_closing c \<noteq> Some True" "\<And>n. \<not> ev_closed E n"
  shows "\<exists>l now t v v' i. cl_Encode P cmd = Inr (l_Data l) \<and> Apply A L decode now l (t, v) = (Inr (), (fst s', v')) \<and>
    client_index c' = Inr i \<and> l_Index l \<le> i"
proof -
  obtain k s1 where "ends P E cmd c k s1 (Inr ()) c' s'"
    by (rule retryUntilExec_outcome[OF assms(3)])
  with assms(4,5) obtain url index where 1: "exec P url cmd s1 = (Inr index, s')" "waitForIndex index (ev_polls E) c = Some (Inr (), c')"
    by (auto simp: ends_def)
  obtain i where i: "client_index c' = Inr i" "index \<le> i" using waitForIndex_reaches[OF 1(2)] by blast
  obtain t w s'' w' where s: "s1 = (t, w)" "s' = (s'', w')" by (meson surj_pair)
  from exec_serveExec[OF assms(2) 1(1)] obtain b where b: "cl_Encode P cmd = Inr b"
      "store_apply raftApply b (t, w) = (Inr (), (s'', w'))" "index = store_index s''" by (auto simp: s)
  from store_apply_commits[OF assms(1) b(2)] obtain l now v v'
    where "l_Data l = b" "Apply A L decode now l (t, v) = (Inr (), (s'', v'))" "store_index s'' = l_Index l" by blast
  with i b show ?thesis
    by (intro exI[of _ l] exI[of _ now] exI[of _ t] exI[of _ v] exI[of _ v'] exI[of _ i]) (simp add: s)
qed

text \<open>A handler library, a request and a client for concrete runs.\<close>

definition hlib0 :: "(unit, bool \<times> string list) h_lib" where
  "hlib0 = \<lparr>hl_gzip = \<lparr>gz_emit = (\<lambda>c b. b), gz_end = (\<lambda>c. [9])\<rparr>, hl_Query = (\<lambda>q. []), hl_Encode = (\<lambda>q. []), hl_RequestURI = (\<lambda>p q. p),
     hl_RedirectBody = (\<lambda>u. []), hl_UUID = ''id'', hl_Start = [], hl_Since = [], hl_Stack = [],
     hl_Response = (\<lambda>r. if r = \<lparr>res_OK = Some False, res_Error = None, res_Index = Some 9\<rparr> then Inr [1] else Inl []),
     hl_ErrorText = (\<lambda>e. ''error''), hl_Get = (\<lambda>u w. (Inl [], w)), hl_Acquire = (\<lambda>n i l. ((None, False), l))\<rparr>"

definition handler0 :: "unit handler" where
  "handler0 = newHandler (\<lambda>d. ()) NewConfig [] ''a:8091''"

definition post0 :: "byte list \<Rightarrow> http_req" where
  "post0 b = \<lparr>rq_Method = ''POST'', rq_Path = ''/execute'', rq_RawQuery = [], rq_Header = [], rq_Body = Inr b, rq_RemoteAddr = ''c:1'',
     rq_User = None, rq_BasicAuth = None, rq_Proto = ''HTTP/1.1''\<rparr>"

definition clib3 :: "(unit, unit, unit store \<times> (bool \<times> string list)) cl_lib" where
  "clib3 = clib0 (\<lambda>u w. (Inl [], w)) (\<lambda>u b s. answer (serveExec hlib0 L0 raft_apply0 decode0 handler0) (post0 b) s)
     (\<lambda>b. if b = [1] then Inr \<lparr>res_OK = Some False, res_Error = None, res_Index = Some 9\<rparr> else Inl [])"

definition env3 :: "unit cl_env" where
  "env3 = \<lparr>ev_closed = (\<lambda>n. False), ev_polls = [fresh_Data (od1\<lparr>o_Index := 9\<rparr>)]\<rparr>"

definition client3 :: "unit Client" where
  "client3 = setData (fresh_Data od1) (NewClient\<lparr>c_metaServers := [''a''], c_closing := Some False\<rparr>)"

lemma exec_served0: "exec_served clib3 hlib0 L0 raft_apply0 decode0 handler0 (\<lambda>u b. post0 b)"
  by (auto simp: exec_served_def clib3_def clib0_def hlib0_def post0_def split: if_splits)

theorem acknowledged_command_is_committed_witness:
  "\<exists>l now t v v' i. enc0 (CreateMetaNodeCommand ''b:8091'' ''b:8089'' 6) = Inr (l_Data l) \<and>
     Apply A0 L0 decode0 now l (t, v) =
       (Inr (), (fst (snd (snd (the (retryUntilExec clib3 env3 (CreateMetaNodeCommand ''b:8091'' ''b:8089'' 6) (client3, (s0, (True, []))))))), v')) \<and>
     client_index (fst (snd (the (retryUntilExec clib3 env3 (CreateMetaNodeCommand ''b:8091'' ''b:8089'' 6) (client3, (s0, (True, []))))))) = Inr i \<and> l_Index l \<le> i"
proof -
  let ?r = "retryUntilExec clib3 env3 (CreateMetaNodeCommand ''b:8091'' ''b:8089'' 6) (client3, (s0, (True, [])))"
  have "map_option fst ?r = Some (Inr ())" by code_simp
  then obtain c' s' where r: "?r = Some (Inr (), (c', s'))" by (cases ?r) auto
  have "c_closing client3 \<noteq> Some True" "\<And>n. \<not> ev_closed env3 n" "cl_Encode clib3 = enc0"
    by (simp_all add: client3_def setData_def env3_def clib3_def clib0_def)
  with acknowledged_command_is_committed[OF raft_commits0 exec_served0 r] show ?thesis by (simp add: r)
qed

section \<open>The wrapped handlers\<close>

lemma x_log_request [simp]: "x_s (log_request H t l x) = x_s x" "x_w (log_request H t l x) = x_w x"
  by (simp_all add: log_request_def split: prod.splits)

lemma gzipFilter_nil:
  "gzipFilter H None x = Some (False, x\<lparr>x_w :=
     (if contains ''gzip'' (hdr_Get ''Accept-Encoding'' (rq_Header (x_req x)))
      then let w = on_header (hdr_Set ''Content-Encoding'' ''gzip'') (x_w x); e = gz_end (hl_gzip H) [] in
        if e = [] then w else w_Write (hl_gzip H) e w
      else x_w x)\<rparr>)"
  by (simp add: gzipFilter_def call_def Let_def)

lemma WrapHandler_nil:
  assumes "x_w x = Plain w"
  shows "\<exists>x' w'. WrapHandler H h hf x = Some (True, x') \<and> x_s x' = x_s x \<and> x_w x' = Plain w' \<and>
    (rw_sent w' = rw_sent w \<and> rw_body w' = rw_body w \<or>
     (rw_sent w = None \<longrightarrow> (\<exists>hd. rw_sent w' = Some (200, hd))) \<and> rw_body w' = rw_body w @ gz_end (hl_gzip H) [])"
  using assms
  by (cases "h_loggingEnabled h")
    (auto simp: WrapHandler_def recovery_def call_def logging_def requestID_def versionHeader_def gzipFilter_nil unlog_def Let_def
      rw_Write_def rw_WriteHeader_def)

lemma ServeHTTP_wraps:
  assumes "rq_Method (x_req x) = ''GET'' \<or> rq_Method (x_req x) = ''POST''"
  shows "\<exists>hf. ServeHTTP H h ping lease snapshot execute x = WrapHandler H h hf x"
  using assms unfolding ServeHTTP_def by auto

text \<open>
  The service answers no request. Whatever handlers are given to \<open>ServeHTTP\<close>, a GET or POST request reaches
  none of them: the filters end in a nil handler, whose panic is recovered and logged, the store and the world
  stay as they were, and the client gets status 200 with a body that is empty or the end of an empty gzip stream.
\<close>

theorem ServeHTTP_runs_no_handler:
  assumes "rq_Method r = ''GET'' \<or> rq_Method r = ''POST''"
  shows "\<exists>resp. answer (ServeHTTP H h ping lease snapshot execute) r s = (Inr resp, s) \<and>
    h_status resp = 200 \<and> (h_body resp = Inr [] \<or> h_body resp = Inr (gz_end (hl_gzip H) []))"
proof -
  let ?w = "\<lparr>rw_header = [], rw_sent = None, rw_body = []\<rparr>"
  obtain hf where hf: "ServeHTTP H h ping lease snapshot execute (fresh_ctx r s) = WrapHandler H h hf (fresh_ctx r s)"
    using ServeHTTP_wraps[of "fresh_ctx r s" H h ping lease snapshot execute] assms by (auto simp: fresh_ctx_def)
  have "x_w (fresh_ctx r s) = Plain ?w" by (simp add: fresh_ctx_def)
  from WrapHandler_nil[OF this, of H h hf] obtain x' w' where "WrapHandler H h hf (fresh_ctx r s) = Some (True, x')"
      "x_s x' = s" "x_w x' = Plain w'" "rw_sent w' = None \<and> rw_body w' = [] \<or> (\<exists>hd. rw_sent w' = Some (200, hd)) \<and> rw_body w' = gz_end (hl_gzip H) []"
    by (auto simp: fresh_ctx_def)
  then show ?thesis by (auto simp: answer_def hf received_def)
qed

theorem ServeHTTP_runs_no_handler_witness:
  "\<exists>resp. answer (ServeHTTP hlib0 handler0 (servePing hlib0 L0 handler0) (\<lambda>x. None) (serveSnapshot hlib0 A0 handler0 SnapGone)
       (serveExec hlib0 L0 raft_apply0 decode0 handler0)) (post0 [1]) (s0, (True, [])) = (Inr resp, (s0, (True, []))) \<and>
     h_status resp = 200 \<and> (h_body resp = Inr [] \<or> h_body resp = Inr (gz_end (hl_gzip hlib0) []))"
  by (rule ServeHTTP_runs_no_handler) (simp add: post0_def)

section \<open>Snapshots\<close>

definition hangs :: "('x, 'l, 'w) cl_lib \<Rightarrow> (nat \<Rightarrow> bool) \<Rightarrow> u64 \<Rightarrow> 'x Client \<Rightarrow> bool" where
  "hangs P closed idx c \<longleftrightarrow> (\<forall>n. \<not> closed n) \<and> c_closing c \<noteq> Some True \<and> c_metaServers c \<noteq> [] \<and>
     (\<forall>server w. \<exists>e w'. getSnapshot P server idx c w = (Inl e, w'))"

lemma snapshot_loop_forever:
  assumes "snapshot_loop P closed idx c n cur w = Some y"
  shows "\<not> hangs P closed idx c"
proof -
  have "(\<lambda>((((((P, closed), idx), c), n), cur), w) y. \<not> hangs P closed idx c) ((((((P, closed), idx), c), n), cur), w) y"
  proof (rule snapshot_loop.raw_induct[OF _ assms])
    fix loop P closed idx c n cur w y
    assume IH: "\<And>P closed idx c n cur w y. loop P closed idx c n cur w = Some y \<Longrightarrow>
        (\<lambda>((((((P, closed), idx), c), n), cur), w) y. \<not> hangs P closed idx c) ((((((P, closed), idx), c), n), cur), w) y"
      and step: "(if c_closing c = Some True \<or> closed n then Some (Inr None, w)
       else let cur = if length (c_metaServers c) \<le> cur then 0 else cur in
         if length (c_metaServers c) \<le> cur then Some (Inl ClPanic, w)
         else case getSnapshot P (c_metaServers c ! cur) idx c w of (Inr data, w) \<Rightarrow> Some (Inr (Some data), w)
           | (Inl e, w) \<Rightarrow> loop P closed idx c (Suc n) (Suc cur) w) = Some y"
    show "(\<lambda>((((((P, closed), idx), c), n), cur), w) y. \<not> hangs P closed idx c) ((((((P, closed), idx), c), n), cur), w) y"
    proof (simp, rule notI)
      assume h: "hangs P closed idx c"
      let ?cur = "if length (c_metaServers c) \<le> cur then 0 else cur"
      obtain e w' where "getSnapshot P (c_metaServers c ! ?cur) idx c w = (Inl e, w')" using h by (meson hangs_def)
      with step h have "loop P closed idx c (Suc n) (Suc ?cur) w' = Some y"
        by (simp add: hangs_def Let_def split: if_splits)
      from IH[OF this] h show False by simp
    qed
  qed
  then show ?thesis by simp
qed

lemma client_Open_hangs:
  assumes "hangs P closed 0 (c\<lparr>c_changed := 0, c_closing := Some False\<rparr>)"
  shows "client_Open P closed (c, w) = None"
  using snapshot_loop_forever[of P closed 0 "c\<lparr>c_changed := 0, c_closing := Some False\<rparr>" 0 0 w] assms
  by (cases "snapshot_loop P closed 0 (c\<lparr>c_changed := 0, c_closing := Some False\<rparr>) 0 0 w")
    (auto simp: client_Open_def retryUntilSnapshot_def)

lemma WrapHandler_plain:
  assumes "x_w x = Plain w" "\<not> contains ''gzip'' (hdr_Get ''Accept-Encoding'' (rq_Header (x_req x)))"
  shows "\<exists>x' w'. WrapHandler H h hf x = Some (True, x') \<and> x_s x' = x_s x \<and> x_w x' = Plain w' \<and> rw_sent w' = rw_sent w \<and> rw_body w' = rw_body w"
proof -
  have "rq_Header (x_req (x\<lparr>x_req := (x_req x)\<lparr>rq_Header := hdr_Set ''Request-Id'' i (rq_Header (x_req x))\<rparr>\<rparr>)) =
      hdr_Set ''Request-Id'' i (rq_Header (x_req x))" for i by simp
  moreover have "hdr_Get ''Accept-Encoding'' (hdr_Set ''Request-Id'' i hd) = hdr_Get ''Accept-Encoding'' hd" for i hd
    by (induction hd) (auto simp: hdr_Get_def hdr_Set_def)
  ultimately show ?thesis
    using assms
    by (cases "h_loggingEnabled h")
      (auto simp: WrapHandler_def recovery_def call_def logging_def requestID_def versionHeader_def gzipFilter_nil unlog_def Let_def)
qed

lemma ServeHTTP_plain:
  assumes "rq_Method r = ''GET'' \<or> rq_Method r = ''POST''" "\<not> contains ''gzip'' (hdr_Get ''Accept-Encoding'' (rq_Header r))"
  shows "answer (ServeHTTP H h ping lease snapshot execute) r s = (Inr \<lparr>h_status = 200, h_location = [], h_body = Inr []\<rparr>, s)"
proof -
  obtain hf where hf: "ServeHTTP H h ping lease snapshot execute (fresh_ctx r s) = WrapHandler H h hf (fresh_ctx r s)"
    using ServeHTTP_wraps[of "fresh_ctx r s" H h ping lease snapshot execute] assms by (auto simp: fresh_ctx_def)
  have "x_w (fresh_ctx r s) = Plain \<lparr>rw_header = [], rw_sent = None, rw_body = []\<rparr>" "x_req (fresh_ctx r s) = r"
    by (simp_all add: fresh_ctx_def)
  from WrapHandler_plain[OF this(1), of H h hf] assms(2) this(2) show ?thesis
    by (auto simp: answer_def hf received_def)
qed

text \<open>
  A client whose requests, not accepting gzip, are answered by the service. \<open>OK\<close> of a response and \<open>MaxNodeID\<close> of a
  snapshot are required fields, so that an empty message does not decode.
\<close>

definition served :: "('x, 'l, 'w) cl_lib \<Rightarrow> 'w http_handler \<Rightarrow> (string \<Rightarrow> byte list \<Rightarrow> http_req) \<Rightarrow> (string \<Rightarrow> http_req) \<Rightarrow> bool" where
  "served P hf preq greq \<longleftrightarrow>
     (\<forall>url b w. cl_Post P url b w = answer hf (preq url b) w) \<and> (\<forall>url w. cl_Get P url w = answer hf (greq url) w) \<and>
     (\<forall>url b. rq_Method (preq url b) = ''POST'' \<and> \<not> contains ''gzip'' (hdr_Get ''Accept-Encoding'' (rq_Header (preq url b)))) \<and>
     (\<forall>url. rq_Method (greq url) = ''GET'' \<and> \<not> contains ''gzip'' (hdr_Get ''Accept-Encoding'' (rq_Header (greq url)))) \<and>
     (\<exists>e. cl_Response P [] = Inl e) \<and> (\<exists>e. pb_Unmarshal (cl_oss P) [] = Inl e)"

lemma served_exec:
  assumes "served P (ServeHTTP H h ping lease snapshot execute) preq greq"
  shows "\<exists>e. exec P url cmd w = (Inl e, w)"
proof -
  obtain e where e: "cl_Response P [] = Inl e" using assms unfolding served_def by blast
  have "cl_Post P url b w = (Inr \<lparr>h_status = 200, h_location = [], h_body = Inr []\<rparr>, w)" for b
    using assms ServeHTTP_plain[of "preq url b" H h ping lease snapshot execute w] unfolding served_def by metis
  then show ?thesis by (cases "cl_Encode P cmd") (simp_all add: exec_def e)
qed

lemma served_getSnapshot:
  assumes "served P (ServeHTTP H h ping lease snapshot execute) preq greq"
  shows "\<exists>e. getSnapshot P server idx c w = (Inl e, w)"
proof -
  obtain e where "pb_Unmarshal (cl_oss P) [] = Inl e" using assms unfolding served_def by blast
  moreover have "cl_Get P url w = (Inr \<lparr>h_status = 200, h_location = [], h_body = Inr []\<rparr>, w)" for url
    using assms ServeHTTP_plain[of "greq url" H h ping lease snapshot execute w] unfolding served_def by metis
  ultimately show ?thesis by (simp add: getSnapshot_def UnmarshalBinary_def)
qed

lemma attempts_same:
  assumes "attempts P cmd k w w'" "\<And>url w. \<exists>e. exec P url cmd w = (Inl e, w)"
  shows "w' = w"
  using assms(1)
proof induction
  case (more url w e w' k w'')
  then show ?case using assms(2)[of url w] by auto
qed simp


definition service0 :: "(unit store \<times> (bool \<times> string list)) http_handler" where
  "service0 = ServeHTTP hlib0 handler0 (servePing hlib0 L0 handler0) (\<lambda>x. Some (True, fst (serveLease hlib0 L0 handler0 x)))
     (serveSnapshot hlib0 A0 handler0 SnapGone) (serveExec hlib0 L0 raft_apply0 decode0 handler0)"

definition clib4 :: "(unit, unit, unit store \<times> (bool \<times> string list)) cl_lib" where
  "clib4 = (clib0 (\<lambda>u s. answer service0 ((post0 [])\<lparr>rq_Method := ''GET''\<rparr>) s) (\<lambda>u b s. answer service0 (post0 b) s)
     (\<lambda>b. Inl ''required field OK''))\<lparr>cl_oss := A0\<lparr>pb_Unmarshal := (\<lambda>b. Inl ProtoErr)\<rparr>\<rparr>"


text \<open>
  \<open>serveSnapshot\<close> could not help: it never delivers a snapshot, since the metadata leaves the required field
  \<open>MaxNodeID\<close> of its message unset. Every call that answers a waiting client ends with status 400 or 500, so that
  a client that would be connected to it directly does not open either.
\<close>

theorem serveSnapshot_never_delivers:
  assumes required_field: "\<And>pb. pb_MaxNodeID pb = None \<Longrightarrow> \<exists>e. pb_Marshal A pb = Inl e"
    and "answer (serveSnapshot H A h ev) r s = (Inr resp, s')" "ev \<noteq> SnapGone"
  shows "h_status resp = 400 \<or> h_status resp = 500"
proof -
  have m: "\<exists>e. MarshalBinary (oss_Marshal A) (pb_Marshal A) d = Inl e" for d
    using required_field[of "marshal (oss_Marshal A) d"] by (auto simp: MarshalBinary_def marshal_def)
  have snap: "\<exists>e. send_snapshot H A h x = httpError H h e 500 x" for x
    using m[of "store_snapshot A (fst (x_s x))"] by (auto simp: send_snapshot_def)
  have err: "h_status (received (base (x_w (httpError H h e 500 x)))) \<in> {400, 500}"
    if "x_w x = Plain w" "rw_sent w = None \<or> (\<exists>hd. rw_sent w = Some (400, hd))" for e w and x :: "('a store \<times> 'b) hctx"
    using that by (auto simp: received_Error)
  show ?thesis
  proof (cases "isClosed h")
    case True
    with assms(2) show ?thesis by (auto simp: answer_def serveSnapshot_def received_Error)
  next
    case False
    obtain index ok where p: "parse_index (q_Get H r ''index'') = (index, ok)" by (rule prod.exhaust)
    define x where "x = (if ok then fresh_ctx r s else (fresh_ctx r s)\<lparr>x_w := http_Error (hl_gzip H) ''error parsing index'' 400 (Plain \<lparr>rw_header = [], rw_sent = None, rw_body = []\<rparr>)\<rparr>)"
    obtain w where w: "x_w x = Plain w" "rw_sent w = None \<or> (\<exists>hd. rw_sent w = Some (400, hd))"
      by (cases ok) (auto simp: x_def http_Error_def rw_Write_def rw_WriteHeader_def Let_def)
    have eq: "serveSnapshot H A h ev (fresh_ctx r s) = (case ev of
        SnapChanged s' \<Rightarrow> if fires s' (afterIndex index (fst (x_s x)))
          then Some (True, send_snapshot H A h (x\<lparr>x_s := (s', snd (x_s x))\<rparr>)) else None
      | SnapGone \<Rightarrow> Some (True, x) | SnapClosing \<Rightarrow> Some (True, httpError H h ''server closed'' 500 x))"
      unfolding serveSnapshot_def if_not_P[OF False] fresh_ctx_sel p prod.case Let_def x_def[symmetric] by (rule refl)
    show ?thesis
    proof (cases ev)
      case (SnapChanged s1)
      obtain e where "send_snapshot H A h (x\<lparr>x_s := (s1, snd (x_s x))\<rparr>) = httpError H h e 500 (x\<lparr>x_s := (s1, snd (x_s x))\<rparr>)"
        using snap by blast
      with assms(2) eq SnapChanged err[of "x\<lparr>x_s := (s1, snd (x_s x))\<rparr>" w e] w show ?thesis
        by (auto simp: answer_def split: if_splits)
    next
      case SnapClosing
      with assms(2) eq err[of x w "''server closed''"] w show ?thesis by (auto simp: answer_def)
    qed (use assms(3) in simp)
  qed
qed

theorem serveSnapshot_never_delivers_witness:
  "h_status (case fst (answer (serveSnapshot hlib0 A0 handler0 (SnapChanged s0)) ((post0 [])\<lparr>rq_Method := ''GET''\<rparr>) (s0, (True, []))) of Inr resp \<Rightarrow> resp) = 400 \<or>
   h_status (case fst (answer (serveSnapshot hlib0 A0 handler0 (SnapChanged s0)) ((post0 [])\<lparr>rq_Method := ''GET''\<rparr>) (s0, (True, []))) of Inr resp \<Rightarrow> resp) = 500"
proof -
  let ?a = "answer (serveSnapshot hlib0 A0 handler0 (SnapChanged s0)) ((post0 [])\<lparr>rq_Method := ''GET''\<rparr>) (s0, (True, []))"
  have "\<not> isl (fst ?a)" by code_simp
  then obtain resp s' where a: "?a = (Inr resp, s')" by (cases ?a; cases "fst ?a") auto
  have "h_status resp = 400 \<or> h_status resp = 500"
    by (rule serveSnapshot_never_delivers[OF _ a]) (simp_all add: A0_def)
  with a show ?thesis by simp
qed

end
