(* ===== verification/Statement_Executor.thy ===== *)
theory Statement_Executor
  imports Meta_Client_Ops "HOL-Library.Char_ord" "HOL-Library.List_Lexorder" "HOL-Library.Signed_Division"
begin

text \<open>
  The statement executor of the data node (\<open>src/cluster/statement_executor.go\<close>): the dispatch on the statement, the
  statements that change metadata and local data, the SHOW statements, SELECT with its limits and INTO, the
  normalization of measurements and the string sets.

  The meta client and the store it is given, the monitor, the points writer and the functions of the query language
  are records of functions that act on a world of any type. A condition, the body of a SELECT statement, an
  iterator creator and an emitter are values of any type. Results sent on the channel are a list. A panic is the
  error \<open>SePanic\<close>.
\<close>

section \<open>Statements, rows and parameters\<close>

datatype se_error =
    SeMeta cl_error
  | SeDatabaseNotFound string
  | SeMsg string
  | ErrInvalidQuery
  | ErrQueryInterrupted
  | ErrNoDatabaseInTarget
  | ErrBuckets int
  | ErrSeries int
  | ErrNoDefaultPolicy string
  | SePanic

datatype 'v val = NilVal | StrVal string | StrsVal "string list" | BoolVal bool | IntVal int | U64Val u64 | TimeVal int | OtherVal 'v

record 'v Row =
  row_Name :: string
  row_Tags :: "(string \<times> string) list"
  row_Columns :: "string list"
  row_Values :: "'v val list list"

record Measurement =
  mm_Database :: string
  mm_RetentionPolicy :: string
  mm_Name :: string
  mm_Regex :: bool
  mm_IsTarget :: bool

datatype ('c, 'q) Statement =
    AlterRetentionPolicy string string "int option" "int option" "int option" bool
  | CreateContinuousQuery string string
  | CreateDatabase string bool bool string int int int
  | CreateRetentionPolicy string string int int int bool
  | CreateSubscription string string string string "string list"
  | CreateUserStmt string string bool
  | DeleteSeries "Measurement list" 'c
  | DropContinuousQuery string string
  | DropDatabase string
  | DropMeasurement string
  | DropSeries "Measurement list" 'c
  | DropRetentionPolicy string string
  | DropShard u64
  | DropSubscription string string string
  | DropUserStmt string
  | Grant string string int
  | GrantAdmin string
  | Revoke string string int
  | RevokeAdmin string
  | ShowContinuousQueries
  | ShowDatabases
  | ShowDiagnostics string
  | ShowGrantsForUser string
  | ShowRetentionPolicies string
  | ShowShards
  | ShowShardGroups
  | ShowStats string
  | ShowSubscriptions
  | ShowUsers
  | SetPasswordUser string string
  | Select 'q
  | OtherStatement

datatype Message = ReadOnlyWarning string | IfNotExistsWarning

record 'v Result =
  re_StatementID :: int
  re_Series :: "'v Row list"
  re_Messages :: "Message list"

type_synonym ('a, 'w) se_op = "'w \<Rightarrow> (se_error + 'a) \<times> 'w"

record 'w MetaClient =
  mc_UpdateRetentionPolicy :: "string \<Rightarrow> string \<Rightarrow> int option \<Rightarrow> int option \<Rightarrow> int option \<Rightarrow> (unit, 'w) se_op"
  mc_SetDefaultRetentionPolicy :: "string \<Rightarrow> string \<Rightarrow> (unit, 'w) se_op"
  mc_CreateContinuousQuery :: "string \<Rightarrow> string \<Rightarrow> string \<Rightarrow> (unit, 'w) se_op"
  mc_CreateDatabase :: "string \<Rightarrow> (unit, 'w) se_op"
  mc_CreateDatabaseWithRetentionPolicy :: "string \<Rightarrow> RetentionPolicyInfo \<Rightarrow> (unit, 'w) se_op"
  mc_CreateRetentionPolicy :: "string \<Rightarrow> RetentionPolicyInfo \<Rightarrow> (unit, 'w) se_op"
  mc_CreateSubscription :: "string \<Rightarrow> string \<Rightarrow> string \<Rightarrow> string \<Rightarrow> string list \<Rightarrow> (unit, 'w) se_op"
  mc_CreateUser :: "string \<Rightarrow> string \<Rightarrow> bool \<Rightarrow> (unit, 'w) se_op"
  mc_Database :: "string \<Rightarrow> 'w \<Rightarrow> DatabaseInfo option"
  mc_Databases :: "'w \<Rightarrow> DatabaseInfo list"
  mc_DropContinuousQuery :: "string \<Rightarrow> string \<Rightarrow> (unit, 'w) se_op"
  mc_DropDatabase :: "string \<Rightarrow> (unit, 'w) se_op"
  mc_DropShard :: "u64 \<Rightarrow> (unit, 'w) se_op"
  mc_DropRetentionPolicy :: "string \<Rightarrow> string \<Rightarrow> (unit, 'w) se_op"
  mc_DropSubscription :: "string \<Rightarrow> string \<Rightarrow> string \<Rightarrow> (unit, 'w) se_op"
  mc_DropUser :: "string \<Rightarrow> (unit, 'w) se_op"
  mc_SetPrivilege :: "string \<Rightarrow> string \<Rightarrow> int \<Rightarrow> (unit, 'w) se_op"
  mc_SetAdminPrivilege :: "string \<Rightarrow> bool \<Rightarrow> (unit, 'w) se_op"
  mc_UserPrivilege :: "string \<Rightarrow> string \<Rightarrow> 'w \<Rightarrow> se_error + int option"
  mc_UserPrivileges :: "string \<Rightarrow> 'w \<Rightarrow> se_error + (string \<times> int) list"
  mc_Users :: "'w \<Rightarrow> (string \<times> bool) list"
  mc_UpdateUser :: "string \<Rightarrow> string \<Rightarrow> (unit, 'w) se_op"
  mc_ShardsByTimeRange :: "Measurement list \<Rightarrow> int \<Rightarrow> int \<Rightarrow> 'w \<Rightarrow> se_error + ShardInfo list"

record ('c, 'ic, 'w) TSDBStore =
  ts_DeleteDatabase :: "string \<Rightarrow> (unit, 'w) se_op"
  ts_DeleteMeasurement :: "string \<Rightarrow> string \<Rightarrow> (unit, 'w) se_op"
  ts_DeleteRetentionPolicy :: "string \<Rightarrow> string \<Rightarrow> (unit, 'w) se_op"
  ts_DeleteSeries :: "string \<Rightarrow> Measurement list \<Rightarrow> 'c \<Rightarrow> (unit, 'w) se_op"
  ts_DeleteShard :: "u64 \<Rightarrow> (unit, 'w) se_op"
  ts_IteratorCreator :: "ShardInfo list \<Rightarrow> 'w \<Rightarrow> se_error + 'ic"

record ('v, 'w) Monitor =
  mo_Diagnostics :: "'w \<Rightarrow> se_error + (string \<times> string list \<times> 'v val list list) list"
  mo_Statistics :: "'w \<Rightarrow> se_error + (string \<times> (string \<times> string) list \<times> (string \<times> 'v val) list) list"

record ('c, 'q, 'ic, 'em, 'p, 'v, 'w) ql_lib =
  ql_NoPrivileges :: int
  ql_AllPrivileges :: int
  ql_ValueNames :: "(string \<times> 'v val) list \<Rightarrow> string list"
  ql_HasRegex :: "Measurement list \<Rightarrow> bool"
  ql_NewPoint :: "string \<Rightarrow> (string \<times> string) list \<Rightarrow> (string \<times> 'v val) list \<Rightarrow> int \<Rightarrow> 'p option"
  ql_NewRetentionPolicyInfo :: "string \<Rightarrow> RetentionPolicyInfo"
  ql_String :: "('c, 'q) Statement \<Rightarrow> string"
  ql_PrivilegeString :: "int \<Rightarrow> string"
  ql_DurationString :: "int \<Rightarrow> string"
  ql_RFC3339 :: "int \<Rightarrow> string"
  ql_Deleted :: "ShardGroupInfo \<Rightarrow> bool"
  ql_HasTimeExpr :: "'c \<Rightarrow> bool"
  ql_ReduceCondition :: "int \<Rightarrow> 'c \<Rightarrow> 'c"
  ql_Reduce :: "int \<Rightarrow> 'q \<Rightarrow> 'q"
  ql_TimeRange :: "'q \<Rightarrow> se_error + int \<times> int"
  ql_RewriteDistinct :: "'q \<Rightarrow> 'q"
  ql_RewriteTimeFields :: "'q \<Rightarrow> 'q"
  ql_Sources :: "'q \<Rightarrow> Measurement list"
  ql_ExpandSources :: "'ic \<Rightarrow> Measurement list \<Rightarrow> se_error + Measurement list"
  ql_SetSources :: "Measurement list \<Rightarrow> 'q \<Rightarrow> 'q"
  ql_RewriteWildcards :: "'ic \<Rightarrow> 'q \<Rightarrow> se_error + 'q"
  ql_IsRawQuery :: "'q \<Rightarrow> bool"
  ql_GroupByInterval :: "'q \<Rightarrow> se_error + int"
  ql_Target :: "'q \<Rightarrow> Measurement option"
  ql_Select :: "'q \<Rightarrow> 'ic \<Rightarrow> int \<Rightarrow> int \<Rightarrow> 'w \<Rightarrow> (se_error + 'em) \<times> 'w"
  ql_Monitor :: "'em \<Rightarrow> int \<Rightarrow> 'w \<Rightarrow> 'w"
  ql_SeriesN :: "'em \<Rightarrow> int"
  ql_Emit :: "'em \<Rightarrow> 'w \<Rightarrow> (se_error + 'v Row option) \<times> 'em \<times> 'w"
  ql_CloseEmitter :: "'em \<Rightarrow> 'w \<Rightarrow> 'w"

record ('c, 'ic, 'p, 'v, 'w) StatementExecutor =
  se_MetaClient :: "'w MetaClient"
  se_TSDBStore :: "('c, 'ic, 'w) TSDBStore"
  se_Monitor :: "('v, 'w) Monitor"
  se_WritePointsInto :: "string \<Rightarrow> string \<Rightarrow> 'p list \<Rightarrow> (unit, 'w) se_op"
  se_MaxSelectPointN :: int
  se_MaxSelectSeriesN :: int
  se_MaxSelectBucketsN :: int

record ExecutionContext =
  ctx_ReadOnly :: bool
  ctx_Database :: string
  ctx_StatementID :: int

section \<open>Changing statements\<close>

definition executeAlterRetentionPolicyStatement :: "('c, 'q, 'ic, 'em, 'p, 'v, 'w) ql_lib \<Rightarrow> ('c, 'ic, 'p, 'v, 'w) StatementExecutor \<Rightarrow> string \<Rightarrow> string \<Rightarrow> int option \<Rightarrow> int option \<Rightarrow>
    int option \<Rightarrow> bool \<Rightarrow> (unit, 'w) se_op" where
  "executeAlterRetentionPolicyStatement Q e database name duration replication sgd dflt w =
     check (mc_UpdateRetentionPolicy (se_MetaClient e) database name duration replication sgd w) (\<lambda>_ w.
       if dflt then mc_SetDefaultRetentionPolicy (se_MetaClient e) database name w else (Inr (), w))"

definition executeCreateContinuousQueryStatement :: "('c, 'q, 'ic, 'em, 'p, 'v, 'w) ql_lib \<Rightarrow> ('c, 'ic, 'p, 'v, 'w) StatementExecutor \<Rightarrow> string \<Rightarrow> string \<Rightarrow> (unit, 'w) se_op" where
  "executeCreateContinuousQueryStatement Q e database name =
     mc_CreateContinuousQuery (se_MetaClient e) database name (ql_String Q (CreateContinuousQuery database name))"

definition policy_info :: "('c, 'q, 'ic, 'em, 'p, 'v, 'w) ql_lib \<Rightarrow> string \<Rightarrow> int \<Rightarrow> int \<Rightarrow> int \<Rightarrow> RetentionPolicyInfo" where
  "policy_info Q name duration replication sgd =
     (ql_NewRetentionPolicyInfo Q name)\<lparr>rp_Duration := duration, rp_ReplicaN := replication, rp_ShardGroupDuration := sgd\<rparr>"

definition executeCreateDatabaseStatement :: "('c, 'q, 'ic, 'em, 'p, 'v, 'w) ql_lib \<Rightarrow> ('c, 'ic, 'p, 'v, 'w) StatementExecutor \<Rightarrow> string \<Rightarrow> bool \<Rightarrow> string \<Rightarrow> int \<Rightarrow> int \<Rightarrow> int \<Rightarrow> (unit, 'w) se_op" where
  "executeCreateDatabaseStatement Q e name policyCreate policyName duration replication sgd =
     (if \<not> policyCreate then mc_CreateDatabase (se_MetaClient e) name
      else mc_CreateDatabaseWithRetentionPolicy (se_MetaClient e) name (policy_info Q policyName duration replication sgd))"

definition executeCreateRetentionPolicyStatement :: "('c, 'q, 'ic, 'em, 'p, 'v, 'w) ql_lib \<Rightarrow> ('c, 'ic, 'p, 'v, 'w) StatementExecutor \<Rightarrow> string \<Rightarrow> string \<Rightarrow> int \<Rightarrow> int \<Rightarrow> int \<Rightarrow> bool \<Rightarrow>
    (unit, 'w) se_op" where
  "executeCreateRetentionPolicyStatement Q e database name duration replication sgd dflt w =
     check (mc_CreateRetentionPolicy (se_MetaClient e) database (policy_info Q name duration replication sgd) w) (\<lambda>_ w.
       if dflt then mc_SetDefaultRetentionPolicy (se_MetaClient e) database name w else (Inr (), w))"

definition executeDeleteSeriesStatement :: "('c, 'q, 'ic, 'em, 'p, 'v, 'w) ql_lib \<Rightarrow> ('c, 'ic, 'p, 'v, 'w) StatementExecutor \<Rightarrow> int \<Rightarrow> Measurement list \<Rightarrow> 'c \<Rightarrow> string \<Rightarrow> (unit, 'w) se_op" where
  "executeDeleteSeriesStatement Q e now sources condition database w =
     (if mc_Database (se_MetaClient e) database w = None then (Inl (SeDatabaseNotFound database), w)
      else ts_DeleteSeries (se_TSDBStore e) database sources (ql_ReduceCondition Q now condition) w)"

definition executeDropDatabaseStatement :: "('c, 'q, 'ic, 'em, 'p, 'v, 'w) ql_lib \<Rightarrow> ('c, 'ic, 'p, 'v, 'w) StatementExecutor \<Rightarrow> string \<Rightarrow> (unit, 'w) se_op" where
  "executeDropDatabaseStatement Q e name w = check (mc_DropDatabase (se_MetaClient e) name w) (\<lambda>_ w. ts_DeleteDatabase (se_TSDBStore e) name w)"

definition executeDropMeasurementStatement :: "('c, 'q, 'ic, 'em, 'p, 'v, 'w) ql_lib \<Rightarrow> ('c, 'ic, 'p, 'v, 'w) StatementExecutor \<Rightarrow> string \<Rightarrow> string \<Rightarrow> (unit, 'w) se_op" where
  "executeDropMeasurementStatement Q e name database w =
     (if mc_Database (se_MetaClient e) database w = None then (Inl (SeDatabaseNotFound database), w) else ts_DeleteMeasurement (se_TSDBStore e) database name w)"

definition executeDropSeriesStatement :: "('c, 'q, 'ic, 'em, 'p, 'v, 'w) ql_lib \<Rightarrow> ('c, 'ic, 'p, 'v, 'w) StatementExecutor \<Rightarrow> Measurement list \<Rightarrow> 'c \<Rightarrow> string \<Rightarrow> (unit, 'w) se_op" where
  "executeDropSeriesStatement Q e sources condition database w =
     (if mc_Database (se_MetaClient e) database w = None then (Inl (SeDatabaseNotFound database), w)
      else if ql_HasTimeExpr Q condition then (Inl (SeMsg ''DROP SERIES doesn't support time in WHERE clause''), w)
      else ts_DeleteSeries (se_TSDBStore e) database sources condition w)"

definition executeDropShardStatement :: "('c, 'q, 'ic, 'em, 'p, 'v, 'w) ql_lib \<Rightarrow> ('c, 'ic, 'p, 'v, 'w) StatementExecutor \<Rightarrow> u64 \<Rightarrow> (unit, 'w) se_op" where
  "executeDropShardStatement Q e sid w = check (mc_DropShard (se_MetaClient e) sid w) (\<lambda>_ w. ts_DeleteShard (se_TSDBStore e) sid w)"

definition executeDropRetentionPolicyStatement :: "('c, 'q, 'ic, 'em, 'p, 'v, 'w) ql_lib \<Rightarrow> ('c, 'ic, 'p, 'v, 'w) StatementExecutor \<Rightarrow> string \<Rightarrow> string \<Rightarrow> (unit, 'w) se_op" where
  "executeDropRetentionPolicyStatement Q e database name w =
     check (mc_DropRetentionPolicy (se_MetaClient e) database name w) (\<lambda>_ w. ts_DeleteRetentionPolicy (se_TSDBStore e) database name w)"

text \<open>The bits of the revoked privilege are cleared; a nil privilege would be dereferenced.\<close>

definition executeRevokeStatement :: "('c, 'q, 'ic, 'em, 'p, 'v, 'w) ql_lib \<Rightarrow> ('c, 'ic, 'p, 'v, 'w) StatementExecutor \<Rightarrow> string \<Rightarrow> string \<Rightarrow> int \<Rightarrow> (unit, 'w) se_op" where
  "executeRevokeStatement Q e user db privilege w =
     (if privilege \<noteq> ql_AllPrivileges Q then
        (case mc_UserPrivilege (se_MetaClient e) user db w of
           Inl err \<Rightarrow> (Inl err, w)
         | Inr None \<Rightarrow> (Inl SePanic, w)
         | Inr (Some p) \<Rightarrow> mc_SetPrivilege (se_MetaClient e) user db (and p (not privilege)) w)
      else mc_SetPrivilege (se_MetaClient e) user db (ql_NoPrivileges Q) w)"

definition executeCreateSubscriptionStatement :: "('c, 'ic, 'p, 'v, 'w) StatementExecutor \<Rightarrow> string \<Rightarrow> string \<Rightarrow> string \<Rightarrow> string \<Rightarrow> string list \<Rightarrow> (unit, 'w) se_op" where
  "executeCreateSubscriptionStatement e database rp name mode destinations = mc_CreateSubscription (se_MetaClient e) database rp name mode destinations"

definition executeCreateUserStatement :: "('c, 'ic, 'p, 'v, 'w) StatementExecutor \<Rightarrow> string \<Rightarrow> string \<Rightarrow> bool \<Rightarrow> (unit, 'w) se_op" where
  "executeCreateUserStatement e name password admin = mc_CreateUser (se_MetaClient e) name password admin"

definition executeDropContinuousQueryStatement :: "('c, 'ic, 'p, 'v, 'w) StatementExecutor \<Rightarrow> string \<Rightarrow> string \<Rightarrow> (unit, 'w) se_op" where
  "executeDropContinuousQueryStatement e database name = mc_DropContinuousQuery (se_MetaClient e) database name"

definition executeDropSubscriptionStatement :: "('c, 'ic, 'p, 'v, 'w) StatementExecutor \<Rightarrow> string \<Rightarrow> string \<Rightarrow> string \<Rightarrow> (unit, 'w) se_op" where
  "executeDropSubscriptionStatement e database rp name = mc_DropSubscription (se_MetaClient e) database rp name"

definition executeDropUserStatement :: "('c, 'ic, 'p, 'v, 'w) StatementExecutor \<Rightarrow> string \<Rightarrow> (unit, 'w) se_op" where
  "executeDropUserStatement e name = mc_DropUser (se_MetaClient e) name"

definition executeGrantStatement :: "('c, 'ic, 'p, 'v, 'w) StatementExecutor \<Rightarrow> string \<Rightarrow> string \<Rightarrow> int \<Rightarrow> (unit, 'w) se_op" where
  "executeGrantStatement e user db privilege = mc_SetPrivilege (se_MetaClient e) user db privilege"

definition executeGrantAdminStatement :: "('c, 'ic, 'p, 'v, 'w) StatementExecutor \<Rightarrow> string \<Rightarrow> (unit, 'w) se_op" where
  "executeGrantAdminStatement e user = mc_SetAdminPrivilege (se_MetaClient e) user True"

definition executeRevokeAdminStatement :: "('c, 'ic, 'p, 'v, 'w) StatementExecutor \<Rightarrow> string \<Rightarrow> (unit, 'w) se_op" where
  "executeRevokeAdminStatement e user = mc_SetAdminPrivilege (se_MetaClient e) user False"

definition executeSetPasswordUserStatement :: "('c, 'ic, 'p, 'v, 'w) StatementExecutor \<Rightarrow> string \<Rightarrow> string \<Rightarrow> (unit, 'w) se_op" where
  "executeSetPasswordUserStatement e name password = mc_UpdateUser (se_MetaClient e) name password"

section \<open>SHOW statements\<close>

definition mk_row :: "string \<Rightarrow> string list \<Rightarrow> 'v val list list \<Rightarrow> 'v Row" where
  "mk_row name columns vals = \<lparr>row_Name = name, row_Tags = [], row_Columns = columns, row_Values = vals\<rparr>"

definition executeShowContinuousQueriesStatement :: "('c, 'ic, 'p, 'v, 'w) StatementExecutor \<Rightarrow> 'w \<Rightarrow> 'v Row list" where
  "executeShowContinuousQueriesStatement e w =
     map (\<lambda>di. mk_row (db_Name di) [''name'', ''query''] (map (\<lambda>cqi. [StrVal (cq_Name cqi), StrVal (cq_Query cqi)]) (db_ContinuousQueries di)))
       (mc_Databases (se_MetaClient e) w)"

definition executeShowDatabasesStatement :: "('c, 'ic, 'p, 'v, 'w) StatementExecutor \<Rightarrow> 'w \<Rightarrow> 'v Row list" where
  "executeShowDatabasesStatement e w =
     [mk_row ''databases'' [''name''] (map (\<lambda>di. [StrVal (db_Name di)]) (mc_Databases (se_MetaClient e) w))]"

text \<open>The keys of the diagnostics are sorted; each names one entry of the map.\<close>

definition executeShowDiagnosticsStatement :: "('c, 'ic, 'p, 'v, 'w) StatementExecutor \<Rightarrow> string \<Rightarrow> 'w \<Rightarrow> se_error + 'v Row list" where
  "executeShowDiagnosticsStatement e module w = (case mo_Diagnostics (se_Monitor e) w of
     Inl err \<Rightarrow> Inl err
   | Inr diags \<Rightarrow>
     Inr (map (\<lambda>k. case map_of diags k of
          Some (columns, rows) \<Rightarrow> mk_row k columns rows
        | None \<Rightarrow> mk_row k [] [])
       (filter (\<lambda>k. \<not> (module \<noteq> [] \<and> k \<noteq> module)) (sort (map fst diags)))))"

text \<open>\<open>iter\<close> is the order in which the map of privileges is ranged over.\<close>

definition executeShowGrantsForUserStatement :: "('c, 'q, 'ic, 'em, 'p, 'v, 'w) ql_lib \<Rightarrow> ('c, 'ic, 'p, 'v, 'w) StatementExecutor \<Rightarrow> ((string \<times> int) list \<Rightarrow> (string \<times> int) list) \<Rightarrow> string \<Rightarrow> 'w \<Rightarrow> se_error + 'v Row list" where
  "executeShowGrantsForUserStatement Q e iter name w = (case mc_UserPrivileges (se_MetaClient e) name w of
     Inl err \<Rightarrow> Inl err
   | Inr priv \<Rightarrow> Inr [mk_row [] [''database'', ''privilege''] (map (\<lambda>(d, p). [StrVal d, StrVal (ql_PrivilegeString Q p)]) (iter priv))])"

definition executeShowRetentionPoliciesStatement :: "('c, 'q, 'ic, 'em, 'p, 'v, 'w) ql_lib \<Rightarrow> ('c, 'ic, 'p, 'v, 'w) StatementExecutor \<Rightarrow> string \<Rightarrow> 'w \<Rightarrow> se_error + 'v Row list" where
  "executeShowRetentionPoliciesStatement Q e database w = (case mc_Database (se_MetaClient e) database w of
     None \<Rightarrow> Inl (SeDatabaseNotFound database)
   | Some di \<Rightarrow>
     Inr [mk_row [] [''name'', ''duration'', ''shardGroupDuration'', ''replicaN'', ''default'']
       (map (\<lambda>rpi. [StrVal (rp_Name rpi), StrVal (ql_DurationString Q (rp_Duration rpi)), StrVal (ql_DurationString Q (rp_ShardGroupDuration rpi)),
          IntVal (rp_ReplicaN rpi), BoolVal (db_DefaultRetentionPolicy di = rp_Name rpi)]) (db_RetentionPolicies di))])"

fun joinUint64 :: "u64 list \<Rightarrow> string" where
  "joinUint64 [] = []"
| "joinUint64 [x] = FormatUint x"
| "joinUint64 (x # y # ys) = FormatUint x @ '','' @ joinUint64 (y # ys)"

definition live_groups :: "('c, 'q, 'ic, 'em, 'p, 'v, 'w) ql_lib \<Rightarrow> DatabaseInfo \<Rightarrow> (RetentionPolicyInfo \<times> ShardGroupInfo) list" where
  "live_groups Q di = concat (map (\<lambda>rpi. map (\<lambda>sgi. (rpi, sgi)) (filter (\<lambda>sgi. \<not> ql_Deleted Q sgi) (rp_ShardGroups rpi))) (db_RetentionPolicies di))"

definition group_times :: "('c, 'q, 'ic, 'em, 'p, 'v, 'w) ql_lib \<Rightarrow> RetentionPolicyInfo \<Rightarrow> ShardGroupInfo \<Rightarrow> 'v val list" where
  "group_times Q rpi sgi = [StrVal (ql_RFC3339 Q (sg_StartTime sgi)), StrVal (ql_RFC3339 Q (sg_EndTime sgi)),
     StrVal (ql_RFC3339 Q (sg_EndTime sgi + rp_Duration rpi))]"

definition executeShowShardsStatement :: "('c, 'q, 'ic, 'em, 'p, 'v, 'w) ql_lib \<Rightarrow> ('c, 'ic, 'p, 'v, 'w) StatementExecutor \<Rightarrow> 'w \<Rightarrow> 'v Row list" where
  "executeShowShardsStatement Q e w =
     map (\<lambda>di. mk_row (db_Name di) [''id'', ''database'', ''retention_policy'', ''shard_group'', ''start_time'', ''end_time'', ''expiry_time'', ''owners'']
       (concat (map (\<lambda>(rpi, sgi). map (\<lambda>si. [U64Val (si_ID si), StrVal (db_Name di), StrVal (rp_Name rpi), U64Val (sg_ID sgi)] @
           group_times Q rpi sgi @ [StrVal (joinUint64 (map so_NodeID (si_Owners si)))]) (sg_Shards sgi)) (live_groups Q di))))
       (mc_Databases (se_MetaClient e) w)"

definition executeShowShardGroupsStatement :: "('c, 'q, 'ic, 'em, 'p, 'v, 'w) ql_lib \<Rightarrow> ('c, 'ic, 'p, 'v, 'w) StatementExecutor \<Rightarrow> 'w \<Rightarrow> 'v Row list" where
  "executeShowShardGroupsStatement Q e w =
     [mk_row ''shard groups'' [''id'', ''database'', ''retention_policy'', ''start_time'', ''end_time'', ''expiry_time'']
       (concat (map (\<lambda>di. map (\<lambda>(rpi, sgi). [U64Val (sg_ID sgi), StrVal (db_Name di), StrVal (rp_Name rpi)] @ group_times Q rpi sgi)
         (live_groups Q di)) (mc_Databases (se_MetaClient e) w)))]"

definition executeShowStatsStatement :: "('c, 'q, 'ic, 'em, 'p, 'v, 'w) ql_lib \<Rightarrow> ('c, 'ic, 'p, 'v, 'w) StatementExecutor \<Rightarrow> string \<Rightarrow> 'w \<Rightarrow>
    se_error + 'v Row list" where
  "executeShowStatsStatement Q e module w = (case mo_Statistics (se_Monitor e) w of
     Inl err \<Rightarrow> Inl err
   | Inr stats \<Rightarrow>
     Inr (map (\<lambda>(name, tags, vals). \<lparr>row_Name = name, row_Tags = tags, row_Columns = ql_ValueNames Q vals,
          row_Values = [map (\<lambda>k. case map_of vals k of Some v \<Rightarrow> v | None \<Rightarrow> NilVal) (ql_ValueNames Q vals)]\<rparr>)
       (filter (\<lambda>(name, tags, vals). \<not> (module \<noteq> [] \<and> name \<noteq> module)) stats)))"

definition executeShowSubscriptionsStatement :: "('c, 'ic, 'p, 'v, 'w) StatementExecutor \<Rightarrow> 'w \<Rightarrow> 'v Row list" where
  "executeShowSubscriptionsStatement e w =
     filter (\<lambda>row. row_Values row \<noteq> [])
       (map (\<lambda>di. mk_row (db_Name di) [''retention_policy'', ''name'', ''mode'', ''destinations'']
          (concat (map (\<lambda>rpi. map (\<lambda>si. [StrVal (rp_Name rpi), StrVal (sub_Name si), StrVal (sub_Mode si), StrsVal (sub_Destinations si)])
             (rp_Subscriptions rpi)) (db_RetentionPolicies di))))
        (mc_Databases (se_MetaClient e) w))"

definition executeShowUsersStatement :: "('c, 'ic, 'p, 'v, 'w) StatementExecutor \<Rightarrow> 'w \<Rightarrow> 'v Row list" where
  "executeShowUsersStatement e w =
     [mk_row [] [''user'', ''admin''] (map (\<lambda>(name, admin). [StrVal name, BoolVal admin]) (mc_Users (se_MetaClient e) w))]"

section \<open>SELECT INTO\<close>

text \<open>The index of the last column \<open>time\<close> and of the last column of every other name.\<close>

fun scan_columns :: "nat \<Rightarrow> string list \<Rightarrow> nat option \<times> (string \<times> nat) list \<Rightarrow> nat option \<times> (string \<times> nat) list" where
  "scan_columns i [] acc = acc"
| "scan_columns i (c # cs) (t, fs) =
     scan_columns (Suc i) cs (if c = ''time'' then (Some i, fs) else (t, AList.update c i fs))"

text \<open>The fields of a row of values that are not nil; \<open>None\<close> is an index out of range.\<close>

fun field_vals :: "(string \<times> nat) list \<Rightarrow> 'v val list \<Rightarrow> (string \<times> 'v val) list option" where
  "field_vals [] v = Some []"
| "field_vals ((name, idx) # fs) v =
     (if idx < length v then
        map_option (\<lambda>vals. if v ! idx = NilVal then vals else (name, v ! idx) # vals) (field_vals fs v)
      else None)"

text \<open>A row without a time at its index panics; a point that cannot be made is dropped.\<close>

fun row_points :: "('c, 'q, 'ic, 'em, 'p, 'v, 'w) ql_lib \<Rightarrow> string \<Rightarrow> (string \<times> string) list \<Rightarrow> nat \<Rightarrow> (string \<times> nat) list \<Rightarrow> 'v val list list \<Rightarrow> 'p list option" where
  "row_points Q name tags t fs [] = Some []"
| "row_points Q name tags t fs (v # vs) = (case field_vals fs v of
     None \<Rightarrow> None
   | Some vals \<Rightarrow>
     (case (if t < length v then v ! t else NilVal) of
        TimeVal time \<Rightarrow>
          map_option (\<lambda>ps. case ql_NewPoint Q name tags vals time of Some p \<Rightarrow> p # ps | None \<Rightarrow> ps) (row_points Q name tags t fs vs)
      | _ \<Rightarrow> None))"

definition convertRowToPoints :: "('c, 'q, 'ic, 'em, 'p, 'v, 'w) ql_lib \<Rightarrow> string \<Rightarrow> 'v Row \<Rightarrow> se_error + 'p list" where
  "convertRowToPoints Q name row = (case scan_columns 0 (row_Columns row) (None, []) of
     (None, fs) \<Rightarrow> Inl (SeMsg ''error finding time index in result'')
   | (Some t, fs) \<Rightarrow> (case row_points Q name (row_Tags row) t fs (row_Values row) of None \<Rightarrow> Inl SePanic | Some ps \<Rightarrow> Inr ps))"

definition writeInto :: "('c, 'q, 'ic, 'em, 'p, 'v, 'w) ql_lib \<Rightarrow> ('c, 'ic, 'p, 'v, 'w) StatementExecutor \<Rightarrow> Measurement \<Rightarrow> 'v Row \<Rightarrow> (unit, 'w) se_op" where
  "writeInto Q e target row w =
     (if mm_Database target = [] then (Inl ErrNoDatabaseInTarget, w)
      else (case convertRowToPoints Q (if mm_Name target = [] then row_Name row else mm_Name target) row of
        Inl err \<Rightarrow> (Inl err, w)
      | Inr points \<Rightarrow> se_WritePointsInto e (mm_Database target) (mm_RetentionPolicy target) points w))"

section \<open>SELECT\<close>

text \<open>
  The loop over the rows of the emitter, with the number of values written and whether a result was sent.
  \<open>intr n\<close> tells whether the select of round \<open>n\<close> takes the case of the interrupt. \<open>None\<close> is a loop that does not end.
\<close>

type_synonym ('v, 'em, 'w) emit_state = "int \<times> bool \<times> 'v Result list \<times> 'em \<times> 'w"

partial_function (option) emit_loop :: "('c, 'q, 'ic, 'em, 'p, 'v, 'w) ql_lib \<Rightarrow> ('c, 'ic, 'p, 'v, 'w) StatementExecutor \<Rightarrow> ExecutionContext \<Rightarrow> Measurement option \<Rightarrow> (nat \<Rightarrow> bool) \<Rightarrow> nat \<Rightarrow> ('v, 'em, 'w) emit_state \<Rightarrow>
    ((se_error + unit) \<times> ('v, 'em, 'w) emit_state) option" where
  "emit_loop Q e ctx target intr n st = (case st of (writeN, emitted, res, em, w) \<Rightarrow>
     (case ql_Emit Q em w of
        (Inl err, em, w) \<Rightarrow> Some (Inl err, (writeN, emitted, res, em, w))
      | (Inr None, em, w) \<Rightarrow> Some (if intr n then Inl ErrQueryInterrupted else Inr (), (writeN, emitted, res, em, w))
      | (Inr (Some row), em, w) \<Rightarrow>
        (case target of
           Some t \<Rightarrow>
             (case writeInto Q e t row w of
                (Inl err, w) \<Rightarrow> Some (Inl err, (writeN, emitted, res, em, w))
              | (Inr u, w) \<Rightarrow> emit_loop Q e ctx target intr (Suc n) (i64 (writeN + int (length (row_Values row))), emitted, res, em, w))
         | None \<Rightarrow>
             if intr n then Some (Inl ErrQueryInterrupted, (writeN, emitted, res, em, w))
             else emit_loop Q e ctx target intr (Suc n)
               (writeN, True, res @ [\<lparr>re_StatementID = ctx_StatementID ctx, re_Series = [row], re_Messages = []\<rparr>], em, w))))"

text \<open>\<open>max.Sub(min)\<close> saturates at the bounds of 64 bits.\<close>

definition sat_Sub :: "int \<Rightarrow> int \<Rightarrow> int" where
  "sat_Sub a b = max (- (2 ^ 63)) (min (2 ^ 63 - 1) (a - b))"

definition bucket_count :: "int \<Rightarrow> int \<Rightarrow> int \<Rightarrow> int" where
  "bucket_count minTime maxTime interval =
     (let mn = minTime - minTime mod interval; mx = maxTime - maxTime mod interval + interval in
      sat_Sub mx mn sdiv interval)"

definition check_buckets :: "('c, 'q, 'ic, 'em, 'p, 'v, 'w) ql_lib \<Rightarrow> ('c, 'ic, 'p, 'v, 'w) StatementExecutor \<Rightarrow> 'q \<Rightarrow> int \<Rightarrow> int \<Rightarrow> se_error + unit" where
  "check_buckets Q e stmt minTime maxTime =
     (if se_MaxSelectBucketsN e > 0 \<and> \<not> ql_IsRawQuery Q stmt then
        (case ql_GroupByInterval Q stmt of
           Inl err \<Rightarrow> Inl err
         | Inr interval \<Rightarrow>
           if interval > 0 \<and> bucket_count minTime maxTime interval > se_MaxSelectBucketsN e
           then Inl (ErrBuckets (bucket_count minTime maxTime interval)) else Inr ())
      else Inr ())"

definition iteratorCreator :: "('c, 'q, 'ic, 'em, 'p, 'v, 'w) ql_lib \<Rightarrow> ('c, 'ic, 'p, 'v, 'w) StatementExecutor \<Rightarrow> 'q \<Rightarrow> int \<Rightarrow> int \<Rightarrow> 'w \<Rightarrow> se_error + 'ic" where
  "iteratorCreator Q e stmt minTime maxTime w =
     bind_sum (mc_ShardsByTimeRange (se_MetaClient e) (ql_Sources Q stmt) minTime maxTime w) (\<lambda>shards.
       ts_IteratorCreator (se_TSDBStore e) shards w)"

definition LocalTSDBStore_IteratorCreator :: "(u64 list \<Rightarrow> 'w \<Rightarrow> se_error + 'ic) \<Rightarrow> ShardInfo list \<Rightarrow> 'w \<Rightarrow> se_error + 'ic" where
  "LocalTSDBStore_IteratorCreator store shards = store (map si_ID shards)"

definition unix_epoch :: int where "unix_epoch = 62135596800 * 1000000000"

text \<open>The statement as it is after the rewriting steps, with the time range and the iterator creator.\<close>

definition prepare_select :: "('c, 'q, 'ic, 'em, 'p, 'v, 'w) ql_lib \<Rightarrow> ('c, 'ic, 'p, 'v, 'w) StatementExecutor \<Rightarrow> int \<Rightarrow> 'q \<Rightarrow> 'w \<Rightarrow> se_error + ('q \<times> int \<times> int \<times> 'ic)" where
  "prepare_select Q e now stmt w =
     (let stmt = ql_Reduce Q now stmt in
      bind_sum (ql_TimeRange Q stmt) (\<lambda>(minTime, maxTime).
        let maxTime = (if maxTime = 0 then now else maxTime);
            minTime = (if minTime = 0 then unix_epoch else minTime);
            stmt = ql_RewriteTimeFields Q (ql_RewriteDistinct Q stmt) in
        bind_sum (iteratorCreator Q e stmt minTime maxTime w) (\<lambda>ic.
        bind_sum (if ql_HasRegex Q (ql_Sources Q stmt)
                  then bind_sum (ql_ExpandSources Q ic (ql_Sources Q stmt)) (\<lambda>sources. Inr (ql_SetSources Q sources stmt))
                  else Inr stmt) (\<lambda>stmt.
        bind_sum (ql_RewriteWildcards Q ic stmt) (\<lambda>stmt.
        bind_sum (check_buckets Q e stmt minTime maxTime) (\<lambda>_. Inr (stmt, minTime, maxTime, ic)))))))"

text \<open>What follows the loop: the row with the number of written values, or an empty result if none was sent.\<close>

definition finish_select :: "('c, 'q, 'ic, 'em, 'p, 'v, 'w) ql_lib \<Rightarrow> ExecutionContext \<Rightarrow> 'q \<Rightarrow> int \<Rightarrow> bool \<Rightarrow> 'v Result list \<Rightarrow> 'v Result list" where
  "finish_select Q ctx stmt writeN emitted res =
     (if ql_Target Q stmt \<noteq> None then
        res @ [\<lparr>re_StatementID = ctx_StatementID ctx,
          re_Series = [mk_row ''result'' [''time'', ''written''] [[TimeVal unix_epoch, IntVal writeN]]],
          re_Messages = (if ctx_ReadOnly ctx then [ReadOnlyWarning (ql_String Q (Select stmt))] else [])\<rparr>]
      else if \<not> emitted then res @ [\<lparr>re_StatementID = ctx_StatementID ctx, re_Series = [], re_Messages = []\<rparr>]
      else res)"

definition executeSelectStatement :: "('c, 'q, 'ic, 'em, 'p, 'v, 'w) ql_lib \<Rightarrow> ('c, 'ic, 'p, 'v, 'w) StatementExecutor \<Rightarrow> ExecutionContext \<Rightarrow> (nat \<Rightarrow> bool) \<Rightarrow> int \<Rightarrow> 'q \<Rightarrow> 'w \<Rightarrow>
    ((se_error + unit) \<times> 'v Result list \<times> 'w) option" where
  "executeSelectStatement Q e ctx intr now stmt w =
     (case prepare_select Q e now stmt w of
        Inl err \<Rightarrow> Some (Inl err, [], w)
      | Inr (stmt, minTime, maxTime, ic) \<Rightarrow>
        (case ql_Select Q stmt ic minTime maxTime w of
           (Inl err, w) \<Rightarrow> Some (Inl err, [], w)
         | (Inr em, w) \<Rightarrow>
           (let w = (if se_MaxSelectPointN e > 0 then ql_Monitor Q em (se_MaxSelectPointN e) w else w) in
            if se_MaxSelectSeriesN e > 0 \<and> ql_SeriesN Q em > se_MaxSelectSeriesN e
            then Some (Inl (ErrSeries (ql_SeriesN Q em)), [], ql_CloseEmitter Q em w)
            else map_option (\<lambda>(r, (writeN, emitted, res, em, w)).
                (r, if r = Inr () then finish_select Q ctx stmt writeN emitted res else res, ql_CloseEmitter Q em w))
              (emit_loop Q e ctx (ql_Target Q stmt) intr 0 (0, False, [], em, w)))))"

section \<open>Normalization\<close>

text \<open>The measurement as the call leaves it: the database may be set before an error is found.\<close>

definition normalizeMeasurement :: "('c, 'ic, 'p, 'v, 'w) StatementExecutor \<Rightarrow> string \<Rightarrow> 'w \<Rightarrow> Measurement \<Rightarrow> (se_error + unit) \<times> Measurement" where
  "normalizeMeasurement e defaultDatabase w m =
     (if \<not> mm_IsTarget m \<and> mm_Name m = [] \<and> \<not> mm_Regex m then (Inl (SeMsg ''invalid measurement''), m)
      else let m = (if mm_Database m = [] then m\<lparr>mm_Database := defaultDatabase\<rparr> else m) in
        if mm_Database m = [] then (Inl (SeMsg ''database name required''), m)
        else (case mc_Database (se_MetaClient e) (mm_Database m) w of
          None \<Rightarrow> (Inl (SeDatabaseNotFound (mm_Database m)), m)
        | Some di \<Rightarrow>
          if mm_RetentionPolicy m = [] then
            (if db_DefaultRetentionPolicy di = [] then (Inl (ErrNoDefaultPolicy (db_Name di)), m)
             else (Inr (), m\<lparr>mm_RetentionPolicy := db_DefaultRetentionPolicy di\<rparr>))
          else (Inr (), m)))"

text \<open>\<open>NormalizeStatement\<close> on the measurements of a statement, in the order of the walk.\<close>

fun NormalizeStatement :: "('c, 'ic, 'p, 'v, 'w) StatementExecutor \<Rightarrow> string \<Rightarrow> 'w \<Rightarrow> Measurement list \<Rightarrow> (se_error + unit) \<times> Measurement list" where
  "NormalizeStatement e defaultDatabase w [] = (Inr (), [])"
| "NormalizeStatement e defaultDatabase w (m # ms) = (case normalizeMeasurement e defaultDatabase w m of
     (Inl err, m) \<Rightarrow> (Inl err, m # ms)
   | (Inr u, m) \<Rightarrow> apsnd (\<lambda>ms. m # ms) (NormalizeStatement e defaultDatabase w ms))"

section \<open>String sets\<close>

type_synonym stringSet = "string list"

definition newStringSet :: stringSet where "newStringSet = []"

definition ss_add :: "string list \<Rightarrow> stringSet \<Rightarrow> stringSet" where
  "ss_add ss s = fold List.insert ss s"

definition ss_contains :: "string \<Rightarrow> stringSet \<Rightarrow> bool" where
  "ss_contains x s = list_ex (\<lambda>y. y = x) s"

definition ss_list :: "stringSet \<Rightarrow> string list" where
  "ss_list s = sort s"

definition ss_union :: "stringSet \<Rightarrow> stringSet \<Rightarrow> stringSet" where
  "ss_union s t = fold List.insert t (fold List.insert s newStringSet)"

definition ss_intersect :: "stringSet \<Rightarrow> stringSet \<Rightarrow> stringSet" where
  "ss_intersect s t =
     (let (shorter, longer) = (if length t < length s then (t, s) else (s, t)) in
      fold (\<lambda>k ns. if ss_contains k longer then List.insert k ns else ns) shorter newStringSet)"

section \<open>Dispatch\<close>

text \<open>The result that is sent when the statement succeeds; with an error nothing is sent.\<close>

definition send_result :: "ExecutionContext \<Rightarrow> Message list \<Rightarrow> 'v Row list \<Rightarrow> (se_error + unit) \<times> 'w \<Rightarrow> ((se_error + unit) \<times> 'v Result list \<times> 'w) option" where
  "send_result ctx messages rows rw = (case rw of
     (Inl err, w) \<Rightarrow> Some (Inl err, [], w)
   | (Inr u, w) \<Rightarrow> Some (Inr (), [\<lparr>re_StatementID = ctx_StatementID ctx, re_Series = rows, re_Messages = messages\<rparr>], w))"

definition ExecuteStatement :: "('c, 'q, 'ic, 'em, 'p, 'v, 'w) ql_lib \<Rightarrow> ('c, 'ic, 'p, 'v, 'w) StatementExecutor \<Rightarrow> ((string \<times> int) list \<Rightarrow> (string \<times> int) list) \<Rightarrow> (nat \<Rightarrow> bool) \<Rightarrow> int \<Rightarrow> ('c, 'q) Statement \<Rightarrow>
    ExecutionContext \<Rightarrow> 'w \<Rightarrow> ((se_error + unit) \<times> 'v Result list \<times> 'w) option" where
  "ExecuteStatement Q e iter intr now stmt ctx w =
     (let warn = (if ctx_ReadOnly ctx then [ReadOnlyWarning (ql_String Q stmt)] else []);
          send = send_result ctx; changed = send warn []; plain = send [] [];
          shown = (\<lambda>r. case r of Inl err \<Rightarrow> send [] [] (Inl err, w) | Inr rows \<Rightarrow> send [] rows (Inr (), w)) in
      case stmt of
       AlterRetentionPolicy database name duration replication sgd dflt \<Rightarrow> changed (executeAlterRetentionPolicyStatement Q e database name duration replication sgd dflt w)
     | CreateContinuousQuery database name \<Rightarrow> changed (executeCreateContinuousQueryStatement Q e database name w)
     | CreateRetentionPolicy database name duration replication sgd dflt \<Rightarrow> changed (executeCreateRetentionPolicyStatement Q e database name duration replication sgd dflt w)
     | CreateSubscription database rp name mode destinations \<Rightarrow> changed (executeCreateSubscriptionStatement e database rp name mode destinations w)
     | CreateUserStmt name password admin \<Rightarrow> changed (executeCreateUserStatement e name password admin w)
     | DeleteSeries sources condition \<Rightarrow> plain (executeDeleteSeriesStatement Q e now sources condition (ctx_Database ctx) w)
     | DropContinuousQuery database name \<Rightarrow> changed (executeDropContinuousQueryStatement e database name w)
     | DropDatabase name \<Rightarrow> changed (executeDropDatabaseStatement Q e name w)
     | DropMeasurement name \<Rightarrow> changed (executeDropMeasurementStatement Q e name (ctx_Database ctx) w)
     | DropSeries sources condition \<Rightarrow> changed (executeDropSeriesStatement Q e sources condition (ctx_Database ctx) w)
     | DropRetentionPolicy database name \<Rightarrow> changed (executeDropRetentionPolicyStatement Q e database name w)
     | DropShard sid \<Rightarrow> changed (executeDropShardStatement Q e sid w)
     | DropSubscription database rp name \<Rightarrow> changed (executeDropSubscriptionStatement e database rp name w)
     | DropUserStmt name \<Rightarrow> changed (executeDropUserStatement e name w)
     | Grant user db privilege \<Rightarrow> changed (executeGrantStatement e user db privilege w)
     | GrantAdmin user \<Rightarrow> changed (executeGrantAdminStatement e user w)
     | Revoke user db privilege \<Rightarrow> changed (executeRevokeStatement Q e user db privilege w)
     | RevokeAdmin user \<Rightarrow> changed (executeRevokeAdminStatement e user w)
     | SetPasswordUser name password \<Rightarrow> changed (executeSetPasswordUserStatement e name password w)
     | CreateDatabase name ifNotExists policyCreate policyName duration replication sgd \<Rightarrow>
         send (warn @ (if ifNotExists then [IfNotExistsWarning] else [])) [] (executeCreateDatabaseStatement Q e name policyCreate policyName duration replication sgd w)
     | ShowContinuousQueries \<Rightarrow> shown (Inr (executeShowContinuousQueriesStatement e w))
     | ShowDatabases \<Rightarrow> shown (Inr (executeShowDatabasesStatement e w))
     | ShowDiagnostics module \<Rightarrow> shown (executeShowDiagnosticsStatement e module w)
     | ShowGrantsForUser name \<Rightarrow> shown (executeShowGrantsForUserStatement Q e iter name w)
     | ShowRetentionPolicies database \<Rightarrow> shown (executeShowRetentionPoliciesStatement Q e database w)
     | ShowShards \<Rightarrow> shown (Inr (executeShowShardsStatement Q e w))
     | ShowShardGroups \<Rightarrow> shown (Inr (executeShowShardGroupsStatement Q e w))
     | ShowStats module \<Rightarrow> shown (executeShowStatsStatement Q e module w)
     | ShowSubscriptions \<Rightarrow> shown (Inr (executeShowSubscriptionsStatement e w))
     | ShowUsers \<Rightarrow> shown (Inr (executeShowUsersStatement e w))
     | Select q \<Rightarrow> executeSelectStatement Q e ctx intr now q w
     | OtherStatement \<Rightarrow> Some (Inl ErrInvalidQuery, [], w))"

end
