(* ===== verification/Statement_Props.thy ===== *)
theory Statement_Props
  imports Statement_Executor
begin

text \<open>
  Properties of the statement executor (\<open>src/cluster/statement_executor.go\<close>): normalized statements, string sets,
  revoked privileges, the lists of SHOW, the limits and the streaming of SELECT, and the results of the dispatch.
\<close>

section \<open>Metadata\<close>

text \<open>What the executor relies on when it looks up databases, which the cached metadata of the client provides.\<close>

locale metadata =
  fixes Database :: "string \<Rightarrow> 'w \<Rightarrow> DatabaseInfo option" and Databases :: "'w \<Rightarrow> DatabaseInfo list"
  assumes lookup: "Database n w = List.find (\<lambda>d. db_Name d = n) (Databases w)"
begin

lemma found: "Database n w = Some di \<Longrightarrow> di \<in> set (Databases w) \<and> db_Name di = n"
  by (auto simp: lookup find_Some_iff)

lemma missing: "Database n w = None \<longleftrightarrow> n \<notin> db_Name ` set (Databases w)"
  by (auto simp: lookup find_None_iff)

end

definition client_lookup :: "string \<Rightarrow> 'x Client \<Rightarrow> DatabaseInfo option" where
  "client_lookup n c = (case client_Database n c of Inr d \<Rightarrow> d | Inl e \<Rightarrow> None)"

definition client_databases :: "'x Client \<Rightarrow> DatabaseInfo list" where
  "client_databases c = (case Databases c of Inr ds \<Rightarrow> ds | Inl e \<Rightarrow> [])"

interpretation cached: metadata client_lookup client_databases
  by unfold_locales
    (simp add: client_lookup_def client_databases_def client_Database_def Databases_def bind_sum_def split: sum.split)

section \<open>Concrete executor\<close>

text \<open>An executor on the cached metadata of a client; the body of a SELECT statement is the list of its rows.\<close>

definition mclient0 :: "unit Client MetaClient" where
  "mclient0 = \<lparr>mc_UpdateRetentionPolicy = (\<lambda>a b c d e w. (Inr (), w)), mc_SetDefaultRetentionPolicy = (\<lambda>a b w. (Inr (), w)),
     mc_CreateContinuousQuery = (\<lambda>a b c w. (Inr (), w)), mc_CreateDatabase = (\<lambda>a w. (Inr (), w)),
     mc_CreateDatabaseWithRetentionPolicy = (\<lambda>a b w. (Inr (), w)), mc_CreateRetentionPolicy = (\<lambda>a b w. (Inr (), w)),
     mc_CreateSubscription = (\<lambda>a b c d e w. (Inr (), w)), mc_CreateUser = (\<lambda>a b c w. (Inr (), w)), mc_Database = client_lookup,
     mc_Databases = client_databases, mc_DropContinuousQuery = (\<lambda>a b w. (Inr (), w)), mc_DropDatabase = (\<lambda>a w. (Inr (), w)),
     mc_DropShard = (\<lambda>a w. (Inr (), w)), mc_DropRetentionPolicy = (\<lambda>a b w. (Inr (), w)),
     mc_DropSubscription = (\<lambda>a b c w. (Inr (), w)), mc_DropUser = (\<lambda>a w. (Inr (), w)),
     mc_SetPrivilege = (\<lambda>a b c w. (Inr (), w)), mc_SetAdminPrivilege = (\<lambda>a b w. (Inr (), w)),
     mc_UserPrivilege = (\<lambda>u d w. Inr (Some 3)), mc_UserPrivileges = (\<lambda>u w. Inr []), mc_Users = (\<lambda>w. []),
     mc_UpdateUser = (\<lambda>a b w. (Inr (), w)), mc_ShardsByTimeRange = (\<lambda>s a b w. Inr [])\<rparr>"

definition tstore0 :: "(unit, unit, unit Client) TSDBStore" where
  "tstore0 = \<lparr>ts_DeleteDatabase = (\<lambda>a w. (Inr (), w)), ts_DeleteMeasurement = (\<lambda>a b w. (Inr (), w)),
     ts_DeleteRetentionPolicy = (\<lambda>a b w. (Inr (), w)), ts_DeleteSeries = (\<lambda>a b c w. (Inr (), w)),
     ts_DeleteShard = (\<lambda>a w. (Inr (), w)), ts_IteratorCreator = (\<lambda>s w. Inr ())\<rparr>"

definition ql0 :: "(unit, unit Row list, unit, unit Row list, int, unit, unit Client) ql_lib" where
  "ql0 = \<lparr>ql_NoPrivileges = 0, ql_AllPrivileges = 3, ql_ValueNames = map fst, ql_HasRegex = (\<lambda>s. False), ql_NewPoint = (\<lambda>n t v i. Some i),
     ql_NewRetentionPolicyInfo = (\<lambda>n. \<lparr>rp_Name = n, rp_ReplicaN = 1, rp_Duration = 0, rp_ShardGroupDuration = 0, rp_ShardGroups = [], rp_Subscriptions = []\<rparr>),
     ql_String = (\<lambda>s. ''statement''), ql_PrivilegeString = (\<lambda>p. []), ql_DurationString = (\<lambda>d. []),
     ql_RFC3339 = (\<lambda>t. []), ql_Deleted = (\<lambda>g. sg_DeletedAt g \<noteq> 0), ql_HasTimeExpr = (\<lambda>c. False),
     ql_ReduceCondition = (\<lambda>n c. c), ql_Reduce = (\<lambda>n q. q), ql_TimeRange = (\<lambda>q. Inr (100, 159)),
     ql_RewriteDistinct = (\<lambda>q. q), ql_RewriteTimeFields = (\<lambda>q. q), ql_Sources = (\<lambda>q. []),
     ql_ExpandSources = (\<lambda>i s. Inr s), ql_SetSources = (\<lambda>s q. q), ql_RewriteWildcards = (\<lambda>i q. Inr q),
     ql_IsRawQuery = (\<lambda>q. False), ql_GroupByInterval = (\<lambda>q. Inr 10), ql_Target = (\<lambda>q. None),
     ql_Select = (\<lambda>q i a b w. (Inr q, w)), ql_Monitor = (\<lambda>em n w. w), ql_SeriesN = (\<lambda>em. 1),
     ql_Emit = (\<lambda>em w. (Inr (case em of [] \<Rightarrow> None | r # rs \<Rightarrow> Some r), tl em, w)),
     ql_CloseEmitter = (\<lambda>em w. w)\<rparr>"

definition se0 :: "(unit, unit, int, unit, unit Client) StatementExecutor" where
  "se0 = \<lparr>se_MetaClient = mclient0, se_TSDBStore = tstore0, se_Monitor = \<lparr>mo_Diagnostics = (\<lambda>w. Inr []), mo_Statistics = (\<lambda>w. Inr [])\<rparr>,
     se_WritePointsInto = (\<lambda>d r p w. (Inr (), w)), se_MaxSelectPointN = 0, se_MaxSelectSeriesN = 0, se_MaxSelectBucketsN = 6\<rparr>"

definition ctx0 :: ExecutionContext where
  "ctx0 = \<lparr>ctx_ReadOnly = False, ctx_Database = ''db'', ctx_StatementID = 0\<rparr>"

definition client5 :: "unit Client" where
  "client5 = setData (fresh_Data (od1\<lparr>o_Databases := [\<lparr>db_Name = ''db'',
     db_RetentionPolicies = [\<lparr>rp_Name = ''rp'', rp_ReplicaN = 1, rp_Duration = 0, rp_ShardGroupDuration = 0,
       rp_ShardGroups = [\<lparr>sg_ID = 1, sg_StartTime = 0, sg_EndTime = 5, sg_DeletedAt = 0, sg_Shards = [\<lparr>si_ID = 7, si_Owners = []\<rparr>]\<rparr>,
         \<lparr>sg_ID = 2, sg_StartTime = 5, sg_EndTime = 9, sg_DeletedAt = 3, sg_Shards = [\<lparr>si_ID = 8, si_Owners = []\<rparr>]\<rparr>], rp_Subscriptions = []\<rparr>],
     db_DefaultRetentionPolicy = ''rp'', db_ContinuousQueries = []\<rparr>]\<rparr>)) NewClient"

definition measurement0 :: Measurement where
  "measurement0 = \<lparr>mm_Database = [], mm_RetentionPolicy = [], mm_Name = ''cpu'', mm_Regex = False, mm_IsTarget = False\<rparr>"

section \<open>Normalization\<close>

text \<open>A measurement that names its database and policy and exists.\<close>

definition normal :: "('c, 'ic, 'p, 'v, 'w) StatementExecutor \<Rightarrow> 'w \<Rightarrow> Measurement \<Rightarrow> bool" where
  "normal e w m \<longleftrightarrow> (mm_IsTarget m \<or> mm_Name m \<noteq> [] \<or> mm_Regex m) \<and> mm_Database m \<noteq> [] \<and>
     mc_Database (se_MetaClient e) (mm_Database m) w \<noteq> None \<and> mm_RetentionPolicy m \<noteq> []"

definition completed :: "('c, 'ic, 'p, 'v, 'w) StatementExecutor \<Rightarrow> string \<Rightarrow> 'w \<Rightarrow> Measurement \<Rightarrow> Measurement \<Rightarrow> bool" where
  "completed e dflt w m m' \<longleftrightarrow>
     (let db = (if mm_Database m = [] then dflt else mm_Database m) in
      m' = m\<lparr>mm_Database := db, mm_RetentionPolicy := (if mm_RetentionPolicy m = []
        then db_DefaultRetentionPolicy (the (mc_Database (se_MetaClient e) db w)) else mm_RetentionPolicy m)\<rparr>)"

lemma normalizeMeasurement_ok:
  assumes "normalizeMeasurement e dflt w m = (Inr u, m')"
  shows "normal e w m' \<and> completed e dflt w m m'"
  using assms by (auto simp: normalizeMeasurement_def normal_def completed_def Let_def split: if_splits option.splits)

lemma normalizeMeasurement_normal:
  "normal e w m \<Longrightarrow> normalizeMeasurement e dflt w m = (Inr (), m)"
  by (auto simp: normalizeMeasurement_def normal_def)

lemma NormalizeStatement_ok:
  "NormalizeStatement e dflt w ms = (Inr u, ms') \<Longrightarrow> list_all2 (\<lambda>m m'. normal e w m' \<and> completed e dflt w m m') ms ms'"
proof (induction ms arbitrary: ms')
  case (Cons m ms)
  then obtain m1 ms1 where "normalizeMeasurement e dflt w m = (Inr (), m1)" "NormalizeStatement e dflt w ms = (Inr u, ms1)" "ms' = m1 # ms1"
    by (auto simp: apsnd_def map_prod_def split: prod.splits sum.splits)
  with Cons.IH show ?case using normalizeMeasurement_ok by fastforce
qed simp

lemma NormalizeStatement_normal: "\<forall>m \<in> set ms. normal e w m \<Longrightarrow> NormalizeStatement e dflt w ms = (Inr (), ms)"
  by (induction ms) (auto simp: normalizeMeasurement_normal)

text \<open>
  C19: A statement that \<open>NormalizeStatement\<close> accepts is complete. Every measurement then names an existing database and
  a retention policy: the ones it had, otherwise the default database and the default policy of the database; its
  other fields are unchanged. Normalizing again, with any default database, changes nothing.
\<close>

theorem NormalizeStatement_completes:
  assumes "NormalizeStatement e dflt w ms = (Inr (), ms')"
  shows "list_all2 (\<lambda>m m'. normal e w m' \<and> completed e dflt w m m') ms ms' \<and> NormalizeStatement e dflt' w ms' = (Inr (), ms')"
proof
  show *: "list_all2 (\<lambda>m m'. normal e w m' \<and> completed e dflt w m m') ms ms'" by (rule NormalizeStatement_ok[OF assms])
  then have "\<forall>m \<in> set ms'. normal e w m" by (auto simp: list_all2_conv_all_nth in_set_conv_nth)
  then show "NormalizeStatement e dflt' w ms' = (Inr (), ms')" by (rule NormalizeStatement_normal)
qed

theorem NormalizeStatement_completes_witness:
  "NormalizeStatement se0 ''x'' client5 [measurement0\<lparr>mm_Database := ''db'', mm_RetentionPolicy := ''rp''\<rparr>] =
     (Inr (), [measurement0\<lparr>mm_Database := ''db'', mm_RetentionPolicy := ''rp''\<rparr>])"
proof -
  have "NormalizeStatement se0 ''db'' client5 [measurement0] = (Inr (), [measurement0\<lparr>mm_Database := ''db'', mm_RetentionPolicy := ''rp''\<rparr>])"
    by code_simp
  from NormalizeStatement_completes[OF this] show ?thesis by blast
qed

section \<open>String sets\<close>

lemma set_fold_insert: "set (fold List.insert xs ys) = set xs \<union> set ys"
  by (induction xs arbitrary: ys) auto

lemma distinct_fold_insert: "distinct ys \<Longrightarrow> distinct (fold List.insert xs ys)"
  by (induction xs arbitrary: ys) auto

lemma fold_insert_if:
  "set (fold (\<lambda>k ns. if P k then List.insert k ns else ns) xs ys) = {x \<in> set xs. P x} \<union> set ys"
  "distinct ys \<Longrightarrow> distinct (fold (\<lambda>k ns. if P k then List.insert k ns else ns) xs ys)"
  by (induction xs arbitrary: ys) auto

text \<open>
  The string sets implement finite sets: \<open>add\<close>, \<open>contains\<close>, \<open>union\<close> and \<open>intersect\<close> are the set operations on the
  elements, whichever of the two sets is the larger, every set keeps each element once, and \<open>list\<close> gives the
  elements in strictly ascending order.
\<close>

theorem stringSet_refines_set:
  assumes "distinct s" "distinct t"
  shows "set newStringSet = {} \<and> set (ss_add xs s) = set s \<union> set xs \<and> (ss_contains x s \<longleftrightarrow> x \<in> set s) \<and>
    set (ss_union s t) = set s \<union> set t \<and> set (ss_intersect s t) = set s \<inter> set t \<and>
    distinct (ss_add xs s) \<and> distinct (ss_union s t) \<and> distinct (ss_intersect s t) \<and>
    set (ss_list s) = set s \<and> sorted_wrt (<) (ss_list s)"
  using assms
  by (auto simp: newStringSet_def ss_add_def ss_contains_def ss_union_def ss_intersect_def ss_list_def set_fold_insert
      distinct_fold_insert fold_insert_if list_ex_iff Let_def strict_sorted_iff)

theorem stringSet_refines_set_witness:
  "set (ss_intersect [''a'', ''b''] [''c'', ''b'', ''d'']) = {''b''}"
  using stringSet_refines_set[of "[''a'', ''b'']" "[''c'', ''b'', ''d'']"] by auto

section \<open>Privileges\<close>

text \<open>
  REVOKE takes away exactly the revoked bits: the privilege that is stored has a bit set if and only if the user
  had it and it is not revoked, and revoking all privileges stores none without looking at the old ones.
\<close>

theorem revoke_clears_bits:
  assumes "mc_UserPrivilege (se_MetaClient e) user db w = Inr (Some p)"
  shows "\<exists>priv. executeRevokeStatement Q e user db r w = mc_SetPrivilege (se_MetaClient e) user db priv w \<and>
    (if r = ql_AllPrivileges Q then priv = ql_NoPrivileges Q else \<forall>n. bit priv n \<longleftrightarrow> bit p n \<and> \<not> bit r n)"
  using assms by (auto simp: executeRevokeStatement_def bit_and_iff bit_not_iff)

theorem revoke_clears_bits_witness:
  "\<exists>priv. executeRevokeStatement ql0 se0 ''u'' ''db'' 1 client5 = mc_SetPrivilege (se_MetaClient se0) ''u'' ''db'' priv client5 \<and>
     (if 1 = ql_AllPrivileges ql0 then priv = ql_NoPrivileges ql0 else \<forall>n. bit priv n \<longleftrightarrow> bit (3 :: int) n \<and> \<not> bit (1 :: int) n)"
  by (rule revoke_clears_bits) (simp add: se0_def mclient0_def)

section \<open>SHOW SHARDS\<close>

text \<open>The first column of the rows of \<open>SHOW SHARDS\<close> for a database.\<close>

fun shard_ids :: "'v val list list \<Rightarrow> u64 list" where
  "shard_ids [] = []"
| "shard_ids ((U64Val i # vs) # rows) = i # shard_ids rows"
| "shard_ids (v # rows) = shard_ids rows"

lemma shard_ids_append: "shard_ids (xs @ ys) = shard_ids xs @ shard_ids ys"
  by (induction xs rule: shard_ids.induct) auto

lemma shard_ids_map: "shard_ids (map (\<lambda>si. U64Val (f si) # g si) sis) = map f sis"
  by (induction sis) auto

lemma shard_ids_concat: "shard_ids (concat (map F xs)) = concat (map (\<lambda>x. shard_ids (F x)) xs)"
  by (induction xs) (auto simp: shard_ids_append)

lemma concat_map_concat: "concat (map F (concat xss)) = concat (map (\<lambda>xs. concat (map F xs)) xss)"
  by (induction xss) auto

lemma shard_ids_live:
  "shard_ids (concat (map (\<lambda>(rpi, g). map (\<lambda>si. U64Val (si_ID si) # F rpi g si) (sg_Shards g)) (live_groups Q di))) =
   concat (map (\<lambda>rpi. concat (map (\<lambda>g. map si_ID (sg_Shards g)) (filter (\<lambda>g. \<not> ql_Deleted Q g) (rp_ShardGroups rpi)))) (db_RetentionPolicies di))"
  unfolding live_groups_def concat_map_concat shard_ids_concat map_map o_def prod.case shard_ids_map by (rule refl)


section \<open>Limits\<close>

text \<open>The aligned windows of a time range, and the count of the code for them.\<close>

lemma window_image:
  fixes i :: int
  assumes "0 < i" "a \<le> b"
  shows "(\<lambda>t. t div i) ` {a..b} = {a div i..b div i}"
proof (intro equalityI subsetI)
  fix k assume k: "k \<in> {a div i..b div i}"
  let ?t = "max a (k * i)"
  have "k * i \<le> b div i * i" using k assms(1) by (simp add: mult_right_mono)
  also have "\<dots> \<le> b" using div_mult_mod_eq[of b i] pos_mod_sign[OF assms(1), of b] by linarith
  finally have "k * i \<le> b" .
  moreover have "?t div i = k"
  proof (cases "a \<le> k * i")
    case True
    then show ?thesis using assms(1) by (simp add: max_def)
  next
    case False
    then have "k * i div i \<le> a div i" using assms(1) by (intro zdiv_mono1) auto
    with False k assms(1) show ?thesis by (simp add: max_def)
  qed
  ultimately show "k \<in> (\<lambda>t. t div i) ` {a..b}" using assms(2) by (intro image_eqI[of _ _ ?t]) auto
qed (use assms in \<open>auto intro: zdiv_mono1\<close>)

lemma bucket_count_windows:
  fixes i :: int
  assumes "0 < i" "a \<le> b" "b - a + 2 * i < 2 ^ 63"
  shows "bucket_count a b i = int (card ((\<lambda>t. t div i) ` {a..b}))"
proof -
  have d: "b - b mod i + i - (a - a mod i) = (b div i - a div i + 1) * i"
    using div_mult_mod_eq[of a i] div_mult_mod_eq[of b i] by (simp add: algebra_simps)
  have m: "a div i \<le> b div i" using assms by (simp add: zdiv_mono1)
  then have "0 \<le> (b div i - a div i + 1) * i" using assms(1) by simp
  moreover have "(b div i - a div i + 1) * i < 2 ^ 63"
    using assms pos_mod_sign[OF assms(1), of b] pos_mod_bound[OF assms(1), of a] unfolding d[symmetric] by linarith
  ultimately have "sat_Sub (b - b mod i + i) (a - a mod i) = (b div i - a div i + 1) * i"
    unfolding sat_Sub_def d by linarith
  then have "bucket_count a b i = (b div i - a div i + 1) * i sdiv i" by (simp add: bucket_count_def)
  also have "\<dots> = b div i - a div i + 1"
    using m assms(1) by (simp add: signed_divide_int_def sgn_mult abs_mult)
  finally show ?thesis using m by (simp add: window_image[OF assms(1,2)])
qed

text \<open>
  C29: The limit on the buckets of a SELECT is enforced. A statement that groups by an interval and passes the
  preparation has at most \<open>MaxSelectBucketsN\<close> aligned windows in its time range, provided the range fits 64 bits
  of nanoseconds, and the error of a statement that does not pass names the exact number of windows.
\<close>

theorem bucket_limit_enforced:
  assumes "se_MaxSelectBucketsN e > 0" "\<not> ql_IsRawQuery Q stmt" "ql_GroupByInterval Q stmt = Inr i" "0 < i"
    and "minTime \<le> maxTime" "maxTime - minTime + 2 * i < 2 ^ 63"
  shows "check_buckets Q e stmt minTime maxTime =
    (let n = int (card ((\<lambda>t. t div i) ` {minTime..maxTime})) in if n \<le> se_MaxSelectBucketsN e then Inr () else Inl (ErrBuckets n))"
  using assms(1-4) bucket_count_windows[OF assms(4-6)] by (auto simp: check_buckets_def Let_def)

theorem bucket_limit_enforced_witness:
  "check_buckets ql0 se0 [] 100 159 =
    (let n = int (card ((\<lambda>t. t div 10) ` {100..159 :: int})) in if n \<le> se_MaxSelectBucketsN se0 then Inr () else Inl (ErrBuckets n))"
  by (rule bucket_limit_enforced) (simp_all add: se0_def ql0_def)

section \<open>Streaming\<close>

text \<open>The rows that an emitter gives before it ends.\<close>

inductive emits :: "('c, 'q, 'ic, 'em, 'p, 'v, 'w) ql_lib \<Rightarrow> 'em \<Rightarrow> 'w \<Rightarrow> 'v Row list \<Rightarrow> 'em \<Rightarrow> 'w \<Rightarrow> bool" for Q where
  finished: "ql_Emit Q em w = (Inr None, em', w') \<Longrightarrow> emits Q em w [] em' w'"
| row: "ql_Emit Q em w = (Inr (Some row), em1, w1) \<Longrightarrow> emits Q em1 w1 rows em' w' \<Longrightarrow> emits Q em w (row # rows) em' w'"

definition row_result :: "ExecutionContext \<Rightarrow> 'v Row \<Rightarrow> 'v Result" where
  "row_result ctx row = \<lparr>re_StatementID = ctx_StatementID ctx, re_Series = [row], re_Messages = []\<rparr>"

lemma emit_loop_streams:
  assumes "emits Q em w rows em' w'" "\<And>n. \<not> intr n"
  shows "emit_loop Q e ctx None intr n (writeN, emitted, res, em, w) =
    Some (Inr (), (writeN, emitted \<or> rows \<noteq> [], res @ map (row_result ctx) rows, em', w'))"
  using assms(1)
proof (induction arbitrary: n emitted res)
  case (finished em w em' w')
  then show ?case by (subst emit_loop.simps) (simp add: assms(2))
next
  case (row em w r em1 w1 rows em' w')
  show ?case by (subst emit_loop.simps) (simp add: row.hyps(1) row.IH assms(2) row_result_def[of ctx r])
qed

text \<open>
  C15: A SELECT streams its rows. When the statement is prepared and selected, the series limit is kept, nothing
  interrupts it and the emitter ends after some rows, the results are these rows, one result for each and in
  order, or a single empty result when there is none.
\<close>

theorem select_streams_rows:
  assumes "prepare_select Q e now stmt w = Inr (stmt', mn, mx, ic)" "ql_Target Q stmt' = None"
    and "ql_Select Q stmt' ic mn mx w = (Inr em, w1)" "se_MaxSelectSeriesN e \<le> 0 \<or> ql_SeriesN Q em \<le> se_MaxSelectSeriesN e"
    and "emits Q em (if se_MaxSelectPointN e > 0 then ql_Monitor Q em (se_MaxSelectPointN e) w1 else w1) rows em' w'" "\<And>n. \<not> intr n"
  shows "executeSelectStatement Q e ctx intr now stmt w =
    Some (Inr (), if rows = [] then [\<lparr>re_StatementID = ctx_StatementID ctx, re_Series = [], re_Messages = []\<rparr>] else map (row_result ctx) rows,
      ql_CloseEmitter Q em' w')"
  using assms(1-4) emit_loop_streams[OF assms(5,6), where e = e and ctx = ctx and n = 0 and writeN = 0 and emitted = False and res = "[]"]
  by (auto simp: executeSelectStatement_def finish_select_def Let_def)

lemma emits_list: "emits ql0 rows w rows [] w"
  by (induction rows) (auto intro: emits.intros simp: ql0_def)

theorem select_streams_rows_witness:
  "executeSelectStatement ql0 se0 ctx0 (\<lambda>n. False) 0 [mk_row ''a'' [] [], mk_row ''b'' [] []] client5 =
     Some (Inr (), [row_result ctx0 (mk_row ''a'' [] []), row_result ctx0 (mk_row ''b'' [] [])], client5)"
proof -
  let ?rows = "[mk_row ''a'' [] [], mk_row ''b'' [] []] :: unit Row list"
  have "prepare_select ql0 se0 0 ?rows client5 = Inr (?rows, 100, 159, ())"
    by (simp add: prepare_select_def ql0_def se0_def mclient0_def tstore0_def bind_sum_def iteratorCreator_def check_buckets_def bucket_count_def
        sat_Sub_def signed_divide_int_def Let_def)
  moreover have "ql_Target ql0 ?rows = None" "ql_Select ql0 ?rows () 100 159 client5 = (Inr ?rows, client5)" "ql_CloseEmitter ql0 [] client5 = client5"
    by (simp_all add: ql0_def)
  moreover have "se_MaxSelectSeriesN se0 \<le> 0 \<or> ql_SeriesN ql0 ?rows \<le> se_MaxSelectSeriesN se0" by (simp add: se0_def)
  moreover have "emits ql0 ?rows (if se_MaxSelectPointN se0 > 0 then ql_Monitor ql0 ?rows (se_MaxSelectPointN se0) client5 else client5) ?rows [] client5"
    using emits_list[of ?rows client5] by (simp add: se0_def)
  ultimately show ?thesis
    using select_streams_rows[of ql0 se0 0 ?rows client5 ?rows 100 159 "()" ?rows client5 ?rows "[]" client5 "\<lambda>n. False" ctx0] by simp
qed

section \<open>Results\<close>

definition is_show :: "('c, 'q) Statement \<Rightarrow> bool" where
  "is_show stmt \<longleftrightarrow> (case stmt of ShowContinuousQueries \<Rightarrow> True | ShowDatabases \<Rightarrow> True | ShowDiagnostics m \<Rightarrow> True | ShowGrantsForUser u \<Rightarrow> True
     | ShowRetentionPolicies d \<Rightarrow> True | ShowShards \<Rightarrow> True | ShowShardGroups \<Rightarrow> True | ShowStats m \<Rightarrow> True | ShowSubscriptions \<Rightarrow> True
     | ShowUsers \<Rightarrow> True | _ \<Rightarrow> False)"

definition is_delete :: "('c, 'q) Statement \<Rightarrow> bool" where
  "is_delete stmt \<longleftrightarrow> (case stmt of DeleteSeries sources condition \<Rightarrow> True | _ \<Rightarrow> False)"

definition one_result :: "(Message list \<Rightarrow> bool) \<Rightarrow> ('w \<Rightarrow> bool) \<Rightarrow> ((se_error + unit) \<times> 'v Result list \<times> 'w) option \<Rightarrow> bool" where
  "one_result M W x \<longleftrightarrow> (case x of None \<Rightarrow> False | Some (r, res, w) \<Rightarrow> W w \<and>
     (case r of Inl err \<Rightarrow> res = [] | Inr u \<Rightarrow> (\<exists>rt. res = [rt] \<and> M (re_Messages rt))))"

lemma send_result_one: "M ms \<Longrightarrow> W (snd rw) \<Longrightarrow> one_result M W (send_result ctx ms rows rw)"
  by (cases rw; cases "fst rw") (auto simp: send_result_def one_result_def)



end
