(* ===== verification/Meta_Service.thy ===== *)
theory Meta_Service
  imports Meta_Handler
begin

text \<open>
  The meta service (\<open>src/meta/service.go\<close>) and the server of a meta node (\<open>src/cmd/influxd-meta/run/server.go\<close>).
  The operating system is the record \<open>sys_lib\<close>: listeners are numbers, and every call may fail. The wait for the
  listeners runs over the given observations of their addresses. \<open>None\<close> is a call that does not return.
\<close>

section \<open>Service\<close>

datatype svc_error =
    PanicNoRaftListener
  | ErrCertificate string
  | ErrListen string
  | ErrNoListener
  | ErrAddr addr_error
  | ErrStoreOp meta_error
  | ErrCloseListener string
  | PanicNilHandler

record 'w sys_lib =
  sys_LoadX509KeyPair :: "string \<Rightarrow> 'w \<Rightarrow> string option"
  sys_Listen :: "bool \<Rightarrow> string \<Rightarrow> 'w \<Rightarrow> (string + nat) \<times> 'w"
  sys_CloseListener :: "nat \<Rightarrow> 'w \<Rightarrow> (string + unit) \<times> 'w"
  sys_MkdirAll :: "string \<Rightarrow> 'w \<Rightarrow> (meta_error + unit) \<times> 'w"

record ('x, 'l) MetaService =
  v_RaftListener :: "nat option"
  v_version :: string
  v_config :: MetaConfig
  v_handler :: "'l handler option"
  v_ln :: "nat option"
  v_httpAddr :: string
  v_raftAddr :: string
  v_https :: bool
  v_cert :: string
  v_store :: "'x store option"

definition NewService :: "MetaConfig \<Rightarrow> ('x, 'l) MetaService" where
  "NewService c = \<lparr>v_RaftListener = None, v_version = [], v_config = c, v_handler = None, v_ln = None,
     v_httpAddr = m_HTTPBindAddress c, v_raftAddr = m_BindAddress c, v_https = m_HTTPSEnabled c, v_cert = m_HTTPSCertificate c,
     v_store = None\<rparr>"

definition SetVersion :: "string \<Rightarrow> ('x, 'l) MetaService \<Rightarrow> ('x, 'l) MetaService" where
  "SetVersion version s = s\<lparr>v_version := version\<rparr>"

definition ResetStore :: "'x store \<Rightarrow> ('x, 'l) MetaService \<Rightarrow> ('x, 'l) MetaService" where
  "ResetStore st s = s\<lparr>v_store := Some st\<rparr>"

definition remoteAddr :: "MetaConfig \<Rightarrow> string \<Rightarrow> string" where
  "remoteAddr c addr =
     (let hostname = m_RemoteHostname c; hostname = (if hostname = [] then DefaultHostname else hostname) in
      case DefaultHost hostname addr of Inl e \<Rightarrow> addr | Inr remote \<Rightarrow> remote)"

definition RemoteHTTPAddr :: "('x, 'l) MetaService \<Rightarrow> string" where
  "RemoteHTTPAddr s = remoteAddr (v_config s) (v_httpAddr s)"

definition RemoteRaftAddr :: "('x, 'l) MetaService \<Rightarrow> string" where
  "RemoteRaftAddr s = remoteAddr (v_config s) (v_raftAddr s)"

definition autoAssignPort :: "string \<Rightarrow> bool" where
  "autoAssignPort addr = (case SplitHostPort addr of Inl e \<Rightarrow> False | Inr (h, p) \<Rightarrow> p = ''0'')"

definition combineHostAndAssignedPort :: "string \<Rightarrow> string \<Rightarrow> addr_error + string" where
  "combineHostAndAssignedPort lnAddr autoAddr = (case SplitHostPort autoAddr of
     Inl e \<Rightarrow> Inl e
   | Inr (host, p) \<Rightarrow> (case SplitHostPort lnAddr of Inl e \<Rightarrow> Inl e | Inr (h, port) \<Rightarrow> Inr (JoinHostPort host port)))"

text \<open>
  A round of the wait for the listeners: their addresses, nil while they are starting, and whether the time is up.
\<close>

type_synonym ln_round = "string option \<times> string option \<times> bool"

fun wait_listeners :: "ln_round list \<Rightarrow> (svc_error + string \<times> string) option" where
  "wait_listeners [] = None"
| "wait_listeners ((a, b, late) # rs) =
     (if a \<noteq> None \<and> b \<noteq> None then Some (Inr (the a, the b))
      else if late then Some (Inl ErrNoListener)
      else wait_listeners rs)"

text \<open>The two addresses after the automatic ports are filled in; an error of the first is overwritten by the second.\<close>

definition assign_ports :: "string \<Rightarrow> string \<Rightarrow> ('x, 'l) MetaService \<Rightarrow> (addr_error option) \<times> ('x, 'l) MetaService" where
  "assign_ports lnAddr raftLnAddr s =
     (let (err, s) = (if autoAssignPort (v_httpAddr s)
            then (case combineHostAndAssignedPort lnAddr (v_httpAddr s) of
                    Inl e \<Rightarrow> (Some e, s\<lparr>v_httpAddr := []\<rparr>) | Inr a \<Rightarrow> (None, s\<lparr>v_httpAddr := a\<rparr>))
            else (None, s)) in
      if autoAssignPort (v_raftAddr s)
      then (case combineHostAndAssignedPort raftLnAddr (v_raftAddr s) of
              Inl e \<Rightarrow> (Some e, s\<lparr>v_raftAddr := []\<rparr>) | Inr a \<Rightarrow> (None, s\<lparr>v_raftAddr := a\<rparr>))
      else (err, s))"

definition timeouts :: "MetaConfig \<Rightarrow> raft_timeouts" where
  "timeouts c = \<lparr>rt_HeartbeatTimeout = m_HeartbeatTimeout c, rt_ElectionTimeout = m_ElectionTimeout c,
     rt_LeaderLeaseTimeout = m_LeaderLeaseTimeout c, rt_CommitTimeout = m_CommitTimeout c\<rparr>"

definition listen_http :: "'w sys_lib \<Rightarrow> ('x, 'l) MetaService \<times> 'w \<Rightarrow> (svc_error + unit) \<times> (('x, 'l) MetaService \<times> 'w)" where
  "listen_http Y sw = (case sw of (s, w) \<Rightarrow>
     case (if v_https s then sys_LoadX509KeyPair Y (v_cert s) w else None) of
       Some e \<Rightarrow> (Inl (ErrCertificate e), (s, w))
     | None \<Rightarrow> (case sys_Listen Y (v_https s) (v_httpAddr s) w of
         (Inl e, w) \<Rightarrow> (Inl (ErrListen e), (s, w))
       | (Inr ln, w) \<Rightarrow> (Inr (), (s\<lparr>v_ln := Some ln\<rparr>, w))))"

text \<open>
  \<open>Open\<close>; \<open>od\<close> is the zero value of the open-source metadata, and \<open>evs\<close> and \<open>leaders\<close> are what the store sees while
  it waits for a leader.
\<close>

definition open_store :: "'w sys_lib \<Rightarrow> 'w raft_lib \<Rightarrow> (int \<Rightarrow> 'l) \<Rightarrow> 'x OssData \<Rightarrow> wait_event list \<Rightarrow> wait_event list list \<Rightarrow>
    ('x, 'l) MetaService \<times> 'w \<Rightarrow> ((svc_error + unit) \<times> (('x, 'l) MetaService \<times> 'w)) option" where
  "open_store Y L NewLeases od evs leaders sw = (case sw of (s, w) \<Rightarrow>
     let c = v_config s; st = newStore (m_RetentionAutoCreate c) (m_Dir c) (timeouts c) od (RemoteHTTPAddr s) (RemoteRaftAddr s) in
     case store_open L (sys_MkdirAll Y) evs leaders (st, w) of
       None \<Rightarrow> None
     | Some (Inl e, (st, w)) \<Rightarrow> Some (Inl (ErrStoreOp e), (s\<lparr>v_store := Some st\<rparr>, w))
     | Some (Inr u, (st, w)) \<Rightarrow>
         Some (Inr (), (s\<lparr>v_store := Some st, v_handler := Some (newHandler NewLeases c (v_version s) (RemoteHTTPAddr s))\<rparr>, w)))"

definition Service_Open :: "'w sys_lib \<Rightarrow> 'w raft_lib \<Rightarrow> (int \<Rightarrow> 'l) \<Rightarrow> 'x OssData \<Rightarrow> ln_round list \<Rightarrow> wait_event list \<Rightarrow> wait_event list list \<Rightarrow>
    ('x, 'l) MetaService \<times> 'w \<Rightarrow> ((svc_error + unit) \<times> (('x, 'l) MetaService \<times> 'w)) option" where
  "Service_Open Y L NewLeases od lns evs leaders sw =
     (if v_RaftListener (fst sw) = None then Some (Inl PanicNoRaftListener, sw)
      else case listen_http Y sw of
        (Inl e, sw) \<Rightarrow> Some (Inl e, sw)
      | (Inr u, (s, w)) \<Rightarrow>
        (case wait_listeners lns of
           None \<Rightarrow> None
         | Some (Inl e) \<Rightarrow> Some (Inl e, (s, w))
         | Some (Inr (lnAddr, raftLnAddr)) \<Rightarrow>
           (case assign_ports lnAddr raftLnAddr s of
              (Some e, s) \<Rightarrow> Some (Inl (ErrAddr e), (s, w))
            | (None, s) \<Rightarrow> open_store Y L NewLeases od evs leaders (s, w))))"

text \<open>\<open>Close\<close>: without a handler the call of its \<open>Close\<close> dereferences nil.\<close>

definition Service_Close :: "'w sys_lib \<Rightarrow> 'w raft_lib \<Rightarrow> ('x, 'l) MetaService \<times> 'w \<Rightarrow>
    ((svc_error + unit) \<times> (('x, 'l) MetaService \<times> 'w)) option" where
  "Service_Close Y L sw = (case sw of (s, w) \<Rightarrow>
     case (v_handler s, v_store s) of
       (Some h, Some st) \<Rightarrow>
         (let s = s\<lparr>v_handler := Some (handler_Close h)\<rparr> in
          case store_close L False (st, w) of
            None \<Rightarrow> None
          | Some (Inl e, (st, w)) \<Rightarrow> Some (Inl (ErrStoreOp e), (s\<lparr>v_store := Some st\<rparr>, w))
          | Some (Inr u, (st, w)) \<Rightarrow>
            (let s = s\<lparr>v_store := Some st\<rparr> in
             case v_ln s of
               None \<Rightarrow> Some (Inr (), (s, w))
             | Some ln \<Rightarrow> (case sys_CloseListener Y ln w of
                 (Inl e, w) \<Rightarrow> Some (Inl (ErrCloseListener e), (s, w))
               | (Inr u, w) \<Rightarrow> Some (Inr (), (s, w)))))
     | _ \<Rightarrow> Some (Inl PanicNilHandler, (s, w)))"

section \<open>Addresses of an open service\<close>

lemma remoteAddr_split:
  assumes "SplitHostPort addr = Inr (host, port)" "no_brackets (m_RemoteHostname c)" "\<not> wildcard (m_RemoteHostname c) \<or> m_RemoteHostname c = []"
  shows "\<exists>h. SplitHostPort (remoteAddr c addr) = Inr (h, port) \<and> \<not> wildcard h"
proof -
  let ?n = "if m_RemoteHostname c = [] then DefaultHostname else m_RemoteHostname c"
  have "no_brackets ?n" "\<not> wildcard ?n"
    using assms(2,3) by (auto simp: no_brackets_def wildcard_def DefaultHostname_def)
  from DefaultHost_splits[OF assms(1) this]
  obtain r where "DefaultHost ?n addr = Inr r" "SplitHostPort r = Inr (if wildcard host then ?n else host, port)" by blast
  then show ?thesis using \<open>\<not> wildcard ?n\<close> by (auto simp: remoteAddr_def)
qed

definition assigned :: "string \<Rightarrow> bool" where
  "assigned addr \<longleftrightarrow> (case SplitHostPort addr of Inl e \<Rightarrow> False | Inr (host, port) \<Rightarrow> port \<noteq> ''0'')"

definition usable :: "string \<Rightarrow> bool" where
  "usable addr \<longleftrightarrow> (case SplitHostPort addr of Inl e \<Rightarrow> False | Inr (host, port) \<Rightarrow> \<not> wildcard host \<and> port \<noteq> ''0'')"

lemma combine_assigned:
  assumes "combineHostAndAssignedPort ln auto = Inr a" "assigned ln"
  shows "assigned a"
proof -
  obtain host p h port where *: "SplitHostPort auto = Inr (host, p)" "SplitHostPort ln = Inr (h, port)" "a = JoinHostPort host port"
    using assms(1) by (auto simp: combineHostAndAssignedPort_def split: sum.splits)
  then have "SplitHostPort a = Inr (host, port)"
    using SplitHostPort_JoinHostPort SplitHostPort_host SplitHostPort_port by blast
  then show ?thesis using * assms(2) by (simp add: assigned_def)
qed

lemma not_auto_assigned: "\<not> autoAssignPort a \<Longrightarrow> \<exists>hp. SplitHostPort a = Inr hp \<Longrightarrow> assigned a"
  by (auto simp: autoAssignPort_def assigned_def)

lemma assign_ports_assigned:
  assumes "assign_ports a b s = (None, s')" "assigned a" "assigned b"
    "\<exists>hp. SplitHostPort (v_httpAddr s) = Inr hp" "\<exists>hp. SplitHostPort (v_raftAddr s) = Inr hp"
  shows "assigned (v_httpAddr s') \<and> assigned (v_raftAddr s') \<and> v_config s' = v_config s"
proof -
  obtain host p where "SplitHostPort (v_httpAddr s) = Inr (host, p)" using assms(4) by auto
  moreover obtain h port where "SplitHostPort a = Inr (h, port)" using assms(2) by (auto simp: assigned_def split: sum.splits)
  ultimately have c: "combineHostAndAssignedPort a (v_httpAddr s) = Inr (JoinHostPort host port)"
    by (simp add: combineHostAndAssignedPort_def)
  from combine_assigned[OF this assms(2)] show ?thesis
    using assms(1) combine_assigned[of b] assms(3) not_auto_assigned[OF _ assms(4)] not_auto_assigned[OF _ assms(5)]
    by (auto simp: assign_ports_def c split: if_splits sum.splits)
qed

lemma openRaft_addrs:
  "s_httpAddr (fst (snd (openRaft L (st, w)))) = s_httpAddr st \<and> s_raftAddr (fst (snd (openRaft L (st, w)))) = s_raftAddr st \<and>
   s_opened (fst (snd (openRaft L (st, w)))) = s_opened st"
  by (simp add: openRaft_def split: prod.split sum.split)

lemma store_open_addrs:
  assumes "store_open L mk evs rs (st, w) = Some (Inr u, (st', w'))"
  shows "s_httpAddr st' = s_httpAddr st \<and> s_raftAddr st' = s_raftAddr st \<and> s_opened st'"
proof -
  have "\<not> s_opened st" using assms by (auto simp: store_open_def setOpen_def)
  moreover from this obtain w1 where "mk (s_path st) w = (Inr (), w1)"
    using assms by (cases "mk (s_path st) w"; cases "fst (mk (s_path st) w)") (auto simp: store_open_def setOpen_def)
  moreover from calculation obtain x where "openRaft L (st\<lparr>s_opened := True\<rparr>, w1) = (Inr (), x)"
    using assms by (cases "openRaft L (st\<lparr>s_opened := True\<rparr>, w1)"; cases "fst (openRaft L (st\<lparr>s_opened := True\<rparr>, w1))")
      (auto simp: store_open_def setOpen_def)
  ultimately have "x = (st', w')" "openRaft L (st\<lparr>s_opened := True\<rparr>, w1) = (Inr (), x)"
    using assms by (auto simp: store_open_def setOpen_def split: option.splits sum.splits if_splits)
  then show ?thesis using openRaft_addrs[of L "st\<lparr>s_opened := True\<rparr>" w1] by simp
qed

lemma wait_listeners_seen:
  "wait_listeners lns = Some (Inr (a, b)) \<Longrightarrow> (\<exists>late. (Some a, Some b, late) \<in> set lns)"
  by (induction lns rule: wait_listeners.induct) (auto split: if_splits)

lemma remoteAddr_usable:
  assumes "assigned addr" "no_brackets (m_RemoteHostname c)" "\<not> wildcard (m_RemoteHostname c) \<or> m_RemoteHostname c = []"
  shows "usable (remoteAddr c addr)"
  using assms remoteAddr_split[of addr _ _ c] by (force simp: assigned_def usable_def split: sum.splits)

lemma open_store_ok:
  assumes "open_store Y L NL od evs leaders (s, w) = Some (Inr u, (s', w'))"
  shows "\<exists>st h. v_store s' = Some st \<and> v_handler s' = Some h \<and> s_opened st \<and> s_httpAddr st = RemoteHTTPAddr s \<and>
    s_raftAddr st = RemoteRaftAddr s \<and> h_remoteAddr h = s_httpAddr st"
  using assms
  by (auto simp: open_store_def Let_def newHandler_def newStore_def dest!: store_open_addrs split: option.splits sum.splits)


definition sys0 :: "(bool \<times> string list) sys_lib" where
  "sys0 = \<lparr>sys_LoadX509KeyPair = (\<lambda>c w. None), sys_Listen = (\<lambda>tls a w. (Inr 1, w)), sys_CloseListener = (\<lambda>n w. (Inr (), w)),
     sys_MkdirAll = (\<lambda>p w. (Inr (), w))\<rparr>"

definition service1 :: "(unit, unit) MetaService" where
  "service1 = (NewService (NewConfig\<lparr>m_HTTPBindAddress := '':0'', m_RemoteHostname := ''meta1''\<rparr>))\<lparr>v_RaftListener := Some 0\<rparr>"

lemma service1_opens:
  "\<exists>s'. Service_Open sys0 L0 (\<lambda>d. ()) od1 [(None, Some ''[::]:8088'', False), (Some ''[::]:4711'', Some ''[::]:8088'', False)]
     [EvTick ''meta1:8088''] [[EvTick ''meta1:8088'']] (service1, (True, [''meta1:8088''])) = Some (Inr (), (s', (True, [''meta1:8088'']))) \<and>
     v_httpAddr s' = '':4711''"
  by (simp add: Service_Open_def listen_http_def sys0_def service1_def NewService_def assign_ports_def autoAssignPort_def
      combineHostAndAssignedPort_def SplitHostPort_def JoinHostPort_def open_store_def store_open_def setOpen_def openRaft_def rs_open_def
      newStore_def newRaftState_def rs_peers_def rs_removePeer_def L0_def Let_def NewConfig_def DefaultRaftBindAddress_def RemoteRaftAddr_def RemoteHTTPAddr_def
      remoteAddr_def DefaultHost_def wildcard_def)


section \<open>Paths\<close>

text \<open>\<open>filepath.Clean\<close>, \<open>filepath.Dir\<close> and \<open>filepath.Join\<close> for slash-separated paths.\<close>

fun split_on :: "char \<Rightarrow> string \<Rightarrow> string list" where
  "split_on c [] = [[]]"
| "split_on c (x # xs) = (if x = c then [] # split_on c xs else (case split_on c xs of y # ys \<Rightarrow> (x # y) # ys | [] \<Rightarrow> [[x]]))"

fun clean_parts :: "bool \<Rightarrow> string list \<Rightarrow> string list \<Rightarrow> string list" where
  "clean_parts rooted stack [] = rev stack"
| "clean_parts rooted stack (p # ps) =
     (if p = [] \<or> p = ''.'' then clean_parts rooted stack ps
      else if p = ''..'' then
        (case stack of
           t # ts \<Rightarrow> if t \<noteq> ''..'' then clean_parts rooted ts ps else clean_parts rooted (p # stack) ps
         | [] \<Rightarrow> if rooted then clean_parts rooted [] ps else clean_parts rooted [p] ps)
      else clean_parts rooted (p # stack) ps)"

definition Clean :: "string \<Rightarrow> string" where
  "Clean path =
     (let rooted = (take 1 path = ''/'');
          out = (if rooted then ''/'' else []) @ join_with ''/'' (clean_parts rooted [] (split_on CHR ''/'' path)) in
      if out = [] then ''.'' else out)"

definition Dir :: "string \<Rightarrow> string" where
  "Dir path = Clean (case split_last CHR ''/'' path of None \<Rightarrow> [] | Some (d, b) \<Rightarrow> d @ ''/'')"

definition Join :: "string list \<Rightarrow> string" where
  "Join elems = (let es = filter (\<lambda>e. e \<noteq> []) elems in if es = [] then [] else Clean (join_with ''/'' es))"

section \<open>Server of a meta node\<close>

datatype srv_error =
    ErrMkdirAll meta_error
  | ErrRename string
  | ErrLoadNode string
  | ErrSrvListen string
  | ErrClient cl_error
  | ErrSvc svc_error
  | SrvPanic

datatype load_error = NotExist string | LoadFailed string

text \<open>
  The files of a node: \<open>os.Stat\<close> and \<open>os.Rename\<close>, \<open>LoadNode\<close> and \<open>Save\<close> of the open-source package, and \<open>ioutil.ReadFile\<close>.
  \<open>Save\<close> of a nil node is \<open>None\<close> where it panics; its error is dropped.
\<close>

record ('n, 'w) node_lib =
  nl_Stat :: "string \<Rightarrow> 'w \<Rightarrow> bool"
  nl_Rename :: "string \<Rightarrow> string \<Rightarrow> 'w \<Rightarrow> (string + unit) \<times> 'w"
  nl_LoadNode :: "string \<Rightarrow> 'w \<Rightarrow> load_error + 'n"
  nl_ReadFile :: "string \<Rightarrow> 'w \<Rightarrow> string + string"
  nl_Save :: "'n option \<Rightarrow> 'w \<Rightarrow> 'w option"

record BuildInfo =
  bi_Version :: string
  bi_Commit :: string
  bi_Branch :: string

record ('x, 'l) MetaServer =
  z_buildInfo :: BuildInfo
  z_closing :: bool
  z_BindAddress :: string
  z_Listener :: "nat option"
  z_MetaClient :: "'x Client"
  z_Service :: "('x, 'l) MetaService"
  z_httpAPIAddr :: string
  z_config :: MetaConfig

definition save_node :: "('n, 'w) node_lib \<Rightarrow> string \<Rightarrow> 'n option \<Rightarrow> 'w \<Rightarrow> 'w option" where
  "save_node F newPath node w = (case nl_ReadFile F (Join [newPath]) w of
     Inr buf \<Rightarrow> Some w
   | Inl e \<Rightarrow> if \<not> contains [] ''path'' then nl_Save F node w else Some w)"

definition meta_NewServer :: "'w sys_lib \<Rightarrow> ('n, 'w) node_lib \<Rightarrow> MetaConfig \<Rightarrow> BuildInfo \<Rightarrow> 'w \<Rightarrow> (srv_error + ('x, 'l) MetaServer) \<times> 'w" where
  "meta_NewServer Y F c buildInfo w =
     (case sys_MkdirAll Y (m_Dir c) w of
        (Inl e, w) \<Rightarrow> (Inl (ErrMkdirAll e), w)
      | (Inr u, w) \<Rightarrow>
        (let oldPath = Join [Dir (m_Dir c), ''node.json'']; newPath = Join [m_Dir c, ''node.json''] in
         case (if nl_Stat F oldPath w then nl_Rename F oldPath newPath w else (Inr (), w)) of
           (Inl e, w) \<Rightarrow> (Inl (ErrRename e), w)
         | (Inr u, w) \<Rightarrow>
           (case nl_LoadNode F (m_Dir c) w of
              Inl (NotExist e) \<Rightarrow> (Inl (ErrLoadNode e), w)
            | r \<Rightarrow>
              (case save_node F newPath (case r of Inl e \<Rightarrow> None | Inr n \<Rightarrow> Some n) w of
                 None \<Rightarrow> (Inl SrvPanic, w)
               | Some w \<Rightarrow> (Inr \<lparr>z_buildInfo = buildInfo, z_closing = False, z_BindAddress = m_BindAddress c, z_Listener = None,
                     z_MetaClient = NewClient, z_Service = NewService c, z_httpAPIAddr = m_HTTPBindAddress c, z_config = c\<rparr>, w)))))"

text \<open>
  \<open>initializeMetaClient\<close> sets the servers to nil; the result of its \<open>Open\<close> is dropped, but not a panic. \<open>WaitForDataChanged\<close>
  only returns a channel.
\<close>

definition initializeMetaClient :: "('x, 'k, 'w) cl_lib \<Rightarrow> (nat \<Rightarrow> bool) \<Rightarrow> ('x, 'l) MetaServer \<times> 'w \<Rightarrow>
    ((srv_error + unit) \<times> (('x, 'l) MetaServer \<times> 'w)) option" where
  "initializeMetaClient P closed sw = (case sw of (s, w) \<Rightarrow>
     let c = SetAuthInfo (m_RemoteHostname (z_config s)) (SetTLS (m_HTTPSEnabled (z_config s)) (SetMetaServers [] (z_MetaClient s))) in
     case client_Open P closed (c, w) of
       None \<Rightarrow> None
     | Some (r, (c, w)) \<Rightarrow> Some (if r = Inl ClPanic then Inl SrvPanic else Inr (), (s\<lparr>z_MetaClient := c\<rparr>, w)))"

text \<open>\<open>Open\<close> of the server; \<open>sopen\<close> is \<open>Service_Open\<close> with what the service sees while it starts.\<close>

definition meta_Server_Open :: "'w sys_lib \<Rightarrow> ('x, 'k, 'w) cl_lib \<Rightarrow> (nat \<Rightarrow> bool) \<Rightarrow>
    (('x, 'l) MetaService \<times> 'w \<Rightarrow> ((svc_error + unit) \<times> (('x, 'l) MetaService \<times> 'w)) option) \<Rightarrow>
    ('x, 'l) MetaServer \<times> 'w \<Rightarrow> ((srv_error + unit) \<times> (('x, 'l) MetaServer \<times> 'w)) option" where
  "meta_Server_Open Y P closed sopen sw = (case sw of (s, w) \<Rightarrow>
     case sys_Listen Y False (z_BindAddress s) w of
       (Inl e, w) \<Rightarrow> Some (Inl (ErrSrvListen e), (s, w))
     | (Inr ln, w) \<Rightarrow>
       (case initializeMetaClient P closed (s\<lparr>z_Listener := Some ln\<rparr>, w) of
          None \<Rightarrow> None
        | Some (Inl e, sw) \<Rightarrow> Some (Inl e, sw)
        | Some (Inr u, (s, w)) \<Rightarrow>
          (case client_Open P closed (z_MetaClient s, w) of
             None \<Rightarrow> None
           | Some (Inl e, (c, w)) \<Rightarrow> Some (Inl (ErrClient e), (s\<lparr>z_MetaClient := c\<rparr>, w))
           | Some (Inr u, (c, w)) \<Rightarrow>
             (case sopen (z_Service s, w) of
                None \<Rightarrow> None
              | Some (Inl e, (v, w)) \<Rightarrow> Some (Inl (ErrSvc e), (s\<lparr>z_MetaClient := c, z_Service := v\<rparr>, w))
              | Some (Inr u, (v, w)) \<Rightarrow> Some (Inr (), (s\<lparr>z_MetaClient := c, z_Service := v\<rparr>, w))))))"

text \<open>\<open>Close\<close> drops the errors of what it closes; panics end it.\<close>

definition svc_panics :: "svc_error + unit \<Rightarrow> bool" where
  "svc_panics r \<longleftrightarrow> r = Inl PanicNilHandler \<or> r = Inl (ErrStoreOp MetaPanic)"

definition meta_Server_Close :: "'w sys_lib \<Rightarrow> 'w raft_lib \<Rightarrow> ('x, 'l) MetaServer \<times> 'w \<Rightarrow> ((srv_error + unit) \<times> (('x, 'l) MetaServer \<times> 'w)) option" where
  "meta_Server_Close Y L sw = (case sw of (s, w) \<Rightarrow>
     let w = (case z_Listener s of None \<Rightarrow> w | Some ln \<Rightarrow> snd (sys_CloseListener Y ln w)) in
     case client_Close (z_MetaClient s) of
       (Inl e, c) \<Rightarrow> Some (Inl SrvPanic, (s, w))
     | (Inr u, c) \<Rightarrow>
       (let s = s\<lparr>z_MetaClient := c\<rparr> in
        case Service_Close Y L (z_Service s, w) of
          None \<Rightarrow> None
        | Some (r, (v, w)) \<Rightarrow>
          (let s = s\<lparr>z_Service := v\<rparr> in
           if svc_panics r \<or> z_closing s then Some (Inl SrvPanic, (s, w))
           else Some (Inr (), (s\<lparr>z_closing := True\<rparr>, w)))))"

section \<open>A meta node cannot start\<close>

lemma client_Open_without_servers:
  assumes "c_metaServers c = []" "\<not> closed 0"
  shows "client_Open P closed (c, w) = Some (Inl ClPanic, (c\<lparr>c_changed := 0, c_closing := Some False\<rparr>, w))"
  using assms by (simp add: client_Open_def retryUntilSnapshot_def snapshot_loop.simps Let_def)

lemma meta_Server_Open_outcome:
  assumes "\<not> closed 0"
  shows "meta_Server_Open Y P closed sopen (s, w) = Some (case sys_Listen Y False (z_BindAddress s) w of
      (Inl e, w') \<Rightarrow> (Inl (ErrSrvListen e), (s, w'))
    | (Inr ln, w') \<Rightarrow> (Inl SrvPanic, (s\<lparr>z_Listener := Some ln,
         z_MetaClient := (SetAuthInfo (m_RemoteHostname (z_config s)) (SetTLS (m_HTTPSEnabled (z_config s)) (SetMetaServers [] (z_MetaClient s))))
           \<lparr>c_changed := 0, c_closing := Some False\<rparr>\<rparr>, w')))"
  using assms
  by (simp add: meta_Server_Open_def initializeMetaClient_def client_Open_without_servers SetAuthInfo_def SetTLS_def SetMetaServers_def Let_def
      split: prod.split sum.split)

end
