(* ===== verification/Data_Server.thy ===== *)
theory Data_Server
  imports Meta_Client_Ops Meta_Service Points_Writer
begin

text \<open>
  The configuration (\<open>src/cmd/influxd/run/config.go\<close>) and the server (\<open>src/cmd/influxd/run/server.go\<close>,
  \<open>src/cmd/influxd/run/server_dataonly.go\<close>) of a data node. The configurations and services of the open-source packages are
  values of the opaque types \<open>'o\<close> and \<open>'v\<close>, made and used by the functions of the records \<open>cfg_lib\<close> and \<open>ds_lib\<close>. The
  functions \<open>appendMonitorService\<close>, \<open>appendPrecreatorService\<close>, \<open>appendSnapshotterService\<close>, \<open>appendAdminService\<close>,
  \<open>appendContinuousQueryService\<close> and \<open>appendRetentionPolicyService\<close> are not in the repository; \<open>ds_Missing\<close> gives the services
  they append. Loggers, the wiring of services to each other and the snapshot listener are left out.
\<close>

section \<open>Cluster configuration\<close>

text \<open>The configuration of \<open>src/cluster/config.go\<close>; the default query timeout is a constant of the query package.\<close>

record ClusterConfig =
  cc_DialTimeout :: int
  cc_ShardWriterTimeout :: int
  cc_ShardReaderTimeout :: int
  cc_MaxRemoteWriteConnections :: int
  cc_ClusterTracing :: bool
  cc_WriteTimeout :: int
  cc_MaxConcurrentQueries :: int
  cc_QueryTimeout :: int
  cc_LogQueriesAfter :: int
  cc_MaxSelectPointN :: int
  cc_MaxSelectSeriesN :: int
  cc_MaxSelectBucketsN :: int

definition cluster_NewConfig :: "int \<Rightarrow> ClusterConfig" where
  "cluster_NewConfig DefaultQueryTimeout =
     \<lparr>cc_DialTimeout = 1000000000, cc_ShardWriterTimeout = 5 * 1000000000, cc_ShardReaderTimeout = 5 * 1000000000,
      cc_MaxRemoteWriteConnections = 3, cc_ClusterTracing = False, cc_WriteTimeout = DefaultWriteTimeout, cc_MaxConcurrentQueries = 0,
      cc_QueryTimeout = DefaultQueryTimeout, cc_LogQueriesAfter = 0, cc_MaxSelectPointN = 0, cc_MaxSelectSeriesN = 0,
      cc_MaxSelectBucketsN = 0\<rparr>"

definition zero_ClusterConfig :: ClusterConfig where
  "zero_ClusterConfig =
     \<lparr>cc_DialTimeout = 0, cc_ShardWriterTimeout = 0, cc_ShardReaderTimeout = 0, cc_MaxRemoteWriteConnections = 0,
      cc_ClusterTracing = False, cc_WriteTimeout = 0, cc_MaxConcurrentQueries = 0, cc_QueryTimeout = 0, cc_LogQueriesAfter = 0,
      cc_MaxSelectPointN = 0, cc_MaxSelectSeriesN = 0, cc_MaxSelectBucketsN = 0\<rparr>"

section \<open>Configuration\<close>

text \<open>
  The struct has a field \<open>Cluster\<close> that \<open>NewConfig\<close> leaves at its zero value, and no field \<open>Coordinator\<close>, which \<open>NewConfig\<close> sets
  and the server reads; the record has both.
\<close>

datatype pkg = Tsdb | Coordinator | Retention | Precreator | Admin | MonitorPkg | SubscriberPkg | Httpd | Graphite | Collectd
  | Opentsdb | Udp | ContinuousQuerier

record DataMetaConfig =
  dm_MetaTLSEnabled :: bool
  dm_MetaInsecureTls :: bool
  dm_MetaAuthEnabled :: bool
  dm_MetaInternalSharedSecret :: string
  dm_Dir :: string
  dm_RetentionAutoCreate :: bool
  dm_LoggingEnabled :: bool

record 'o DataConfig =
  dc_Meta :: DataMetaConfig
  dc_Data :: 'o
  dc_Cluster :: ClusterConfig
  dc_Coordinator :: 'o
  dc_Retention :: 'o
  dc_Precreator :: 'o
  dc_Admin :: 'o
  dc_Monitor :: 'o
  dc_Subscriber :: 'o
  dc_HTTPD :: 'o
  dc_GraphiteInputs :: "'o list"
  dc_CollectdInputs :: "'o list"
  dc_OpenTSDBInputs :: "'o list"
  dc_UDPInputs :: "'o list"
  dc_ContinuousQuery :: 'o
  dc_ReportingDisabled :: bool
  dc_BindAddress :: string

record 'o cfg_lib =
  cf_NewConfig :: "pkg \<Rightarrow> 'o"
  cf_Validate :: "pkg \<Rightarrow> 'o \<Rightarrow> string option"
  cf_ValidateMeta :: "DataMetaConfig \<Rightarrow> string option"
  cf_SetDirs :: "string \<Rightarrow> string \<Rightarrow> 'o \<Rightarrow> 'o"
  cf_DataDir :: "'o \<Rightarrow> string"
  cf_BindAddress :: "'o \<Rightarrow> string"
  cf_WriteTimeout :: "'o \<Rightarrow> int"
  cf_Decode :: "string \<Rightarrow> 'o DataConfig \<Rightarrow> (string + unit) \<times> 'o DataConfig"

definition DefaultBindAddress :: string where "DefaultBindAddress = '':8088''"

definition data_NewConfig :: "'o cfg_lib \<Rightarrow> 'o DataConfig" where
  "data_NewConfig G =
     \<lparr>dc_Meta = \<lparr>dm_MetaTLSEnabled = False, dm_MetaInsecureTls = False, dm_MetaAuthEnabled = False, dm_MetaInternalSharedSecret = [],
        dm_Dir = ''/var/lib/influxdb/meta'', dm_RetentionAutoCreate = True, dm_LoggingEnabled = True\<rparr>,
      dc_Data = cf_NewConfig G Tsdb, dc_Cluster = zero_ClusterConfig, dc_Coordinator = cf_NewConfig G Coordinator,
      dc_Retention = cf_NewConfig G Retention,
      dc_Precreator = cf_NewConfig G Precreator, dc_Admin = cf_NewConfig G Admin, dc_Monitor = cf_NewConfig G MonitorPkg,
      dc_Subscriber = cf_NewConfig G SubscriberPkg, dc_HTTPD = cf_NewConfig G Httpd, dc_GraphiteInputs = [cf_NewConfig G Graphite],
      dc_CollectdInputs = [cf_NewConfig G Collectd], dc_OpenTSDBInputs = [cf_NewConfig G Opentsdb], dc_UDPInputs = [cf_NewConfig G Udp],
      dc_ContinuousQuery = cf_NewConfig G ContinuousQuerier, dc_ReportingDisabled = False, dc_BindAddress = DefaultBindAddress\<rparr>"

text \<open>\<open>NewDemoConfig\<close> with the home directory of the current user, if it is known, and the variable \<open>HOME\<close>.\<close>

definition data_NewDemoConfig :: "'o cfg_lib \<Rightarrow> string option \<Rightarrow> string \<Rightarrow> string + 'o DataConfig" where
  "data_NewDemoConfig G current HOME =
     (let c = data_NewConfig G in
      case (case current of Some h \<Rightarrow> Some h | None \<Rightarrow> if HOME \<noteq> [] then Some HOME else None) of
        None \<Rightarrow> Inl ''failed to determine current user for storage''
      | Some homeDir \<Rightarrow> Inr (c\<lparr>dc_Meta := (dc_Meta c)\<lparr>dm_Dir := Join [homeDir, ''.influxdb/meta'']\<rparr>,
            dc_Data := cf_SetDirs G (Join [homeDir, ''.influxdb/data'']) (Join [homeDir, ''.influxdb/wal'']) (dc_Data c)\<rparr>))"

definition BOM :: string where "BOM = [CHR 0xEF, CHR 0xBB, CHR 0xBF]"

definition trimBOM :: "string \<Rightarrow> string" where
  "trimBOM f = (if take 3 f = BOM then drop 3 f else f)"

text \<open>
  \<open>FromToml\<close> replaces every match of the regular expression \<open>(?m)^\s*\[cluster\]\<close>, leftmost first, before the text is
  decoded. The flag of \<open>replace_cluster\<close> is whether the position is the beginning of a line.
\<close>

definition space :: "char \<Rightarrow> bool" where
  "space c \<longleftrightarrow> c \<in> {CHR '' '', CHR 0x09, CHR 0x0A, CHR 0x0C, CHR 0x0D}"

definition cluster_head :: string where "cluster_head = ''[cluster]''"

definition cluster_at :: "string \<Rightarrow> string option" where
  "cluster_at s = (let r = dropWhile space s in if take 9 r = cluster_head then Some (drop 9 r) else None)"

lemma cluster_at_shorter: "cluster_at s = Some r \<Longrightarrow> length r < length s"
proof -
  assume *: "cluster_at s = Some r"
  have "length (dropWhile space s) \<le> length s" by (rule length_dropWhile_le)
  then show ?thesis using * by (cases "dropWhile space s") (auto simp: cluster_at_def cluster_head_def Let_def split: if_splits)
qed

function replace_cluster :: "bool \<Rightarrow> string \<Rightarrow> string" where
  "replace_cluster bol s =
     (case (if bol then cluster_at s else None) of
        Some r \<Rightarrow> ''[coordinator]'' @ replace_cluster False r
      | None \<Rightarrow> (case s of [] \<Rightarrow> [] | c # s' \<Rightarrow> c # replace_cluster (c = CHR 0x0A) s'))"
  by pat_completeness auto
termination
  by (relation "measure (\<lambda>(bol, s). length s)") (auto dest: cluster_at_shorter split: if_splits)

declare replace_cluster.simps [simp del]

definition FromToml :: "'o cfg_lib \<Rightarrow> string \<Rightarrow> 'o DataConfig \<Rightarrow> (string + unit) \<times> 'o DataConfig" where
  "FromToml G input c = cf_Decode G (replace_cluster True input) c"

definition FromTomlFile :: "'o cfg_lib \<Rightarrow> (string \<Rightarrow> string + string) \<Rightarrow> string \<Rightarrow> 'o DataConfig \<Rightarrow> (string + unit) \<times> 'o DataConfig" where
  "FromTomlFile G ReadFile fpath c = (case ReadFile fpath of Inl e \<Rightarrow> (Inl e, c) | Inr bs \<Rightarrow> FromToml G (trimBOM bs) c)"

fun validate_all :: "('o \<Rightarrow> string option) \<Rightarrow> string \<Rightarrow> 'o list \<Rightarrow> string option" where
  "validate_all f msg [] = None"
| "validate_all f msg (c # cs) = (case f c of Some e \<Rightarrow> Some (msg @ e) | None \<Rightarrow> validate_all f msg cs)"

definition or_else :: "string option \<Rightarrow> string option \<Rightarrow> string option" where
  "or_else a b = (case a of Some e \<Rightarrow> Some e | None \<Rightarrow> b)"

definition data_Validate :: "'o cfg_lib \<Rightarrow> 'o DataConfig \<Rightarrow> string option" where
  "data_Validate G c =
     or_else (cf_ValidateMeta G (dc_Meta c))
    (or_else (cf_Validate G Tsdb (dc_Data c))
    (or_else (cf_Validate G MonitorPkg (dc_Monitor c))
    (or_else (cf_Validate G SubscriberPkg (dc_Subscriber c))
    (or_else (validate_all (cf_Validate G Graphite) ''invalid graphite config: '' (dc_GraphiteInputs c))
             (validate_all (cf_Validate G Collectd) ''invalid collectd config: '' (dc_CollectdInputs c))))))"

section \<open>Server\<close>

datatype ds_error =
    DsMkdirAll meta_error
  | DsListen string
  | DsService string
  | DsTSDBStore string
  | DsSubscriber string
  | DsOpenService string
  | DsPanic

record ('o, 'v, 't, 'w) ds_lib =
  ds_Enabled :: "pkg \<Rightarrow> 'o \<Rightarrow> bool"
  ds_New :: "pkg \<Rightarrow> 'o \<Rightarrow> 'v"
  ds_NewService :: "pkg \<Rightarrow> 'o \<Rightarrow> string + 'v"
  ds_Missing :: "string \<Rightarrow> 'o DataConfig \<Rightarrow> 'v list"
  ds_OpenService :: "'v \<Rightarrow> 'w \<Rightarrow> (string + unit) \<times> 'w"
  ds_CloseService :: "'v \<Rightarrow> 'w \<Rightarrow> 'w"
  ds_OpenStore :: "'w \<Rightarrow> (string + unit) \<times> 'w"
  ds_CloseStore :: "'w \<Rightarrow> 'w"
  ds_OpenSubscriber :: "'w \<Rightarrow> (string + unit) \<times> 'w"
  ds_CloseSubscriber :: "'w \<Rightarrow> 'w"
  ds_CloseQueryExecutor :: "'w \<Rightarrow> 'w"
  ds_Points :: nat
  ds_Reports :: "'v \<Rightarrow> ('w \<Rightarrow> 't list) option"
  ds_PointsWriterStatistics :: "pw_stats \<Rightarrow> 't list"
  ds_StoreStatistics :: "'w \<Rightarrow> 't list"
  ds_SubscriberStatistics :: "'w \<Rightarrow> 't list"
  ds_SeriesCounts :: "string \<Rightarrow> 'w \<Rightarrow> (int \<times> int) option"

record ('x, 'o, 'v) DataServer =
  sv_closing :: bool
  sv_BindAddress :: string
  sv_Listener :: "nat option"
  sv_MetaClient :: "'x Client"
  sv_PointsWriter :: PointsWriter
  sv_Services :: "'v list"
  sv_reportingDisabled :: bool
  sv_httpAPIAddr :: string
  sv_tcpAddr :: string
  sv_config :: "'o DataConfig"

definition data_NewServer :: "'w sys_lib \<Rightarrow> 'o cfg_lib \<Rightarrow> ('o, 'v, 't, 'w) ds_lib \<Rightarrow> 'o DataConfig \<Rightarrow> 'w \<Rightarrow>
    (ds_error + ('x, 'o, 'v) DataServer) \<times> 'w" where
  "data_NewServer Y G D c w =
     (case sys_MkdirAll Y (cf_DataDir G (dc_Data c)) w of
        (Inl e, w) \<Rightarrow> (Inl (DsMkdirAll e), w)
      | (Inr u, w) \<Rightarrow>
        (Inr \<lparr>sv_closing = False, sv_BindAddress = dc_BindAddress c, sv_Listener = None,
           sv_MetaClient = SetPath (dm_Dir (dc_Meta c)) (SetTLS (dm_MetaTLSEnabled (dc_Meta c)) NewClient),
           sv_PointsWriter = NewPointsWriter\<lparr>w_WriteTimeout := cf_WriteTimeout G (dc_Coordinator c), w_Subscriber := Some (ds_Points D)\<rparr>, sv_Services = [],
           sv_reportingDisabled = dc_ReportingDisabled c, sv_httpAPIAddr = cf_BindAddress G (dc_HTTPD c), sv_tcpAddr = dc_BindAddress c,
           sv_config = c\<rparr>, w))"

definition Statistics :: "('o, 'v, 't, 'w) ds_lib \<Rightarrow> ('x, 'o, 'v) DataServer \<Rightarrow> 'w \<Rightarrow> 't list" where
  "Statistics D s w =
     ds_PointsWriterStatistics D (w_stats (sv_PointsWriter s)) @ ds_StoreStatistics D w @
     ds_PointsWriterStatistics D (w_stats (sv_PointsWriter s)) @ ds_SubscriberStatistics D w @
     concat (map (\<lambda>srv. case ds_Reports D srv of None \<Rightarrow> [] | Some f \<Rightarrow> f w) (sv_Services s))"

definition append_services :: "'v list \<Rightarrow> ('x, 'o, 'v) DataServer \<Rightarrow> ('x, 'o, 'v) DataServer" where
  "append_services vs s = s\<lparr>sv_Services := sv_Services s @ vs\<rparr>"

text \<open>
  \<open>append*Service\<close>: nothing for a disabled configuration. The constructors of graphite and opentsdb can fail, the others
  cannot.
\<close>

definition appendHTTPDService :: "('o, 'v, 't, 'w) ds_lib \<Rightarrow> 'o \<Rightarrow> ('x, 'o, 'v) DataServer \<Rightarrow> ('x, 'o, 'v) DataServer" where
  "appendHTTPDService D c s = (if \<not> ds_Enabled D Httpd c then s else append_services [ds_New D Httpd c] s)"

definition appendCollectdService :: "('o, 'v, 't, 'w) ds_lib \<Rightarrow> 'o \<Rightarrow> ('x, 'o, 'v) DataServer \<Rightarrow> ('x, 'o, 'v) DataServer" where
  "appendCollectdService D c s = (if \<not> ds_Enabled D Collectd c then s else append_services [ds_New D Collectd c] s)"

definition appendUDPService :: "('o, 'v, 't, 'w) ds_lib \<Rightarrow> 'o \<Rightarrow> ('x, 'o, 'v) DataServer \<Rightarrow> ('x, 'o, 'v) DataServer" where
  "appendUDPService D c s = (if \<not> ds_Enabled D Udp c then s else append_services [ds_New D Udp c] s)"

definition appendOpenTSDBService :: "('o, 'v, 't, 'w) ds_lib \<Rightarrow> 'o \<Rightarrow> ('x, 'o, 'v) DataServer \<Rightarrow> (ds_error + unit) \<times> ('x, 'o, 'v) DataServer" where
  "appendOpenTSDBService D c s =
     (if \<not> ds_Enabled D Opentsdb c then (Inr (), s)
      else case ds_NewService D Opentsdb c of Inl e \<Rightarrow> (Inl (DsService e), s) | Inr v \<Rightarrow> (Inr (), append_services [v] s))"

definition appendGraphiteService :: "('o, 'v, 't, 'w) ds_lib \<Rightarrow> 'o \<Rightarrow> ('x, 'o, 'v) DataServer \<Rightarrow> (ds_error + unit) \<times> ('x, 'o, 'v) DataServer" where
  "appendGraphiteService D c s =
     (if \<not> ds_Enabled D Graphite c then (Inr (), s)
      else case ds_NewService D Graphite c of Inl e \<Rightarrow> (Inl (DsService e), s) | Inr v \<Rightarrow> (Inr (), append_services [v] s))"

fun append_inputs :: "('o \<Rightarrow> ('x, 'o, 'v) DataServer \<Rightarrow> (ds_error + unit) \<times> ('x, 'o, 'v) DataServer) \<Rightarrow> 'o list \<Rightarrow>
    ('x, 'o, 'v) DataServer \<Rightarrow> (ds_error + unit) \<times> ('x, 'o, 'v) DataServer" where
  "append_inputs f [] s = (Inr (), s)"
| "append_inputs f (c # cs) s = check (f c s) (\<lambda>u s. append_inputs f cs s)"

definition append_all :: "('o, 'v, 't, 'w) ds_lib \<Rightarrow> ('x, 'o, 'v) DataServer \<Rightarrow> (ds_error + unit) \<times> ('x, 'o, 'v) DataServer" where
  "append_all D s =
     (let c = sv_config s;
          s = append_services (ds_Missing D ''Monitor'' c) s;
          s = append_services (ds_Missing D ''Precreator'' c) s;
          s = append_services (ds_Missing D ''Snapshotter'' c) s;
          s = append_services (ds_Missing D ''Admin'' c) s;
          s = append_services (ds_Missing D ''ContinuousQuery'' c) s in
      let s = appendHTTPDService D (dc_HTTPD c) s;
          s = append_services (ds_Missing D ''RetentionPolicy'' c) s in
      check (append_inputs (appendGraphiteService D) (dc_GraphiteInputs c) s) (\<lambda>u s.
      let s = fold (appendCollectdService D) (dc_CollectdInputs c) s in
      check (append_inputs (appendOpenTSDBService D) (dc_OpenTSDBInputs c) s) (\<lambda>u s.
      (Inr (), fold (appendUDPService D) (dc_UDPInputs c) s))))"

fun open_services :: "('o, 'v, 't, 'w) ds_lib \<Rightarrow> 'v list \<Rightarrow> 'w \<Rightarrow> (ds_error + unit) \<times> 'w" where
  "open_services D [] w = (Inr (), w)"
| "open_services D (v # vs) w = (case ds_OpenService D v w of
     (Inl e, w) \<Rightarrow> (Inl (DsOpenService e), w) | (Inr u, w) \<Rightarrow> open_services D vs w)"

definition open_parts :: "('o, 'v, 't, 'w) ds_lib \<Rightarrow> ('x, 'o, 'v) DataServer \<times> 'w \<Rightarrow> (ds_error + unit) \<times> (('x, 'o, 'v) DataServer \<times> 'w)" where
  "open_parts D sw = (case sw of (s, w) \<Rightarrow>
     case ds_OpenStore D w of
       (Inl e, w) \<Rightarrow> (Inl (DsTSDBStore e), (s, w))
     | (Inr u, w) \<Rightarrow>
       (case ds_OpenSubscriber D w of
          (Inl e, w) \<Rightarrow> (Inl (DsSubscriber e), (s, w))
        | (Inr u, w) \<Rightarrow>
          (let s = s\<lparr>sv_PointsWriter := pw_Open (sv_PointsWriter s)\<rparr> in
           case open_services D (sv_Services s) w of (r, w) \<Rightarrow> (r, (s, w)))))"

definition data_Server_Open :: "'w sys_lib \<Rightarrow> ('o, 'v, 't, 'w) ds_lib \<Rightarrow> ('x, 'o, 'v) DataServer \<times> 'w \<Rightarrow>
    (ds_error + unit) \<times> (('x, 'o, 'v) DataServer \<times> 'w)" where
  "data_Server_Open Y D sw = (case sw of (s, w) \<Rightarrow>
     case sys_Listen Y False (sv_BindAddress s) w of
       (Inl e, w) \<Rightarrow> (Inl (DsListen e), (s, w))
     | (Inr ln, w) \<Rightarrow>
       (case append_all D (s\<lparr>sv_Listener := Some ln\<rparr>) of
          (Inl e, s) \<Rightarrow> (Inl e, (s, w))
        | (Inr u, s) \<Rightarrow> open_parts D (s, w)))"

text \<open>\<open>Close\<close>: errors are dropped, a panic of the points writer or the meta client ends it.\<close>

definition data_Server_Close :: "'w sys_lib \<Rightarrow> ('o, 'v, 't, 'w) ds_lib \<Rightarrow> ('x, 'o, 'v) DataServer \<times> 'w \<Rightarrow>
    (ds_error + unit) \<times> (('x, 'o, 'v) DataServer \<times> 'w)" where
  "data_Server_Close Y D sw = (case sw of (s, w) \<Rightarrow>
     let w = (case sv_Listener s of None \<Rightarrow> w | Some ln \<Rightarrow> snd (sys_CloseListener Y ln w));
         w = fold (ds_CloseService D) (sv_Services s) w in
     case pw_Close (sv_PointsWriter s) of
       (Inl e, p) \<Rightarrow> (Inl DsPanic, (s, w))
     | (Inr u, p) \<Rightarrow>
       (let s = s\<lparr>sv_PointsWriter := p\<rparr>;
            w = ds_CloseQueryExecutor D w; w = ds_CloseStore D w; w = ds_CloseSubscriber D w in
        case client_Close (sv_MetaClient s) of
          (Inl e, c) \<Rightarrow> (Inl DsPanic, (s, w))
        | (Inr u, c) \<Rightarrow>
          (let s = s\<lparr>sv_MetaClient := c\<rparr> in
           if sv_closing s then (Inl DsPanic, (s, w)) else (Inr (), (s\<lparr>sv_closing := True\<rparr>, w)))))"

text \<open>\<open>reportServer\<close> up to the call that sends the numbers: databases, measurements, series and the cluster ID.\<close>

definition add_counts :: "('o, 'v, 't, 'w) ds_lib \<Rightarrow> 'w \<Rightarrow> DatabaseInfo \<Rightarrow> int \<times> int \<Rightarrow> int \<times> int" where
  "add_counts D w di n = (case ds_SeriesCounts D (db_Name di) w of None \<Rightarrow> n | Some (m, s) \<Rightarrow> (i64 (fst n + m), i64 (snd n + s)))"

definition reportServer :: "('o, 'v, 't, 'w) ds_lib \<Rightarrow> ('x, 'o, 'v) DataServer \<Rightarrow> 'w \<Rightarrow> cl_error + (int \<times> int \<times> int \<times> u64)" where
  "reportServer D s w =
     bind_sum (Databases (sv_MetaClient s)) (\<lambda>dis.
     case fold (add_counts D w) dis (0, 0) of (numMeasurements, numSeries) \<Rightarrow>
     bind_sum (ClusterID (sv_MetaClient s)) (\<lambda>clusterID. Inr (int (length dis), numMeasurements, numSeries, clusterID)))"

text \<open>\<open>remoteAddr\<close> with the hostname of the configuration, a field the configuration does not have.\<close>

definition data_DefaultHost :: "string \<Rightarrow> string \<Rightarrow> addr_error + string" where
  "data_DefaultHost hostname addr = (case SplitHostPort addr of
     Inl e \<Rightarrow> Inl e
   | Inr (host, port) \<Rightarrow>
     if host = [] \<or> host = ''0.0.0.0'' \<or> host = ''::'' then Inr (JoinHostPort hostname port) else Inr addr)"

lemma data_DefaultHost_eq: "data_DefaultHost = DefaultHost"
  by (intro ext) (simp add: data_DefaultHost_def DefaultHost_def wildcard_def split: sum.split)

definition data_remoteAddr :: "string \<Rightarrow> string \<Rightarrow> string" where
  "data_remoteAddr hostname addr = (case data_DefaultHost hostname addr of Inl e \<Rightarrow> addr | Inr remote \<Rightarrow> remote)"

definition HTTPAddr :: "string \<Rightarrow> ('x, 'o, 'v) DataServer \<Rightarrow> string" where
  "HTTPAddr hostname s = data_remoteAddr hostname (sv_httpAPIAddr s)"

definition TCPAddr :: "string \<Rightarrow> ('x, 'o, 'v) DataServer \<Rightarrow> string" where
  "TCPAddr hostname s = data_remoteAddr hostname (sv_tcpAddr s)"

definition MetaServers :: "string \<Rightarrow> ('x, 'o, 'v) DataServer \<Rightarrow> string list" where
  "MetaServers hostname s = [HTTPAddr hostname s]"

section \<open>The deprecated section header\<close>

text \<open>No line of the text starts with \<open>[cluster]\<close> behind white space.\<close>

fun clusterless :: "bool \<Rightarrow> string \<Rightarrow> bool" where
  "clusterless bol [] = True"
| "clusterless bol (c # s) = ((bol \<longrightarrow> cluster_at (c # s) = None) \<and> clusterless (c = CHR 0x0A) s)"

lemma cluster_at_Nil [simp]: "cluster_at [] = None"
  by (simp add: cluster_at_def cluster_head_def)

lemma replace_clusterless: "clusterless bol s \<Longrightarrow> replace_cluster bol s = s"
  by (induction s arbitrary: bol) (subst replace_cluster.simps, simp)+

lemma take_cluster_head: "take 9 r = cluster_head \<longleftrightarrow> (\<exists>t. r = cluster_head @ t)"
proof
  assume "take 9 r = cluster_head"
  then show "\<exists>t. r = cluster_head @ t" by (metis append_take_drop_id)
qed (auto simp: cluster_head_def)

text \<open>Within a line that is not at its beginning nothing is replaced.\<close>

lemma replace_prefix: "replace_cluster False s = a @ t \<Longrightarrow> CHR 0x0A \<notin> set a \<Longrightarrow> \<exists>t'. s = a @ t'"
proof (induction a arbitrary: s)
  case (Cons x a)
  from Cons.prems obtain s' where s: "s = x # s'" "replace_cluster (x = CHR 0x0A) s' = a @ t"
    by (subst (asm) replace_cluster.simps) (auto split: list.splits)
  moreover have "x \<noteq> CHR 0x0A" "CHR 0x0A \<notin> set a" using Cons.prems(2) by auto
  ultimately show ?case using Cons.IH[of s'] by simp
qed simp

lemma cluster_at_space: "space c \<Longrightarrow> cluster_at (c # s) = cluster_at s"
  by (simp add: cluster_at_def)

lemma cluster_at_nonspace: "\<not> space c \<Longrightarrow> cluster_at (c # s) = None \<longleftrightarrow> (\<nexists>t. c # s = cluster_head @ t)"
  by (simp add: cluster_at_def Let_def take_cluster_head del: take_Cons_numeral)

lemma replace_Cons: "cluster_at (c # s) = None \<Longrightarrow> replace_cluster bol (c # s) = c # replace_cluster (c = CHR 0x0A) s"
  by (subst replace_cluster.simps) simp

lemma cluster_at_replace: "cluster_at s = None \<Longrightarrow> cluster_at (replace_cluster bol s) = None"
proof (induction s arbitrary: bol)
  case Nil
  then show ?case by (subst replace_cluster.simps) simp
next
  case (Cons c s)
  show ?case
  proof (cases "space c")
    case True
    with Cons show ?thesis by (simp add: replace_Cons cluster_at_space)
  next
    case False
    then have "c \<noteq> CHR 0x0A" by (auto simp: space_def)
    then have r: "replace_cluster bol (c # s) = c # replace_cluster False s" using replace_Cons[OF Cons.prems] by simp
    have "\<nexists>t. c # replace_cluster False s = cluster_head @ t"
    proof
      assume "\<exists>t. c # replace_cluster False s = cluster_head @ t"
      then obtain t where "c = CHR ''[''" "replace_cluster False s = ''cluster]'' @ t" by (auto simp: cluster_head_def)
      with replace_prefix[of s "''cluster]''" t] obtain t' where "c # s = cluster_head @ t'" by (auto simp: cluster_head_def)
      with Cons.prems cluster_at_nonspace[OF False] show False by blast
    qed
    with r cluster_at_nonspace[OF False] show ?thesis by simp
  qed
qed

lemma clusterless_coordinator: "clusterless False r \<Longrightarrow> clusterless True (''[coordinator]'' @ r)"
  by (simp add: cluster_at_def cluster_head_def space_def)

lemma clusterless_replace: "clusterless bol (replace_cluster bol s)"
proof (induction bol s rule: replace_cluster.induct)
  case (1 bol s)
  show ?case
  proof (cases "if bol then cluster_at s else None")
    case None
    show ?thesis
    proof (cases s)
      case Nil
      then show ?thesis by (subst replace_cluster.simps) simp
    next
      case (Cons c s')
      have r: "replace_cluster bol s = c # replace_cluster (c = CHR 0x0A) s'"
        using None Cons by (subst replace_cluster.simps) simp
      have "bol \<longrightarrow> cluster_at (c # replace_cluster (c = CHR 0x0A) s') = None"
        unfolding r[symmetric] using None cluster_at_replace by auto
      with r 1(1)[OF None Cons] show ?thesis by simp
    qed
  next
    case (Some r)
    then have "bol" by (simp split: if_splits)
    moreover have "replace_cluster bol s = ''[coordinator]'' @ replace_cluster False r"
      using Some by (subst replace_cluster.simps) simp
    ultimately show ?thesis using clusterless_coordinator[OF 1(2)[OF Some]] by simp
  qed
qed

text \<open>The lines of a text with their newlines, and the conversion of a single line.\<close>

fun lines :: "string \<Rightarrow> string list" where
  "lines [] = [[]]"
| "lines (c # s) = (if c = CHR 0x0A then [c] # lines s else (c # hd (lines s)) # tl (lines s))"

definition conv_line :: "string \<Rightarrow> string" where
  "conv_line l = (case cluster_at l of None \<Rightarrow> l | Some r \<Rightarrow> ''[coordinator]'' @ r)"

definition ink :: "string \<Rightarrow> string" where
  "ink s = filter (\<lambda>c. \<not> space c) s"

lemma ink_simps [simp]: "ink [] = []" "ink (a @ b) = ink a @ ink b" "ink (c # s) = (if space c then ink s else c # ink s)"
  by (simp_all add: ink_def)

lemma lines_append: "hd (lines s) @ concat (tl (lines s)) = s"
  by (induction s) (auto, metis concat.simps(2) hd_Cons_tl lines.elims list.distinct(1))

lemma lines_not_Nil [simp]: "lines s \<noteq> []"
  by (cases s) auto

lemma cluster_at_Some: "cluster_at s = Some r \<longleftrightarrow> (\<exists>ws. list_all space ws \<and> s = ws @ cluster_head @ r)"
proof
  assume *: "cluster_at s = Some r"
  then have "dropWhile space s = cluster_head @ r"
    by (auto simp: cluster_at_def Let_def split: if_splits) (metis append_take_drop_id)
  then show "\<exists>ws. list_all space ws \<and> s = ws @ cluster_head @ r"
    by (intro exI[of _ "takeWhile space s"]) (use takeWhile_dropWhile_id[of space s] in \<open>auto simp: list_all_iff dest: set_takeWhileD\<close>)
next
  assume "\<exists>ws. list_all space ws \<and> s = ws @ cluster_head @ r"
  then obtain ws where "list_all space ws" "s = ws @ cluster_head @ r" by blast
  then have "dropWhile space s = cluster_head @ r"
    by (simp add: list_all_iff dropWhile_append2) (simp add: cluster_head_def space_def)
  then show "cluster_at s = Some r" by (simp add: cluster_at_def cluster_head_def)
qed

lemma cluster_at_first_line: "cluster_at s = None \<Longrightarrow> cluster_at (hd (lines s)) = None"
  using lines_append[of s] cluster_at_Some by (metis append.assoc not_None_eq)

lemma conv_blank: "space c \<Longrightarrow> ink (conv_line (c # l)) = ink (conv_line l)"
  by (simp add: conv_line_def cluster_at_space split: option.split)

lemma ref_header:
  assumes "list_all space ws"
  shows "ink (concat (map conv_line (lines (ws @ cluster_head @ r)))) =
    ''[coordinator]'' @ ink (hd (lines r)) @ ink (concat (map conv_line (tl (lines r))))"
  using assms
proof (induction ws)
  case Nil
  have "lines (cluster_head @ r) = (cluster_head @ hd (lines r)) # tl (lines r)" by (simp add: cluster_head_def)
  moreover have "conv_line (cluster_head @ hd (lines r)) = ''[coordinator]'' @ hd (lines r)"
    using cluster_at_Some[of "cluster_head @ hd (lines r)" "hd (lines r)"] by (simp add: conv_line_def)
  ultimately show ?case by (simp add: space_def)
next
  case (Cons c ws)
  let ?s = "ws @ cluster_head @ r"
  have c: "space c" and IH: "ink (concat (map conv_line (lines ?s))) =
      ''[coordinator]'' @ ink (hd (lines r)) @ ink (concat (map conv_line (tl (lines r))))" using Cons by simp_all
  have "concat (map conv_line (lines ?s)) = conv_line (hd (lines ?s)) @ concat (map conv_line (tl (lines ?s)))"
    by (cases "lines ?s") auto
  moreover have "ink (conv_line [CHR 0x0A]) = []" by (simp add: conv_line_def cluster_at_space space_def)
  ultimately show ?case using IH c conv_blank[OF c] by simp
qed

lemma replace_by_lines:
  "ink (replace_cluster bol s) =
     ink ((if bol then conv_line (hd (lines s)) else hd (lines s)) @ concat (map conv_line (tl (lines s))))"
proof (induction bol s rule: replace_cluster.induct)
  case (1 bol s)
  show ?case
  proof (cases "if bol then cluster_at s else None")
    case None
    show ?thesis
    proof (cases s)
      case Nil
      then show ?thesis by (subst replace_cluster.simps) (simp add: conv_line_def)
    next
      case (Cons c s')
      have r: "replace_cluster bol s = c # replace_cluster (c = CHR 0x0A) s'"
        using None Cons by (subst replace_cluster.simps) simp
      have "(if bol then conv_line (hd (lines s)) else hd (lines s)) = hd (lines s)"
        using None cluster_at_first_line by (auto simp: conv_line_def)
      moreover have "concat (map conv_line (lines s')) = conv_line (hd (lines s')) @ concat (map conv_line (tl (lines s')))"
        by (cases "lines s'") auto
      ultimately show ?thesis using r 1(1)[OF None Cons] Cons by (auto simp: space_def)
    qed
  next
    case (Some r)
    have s: "replace_cluster bol s = ''[coordinator]'' @ replace_cluster False r"
      using Some by (subst replace_cluster.simps) simp
    have b: "bol" "cluster_at s = Some r" using Some by (simp_all split: if_splits)
    obtain ws where ws: "list_all space ws" "s = ws @ cluster_head @ r" using b(2) cluster_at_Some by blast
    have "concat (map conv_line (lines s)) = conv_line (hd (lines s)) @ concat (map conv_line (tl (lines s)))"
      by (cases "lines s") auto
    then show ?thesis using ref_header[OF ws(1), of r] 1(2)[OF Some] s b(1) ws(2) by (simp add: space_def)
  qed
qed

text \<open>
  C31: \<open>FromToml\<close> decodes the text with the deprecated section header replaced line by line: up to white space, each line
  that starts with \<open>[cluster]\<close> starts with \<open>[coordinator]\<close> instead and the others are as they were. No line of the decoded
  text has the old header.
\<close>

theorem FromToml_converts_lines:
  "\<exists>t. FromToml G input c = cf_Decode G t c \<and> ink t = ink (concat (map conv_line (lines input))) \<and> clusterless True t"
proof -
  have "concat (map conv_line (lines input)) = conv_line (hd (lines input)) @ concat (map conv_line (tl (lines input)))"
    by (cases "lines input") auto
  then show ?thesis
    using replace_by_lines[of True input] clusterless_replace[of True input] by (auto simp: FromToml_def)
qed

section \<open>Starting and stopping a data node\<close>

text \<open>The services that a configuration asks for, in the order in which the server appends them.\<close>

definition plain_services :: "('o, 'v, 't, 'w) ds_lib \<Rightarrow> pkg \<Rightarrow> 'o list \<Rightarrow> 'v list" where
  "plain_services D p cs = map (ds_New D p) (filter (ds_Enabled D p) cs)"

definition input_services :: "('o, 'v, 't, 'w) ds_lib \<Rightarrow> pkg \<Rightarrow> 'o list \<Rightarrow> 'v list" where
  "input_services D p cs = concat (map (\<lambda>c. case ds_NewService D p c of Inl e \<Rightarrow> [] | Inr v \<Rightarrow> [v]) (filter (ds_Enabled D p) cs))"

definition services_of :: "('o, 'v, 't, 'w) ds_lib \<Rightarrow> 'o DataConfig \<Rightarrow> 'v list" where
  "services_of D c =
     concat (map (\<lambda>n. ds_Missing D n c) [''Monitor'', ''Precreator'', ''Snapshotter'', ''Admin'', ''ContinuousQuery'']) @
     plain_services D Httpd [dc_HTTPD c] @ ds_Missing D ''RetentionPolicy'' c @ input_services D Graphite (dc_GraphiteInputs c) @
     plain_services D Collectd (dc_CollectdInputs c) @ input_services D Opentsdb (dc_OpenTSDBInputs c) @ plain_services D Udp (dc_UDPInputs c)"

lemma append_services_append [simp]: "append_services b (append_services a s) = append_services (a @ b) s"
  by (simp add: append_services_def)

lemma append_services_Nil [simp]: "append_services [] s = s"
  by (simp add: append_services_def)

lemma append_input_ok:
  "appendGraphiteService D c s = (Inr u, s') \<Longrightarrow> s' = append_services (input_services D Graphite [c]) s"
  "appendOpenTSDBService D c s = (Inr u, s') \<Longrightarrow> s' = append_services (input_services D Opentsdb [c]) s"
  by (auto simp: appendGraphiteService_def appendOpenTSDBService_def input_services_def split: if_splits sum.splits)

lemma append_plain:
  "appendHTTPDService D c s = append_services (plain_services D Httpd [c]) s"
  "fold (appendCollectdService D) cs s = append_services (plain_services D Collectd cs) s"
  "fold (appendUDPService D) cs s = append_services (plain_services D Udp cs) s"
  by (simp add: appendHTTPDService_def plain_services_def)
    (induction cs arbitrary: s; simp add: appendCollectdService_def appendUDPService_def plain_services_def)+

lemma append_inputs_ok:
  assumes "\<And>c s s'. f c s = (Inr (), s') \<Longrightarrow> s' = append_services (input_services D p [c]) s"
  shows "append_inputs f cs s = (Inr u, s') \<Longrightarrow> s' = append_services (input_services D p cs) s"
proof (induction cs arbitrary: s)
  case Nil
  then show ?case by (simp add: input_services_def)
next
  case (Cons c cs)
  from Cons.prems obtain s1 where 1: "f c s = (Inr (), s1)" "append_inputs f cs s1 = (Inr u, s')"
    by (auto simp: check_Inr_iff)
  have "input_services D p (c # cs) = input_services D p [c] @ input_services D p cs" by (simp add: input_services_def)
  then show ?case using assms[OF 1(1)] Cons.IH[OF 1(2)] by simp
qed

lemma append_inputs_of:
  "append_inputs (appendGraphiteService D) cs s = (Inr u, s') \<Longrightarrow> s' = append_services (input_services D Graphite cs) s"
  "append_inputs (appendOpenTSDBService D) cs s = (Inr u, s') \<Longrightarrow> s' = append_services (input_services D Opentsdb cs) s"
  by (erule append_inputs_ok[rotated], erule append_input_ok)+

lemma append_all_ok:
  assumes "append_all D s = (Inr u, s')"
  shows "s' = append_services (services_of D (sv_config s)) s"
  using assms unfolding append_all_def Let_def check_Inr_iff services_of_def
  by (auto dest!: append_inputs_of simp: append_plain)

lemma open_services_ok: "open_services D vs w = (Inr u, w') \<Longrightarrow> w' = fold (\<lambda>v w. snd (ds_OpenService D v w)) vs w"
  by (induction vs arbitrary: w) (auto split: prod.splits sum.splits)

lemma data_Server_Open_ok:
  assumes "data_Server_Open Y D (s, w) = (Inr u, (s', w'))"
  obtains ln w1 where "sys_Listen Y False (sv_BindAddress s) w = (Inr ln, w1)"
    "s' = (append_services (services_of D (sv_config s)) (s\<lparr>sv_Listener := Some ln\<rparr>))\<lparr>sv_PointsWriter := pw_Open (sv_PointsWriter s)\<rparr>"
    "w' = fold (\<lambda>v w. snd (ds_OpenService D v w)) (sv_Services s @ services_of D (sv_config s)) (snd (ds_OpenSubscriber D (snd (ds_OpenStore D w1))))"
proof -
  from assms obtain ln w1 s1 where 1: "sys_Listen Y False (sv_BindAddress s) w = (Inr ln, w1)"
      "append_all D (s\<lparr>sv_Listener := Some ln\<rparr>) = (Inr (), s1)" "open_parts D (s1, w1) = (Inr u, (s', w'))"
    by (auto simp: data_Server_Open_def split: prod.splits sum.splits)
  have s1: "s1 = append_services (services_of D (sv_config s)) (s\<lparr>sv_Listener := Some ln\<rparr>)"
    using append_all_ok[OF 1(2)] by simp
  from 1(3) have "s' = s1\<lparr>sv_PointsWriter := pw_Open (sv_PointsWriter s1)\<rparr>"
      "open_services D (sv_Services s1) (snd (ds_OpenSubscriber D (snd (ds_OpenStore D w1)))) = (Inr u, w')"
    by (auto simp: open_parts_def Let_def split: prod.splits sum.splits)
  with that[OF 1(1)] s1 show thesis by (auto simp: append_services_def dest: open_services_ok)
qed


text \<open>
  A data node cannot be stopped cleanly. \<open>Open\<close> of the server never opens the meta client, so after it \<open>Close\<close> stops the
  listener, all services in order, the query executor, the store and the subscriber, and then panics in \<open>Close\<close> of the
  client; and the report of the usage panics, since there is no metadata.
\<close>

lemma opened_server_panics:
  assumes "data_NewServer Y G D c w0 = (Inr srv, w1)" "data_Server_Open Y D (srv, w1) = (Inr u, (s, w))"
  shows "(\<exists>ln. sv_Listener s = Some ln \<and> fst (data_Server_Close Y D (s, w)) = Inl DsPanic \<and>
      snd (snd (data_Server_Close Y D (s, w))) = ds_CloseSubscriber D (ds_CloseStore D (ds_CloseQueryExecutor D
        (fold (ds_CloseService D) (sv_Services s) (snd (sys_CloseListener Y ln w)))))) \<and>
    reportServer D s w = Inl ClPanic"
proof -
  have srv: "c_closing (sv_MetaClient srv) = None" "c_cacheData (sv_MetaClient srv) = ZeroCache" "\<not> w_closed (sv_PointsWriter srv)"
    using assms(1) by (auto simp: data_NewServer_def SetPath_def SetTLS_def NewClient_def NewPointsWriter_def split: prod.splits sum.splits)
  obtain ln where "sv_Listener s = Some ln" "sv_MetaClient s = sv_MetaClient srv" "sv_PointsWriter s = pw_Open (sv_PointsWriter srv)"
    by (rule data_Server_Open_ok[OF assms(2)]) (simp add: append_services_def)
  with srv show ?thesis
    by (auto simp: data_Server_Close_def pw_Open_def pw_Close_def client_Close_def reportServer_def Databases_def cache_oss_def bind_sum_def Let_def
        split: option.split)
qed

text \<open>A world that records what is opened and closed.\<close>

definition sys1 :: "string list sys_lib" where
  "sys1 = \<lparr>sys_LoadX509KeyPair = (\<lambda>c w. None), sys_Listen = (\<lambda>tls a w. (Inr 1, w @ [''listen''])),
     sys_CloseListener = (\<lambda>n w. (Inr (), w @ [''close listener''])), sys_MkdirAll = (\<lambda>p w. (Inr (), w))\<rparr>"

definition cfg1 :: "bool cfg_lib" where
  "cfg1 = \<lparr>cf_NewConfig = (\<lambda>p. p = Httpd \<or> p = Udp), cf_Validate = (\<lambda>p c. None), cf_ValidateMeta = (\<lambda>c. None), cf_SetDirs = (\<lambda>a b c. c),
     cf_DataDir = (\<lambda>c. ''/data''), cf_BindAddress = (\<lambda>c. '':8086''), cf_WriteTimeout = (\<lambda>c. 0), cf_Decode = (\<lambda>s c. (Inr (), c))\<rparr>"

definition ds1 :: "(bool, string, unit, string list) ds_lib" where
  "ds1 = \<lparr>ds_Enabled = (\<lambda>p c. c), ds_New = (\<lambda>p c. if p = Httpd then ''httpd'' else ''input''),
     ds_NewService = (\<lambda>p c. Inr ''input''), ds_Missing = (\<lambda>n c. []),
     ds_OpenService = (\<lambda>v w. (Inr (), w @ [''open '' @ v])), ds_CloseService = (\<lambda>v w. w @ [''close '' @ v]),
     ds_OpenStore = (\<lambda>w. (Inr (), w @ [''open store''])), ds_CloseStore = (\<lambda>w. w @ [''close store'']),
     ds_OpenSubscriber = (\<lambda>w. (Inr (), w @ [''open subscriber''])), ds_CloseSubscriber = (\<lambda>w. w @ [''close subscriber'']),
     ds_CloseQueryExecutor = (\<lambda>w. w @ [''close executor'']), ds_Points = 0, ds_Reports = (\<lambda>v. None),
     ds_PointsWriterStatistics = (\<lambda>st. []), ds_StoreStatistics = (\<lambda>w. []), ds_SubscriberStatistics = (\<lambda>w. []), ds_SeriesCounts = (\<lambda>n w. None)\<rparr>"

definition server1 :: "(unit, bool, string) DataServer" where
  "server1 = (case data_NewServer sys1 cfg1 ds1 (data_NewConfig cfg1) [] of (Inr s, w) \<Rightarrow> s | (Inl e, w) \<Rightarrow> undefined)"

lemmas server1_simps = server1_def data_NewServer_def data_NewConfig_def cfg1_def sys1_def ds1_def

lemma server1_new: "data_NewServer sys1 cfg1 ds1 (data_NewConfig cfg1) [] = (Inr server1, [])"
  by (simp add: server1_simps)

lemma server1_opens:
  "\<exists>s. data_Server_Open sys1 ds1 (server1, []) =
     (Inr (), (s, [''listen'', ''open store'', ''open subscriber'', ''open httpd'', ''open input'']))"
  by (simp add: server1_simps data_Server_Open_def append_all_def appendHTTPDService_def appendUDPService_def appendCollectdService_def
      appendGraphiteService_def appendOpenTSDBService_def append_services_def open_parts_def Let_def)


end
