(* ===== verification/Commands.thy ===== *)
theory Commands
  imports Data_Server
begin

text \<open>
  The commands \<open>influxd run\<close>, \<open>influxd config\<close> (\<open>src/cmd/influxd/run/command.go\<close>, \<open>config_command.go\<close>) and \<open>influxd-meta run\<close>,
  \<open>influxd-meta config\<close> (\<open>src/cmd/influxd-meta/run\<close>). The two programs share the text of \<open>ParseFlags\<close>, \<open>writePIDFile\<close> and
  \<open>GetConfigPath\<close>, which are modelled once. The process is the record \<open>proc\<close>: its environment, its number and its files.
\<close>

section \<open>Flags\<close>

text \<open>\<open>Parse\<close> of the package \<open>flag\<close> for flags that take a string, with the values of the flags seen so far.\<close>

datatype flag_error = BadSyntax string | ErrHelp | NotDefined string | NeedsArgument string

definition split_value :: "string \<Rightarrow> string \<times> string option" where
  "split_value name =
     (let n = take 1 name @ takeWhile (\<lambda>c. c \<noteq> CHR ''='') (drop 1 name) in
      (n, if length n < length name then Some (drop (Suc (length n)) name) else None))"

definition flag_name :: "string \<Rightarrow> string" where
  "flag_name s = (if take 2 s = ''--'' then drop 2 s else drop 1 s)"

fun parse_args :: "string list \<Rightarrow> string list \<Rightarrow> (string \<Rightarrow> string) \<Rightarrow> flag_error + (string \<Rightarrow> string)" where
  "parse_args formal [] vals = Inr vals"
| "parse_args formal (s # args) vals =
     (if length s < 2 \<or> hd s \<noteq> CHR ''-'' \<or> s = ''--'' then Inr vals
      else let name = flag_name s in
        if name = [] \<or> hd name = CHR ''-'' \<or> hd name = CHR ''='' then Inl (BadSyntax s)
        else (case split_value name of (n, v) \<Rightarrow>
          if n \<notin> set formal then Inl (if n = ''help'' \<or> n = ''h'' then ErrHelp else NotDefined n)
          else (case v of
            Some value \<Rightarrow> parse_args formal args (vals(n := value))
          | None \<Rightarrow> (case args of [] \<Rightarrow> Inl (NeedsArgument n) | value # rest \<Rightarrow> parse_args formal rest (vals(n := value))))))"

record Options =
  op_ConfigPath :: string
  op_PIDFile :: string
  op_CPUProfile :: string
  op_MemProfile :: string

definition run_flags :: "string list" where
  "run_flags = [''config'', ''pidfile'', ''hostname'', ''cpuprofile'', ''memprofile'']"

definition options_of :: "(string \<Rightarrow> string) \<Rightarrow> Options" where
  "options_of v = \<lparr>op_ConfigPath = v ''config'', op_PIDFile = v ''pidfile'', op_CPUProfile = v ''cpuprofile'', op_MemProfile = v ''memprofile''\<rparr>"

definition ParseFlags :: "string list \<Rightarrow> flag_error + Options" where
  "ParseFlags args = map_sum (\<lambda>e. e) options_of (parse_args run_flags args (\<lambda>n. []))"

section \<open>Process\<close>

record 'w proc =
  p_Getenv :: "string \<Rightarrow> string"
  p_CurrentUser :: "string option"
  p_Getpid :: int
  p_Stat :: "string \<Rightarrow> 'w \<Rightarrow> bool"
  p_ReadFile :: "string \<Rightarrow> 'w \<Rightarrow> string + string"
  p_WriteFile :: "string \<Rightarrow> string \<Rightarrow> 'w \<Rightarrow> (string + unit) \<times> 'w"

definition GetConfigPath :: "'w proc \<Rightarrow> Options \<Rightarrow> 'w \<Rightarrow> string" where
  "GetConfigPath X opt w =
     (if op_ConfigPath opt \<noteq> [] then (if op_ConfigPath opt = ''/dev/null'' then [] else op_ConfigPath opt)
      else if p_Getenv X ''INFLUXDB_CONFIG_PATH'' \<noteq> [] then p_Getenv X ''INFLUXDB_CONFIG_PATH''
      else case find (\<lambda>path. p_Stat X path w) [p_Getenv X ''HOME'' @ ''/.influxdb/influxdb.conf'', ''/etc/influxdb/influxdb.conf''] of
        None \<Rightarrow> [] | Some path \<Rightarrow> path)"

datatype run_error =
    RunFlags flag_error
  | RunMkdir meta_error
  | RunWriteFile string
  | RunConfig string
  | RunEnv cfg_error
  | RunInvalid string
  | RunCreateMeta srv_error
  | RunOpenMeta srv_error
  | RunCreateData ds_error
  | RunOpenData ds_error
  | RunPanic

definition writePIDFile :: "'w sys_lib \<Rightarrow> 'w proc \<Rightarrow> string \<Rightarrow> 'w \<Rightarrow> (run_error + unit) \<times> 'w" where
  "writePIDFile Y X path w =
     (if path = [] then (Inr (), w)
      else case sys_MkdirAll Y (Dir path) w of
        (Inl e, w) \<Rightarrow> (Inl (RunMkdir e), w)
      | (Inr u, w) \<Rightarrow> (case p_WriteFile X path (Itoa (p_Getpid X)) w of
          (Inl e, w) \<Rightarrow> (Inl (RunWriteFile e), w)
        | (Inr u, w) \<Rightarrow> (Inr (), w)))"

definition lift :: "('e \<Rightarrow> run_error) \<Rightarrow> 'e + 'a \<Rightarrow> 'w \<Rightarrow> (run_error + 'a) \<times> 'w" where
  "lift f r w = (map_sum f (\<lambda>a. a) r, w)"

section \<open>Meta node\<close>

text \<open>
  The configuration is a pointer, which is nil when \<open>NewDemoConfig\<close> finds no home directory. \<open>decode\<close> is \<open>toml.DecodeFile\<close>,
  which is given the address of that pointer.
  Overriding a nil configuration does nothing, and validating it panics.
\<close>

type_synonym 'w meta_decode = "string \<Rightarrow> MetaConfig option \<Rightarrow> 'w \<Rightarrow> (string + unit) \<times> MetaConfig option"

definition meta_ParseConfig :: "'w proc \<Rightarrow> 'w meta_decode \<Rightarrow> string \<Rightarrow> 'w \<Rightarrow> string + MetaConfig option" where
  "meta_ParseConfig X decode path w =
     (if path = [] then Inr (NewDemoConfig (p_CurrentUser X) (p_Getenv X ''HOME''))
      else case decode path (Some NewConfig) w of (Inl e, c) \<Rightarrow> Inl e | (Inr u, c) \<Rightarrow> Inr c)"

definition meta_checked :: "'f env_lib \<Rightarrow> MetaConfig option \<Rightarrow> run_error + MetaConfig" where
  "meta_checked E config = (case config of
     None \<Rightarrow> Inl RunPanic
   | Some c \<Rightarrow> (case ApplyEnvOverrides E c of
       (Inl e, c) \<Rightarrow> Inl (RunEnv e)
     | (Inr u, c) \<Rightarrow> (case MetaConfig_Validate c of Inl e \<Rightarrow> Inl (RunInvalid e) | Inr u \<Rightarrow> Inr c)))"

definition meta_setup :: "'w sys_lib \<Rightarrow> 'w proc \<Rightarrow> 'w meta_decode \<Rightarrow> 'f env_lib \<Rightarrow> string list \<Rightarrow> 'w \<Rightarrow> (run_error + MetaConfig) \<times> 'w" where
  "meta_setup Y X decode E args w =
     check (lift RunFlags (ParseFlags args) w) (\<lambda>options w.
     check (writePIDFile Y X (op_PIDFile options) w) (\<lambda>u w.
     check (lift RunConfig (meta_ParseConfig X decode (GetConfigPath X options w) w) w) (\<lambda>config w.
     (meta_checked E config, w))))"

text \<open>\<open>Run\<close>; nobody else has the client of the new server, so it is not closed while it opens.\<close>

definition meta_Run :: "'w sys_lib \<Rightarrow> ('n, 'w) node_lib \<Rightarrow> ('x, 'k, 'w) cl_lib \<Rightarrow>
    (('x, 'l) MetaService \<times> 'w \<Rightarrow> ((svc_error + unit) \<times> (('x, 'l) MetaService \<times> 'w)) option) \<Rightarrow>
    'w proc \<Rightarrow> 'w meta_decode \<Rightarrow> 'f env_lib \<Rightarrow> BuildInfo \<Rightarrow> string list \<Rightarrow> 'w \<Rightarrow> ((run_error + ('x, 'l) MetaServer) \<times> 'w) option" where
  "meta_Run Y F P sopen X decode E buildInfo args w =
     (case meta_setup Y X decode E args w of
        (Inl e, w) \<Rightarrow> Some (Inl e, w)
      | (Inr c, w) \<Rightarrow>
        (case meta_NewServer Y F c buildInfo w of
           (Inl e, w) \<Rightarrow> Some (Inl (RunCreateMeta e), w)
         | (Inr s, w) \<Rightarrow>
           (case meta_Server_Open Y P (\<lambda>n. False) sopen (s, w) of
              None \<Rightarrow> None
            | Some (Inl e, (s, w)) \<Rightarrow> Some (Inl (RunOpenMeta e), w)
            | Some (Inr u, (s, w)) \<Rightarrow> Some (Inr s, w))))"

text \<open>\<open>influxd-meta config\<close> replaces the demo configuration by the default one when there is a demo configuration.\<close>

definition meta_parseConfig :: "'w proc \<Rightarrow> 'w meta_decode \<Rightarrow> string \<Rightarrow> 'w \<Rightarrow> string + MetaConfig option" where
  "meta_parseConfig X decode path w =
     (let config = (case NewDemoConfig (p_CurrentUser X) (p_Getenv X ''HOME'') of None \<Rightarrow> None | Some c \<Rightarrow> Some NewConfig) in
      if path = [] then Inr config
      else case decode path config w of (Inl e, c) \<Rightarrow> Inl e | (Inr u, c) \<Rightarrow> Inr c)"

definition meta_print_Run :: "'w proc \<Rightarrow> 'w meta_decode \<Rightarrow> 'f env_lib \<Rightarrow> string list \<Rightarrow> 'w \<Rightarrow> run_error + MetaConfig" where
  "meta_print_Run X decode E args w = (case parse_args [''config''] args (\<lambda>n. []) of
     Inl e \<Rightarrow> Inl (RunFlags e)
   | Inr v \<Rightarrow>
     (case meta_parseConfig X decode (GetConfigPath X (options_of v) w) w of
        Inl e \<Rightarrow> Inl (RunConfig e)
      | Inr config \<Rightarrow> meta_checked E config))"

section \<open>Data node\<close>

text \<open>\<open>rf_value\<close> and \<open>rf_config\<close> are the reflection of a configuration and its fields.\<close>

record ('o, 'f) reflect_lib =
  rf_value :: "'o DataConfig \<Rightarrow> 'f cval"
  rf_config :: "'f cval \<Rightarrow> 'o DataConfig"

definition data_ApplyEnvOverrides :: "('o, 'f) reflect_lib \<Rightarrow> 'f env_lib \<Rightarrow> 'o DataConfig \<Rightarrow> (cfg_error + unit) \<times> 'o DataConfig" where
  "data_ApplyEnvOverrides R E c =
     (let v = rf_value R c in case data_applyEnvOverrides (depth v) E ''INFLUXDB'' v of (r, v) \<Rightarrow> (r, rf_config R v))"

definition data_ParseConfig :: "'o cfg_lib \<Rightarrow> 'w proc \<Rightarrow> string \<Rightarrow> 'w \<Rightarrow> string + 'o DataConfig" where
  "data_ParseConfig G X path w =
     (if path = [] then data_NewDemoConfig G (p_CurrentUser X) (p_Getenv X ''HOME'')
      else case FromTomlFile G (\<lambda>p. p_ReadFile X p w) path (data_NewConfig G) of (Inl e, c) \<Rightarrow> Inl e | (Inr u, c) \<Rightarrow> Inr c)"

definition data_checked :: "'o cfg_lib \<Rightarrow> ('o, 'f) reflect_lib \<Rightarrow> 'f env_lib \<Rightarrow> 'o DataConfig \<Rightarrow> run_error + 'o DataConfig" where
  "data_checked G R E c = (case data_ApplyEnvOverrides R E c of
     (Inl e, c) \<Rightarrow> Inl (RunEnv e)
   | (Inr u, c) \<Rightarrow> (case data_Validate G c of Some e \<Rightarrow> Inl (RunInvalid e) | None \<Rightarrow> Inr c))"

definition data_setup :: "'w sys_lib \<Rightarrow> 'w proc \<Rightarrow> 'o cfg_lib \<Rightarrow> ('o, 'f) reflect_lib \<Rightarrow> 'f env_lib \<Rightarrow> string list \<Rightarrow> 'w \<Rightarrow>
    (run_error + 'o DataConfig) \<times> 'w" where
  "data_setup Y X G R E args w =
     check (lift RunFlags (ParseFlags args) w) (\<lambda>options w.
     check (writePIDFile Y X (op_PIDFile options) w) (\<lambda>u w.
     check (lift RunConfig (data_ParseConfig G X (GetConfigPath X options w) w) w) (\<lambda>config w.
     (data_checked G R E config, w))))"

definition data_start :: "'w sys_lib \<Rightarrow> 'o cfg_lib \<Rightarrow> ('o, 'v, 't, 'w) ds_lib \<Rightarrow> 'o DataConfig \<Rightarrow> 'w \<Rightarrow> (run_error + ('x, 'o, 'v) DataServer) \<times> 'w" where
  "data_start Y G D config w = (case data_NewServer Y G D config w of
     (Inl e, w) \<Rightarrow> (Inl (RunCreateData e), w)
   | (Inr s, w) \<Rightarrow> (case data_Server_Open Y D (s, w) of
       (Inl e, (s, w)) \<Rightarrow> (Inl (RunOpenData e), w)
     | (Inr u, (s, w)) \<Rightarrow> (Inr s, w)))"

definition data_Run :: "'w sys_lib \<Rightarrow> 'o cfg_lib \<Rightarrow> ('o, 'v, 't, 'w) ds_lib \<Rightarrow> 'w proc \<Rightarrow> ('o, 'f) reflect_lib \<Rightarrow> 'f env_lib \<Rightarrow> string list \<Rightarrow> 'w \<Rightarrow>
    (run_error + ('x, 'o, 'v) DataServer) \<times> 'w" where
  "data_Run Y G D X R E args w = check (data_setup Y X G R E args w) (\<lambda>config w. data_start Y G D config w)"

text \<open>\<open>Close\<close> of the command; closing the channel a second time panics. \<open>Closed\<close> is closed whatever happens.\<close>

record ('x, 'o, 'v) Command =
  cmd_closing :: bool
  cmd_Closed :: bool
  cmd_Server :: "('x, 'o, 'v) DataServer option"

definition NewCommand :: "('x, 'o, 'v) Command" where
  "NewCommand = \<lparr>cmd_closing = False, cmd_Closed = False, cmd_Server = None\<rparr>"

definition Command_Close :: "'w sys_lib \<Rightarrow> ('o, 'v, 't, 'w) ds_lib \<Rightarrow> ('x, 'o, 'v) Command \<times> 'w \<Rightarrow> (ds_error + unit) \<times> (('x, 'o, 'v) Command \<times> 'w)" where
  "Command_Close Y D cw = (case cw of (c, w) \<Rightarrow>
     if cmd_closing c then (Inl DsPanic, (c, w))
     else let c = c\<lparr>cmd_closing := True, cmd_Closed := True\<rparr> in
       case cmd_Server c of
         None \<Rightarrow> (Inr (), (c, w))
       | Some s \<Rightarrow> (case data_Server_Close Y D (s, w) of (r, (s, w)) \<Rightarrow> (r, (c\<lparr>cmd_Server := Some s\<rparr>, w))))"

definition data_parseConfig :: "'o cfg_lib \<Rightarrow> 'w proc \<Rightarrow> string \<Rightarrow> 'w \<Rightarrow> string + 'o DataConfig" where
  "data_parseConfig G X path w =
     (let config = (case data_NewDemoConfig G (p_CurrentUser X) (p_Getenv X ''HOME'') of Inl e \<Rightarrow> data_NewConfig G | Inr c \<Rightarrow> c) in
      if path = [] then Inr config
      else case FromTomlFile G (\<lambda>p. p_ReadFile X p w) path config of (Inl e, c) \<Rightarrow> Inl e | (Inr u, c) \<Rightarrow> Inr c)"

definition data_print_Run :: "'o cfg_lib \<Rightarrow> 'w proc \<Rightarrow> ('o, 'f) reflect_lib \<Rightarrow> 'f env_lib \<Rightarrow> string list \<Rightarrow> 'w \<Rightarrow> run_error + 'o DataConfig" where
  "data_print_Run G X R E args w = (case parse_args [''config''] args (\<lambda>n. []) of
     Inl e \<Rightarrow> Inl (RunFlags e)
   | Inr v \<Rightarrow>
     (case data_parseConfig G X (GetConfigPath X (options_of v) w) w of
        Inl e \<Rightarrow> Inl (RunConfig e)
      | Inr config \<Rightarrow> data_checked G R E config))"

section \<open>Reading flags back\<close>

text \<open>A setting of a flag as a user writes it: with one or two dashes, with the value behind an equals sign or as its own argument.\<close>

datatype setting = Setting bool bool (flag_of: string) (value_of: string)

fun written :: "setting \<Rightarrow> string list" where
  "written (Setting long eq n v) =
     (let d = (if long then ''--'' else ''-'') in if eq then [d @ n @ ''='' @ v] else [d @ n, v])"

text \<open>The value last set for a flag.\<close>

definition last_value :: "string \<Rightarrow> setting list \<Rightarrow> string" where
  "last_value n xs = (case filter (\<lambda>x. flag_of x = n) (rev xs) of [] \<Rightarrow> [] | x # _ \<Rightarrow> value_of x)"

fun set_flag :: "setting \<Rightarrow> (string \<Rightarrow> string) \<Rightarrow> string \<Rightarrow> string" where
  "set_flag (Setting long eq n v) vals = vals(n := v)"

definition plain :: "string \<Rightarrow> bool" where
  "plain n \<longleftrightarrow> n \<noteq> [] \<and> CHR ''='' \<notin> set n \<and> hd n \<noteq> CHR ''-''"

lemma takeWhile_absent [simp]: "x \<notin> set l \<Longrightarrow> takeWhile (\<lambda>c. c \<noteq> x) l = l"
  by (induction l) auto

lemma split_value_eq: "plain n \<Longrightarrow> split_value (n @ ''='' @ v) = (n, Some v)"
  by (cases n) (auto simp: plain_def split_value_def Let_def takeWhile_tail)

lemma split_value_none: "plain n \<Longrightarrow> split_value n = (n, None)"
  by (cases n) (auto simp: plain_def split_value_def Let_def)

lemma flag_name_dashes: "plain n \<Longrightarrow> flag_name ((if long then ''--'' else ''-'') @ n @ r) = n @ r"
  by (cases n) (auto simp: plain_def flag_name_def)

text \<open>One flag whose value is in the same argument, and one whose value is the next argument.\<close>

definition is_flag :: "string \<Rightarrow> bool" where
  "is_flag s \<longleftrightarrow> 2 \<le> length s \<and> hd s = CHR ''-'' \<and> s \<noteq> ''--'' \<and> flag_name s \<noteq> [] \<and> hd (flag_name s) \<noteq> CHR ''-'' \<and> hd (flag_name s) \<noteq> CHR ''=''"

lemma parse_flag:
  assumes "is_flag s" "n \<in> set formal"
  shows "split_value (flag_name s) = (n, Some v) \<Longrightarrow> parse_args formal (s # args) vals = parse_args formal args (vals(n := v))"
    "split_value (flag_name s) = (n, None) \<Longrightarrow> parse_args formal (s # v # args) vals = parse_args formal args (vals(n := v))"
  using assms by (auto simp: is_flag_def Let_def)

lemma parse_written:
  assumes "plain n" "n \<in> set formal"
  shows "parse_args formal (written (Setting long eq n v) @ args) vals = parse_args formal args (set_flag (Setting long eq n v) vals)"
proof -
  let ?d = "if long then ''--'' else ''-''"
  note name = flag_name_dashes[OF assms(1), of long]
  obtain c m where n: "n = c # m" "c \<noteq> CHR ''-''" "c \<noteq> CHR ''=''" using assms(1) by (cases n) (auto simp: plain_def)
  have flag: "is_flag (?d @ n @ r)" for r unfolding is_flag_def name using n by auto
  show ?thesis
    using parse_flag(1)[OF flag[of "''='' @ v"] assms(2)] parse_flag(2)[OF flag[of "[]"] assms(2)] name[of "''='' @ v"] name[of "[]"]
      split_value_eq[OF assms(1)] split_value_none[OF assms(1)]
    by (cases eq; cases long) (simp_all del: parse_args.simps)
qed

lemma parse_all_written:
  "list_all (\<lambda>x. plain (flag_of x) \<and> flag_of x \<in> set formal) xs \<Longrightarrow>
   parse_args formal (concat (map written xs)) vals = Inr (fold set_flag xs vals)"
proof (induction xs arbitrary: vals)
  case (Cons x xs)
  then show ?case by (cases x) (simp add: parse_written del: written.simps parse_args.simps(2))
qed simp

lemma fold_set_flag: "fold set_flag xs (\<lambda>n. []) n = last_value n xs"
proof (induction xs rule: rev_induct)
  case (snoc x xs)
  then show ?case by (cases x) (simp add: last_value_def)
qed (simp add: last_value_def)

lemma plain_run_flags: "n \<in> set run_flags \<Longrightarrow> plain n"
  by (auto simp: run_flags_def plain_def)

text \<open>
  C30: The flags are read as they were written. For any sequence of settings of the flags of \<open>run\<close>, each written with one or
  two dashes and with its value behind an equals sign or as the next argument, whatever the values are, \<open>ParseFlags\<close> gives the
  options with the last value set for each of them, and no value for the others.
\<close>

theorem ParseFlags_reads_settings:
  assumes "list_all (\<lambda>x. flag_of x \<in> set run_flags) xs"
  shows "ParseFlags (concat (map written xs)) = Inr \<lparr>op_ConfigPath = last_value ''config'' xs, op_PIDFile = last_value ''pidfile'' xs,
    op_CPUProfile = last_value ''cpuprofile'' xs, op_MemProfile = last_value ''memprofile'' xs\<rparr>"
proof -
  have "list_all (\<lambda>x. plain (flag_of x) \<and> flag_of x \<in> set run_flags) xs"
    using assms plain_run_flags by (auto simp: list_all_iff)
  from parse_all_written[OF this] show ?thesis by (simp add: ParseFlags_def options_of_def fold_set_flag)
qed

theorem ParseFlags_reads_settings_witness:
  "ParseFlags [''-config'', ''-x'', ''--pidfile=/run/a=b'', ''-config='', ''-config'', ''/etc/influx.conf''] =
     Inr \<lparr>op_ConfigPath = ''/etc/influx.conf'', op_PIDFile = ''/run/a=b'', op_CPUProfile = [], op_MemProfile = []\<rparr>"
  using ParseFlags_reads_settings[of "[Setting False False ''config'' ''-x'', Setting True True ''pidfile'' ''/run/a=b'', Setting False True ''config'' [],
    Setting False False ''config'' ''/etc/influx.conf'']"]
  by (simp add: run_flags_def last_value_def)

section \<open>Starting and stopping\<close>

lemma data_start_ok:
  assumes "data_start Y G D c w = (Inr s, w')"
  obtains srv w2 where "data_NewServer Y G D c w = (Inr srv, w2)" "data_Server_Open Y D (srv, w2) = (Inr (), (s, w'))"
  using assms by (auto simp: data_start_def split: prod.split_asm sum.split_asm)


text \<open>
  A running \<open>influxd\<close> cannot be stopped cleanly. When \<open>Run\<close> has started the server, \<open>Close\<close> of the command panics,
  after it has closed the listener, the services and the stores.
\<close>

theorem running_influxd_panics_on_Close:
  assumes "data_Run Y G D X R E args w = (Inr s, w')"
  shows "fst (Command_Close Y D (NewCommand\<lparr>cmd_Server := Some s\<rparr>, w')) = Inl DsPanic \<and> (\<exists>ln.
    snd (snd (Command_Close Y D (NewCommand\<lparr>cmd_Server := Some s\<rparr>, w'))) = ds_CloseSubscriber D (ds_CloseStore D (ds_CloseQueryExecutor D
        (fold (ds_CloseService D) (sv_Services s) (snd (sys_CloseListener Y ln w'))))))"
proof -
  from assms obtain c w1 where "data_start Y G D c w1 = (Inr s, w')"
    unfolding data_Run_def check_Inr_iff by blast
  then obtain srv w2 where 2: "data_NewServer Y G D c w1 = (Inr srv, w2)" "data_Server_Open Y D (srv, w2) = (Inr (), (s, w'))"
    by (rule data_start_ok)
  from opened_server_panics[OF 2] show ?thesis
    by (auto simp: Command_Close_def NewCommand_def split: prod.split)
qed

definition proc1 :: "string list proc" where
  "proc1 = \<lparr>p_Getenv = (\<lambda>n. []), p_CurrentUser = Some ''/root'', p_Getpid = 1, p_Stat = (\<lambda>p w. False), p_ReadFile = (\<lambda>p w. Inl ''none''),
     p_WriteFile = (\<lambda>p s w. (Inr (), w))\<rparr>"

definition reflect1 :: "(bool, unit) reflect_lib" where
  "reflect1 = \<lparr>rf_value = (\<lambda>c. VStruct []), rf_config = (\<lambda>v. data_NewConfig cfg1)\<rparr>"

lemma influxd1_config: "data_setup sys1 proc1 cfg1 reflect1 env0 [] [] = (Inr (data_NewConfig cfg1), [])"
  by (simp add: data_setup_def ParseFlags_def lift_def options_of_def writePIDFile_def GetConfigPath_def proc1_def data_ParseConfig_def
      data_NewDemoConfig_def data_checked_def data_ApplyEnvOverrides_def reflect1_def on_struct_def data_Validate_def or_else_def cfg1_def
      data_NewConfig_def Let_def)

lemma influxd1_runs: "\<exists>s w. data_Run sys1 cfg1 ds1 proc1 reflect1 env0 [] [] = (Inr (s :: (unit, bool, string) DataServer), w)"
  using server1_opens by (auto simp: data_Run_def influxd1_config data_start_def server1_new)

theorem running_influxd_panics_on_Close_witness:
  "\<exists>s w. data_Run sys1 cfg1 ds1 proc1 reflect1 env0 [] [] = (Inr (s :: (unit, bool, string) DataServer), w) \<and>
     fst (Command_Close sys1 ds1 (NewCommand\<lparr>cmd_Server := Some s\<rparr>, w)) = Inl DsPanic"
  using influxd1_runs running_influxd_panics_on_Close[of sys1 cfg1 ds1 proc1 reflect1 env0 "[]" "[]"] by blast

end
