(* ===== verification/Spec2Isabelle.thy ===== *)
theory Spec2Isabelle
  imports Queue_Props HH_Service NP_Concurrency Tlv Pool Meta_Users Meta_Shards Store_Replication
    Points_Writer Meta_Store Rpc Cluster_Service Meta_Client_Auth Meta_Api Statement_Props Commands
begin

text \<open>
  A verification library for a clustered time-series database: data nodes that store points in shards, and
  meta nodes that agree on the cluster metadata through raft.

  \<^bold>\<open>The write path.\<close> A data node receives points. The points writer (\<open>src/cluster/points_writer.go\<close>, theory
  \<open>Points_Writer\<close>) asks for the shard groups of their times, maps every point to a shard and writes the shards.
  Requests between data nodes are messages (\<open>src/rpc/rpc.go\<close>, theory \<open>Rpc\<close>) in type-length-value records
  (\<open>src/tlv/tlv.go\<close>, theory \<open>Tlv\<close>) over pooled connections (\<open>src/cluster/pool.go\<close>,
  \<open>src/cluster/client_pool.go\<close>, theory \<open>Pool\<close>); the cluster service (\<open>src/cluster/service.go\<close>, theory
  \<open>Cluster_Service\<close>) serves them.

  \<^bold>\<open>Hinted handoff.\<close> Writes for an unreachable node wait in a queue on disk. \<open>Os_File\<close> models files and
  directories with a script of failing system calls. \<open>Segment\<close> and \<open>Queue\<close> model \<open>src/hh/queue.go\<close>, one
  definition per method; \<open>Queue_Ops\<close>, \<open>Queue_Fifo\<close>, \<open>Queue_Recovery\<close> and \<open>Queue_Purge\<close> hold the lemmas and
  \<open>Queue_Props\<close> the properties. \<open>HH_Config\<close>, \<open>Node_Processor\<close> and \<open>HH_Service\<close> model \<open>src/hh/config.go\<close>,
  \<open>src/hh/node_processor.go\<close> and \<open>src/hh/service.go\<close>; \<open>NP_Concurrency\<close> models \<open>Close\<close> of a processor against
  its goroutine as a step relation.

  \<^bold>\<open>Metadata.\<close> \<open>Meta_Data\<close> models \<open>src/meta/data.go\<close> and the errors of \<open>src/meta/errors.go\<close>; \<open>Meta_Nodes\<close>,
  \<open>Meta_Users\<close> and \<open>Meta_Shards\<close> hold what is proved of nodes, users and shards. \<open>Raft_State\<close> models
  \<open>src/meta/raft_state.go\<close>, \<open>Store_FSM\<close> the command handlers, snapshots and restoring of
  \<open>src/meta/store_fsm.go\<close>, with properties in \<open>Store_FSM_Props\<close> and \<open>Store_Replication\<close>, and \<open>Meta_Store\<close>
  models \<open>src/meta/store.go\<close>.

  \<^bold>\<open>Access to the metadata.\<close> \<open>Meta_Client\<close> models the client of \<open>src/meta/client.go\<close> that a data node keeps: its cache, the
  polling for snapshots and the retry loops around HTTP requests; \<open>Meta_Client_Ops\<close> its lookups and commands and
  \<open>Meta_Client_Auth\<close> the authentication cache. \<open>Meta_Handler\<close> models the HTTP side of the meta node
  (\<open>src/meta/handler.go\<close>, \<open>src/meta/response_logger.go\<close>), \<open>Meta_Api\<close> puts client, handler and store together, and
  \<open>Meta_Service\<close> models \<open>src/meta/service.go\<close> and the server of a meta node (\<open>src/cmd/influxd-meta/run/server.go\<close>).

  \<^bold>\<open>Queries.\<close> \<open>Statement_Executor\<close> models \<open>src/cluster/statement_executor.go\<close>, one definition per statement, with the
  properties in \<open>Statement_Props\<close>.

  \<^bold>\<open>Programs.\<close> \<open>Meta_Config\<close> models \<open>src/meta/config.go\<close> and the environment overrides of both programs. \<open>Data_Server\<close>
  models the configuration and server of a data node (\<open>config.go\<close>, \<open>server.go\<close> and \<open>server_dataonly.go\<close> under
  \<open>src/cmd/influxd/run\<close>, and \<open>src/cluster/config.go\<close>), and \<open>Commands\<close> the commands \<open>run\<close> and \<open>config\<close> of both programs.

  \<^bold>\<open>Correspondence.\<close> A struct is a record whose fields carry the names of the source behind a short prefix, and
  a method is a function of the same name, with a prefix where several types have the method. State is passed
  explicitly. A result is \<open>Inl\<close> of an error or \<open>Inr\<close> of a value, paired with the state after the call. A panic
  is an error value of its own, or \<open>None\<close> where the function has no error. A call that blocks forever is
  \<open>None\<close>. \<open>int64\<close> is \<open>int\<close> with the wrap-around of \<open>Prelude\<close>, \<open>uint64\<close> and bytes are words. Go maps are association
  lists or functions, and where the source ranges over a map the order is a parameter.

  \<^bold>\<open>Parameters.\<close> Code that is not in the repository is an argument: the raft library (\<open>raft_lib\<close>), the open-source
  metadata and the protobuf codec (\<open>oss_lib\<close>), the store of points (in \<open>pw_lib\<close> and \<open>cs_lib\<close>), the parser and
  printer of points, the query language (\<open>ql_lib\<close>), the transport, hashes and decoders of the client (\<open>cl_lib\<close>), leases and
  the request data of the handlers (\<open>h_lib\<close>), the number parsers of the overrides (\<open>env_lib\<close>), and the configurations and
  services of the open-source packages (\<open>cfg_lib\<close>, \<open>ds_lib\<close>). The operating system is a parameter too (\<open>sys_lib\<close>, \<open>node_lib\<close>,
  \<open>proc\<close>). What a theorem relies on is one of its hypotheses, and its witness gives a
  concrete library that satisfies it.

  \<^bold>\<open>What is shown.\<close>
  \<^item> Queue: every interleaving of appends and reads delivers the accepted blocks in order and once (the locale
    \<open>fifo\<close>, interpreted on \<open>Append\<close>, \<open>Current\<close> and \<open>Advance\<close>); closing and reopening keeps the pending blocks;
    the outcome of \<open>Append\<close>, the bound of the disk usage, and the end and effect of a purge.
  \<^item> Processor and service: a block leaves the queue only after the writer accepted it or because it cannot be
    decoded, the retry loop empties the queue for an accepting writer and always ends, a write for one node
    leaves the others alone, and a purge spares active nodes.
  \<^item> Wire formats: records, write requests and queued writes are read back as they were written (the locale
    \<open>stream_codec\<close>, interpreted on TLV records).
  \<^item> Points writer and cluster service: mapping to shards is a partition of the points, success means stored, and
    a connection answers every write request once and in order and keeps what it acknowledged.
  \<^item> Pool: sequential use stays within the capacity; overlapping calls do not.
  \<^item> Metadata: node IDs identify addresses over every history, shard groups place distinct replicas, deleting a
    meta node takes exactly it from the shard owners, and the user table refines a finite map (the locale
    \<open>keyed_table\<close>).
  \<^item> Replication: a failed command changes only term and index, and replicas that apply the same log without
    deletions of meta nodes agree (the locale \<open>replicated\<close>, interpreted on \<open>Apply\<close>).
  \<^item> Store: a joining node is registered, and a client waiting for a change misses none.
  \<^item> Client and handler: a command that the client reports as done was committed and applied, and its cache shows it; a
    command is posted at most eleven times; the authentication cache changes no answer.
  \<^item> Statements: a SELECT streams the rows of its emitter, any other statement sends one result or an error, normalized
    statements are complete, SHOW SHARDS lists the live shards, and the bucket limit counts exactly. The locale \<open>metadata\<close> is the
    part of the meta client the normalization relies on, interpreted on the client's cache.
  \<^item> Programs: environment overrides keep types and set exactly the named fields (the locale \<open>value_relation\<close>), flags are read as
    they were written, the deprecated section is converted line by line, a data node opens exactly the enabled services, and
    an open meta service announces usable addresses.
  \<^item> Where the code does not do what it means to, a theorem states what it does: lost or hidden blocks of the
    queue, deadlocks of two \<open>Close\<close> paths, state-machine commands without effect or with diverging effect,
    snapshots that cannot be written, panics on requests from the network, a meta service whose handlers are never
    reached, a meta node that cannot start and a data node that cannot be stopped cleanly.

  \<^bold>\<open>Loops and bounds.\<close> \<open>purgeLoop\<close>, \<open>run_retry\<close>, \<open>snapshot_loop\<close>, \<open>pollForUpdates\<close>, \<open>join_loop\<close> and \<open>emit_loop\<close> may run forever
  for some environments and are partial functions into \<open>option\<close>; that they return is proved where the properties need it.
  The environment overrides recurse over reflected values and take the nesting depth as fuel; \<open>ApplyEnvOverrides\<close> gives
  them the depth of the configuration, which is enough for every field. \<open>handleConn\<close> ends because every round
  consumes a byte of the connection. The waits for a raft leader run over a given sequence of events, and are
  \<open>None\<close> when the sequence ends before the wait does; the accept loop runs over a given sequence of rounds.

  \<^bold>\<open>Concurrency.\<close> Methods run one at a time, except in \<open>NP_Concurrency\<close> and the steps of \<open>get_step\<close> in \<open>Pool\<close>.
  The goroutines of one write request run in an arbitrary given order.

  \<^bold>\<open>Not modelled.\<close> Logging, profiling and time-outs of connections; the rate limiter (floating point, it only paces the
  retry loop); \<open>copyShard\<close>, \<open>removeShard\<close> and \<open>killCopyShard\<close> of the store, which are unfinished in the source;
  functions with an empty or commented-out body, among them most HTTP handlers, the roles and permissions of the
  metadata, the meta executor and the remote iterators; generated protobuf code; the choice of a command by its name,
  signals and help texts; the wiring of the open-source services to each other.
\<close>

end
